(* ===== verification/Api_Types.thy ===== *)
theory Api_Types
  imports Prelude
begin

text \<open>
  The data the controllers read and write: the custom resources of \<open>operator/api\<close> (one record
  per Go struct, one field per Go field) and the parts of the Kubernetes objects
  (\<open>ObjectMeta\<close>, \<open>Condition\<close>, \<open>Deployment\<close>, \<open>Service\<close>, \<open>Secret\<close>, \<open>ConfigMap\<close>) that the code
  reads or assigns. A pointer or an optional field is an \<open>option\<close>; a slice is a list, since
  the code and the comparison it uses never tell a nil slice from an empty one; a Go string
  enumeration stays a string, as its Go type admits every string.
\<close>

section \<open>Kubernetes data\<close>

type_synonym time = int
type_synonym strmap = "string \<rightharpoonup> string"

text \<open>A namespaced name; cluster-scoped objects have the empty namespace.\<close>

record ObjectKey =
  kNamespace :: string
  kName :: string

abbreviation object_key :: "string \<Rightarrow> string \<Rightarrow> ObjectKey" where
  "object_key ns n \<equiv> \<lparr>kNamespace = ns, kName = n\<rparr>"

abbreviation cluster_key :: "string \<Rightarrow> ObjectKey" where
  "cluster_key n \<equiv> object_key '''' n"

record OwnerReference =
  oKind :: string
  oName :: string
  oUID :: string
  oController :: "bool option"

record ObjectMeta =
  mName :: string
  mNamespace :: string
  mUID :: string
  mGeneration :: int64
  mLabels :: strmap
  mAnnotations :: "strmap option"
  mFinalizers :: "string list"
  mOwnerReferences :: "OwnerReference list"
  mDeletionTimestamp :: "time option"

text \<open>\<open>client.ObjectKeyFromObject\<close>.\<close>

abbreviation key_of :: "ObjectMeta \<Rightarrow> ObjectKey" where
  "key_of m \<equiv> object_key (mNamespace m) (mName m)"

abbreviation ConditionTrue :: string where "ConditionTrue \<equiv> ''True''"
abbreviation ConditionFalse :: string where "ConditionFalse \<equiv> ''False''"

record Condition =
  cnType :: string
  cnStatus :: string
  cnObservedGeneration :: int64
  cnLastTransitionTime :: time
  cnReason :: string
  cnMessage :: string

text \<open>
  \<open>metav1.Condition{Type: .., Status: .., ObservedGeneration: .., Reason: .., Message: ..}\<close>:
  the transition time is left at Go's zero time.
\<close>

abbreviation mk_condition :: "string \<Rightarrow> string \<Rightarrow> int64 \<Rightarrow> string \<Rightarrow> string \<Rightarrow> Condition" where
  "mk_condition ty st gen reason message \<equiv>
     \<lparr>cnType = ty, cnStatus = st, cnObservedGeneration = gen, cnLastTransitionTime = 0,
      cnReason = reason, cnMessage = message\<rparr>"

record LabelSelectorRequirement =
  rqKey :: string
  rqOperator :: string
  rqValues :: "string list"

record LabelSelector =
  lsMatchLabels :: strmap
  lsMatchExpressions :: "LabelSelectorRequirement list"

datatype EnvVarSource =
  SecretKeyRef string string \<comment> \<open>the Secret's name and the key in it\<close>
| OtherSource string

record EnvVar =
  eName :: string
  eValue :: string
  eValueFrom :: "EnvVarSource option"

record EnvFromSource =
  efConfigMapRef :: "string option"
  efSecretRef :: "string option"

record ContainerPort =
  cpName :: string
  cpContainerPort :: int32
  cpProtocol :: string

record Container =
  cName :: string
  cImage :: string
  cPorts :: "ContainerPort list"
  cEnv :: "EnvVar list"
  cEnvFrom :: "EnvFromSource list"

record DeploymentCondition =
  dcType :: string
  dcStatus :: string

record Deployment =
  dMeta :: ObjectMeta
  dReplicas :: "int32 option"
  dSelector :: "LabelSelector option"
  dTemplateLabels :: strmap
  dServiceAccountName :: string
  dImagePullSecrets :: "string list"
  dContainers :: "Container list"
  dConditions :: "DeploymentCondition list" \<comment> \<open>\<open>Status.Conditions\<close>\<close>

datatype IntOrString = FromInt32 int32 | FromString string

record ServicePort =
  spName :: string
  spPort :: int32
  spTargetPort :: IntOrString
  spProtocol :: string

record Service =
  svcMeta :: ObjectMeta
  svcSelector :: strmap
  svcPorts :: "ServicePort list"

record Secret =
  secMeta :: ObjectMeta
  secData :: strmap

record ConfigMap =
  cmapMeta :: ObjectMeta

section \<open>infrastructure.polykube.dev\<close>

record ClusterMemberSpec =
  cmProvider :: string
  cmRegion :: string
  cmZone :: string
  cmEnvironment :: string
  cmClusterName :: string
  cmAPIEndpoint :: string
  cmPodCIDR :: string
  cmServiceCIDR :: string
  cmLabels :: strmap

record ClusterMemberStatus =
  cmsObservedGeneration :: int64
  cmsLastObservedAt :: "time option"
  cmsConditions :: "Condition list"

record ClusterMember =
  cmMeta :: ObjectMeta
  cmSpec :: ClusterMemberSpec
  cmStatus :: ClusterMemberStatus

record FederationMemberReference =
  fmrName :: string

record FederationTargetPolicy =
  ftpMemberSelector :: "LabelSelector option"
  ftpMembers :: "string list"

record FederationNetworkingSpec =
  fnSubstrate :: string
  fnDetails :: strmap

record FederationSpec =
  fMemberSelector :: "LabelSelector option"
  fMembers :: "FederationMemberReference list"
  fRoutingMode :: string
  fDefaultTargetPolicy :: "FederationTargetPolicy option"
  fNetworking :: "FederationNetworkingSpec option"

record FederationMemberStatus =
  fmsName :: string
  fmsReady :: bool

record FederationStatus =
  fsReadyMembers :: int32
  fsMembers :: "FederationMemberStatus list"
  fsConditions :: "Condition list"
  fsObservedGeneration :: int64

record Federation =
  fedMeta :: ObjectMeta
  fedSpec :: FederationSpec
  fedStatus :: FederationStatus

section \<open>runtime.polykube.dev\<close>

record RuntimeObjectReference = \<comment> \<open>\<open>runtime.NamespacedObjectReference\<close>\<close>
  rrName :: string
  rrNamespace :: string

record WorkloadEnvVar = \<comment> \<open>\<open>runtime.EnvVar\<close>\<close>
  weName :: string
  weValue :: string

record WorkloadEnvFromSource = \<comment> \<open>\<open>runtime.EnvFromSource\<close>, the references by their names\<close>
  wefConfigMapRef :: "string option"
  wefSecretRef :: "string option"

record WorkloadContainerPort = \<comment> \<open>\<open>runtime.ContainerPort\<close>\<close>
  wpName :: string
  wpContainerPort :: int32
  wpProtocol :: string

record WorkloadTargetPolicy =
  tpMemberSelector :: "LabelSelector option"
  tpMembers :: "string list"
  tpStrategy :: string

record RolloutReference =
  roAPIGroup :: string
  roKind :: string
  roName :: string

record WorkloadSpec =
  wFederationRef :: RuntimeObjectReference
  wImage :: string
  wImagePullSecrets :: "string list" \<comment> \<open>\<open>[]LocalObjectReference\<close>, by their names\<close>
  wPorts :: "WorkloadContainerPort list"
  wEnv :: "WorkloadEnvVar list"
  wEnvFrom :: "WorkloadEnvFromSource list"
  wTargetPolicy :: "WorkloadTargetPolicy option"
  wRolloutRef :: "RolloutReference option"
  wReplicas :: "int32 option"
  wServiceAccountName :: string

definition WorkloadTargetStatePending :: string where
  "WorkloadTargetStatePending = ''Pending''"
definition WorkloadTargetStateReconciling :: string where
  "WorkloadTargetStateReconciling = ''Reconciling''"
definition WorkloadTargetStateAvailable :: string where
  "WorkloadTargetStateAvailable = ''Available''"
definition WorkloadTargetStateDegraded :: string where
  "WorkloadTargetStateDegraded = ''Degraded''"

lemmas target_state_defs =
  WorkloadTargetStatePending_def WorkloadTargetStateReconciling_def
  WorkloadTargetStateAvailable_def WorkloadTargetStateDegraded_def

record WorkloadTargetStatus =
  wtClusterMemberRef :: string
  wtState :: string
  wtRuntimeRef :: string
  wtLastTransitionTime :: "time option"
  wtMessage :: string

record WorkloadStatus =
  wsConditions :: "Condition list"
  wsObservedGeneration :: int64
  wsTargets :: "WorkloadTargetStatus list"
  wsActiveImage :: string

record Workload =
  wlMeta :: ObjectMeta
  wlSpec :: WorkloadSpec
  wlStatus :: WorkloadStatus

section \<open>routing.polykube.dev\<close>

record NamespacedObjectReference = \<comment> \<open>of the routing and data APIs\<close>
  nrName :: string
  nrNamespace :: string

definition RoutingModeActivePassive :: string where
  "RoutingModeActivePassive = ''ActivePassive''"
definition RoutingModeActiveActive :: string where
  "RoutingModeActiveActive = ''ActiveActive''"

lemmas routing_mode_defs = RoutingModeActivePassive_def RoutingModeActiveActive_def

record GatewayReference =
  gwName :: string
  gwNamespace :: string
  gwSection :: string

record FailoverPolicy =
  foEnabled :: bool
  foHealthThreshold :: string

record ServiceEndpointSpec =
  seWorkloadRef :: NamespacedObjectReference
  seHostnames :: "string list"
  seRoutingMode :: string
  sePrimaryMemberRef :: string
  seFailoverPolicy :: "FailoverPolicy option"
  seGatewayRef :: "GatewayReference option"

record ServiceEndpointStatus =
  sesConditions :: "Condition list"
  sesActiveMemberRef :: string
  sesResolvedHostnames :: "string list"
  sesLastTransitionTime :: "time option"
  sesObservedGeneration :: int64

record ServiceEndpoint =
  seMeta :: ObjectMeta
  seSpec :: ServiceEndpointSpec
  seStatus :: ServiceEndpointStatus

section \<open>data.polykube.dev\<close>

record DatastoreBindingSpec =
  dbWorkloadRef :: NamespacedObjectReference
  dbEngine :: string
  dbConnectionRef :: NamespacedObjectReference
  dbReplicationMode :: string
  dbConflictPolicy :: string

record DatastoreBindingStatus =
  dbsConditions :: "Condition list"
  dbsObservedGeneration :: int64
  dbsMessage :: string

record DatastoreBinding =
  dbMeta :: ObjectMeta
  dbSpec :: DatastoreBindingSpec
  dbStatus :: DatastoreBindingStatus

end
