(* ===== verification/External.thy ===== *)
theory External
  imports Api_Types
begin

text \<open>
  The code that is not in the repository is a parameter of the model. Two records hold it:
  \<^item> \<open>lib\<close>: the pure functions of \<open>k8s.io/apimachinery\<close> and of controller-runtime's
    \<open>controllerutil\<close> that the controllers call;
  \<^item> \<open>kube\<close>: the client of the API server (\<open>client.Client\<close>, with \<open>controllerutil.CreateOrUpdate\<close>)
    and the clock, acting on a world of any type \<open>'w\<close>. A call may answer anything and change
    the world in any way, so other writers and failures at any call are covered.
  What a property relies on of the first is one of the named hypotheses \<open>conditions_ok\<close> (theory
  \<open>Conditions\<close>), \<open>equality_ok\<close>, \<open>owners_ok\<close> and \<open>finalizers_ok\<close>, each stating documented
  behaviour only.

  The handlers run in the library's state monad over a session: the world and the trace of
  the API calls made so far, with their arguments and answers. The triple \<open>wp\<close> of this theory
  is the logic in which the properties of traces are proved.
\<close>

section \<open>Errors\<close>

text \<open>\<open>apierrors.IsNotFound\<close> tells the two kinds apart.\<close>

datatype error =
  NotFound string
| Failure string

primrec is_not_found :: "error \<Rightarrow> bool" where
  "is_not_found (NotFound m) = True"
| "is_not_found (Failure m) = False"

section \<open>Library functions\<close>

text \<open>
  What a function that takes a pointer to a slice does to the slice: it writes elements of
  the slice where they are (\<open>InPlace\<close>, the new contents), appends to it (\<open>Append\<close>), or stores
  a slice with an array of its own in the pointer (\<open>Fresh\<close>).
\<close>

datatype 'a slice_effect =
  InPlace "'a list"
| Append 'a
| Fresh "'a list"

primrec effect_result :: "'a slice_effect \<Rightarrow> 'a list \<Rightarrow> 'a list" where
  "effect_result (InPlace ys) xs = ys"
| "effect_result (Append y) xs = xs @ [y]"
| "effect_result (Fresh ys) xs = ys"

record lib =
  l_IsControlledBy :: "ObjectMeta \<Rightarrow> ObjectMeta \<Rightarrow> bool"
    \<comment> \<open>\<open>metav1.IsControlledBy(obj, owner)\<close>\<close>
  l_SetControllerReference :: "ObjectMeta \<Rightarrow> ObjectMeta \<Rightarrow> error + ObjectMeta"
    \<comment> \<open>\<open>controllerutil.SetControllerReference(owner, controlled, scheme)\<close>\<close>
  l_AddFinalizer :: "string list \<Rightarrow> string \<Rightarrow> bool \<times> string list"
  l_ContainsFinalizer :: "string list \<Rightarrow> string \<Rightarrow> bool"
  l_RemoveFinalizer :: "string list \<Rightarrow> string \<Rightarrow> string list"
  l_IsZero :: "time option \<Rightarrow> bool"
    \<comment> \<open>\<open>(*metav1.Time).IsZero\<close>\<close>
  l_SetStatusCondition :: "time \<Rightarrow> Condition \<Rightarrow> Condition list \<Rightarrow> Condition slice_effect"
    \<comment> \<open>the first argument is what the clock shows at the call\<close>
  l_RemoveStatusCondition :: "string \<Rightarrow> Condition list \<Rightarrow> Condition slice_effect"
  l_FindStatusCondition :: "Condition list \<Rightarrow> string \<Rightarrow> Condition option"
  l_SpareCapacity :: nat
    \<comment> \<open>capacity beyond the length in the condition slices of objects read\<close>
  l_LabelSelectorAsSelector :: "LabelSelector \<Rightarrow> string + (strmap \<Rightarrow> bool)"
    \<comment> \<open>the error's text, or the selector by its method \<open>Matches\<close>\<close>
  l_DeepEqualConditions :: "Condition list \<Rightarrow> Condition list \<Rightarrow> bool"
    \<comment> \<open>\<open>apiequality.Semantic.DeepEqual\<close>, at the types it is used at\<close>
  l_DeepEqualFederationStatus :: "FederationStatus \<Rightarrow> FederationStatus \<Rightarrow> bool"
  l_DeepEqualWorkloadStatus :: "WorkloadStatus \<Rightarrow> WorkloadStatus \<Rightarrow> bool"
  l_DeepEqualServiceEndpointStatus :: "ServiceEndpointStatus \<Rightarrow> ServiceEndpointStatus \<Rightarrow> bool"
  l_DeepEqualDatastoreBindingStatus :: "DatastoreBindingStatus \<Rightarrow> DatastoreBindingStatus \<Rightarrow> bool"

text \<open>
  \<open>Semantic.DeepEqual\<close> compares values, with nil and empty slices equal; the model's lists do
  not tell these two apart.
\<close>

definition equality_ok :: "lib \<Rightarrow> bool" where
  "equality_ok L \<longleftrightarrow>
     l_DeepEqualConditions L = (=) \<and> l_DeepEqualFederationStatus L = (=) \<and>
     l_DeepEqualWorkloadStatus L = (=) \<and> l_DeepEqualServiceEndpointStatus L = (=) \<and>
     l_DeepEqualDatastoreBindingStatus L = (=)"

text \<open>
  \<open>SetControllerReference\<close> makes the object controlled by the owner, reads and writes nothing
  of the object's metadata but the owner references, changes nothing when repeated, and fails
  only when the object has a controller already. \<open>IsControlledBy\<close> reads the owner references
  of the object.
\<close>

definition owners_ok :: "lib \<Rightarrow> bool" where
  "owners_ok L \<longleftrightarrow>
     (\<forall>owner m m'. l_SetControllerReference L owner m = Inr m' \<longrightarrow>
        l_IsControlledBy L m' owner \<and>
        m' = m\<lparr>mOwnerReferences := mOwnerReferences m'\<rparr> \<and>
        l_SetControllerReference L owner m' = Inr m') \<and>
     (\<forall>owner m m' labels annotations. l_SetControllerReference L owner m = Inr m' \<longrightarrow>
        l_SetControllerReference L owner (m\<lparr>mLabels := labels, mAnnotations := annotations\<rparr>) =
          Inr (m'\<lparr>mLabels := labels, mAnnotations := annotations\<rparr>)) \<and>
     (\<forall>owner m m'. mOwnerReferences m = mOwnerReferences m' \<longrightarrow>
        l_IsControlledBy L m owner = l_IsControlledBy L m' owner) \<and>
     (\<forall>owner m. list_all (\<lambda>r. oController r \<noteq> Some True) (mOwnerReferences m) \<longrightarrow>
        (\<exists>m'. l_SetControllerReference L owner m = Inr m'))"

text \<open>\<open>AddFinalizer\<close> reports whether it added; \<open>RemoveFinalizer\<close> removes every occurrence.\<close>

definition finalizers_ok :: "lib \<Rightarrow> bool" where
  "finalizers_ok L \<longleftrightarrow>
     (\<forall>fs f. l_AddFinalizer L fs f = (if f \<in> set fs then (False, fs) else (True, fs @ [f]))) \<and>
     (\<forall>fs f. l_ContainsFinalizer L fs f \<longleftrightarrow> f \<in> set fs) \<and>
     (\<forall>fs f. l_RemoveFinalizer L fs f = filter (\<lambda>x. x \<noteq> f) fs)"

section \<open>The API server's client\<close>

record 'w kube =
  k_Now :: "'w \<Rightarrow> time \<times> 'w"
  k_GetClusterMember :: "ObjectKey \<Rightarrow> 'w \<Rightarrow> (error + ClusterMember) \<times> 'w"
  k_GetFederation :: "ObjectKey \<Rightarrow> 'w \<Rightarrow> (error + Federation) \<times> 'w"
  k_GetWorkload :: "ObjectKey \<Rightarrow> 'w \<Rightarrow> (error + Workload) \<times> 'w"
  k_GetServiceEndpoint :: "ObjectKey \<Rightarrow> 'w \<Rightarrow> (error + ServiceEndpoint) \<times> 'w"
  k_GetDatastoreBinding :: "ObjectKey \<Rightarrow> 'w \<Rightarrow> (error + DatastoreBinding) \<times> 'w"
  k_GetDeployment :: "ObjectKey \<Rightarrow> 'w \<Rightarrow> (error + Deployment) \<times> 'w"
  k_GetService :: "ObjectKey \<Rightarrow> 'w \<Rightarrow> (error + Service) \<times> 'w"
  k_GetSecret :: "ObjectKey \<Rightarrow> 'w \<Rightarrow> (error + Secret) \<times> 'w"
  k_GetConfigMap :: "ObjectKey \<Rightarrow> 'w \<Rightarrow> (error + ConfigMap) \<times> 'w"
  k_ListClusterMembers :: "(strmap \<Rightarrow> bool) \<Rightarrow> 'w \<Rightarrow> (error + ClusterMember list) \<times> 'w"
    \<comment> \<open>\<open>List\<close> with \<open>ListOptions{LabelSelector: selector}\<close>\<close>
  k_ListFederations :: "'w \<Rightarrow> (error + Federation list) \<times> 'w"
  k_UpdateServiceEndpoint :: "ServiceEndpoint \<Rightarrow> 'w \<Rightarrow> (error + ServiceEndpoint) \<times> 'w"
    \<comment> \<open>\<open>Update\<close> stores the server's answer in its argument\<close>
  k_UpdateDatastoreBinding :: "DatastoreBinding \<Rightarrow> 'w \<Rightarrow> (error + DatastoreBinding) \<times> 'w"
  k_StatusClusterMember :: "ClusterMember \<Rightarrow> 'w \<Rightarrow> (error + unit) \<times> 'w"
    \<comment> \<open>\<open>Status().Update\<close>\<close>
  k_StatusFederation :: "Federation \<Rightarrow> 'w \<Rightarrow> (error + unit) \<times> 'w"
  k_StatusWorkload :: "Workload \<Rightarrow> 'w \<Rightarrow> (error + unit) \<times> 'w"
  k_StatusServiceEndpoint :: "ServiceEndpoint \<Rightarrow> 'w \<Rightarrow> (error + unit) \<times> 'w"
  k_StatusDatastoreBinding :: "DatastoreBinding \<Rightarrow> 'w \<Rightarrow> (error + unit) \<times> 'w"
  k_CreateOrUpdateDeployment ::
    "Deployment \<Rightarrow> (Deployment \<Rightarrow> error + Deployment) \<Rightarrow> 'w \<Rightarrow> (error + unit) \<times> 'w"
    \<comment> \<open>\<open>controllerutil.CreateOrUpdate\<close>: the object passed and the mutate function. Its own read,
      the comparison and the create or update are one call; what the API server adds to an object
      it stores (defaults) is part of the world's answer.\<close>
  k_CreateOrUpdateService ::
    "Service \<Rightarrow> (Service \<Rightarrow> error + Service) \<Rightarrow> 'w \<Rightarrow> (error + unit) \<times> 'w"
  k_PatchService :: "Service \<Rightarrow> Service \<Rightarrow> 'w \<Rightarrow> (error + unit) \<times> 'w"
    \<comment> \<open>\<open>Patch(ctx, new, client.MergeFrom(old))\<close>, arguments \<open>old\<close> and \<open>new\<close>\<close>
  k_DeleteService :: "Service \<Rightarrow> 'w \<Rightarrow> (error + unit) \<times> 'w"

section \<open>Sessions and traces\<close>

datatype event =
  GotClusterMember ObjectKey "error + ClusterMember"
| GotFederation ObjectKey "error + Federation"
| GotWorkload ObjectKey "error + Workload"
| GotServiceEndpoint ObjectKey "error + ServiceEndpoint"
| GotDatastoreBinding ObjectKey "error + DatastoreBinding"
| GotDeployment ObjectKey "error + Deployment"
| GotService ObjectKey "error + Service"
| GotSecret ObjectKey "error + Secret"
| GotConfigMap ObjectKey "error + ConfigMap"
| ListedClusterMembers "strmap \<Rightarrow> bool" "error + ClusterMember list"
| ListedFederations "error + Federation list"
| UpdatedServiceEndpoint ServiceEndpoint "error + ServiceEndpoint"
| UpdatedDatastoreBinding DatastoreBinding "error + DatastoreBinding"
| StatusClusterMember ClusterMember "error + unit"
| StatusFederation Federation "error + unit"
| StatusWorkload Workload "error + unit"
| StatusServiceEndpoint ServiceEndpoint "error + unit"
| StatusDatastoreBinding DatastoreBinding "error + unit"
| AppliedDeployment Deployment "Deployment \<Rightarrow> error + Deployment" "error + unit"
| AppliedService Service "Service \<Rightarrow> error + Service" "error + unit"
| PatchedService Service Service "error + unit"
| DeletedService Service "error + unit"

record 'w session =
  world :: 'w
  trace :: "event list"

type_synonym ('w, 'a) io = "('w session, 'a) state"

text \<open>One call: the world answers and moves on, the call is recorded.\<close>

definition call :: "('w \<Rightarrow> 'a \<times> 'w) \<Rightarrow> ('a \<Rightarrow> event) \<Rightarrow> ('w, 'a) io" where
  "call f ev =
     State (\<lambda>s. let (a, w) = f (world s)
                in (a, s\<lparr>world := w, trace := trace s @ [ev a]\<rparr>))"

text \<open>Reading the clock is not an API call, so it leaves no trace.\<close>

definition clock :: "'w kube \<Rightarrow> ('w, time) io" where
  "clock K = State (\<lambda>s. let (t, w) = k_Now K (world s) in (t, s\<lparr>world := w\<rparr>))"

definition get_ClusterMember where
  "get_ClusterMember K k = call (k_GetClusterMember K k) (GotClusterMember k)"
definition get_Federation where
  "get_Federation K k = call (k_GetFederation K k) (GotFederation k)"
definition get_Workload where
  "get_Workload K k = call (k_GetWorkload K k) (GotWorkload k)"
definition get_ServiceEndpoint where
  "get_ServiceEndpoint K k = call (k_GetServiceEndpoint K k) (GotServiceEndpoint k)"
definition get_DatastoreBinding where
  "get_DatastoreBinding K k = call (k_GetDatastoreBinding K k) (GotDatastoreBinding k)"
definition get_Deployment where
  "get_Deployment K k = call (k_GetDeployment K k) (GotDeployment k)"
definition get_Service where
  "get_Service K k = call (k_GetService K k) (GotService k)"
definition get_Secret where
  "get_Secret K k = call (k_GetSecret K k) (GotSecret k)"
definition get_ConfigMap where
  "get_ConfigMap K k = call (k_GetConfigMap K k) (GotConfigMap k)"
definition list_ClusterMembers where
  "list_ClusterMembers K sel = call (k_ListClusterMembers K sel) (ListedClusterMembers sel)"
definition list_Federations where
  "list_Federations K = call (k_ListFederations K) ListedFederations"
definition update_ServiceEndpoint where
  "update_ServiceEndpoint K x = call (k_UpdateServiceEndpoint K x) (UpdatedServiceEndpoint x)"
definition update_DatastoreBinding where
  "update_DatastoreBinding K x = call (k_UpdateDatastoreBinding K x) (UpdatedDatastoreBinding x)"
definition status_update_ClusterMember where
  "status_update_ClusterMember K x = call (k_StatusClusterMember K x) (StatusClusterMember x)"
definition status_update_Federation where
  "status_update_Federation K x = call (k_StatusFederation K x) (StatusFederation x)"
definition status_update_Workload where
  "status_update_Workload K x = call (k_StatusWorkload K x) (StatusWorkload x)"
definition status_update_ServiceEndpoint where
  "status_update_ServiceEndpoint K x =
     call (k_StatusServiceEndpoint K x) (StatusServiceEndpoint x)"
definition status_update_DatastoreBinding where
  "status_update_DatastoreBinding K x =
     call (k_StatusDatastoreBinding K x) (StatusDatastoreBinding x)"
definition create_or_update_Deployment where
  "create_or_update_Deployment K x f =
     call (k_CreateOrUpdateDeployment K x f) (AppliedDeployment x f)"
definition create_or_update_Service where
  "create_or_update_Service K x f =
     call (k_CreateOrUpdateService K x f) (AppliedService x f)"
definition patch_Service where
  "patch_Service K old new = call (k_PatchService K old new) (PatchedService old new)"
definition delete_Service where
  "delete_Service K x = call (k_DeleteService K x) (DeletedService x)"

lemmas client_defs =
  get_ClusterMember_def get_Federation_def get_Workload_def get_ServiceEndpoint_def
  get_DatastoreBinding_def get_Deployment_def get_Service_def get_Secret_def get_ConfigMap_def
  list_ClusterMembers_def list_Federations_def update_ServiceEndpoint_def
  update_DatastoreBinding_def status_update_ClusterMember_def status_update_Federation_def
  status_update_Workload_def status_update_ServiceEndpoint_def
  status_update_DatastoreBinding_def create_or_update_Deployment_def
  create_or_update_Service_def patch_Service_def delete_Service_def

section \<open>Running handlers\<close>

text \<open>
  Go's \<open>x, err := m; if err != nil { return err }\<close>: the error ends the function, its value
  goes on.
\<close>

definition checked ::
  "('w, error + 'a) io \<Rightarrow> ('a \<Rightarrow> ('w, error + 'b) io) \<Rightarrow> ('w, error + 'b) io" where
  "checked m f =
     do { r \<leftarrow> m;
          case r of Inl e \<Rightarrow> State_Monad.return (Inl e) | Inr x \<Rightarrow> f x }"

text \<open>\<open>ctrl.Result\<close>: when to reconcile again, in nanoseconds; 0 for not before the next event.\<close>

record Result =
  rRequeueAfter :: int

definition no_requeue :: Result where
  "no_requeue = \<lparr>rRequeueAfter = 0\<rparr>"

definition requeue_after_seconds :: "int \<Rightarrow> Result" where
  "requeue_after_seconds n = \<lparr>rRequeueAfter = n * 1000000000\<rparr>"

lemma requeue_neq [simp]: "n \<noteq> 0 \<Longrightarrow> requeue_after_seconds n \<noteq> no_requeue"
  by (simp add: requeue_after_seconds_def no_requeue_def)

text \<open>A run from a world: the result, the trace and the world it leaves.\<close>

definition run :: "('w, 'a) io \<Rightarrow> 'w \<Rightarrow> 'a \<times> event list \<times> 'w" where
  "run m w =
     (case run_state m \<lparr>world = w, trace = []\<rparr> of (a, s) \<Rightarrow> (a, trace s, world s))"

text \<open>What holds of the result and the trace of every run, whatever the world answers.\<close>

definition in_every_run :: "('w, 'a) io \<Rightarrow> ('a \<Rightarrow> event list \<Rightarrow> bool) \<Rightarrow> bool" where
  "in_every_run m Q \<longleftrightarrow> (\<forall>w. case run m w of (a, es, _) \<Rightarrow> Q a es)"

text \<open>Each event of a trace is admissible, given the events before it.\<close>

primrec admissible :: "(event list \<Rightarrow> event \<Rightarrow> bool) \<Rightarrow> event list \<Rightarrow> event list \<Rightarrow> bool" where
  "admissible ok before [] \<longleftrightarrow> True"
| "admissible ok before (e # es) \<longleftrightarrow> ok before e \<and> admissible ok (before @ [e]) es"

lemma admissible_append [simp]:
  "admissible ok before (es @ es') \<longleftrightarrow>
     admissible ok before es \<and> admissible ok (before @ es) es'"
  by (induction es arbitrary: before) auto

text \<open>
  The logic: \<open>wp m Q h\<close> holds when every run of \<open>m\<close> that starts after the trace \<open>h\<close> ends with a
  result and a trace that satisfy \<open>Q\<close>.
\<close>

definition wp :: "('w, 'a) io \<Rightarrow> ('a \<Rightarrow> event list \<Rightarrow> bool) \<Rightarrow> event list \<Rightarrow> bool" where
  "wp m Q h \<longleftrightarrow>
     (\<forall>s. trace s = h \<longrightarrow> (case run_state m s of (a, s') \<Rightarrow> Q a (trace s')))"

lemma in_every_run_wp: "wp m Q [] \<Longrightarrow> in_every_run m Q"
  unfolding wp_def in_every_run_def run_def
  by (auto split: prod.splits) (metis session.select_convs(2))

lemma wp_mono: "wp m Q h \<Longrightarrow> (\<And>a h'. Q a h' \<Longrightarrow> Q' a h') \<Longrightarrow> wp m Q' h"
  unfolding wp_def by (fastforce split: prod.splits)

named_theorems wp_intros \<open>introduction rules of the trace logic\<close>

lemma wp_return [wp_intros]: "Q a h \<Longrightarrow> wp (State_Monad.return a) Q h"
  by (simp add: wp_def)

lemma wp_call [wp_intros]: "(\<And>a. Q a (h @ [ev a])) \<Longrightarrow> wp (call f ev) Q h"
  by (auto simp: wp_def call_def Let_def split: prod.splits)

lemma wp_clock [wp_intros]: "(\<And>t. Q t h) \<Longrightarrow> wp (clock K) Q h"
  by (auto simp: wp_def clock_def Let_def split: prod.splits)

lemma wp_bind [wp_intros]: "wp m (\<lambda>a. wp (f a) Q) h \<Longrightarrow> wp (State_Monad.bind m f) Q h"
  unfolding wp_def by (fastforce split: prod.splits)

lemma wp_checked [wp_intros]:
  "wp m (\<lambda>r h'. (\<forall>e. r = Inl e \<longrightarrow> Q (Inl e) h') \<and> (\<forall>x. r = Inr x \<longrightarrow> wp (f x) Q h')) h \<Longrightarrow>
   wp (checked m f) Q h"
  unfolding checked_def
  by (rule wp_bind, erule wp_mono) (auto split: sum.splits intro: wp_return)

lemma wp_sum [wp_intros]:
  "(\<And>e. r = Inl e \<Longrightarrow> wp (f e) Q h) \<Longrightarrow> (\<And>x. r = Inr x \<Longrightarrow> wp (g x) Q h) \<Longrightarrow>
   wp (case r of Inl e \<Rightarrow> f e | Inr x \<Rightarrow> g x) Q h"
  by (cases r) auto

lemma wp_option [wp_intros]:
  "(r = None \<Longrightarrow> wp f Q h) \<Longrightarrow> (\<And>x. r = Some x \<Longrightarrow> wp (g x) Q h) \<Longrightarrow>
   wp (case r of None \<Rightarrow> f | Some x \<Rightarrow> g x) Q h"
  by (cases r) auto

lemma wp_prod [wp_intros]:
  "(\<And>a b. r = (a, b) \<Longrightarrow> wp (f a b) Q h) \<Longrightarrow> wp (case r of (a, b) \<Rightarrow> f a b) Q h"
  by (cases r) auto

lemma wp_if [wp_intros]:
  "(b \<Longrightarrow> wp m Q h) \<Longrightarrow> (\<not> b \<Longrightarrow> wp n Q h) \<Longrightarrow> wp (if b then m else n) Q h"
  by auto

lemma wp_Let [wp_intros]: "wp (f a) Q h \<Longrightarrow> wp (let x = a in f x) Q h"
  by simp

end
