(* ===== verification/Env_Vars.thy ===== *)
theory Env_Vars
  imports External
begin

text \<open>
  The environment lists of containers: \<open>mergeEnvVars\<close> and \<open>removeEnvVars\<close> of
  \<open>datastorebinding_controller.go\<close> and \<open>preserveDatastoreManagedEnvVars\<close> of
  \<open>workload_controller.go\<close>, as the sources compute them, and their abstraction to maps. A list
  of environment variables means the map in which the last entry of a name counts, as
  Kubernetes reads it.
\<close>

section \<open>The functions\<close>

text \<open>\<open>for i, e := range existing { index[e.Name] = i }\<close>\<close>

primrec env_index :: "nat \<Rightarrow> EnvVar list \<Rightarrow> (string \<rightharpoonup> nat) \<Rightarrow> (string \<rightharpoonup> nat)" where
  "env_index i [] index = index"
| "env_index i (e # es) index = env_index (Suc i) es (index(eName e \<mapsto> i))"

primrec merge_loop :: "(string \<rightharpoonup> nat) \<Rightarrow> EnvVar list \<Rightarrow> EnvVar list \<Rightarrow> EnvVar list" where
  "merge_loop index result [] = result"
| "merge_loop index result (v # vs) =
     merge_loop index
       (case index (eName v) of Some i \<Rightarrow> result[i := v] | None \<Rightarrow> result @ [v]) vs"

definition mergeEnvVars :: "EnvVar list \<Rightarrow> EnvVar list \<Rightarrow> EnvVar list" where
  "mergeEnvVars existing toInject =
     (let index = env_index 0 existing Map.empty in merge_loop index existing toInject)"

text \<open>The Go map \<open>map[string]bool\<close>, which only ever holds \<open>true\<close>, is the set of its keys.\<close>

definition removeEnvVars :: "EnvVar list \<Rightarrow> string set \<Rightarrow> EnvVar list" where
  "removeEnvVars existing keys = filter (\<lambda>e. eName e \<notin> keys) existing"

definition preserveDatastoreManagedEnvVars ::
  "EnvVar list \<Rightarrow> EnvVar list \<Rightarrow> string set \<Rightarrow> EnvVar list" where
  "preserveDatastoreManagedEnvVars desired existing managed =
     (if managed = {} then desired
      else mergeEnvVars desired (filter (\<lambda>v. eName v \<in> managed) existing))"

section \<open>The meaning of an environment list\<close>

primrec env_map :: "EnvVar list \<Rightarrow> (string \<rightharpoonup> EnvVar)" where
  "env_map [] = Map.empty"
| "env_map (v # vs) = [eName v \<mapsto> v] ++ env_map vs"

abbreviation env_names :: "EnvVar list \<Rightarrow> string set" where
  "env_names vs \<equiv> eName ` set vs"

lemma env_map_append [simp]: "env_map (vs @ us) = env_map vs ++ env_map us"
  by (induction vs) (auto simp: map_add_assoc)

lemma dom_env_map [simp]: "dom (env_map vs) = env_names vs"
  by (induction vs) auto

lemma env_map_None: "env_map vs n = None \<longleftrightarrow> n \<notin> env_names vs"
  by (metis dom_env_map domIff)

lemma env_map_Cons:
  "env_map (v # vs) n =
     (case env_map vs n of None \<Rightarrow> if n = eName v then Some v else None | Some u \<Rightarrow> Some u)"
  by (auto simp: map_add_def split: option.splits)

lemma env_map_Some: "env_map vs n = Some v \<Longrightarrow> v \<in> set vs \<and> eName v = n"
  by (induction vs) (auto simp: map_add_Some_iff split: if_splits)

lemma env_map_filter: "env_map (filter (\<lambda>v. P (eName v)) vs) = env_map vs |` {n. P n}"
  by (induction vs) (auto simp: restrict_map_def map_add_def fun_eq_iff split: option.splits)

lemma env_map_distinct:
  "distinct (map eName vs) \<Longrightarrow> v \<in> set vs \<Longrightarrow> env_map vs (eName v) = Some v"
proof (induction vs)
  case (Cons u us)
  show ?case
  proof (cases "v \<in> set us")
    case True
    with Cons show ?thesis by (simp add: map_add_Some_iff)
  next
    case False
    with Cons.prems have "v = u" and "eName u \<notin> env_names us" by auto
    then show ?thesis by (simp add: map_add_Some_iff env_map_None)
  qed
qed simp

section \<open>A direct description of merging\<close>

text \<open>
  The index of the last entry of a name, and the list in which the last entry of each name is
  replaced by what a map has for it.
\<close>

primrec last_index :: "string \<Rightarrow> EnvVar list \<Rightarrow> nat option" where
  "last_index n [] = None"
| "last_index n (v # vs) =
     (case last_index n vs of
        Some i \<Rightarrow> Some (Suc i)
      | None \<Rightarrow> if eName v = n then Some 0 else None)"

primrec overlay :: "(string \<rightharpoonup> EnvVar) \<Rightarrow> EnvVar list \<Rightarrow> EnvVar list" where
  "overlay m [] = []"
| "overlay m (v # vs) =
     (if eName v \<in> env_names vs then v
      else (case m (eName v) of None \<Rightarrow> v | Some u \<Rightarrow> u)) # overlay m vs"

lemma last_index_None: "last_index n vs = None \<longleftrightarrow> n \<notin> env_names vs"
  by (induction vs) (auto split: option.splits)

lemma last_index_bound: "last_index n vs = Some i \<Longrightarrow> i < length vs"
  by (induction vs arbitrary: i) (auto split: option.splits if_splits)

lemma env_index_eq:
  "env_index k es index n =
     (case last_index n es of None \<Rightarrow> index n | Some i \<Rightarrow> Some (k + i))"
  by (induction es arbitrary: k index) (auto split: option.splits)

lemma length_overlay [simp]: "length (overlay m vs) = length vs"
  by (induction vs) auto

lemma overlay_empty [simp]: "overlay Map.empty vs = vs"
  by (induction vs) auto

lemma overlay_cong:
  "(\<And>n. n \<in> env_names vs \<Longrightarrow> m n = m' n) \<Longrightarrow> overlay m vs = overlay m' vs"
  by (induction vs) auto

lemma overlay_update:
  "last_index (eName u) vs = Some i \<Longrightarrow> (overlay m vs)[i := u] = overlay (m(eName u \<mapsto> u)) vs"
proof (induction vs arbitrary: i)
  case (Cons v vs)
  show ?case
  proof (cases "last_index (eName u) vs")
    case None
    then have "eName u \<notin> env_names vs" by (simp add: last_index_None)
    then have tail: "overlay (m(eName u \<mapsto> u)) vs = overlay m vs"
      by (intro overlay_cong) (metis fun_upd_other)
    from None Cons.prems have hd: "eName v = eName u" and i: "i = 0"
      by (auto split: if_splits)
    have "(overlay m (v # vs))[i := u] = u # overlay m vs"
      by (simp add: i)
    moreover have "overlay (m(eName u \<mapsto> u)) (v # vs) = u # overlay m vs"
      using \<open>eName u \<notin> env_names vs\<close> by (simp add: hd tail del: fun_upd_apply) simp
    ultimately show ?thesis by (simp only:)
  next
    case (Some j)
    then have "eName u \<in> env_names vs" by (metis last_index_None option.distinct(1))
    with Some Cons show ?thesis by auto
  qed
qed simp

lemma merge_loop_eq:
  "merge_loop (env_index 0 es Map.empty) (overlay m es @ appended) vs =
     overlay (m ++ env_map vs) es @ appended @ filter (\<lambda>v. eName v \<notin> env_names es) vs"
proof (induction vs arbitrary: m appended)
  case (Cons v vs)
  show ?case
  proof (cases "last_index (eName v) es")
    case None
    have "overlay (m(eName v \<mapsto> v) ++ env_map vs) es = overlay (m ++ env_map vs) es"
    proof (rule overlay_cong)
      fix n assume "n \<in> env_names es"
      with None have "n \<noteq> eName v" by (metis last_index_None)
      then show "(m(eName v \<mapsto> v) ++ env_map vs) n = (m ++ env_map vs) n"
        by (auto simp: map_add_def split: option.splits)
    qed
    with None Cons.IH [of m "appended @ [v]"] show ?thesis
      by (simp add: env_index_eq last_index_None [symmetric])
  next
    case (Some i)
    then have "eName v \<in> env_names es" by (metis last_index_None option.distinct(1))
    with Some Cons.IH [of "m(eName v \<mapsto> v)" appended] show ?thesis
      by (simp add: env_index_eq last_index_bound list_update_append1 overlay_update
          del: fun_upd_apply)
  qed
qed simp

text \<open>
  \<open>mergeEnvVars\<close> replaces the last entry of each injected name and appends the rest in order.
\<close>

lemma mergeEnvVars_eq:
  "mergeEnvVars es vs =
     overlay (env_map vs) es @ filter (\<lambda>v. eName v \<notin> env_names es) vs"
  using merge_loop_eq [of es Map.empty "[]" vs] by (simp add: mergeEnvVars_def Let_def)

lemma names_overlay:
  "(\<And>n u. m n = Some u \<Longrightarrow> eName u = n) \<Longrightarrow> map eName (overlay m vs) = map eName vs"
  by (induction vs) (auto split: option.splits)

lemma env_map_overlay:
  assumes "\<And>n u. m n = Some u \<Longrightarrow> eName u = n"
  shows "env_map (overlay m vs) n =
    (if n \<in> env_names vs then (case m n of None \<Rightarrow> env_map vs n | Some u \<Rightarrow> Some u) else None)"
proof (induction vs)
  case (Cons v vs)
  define x where "x = (if eName v \<in> env_names vs then v
    else (case m (eName v) of None \<Rightarrow> v | Some u \<Rightarrow> u))"
  have name: "eName x = eName v"
    using assms by (auto simp: x_def split: option.splits)
  have step: "env_map (overlay m (v # vs)) n =
      (case env_map (overlay m vs) n of None \<Rightarrow> if n = eName v then Some x else None
       | Some u \<Rightarrow> Some u)"
    using name by (simp add: x_def [symmetric] env_map_Cons del: env_map.simps)
  show ?case
  proof (cases "n \<in> env_names vs")
    case True
    then obtain u where "env_map vs n = Some u" by (metis env_map_None not_Some_eq)
    with True show ?thesis
      unfolding step Cons.IH
      by (auto simp: env_map_Cons x_def simp del: env_map.simps split: option.splits)
  next
    case False
    then have "env_map vs n = None" by (simp add: env_map_None)
    with False show ?thesis
      unfolding step Cons.IH
      by (auto simp: x_def env_map_Cons simp del: env_map.simps split: option.splits)
  qed
qed simp

lemma env_map_merge: "env_map (mergeEnvVars es vs) = env_map es ++ env_map vs"
proof
  fix n
  have "env_map (overlay (env_map vs) es) n =
      (if n \<in> env_names es then (case env_map vs n of None \<Rightarrow> env_map es n | Some u \<Rightarrow> Some u)
       else None)"
    by (rule env_map_overlay) (simp add: env_map_Some)
  moreover have "env_map (filter (\<lambda>v. eName v \<notin> env_names es) vs) n =
      (if n \<in> env_names es then None else env_map vs n)"
    by (subst env_map_filter) (simp add: restrict_map_def)
  ultimately show "env_map (mergeEnvVars es vs) n = (env_map es ++ env_map vs) n"
    by (cases "env_map vs n") (auto simp: mergeEnvVars_eq map_add_def simp flip: env_map_None)
qed

lemma env_map_remove: "env_map (removeEnvVars es ks) = env_map es |` (- ks)"
proof -
  have "{n. n \<notin> ks} = - ks" by auto
  then show ?thesis
    unfolding removeEnvVars_def by (subst env_map_filter) simp
qed

lemma names_merge: "env_names (mergeEnvVars es vs) = env_names es \<union> env_names vs"
  by (metis dom_env_map dom_map_add env_map_merge sup_commute)

section \<open>Merging twice\<close>

lemma overlay_noop:
  "(\<And>n u. n \<in> env_names es \<Longrightarrow> m n = Some u \<Longrightarrow> env_map es n = Some u) \<Longrightarrow> overlay m es = es"
proof (induction es)
  case (Cons e es)
  have tail: "overlay m es = es"
  proof (rule Cons.IH)
    fix n u assume "n \<in> env_names es" "m n = Some u"
    then have "env_map (e # es) n = Some u" by (intro Cons.prems) auto
    with \<open>n \<in> env_names es\<close> show "env_map es n = Some u"
      by (auto simp: env_map_Cons env_map_None simp del: env_map.simps split: option.splits)
  qed
  have "u = e" if "eName e \<notin> env_names es" "m (eName e) = Some u" for u
  proof -
    have "env_map (e # es) (eName e) = Some u" using that by (intro Cons.prems) auto
    moreover have "env_map es (eName e) = None" using that(1) by (simp add: env_map_None)
    ultimately show ?thesis by (simp add: env_map_Cons del: env_map.simps)
  qed
  with tail show ?case by (auto split: option.splits)
qed simp

text \<open>Merging what a list already means leaves it as it is.\<close>

lemma mergeEnvVars_noop:
  assumes "\<And>v. v \<in> set vs \<Longrightarrow> env_map es (eName v) = Some v"
  shows "mergeEnvVars es vs = es"
proof -
  have "overlay (env_map vs) es = es"
    by (rule overlay_noop) (metis assms env_map_Some)
  moreover have "filter (\<lambda>v. eName v \<notin> env_names es) vs = []"
    unfolding filter_empty_conv by (metis assms env_map_None option.distinct(1))
  ultimately show ?thesis by (simp add: mergeEnvVars_eq)
qed

lemma mergeEnvVars_idem:
  assumes "distinct (map eName vs)"
  shows "mergeEnvVars (mergeEnvVars es vs) vs = mergeEnvVars es vs"
  by (rule mergeEnvVars_noop) (simp add: env_map_merge map_add_Some_iff env_map_distinct assms)

text \<open>
  The controllers of a Workload and of its DatastoreBindings write the same list. When the
  Workload's controller renders the list again and keeps the entries of the managed names,
  it gets back the list with the injected entries.
\<close>

lemma overlay_preserved:
  assumes m: "\<And>n u. m n = Some u \<Longrightarrow> eName u = n \<and> n \<in> keep"
    and extra: "env_names extra \<inter> env_names es = {}"
  shows "overlay (env_map (filter (\<lambda>v. eName v \<in> keep) (overlay m es) @ extra)) es = overlay m es"
proof -
  let ?f = "env_map (filter (\<lambda>v. eName v \<in> keep) (overlay m es) @ extra)"
  have f: "?f n = (if n \<in> keep then (case m n of None \<Rightarrow> env_map es n | Some u \<Rightarrow> Some u) else None)"
    if "n \<in> env_names es" for n
  proof -
    have "env_map extra n = None" using extra that by (auto simp: env_map_None)
    moreover have "env_map (overlay m es) n =
        (case m n of None \<Rightarrow> env_map es n | Some u \<Rightarrow> Some u)"
      using that m by (subst env_map_overlay) auto
    ultimately show ?thesis
      by (simp add: map_add_def restrict_map_def env_map_filter [where P = "\<lambda>n. n \<in> keep"])
  qed
  define g where "g n = (if n \<in> keep then (case m n of None \<Rightarrow> env_map es n | Some u \<Rightarrow> Some u) else None)"
    for n
  have "overlay ?f es = overlay g es"
    by (rule overlay_cong) (simp only: f g_def)
  also have "overlay g es = overlay m es"
    using m unfolding g_def
  proof (induction es)
    case (Cons e es)
    have "overlay (\<lambda>n. if n \<in> keep then case m n of None \<Rightarrow> env_map (e # es) n | Some u \<Rightarrow> Some u
        else None) es =
      overlay (\<lambda>n. if n \<in> keep then case m n of None \<Rightarrow> env_map es n | Some u \<Rightarrow> Some u
        else None) es"
    proof (rule overlay_cong)
      fix n assume "n \<in> env_names es"
      then obtain u where "env_map es n = Some u" by (metis env_map_None not_Some_eq)
      then show "(if n \<in> keep then case m n of None \<Rightarrow> env_map (e # es) n | Some u \<Rightarrow> Some u else None) =
          (if n \<in> keep then case m n of None \<Rightarrow> env_map es n | Some u \<Rightarrow> Some u else None)"
        by (simp add: env_map_Cons del: env_map.simps split: option.split)
    qed
    moreover have "env_map (e # es) (eName e) = Some e" if "eName e \<notin> env_names es"
      using that by (simp add: env_map_Cons env_map_None [THEN iffD2] del: env_map.simps)
    ultimately show ?case
      using Cons by (cases "eName e \<in> env_names es") (simp_all del: env_map.simps split: option.splits)
  qed simp
  finally show ?thesis .
qed

lemma merge_preserved_stable:
  assumes "env_names vs \<subseteq> keep"
  shows "mergeEnvVars es (filter (\<lambda>v. eName v \<in> keep) (mergeEnvVars es vs)) = mergeEnvVars es vs"
proof -
  let ?new = "filter (\<lambda>v. eName v \<notin> env_names es) vs"
  let ?kept = "filter (\<lambda>v. eName v \<in> keep) (overlay (env_map vs) es)"
  have new: "filter (\<lambda>v. eName v \<in> keep) ?new = ?new"
    using assms by (auto simp: filter_id_conv simp del: filter_filter)
  have names: "env_names ?kept \<subseteq> env_names es"
  proof -
    have "env_names (overlay (env_map vs) es) = env_names es"
      by (metis env_map_Some names_overlay set_map)
    then show ?thesis by auto
  qed
  have "overlay (env_map (?kept @ ?new)) es = overlay (env_map vs) es"
  proof (rule overlay_preserved)
    show "eName u = n \<and> n \<in> keep" if "env_map vs n = Some u" for n u
      using that assms env_map_Some by fastforce
  qed auto
  moreover have "filter (\<lambda>v. eName v \<notin> env_names es) (?kept @ ?new) = ?new"
    using names by (auto simp: filter_empty_conv)
  moreover have "mergeEnvVars es vs = overlay (env_map vs) es @ ?new"
    by (rule mergeEnvVars_eq)
  ultimately show ?thesis
    by (simp only: mergeEnvVars_eq [of es "?kept @ ?new"] filter_append new)
qed

section \<open>Merging as an algebra\<close>

lemma overlay_overlay:
  assumes "\<And>n v. f n = Some v \<Longrightarrow> eName v = n"
  shows "overlay g (overlay f es) = overlay (f ++ g) es"
proof (induction es)
  case (Cons e es)
  have names: "env_names (overlay f es) = env_names es"
    using names_overlay [of f es] assms by (metis list.set_map)
  show ?case
  proof (cases "eName e \<in> env_names es")
    case True
    then show ?thesis using Cons by (simp add: names)
  next
    case False
    define x where "x = (case f (eName e) of None \<Rightarrow> e | Some u \<Rightarrow> u)"
    have "eName x = eName e" using assms by (auto simp: x_def split: option.splits)
    then show ?thesis
      using False Cons by (auto simp: names x_def [symmetric]) (auto simp: x_def map_add_def split: option.splits)
  qed
qed simp

lemma overlay_append:
  "env_names es \<inter> env_names us = {} \<Longrightarrow> overlay f (es @ us) = overlay f es @ overlay f us"
  by (induction es) auto

lemma overlay_filter:
  assumes "\<And>n v. f n = Some v \<Longrightarrow> eName v = n"
  shows "filter (\<lambda>v. P (eName v)) (overlay f es) = overlay f (filter (\<lambda>v. P (eName v)) es)"
proof (induction es)
  case (Cons e es)
  have "eName e \<in> env_names (filter (\<lambda>v. P (eName v)) es) \<longleftrightarrow> eName e \<in> env_names es" if "P (eName e)"
    using that by force
  then show ?case using Cons assms by (auto split: option.splits)
qed simp

lemma overlay_overlay_env: "overlay g (overlay (env_map us) es) = overlay (env_map us ++ g) es"
  by (rule overlay_overlay) (simp add: env_map_Some)

lemma overlay_filter_env:
  "filter (\<lambda>v. P (eName v)) (overlay (env_map us) es) = overlay (env_map us) (filter (\<lambda>v. P (eName v)) es)"
  by (rule overlay_filter) (simp add: env_map_Some)

lemma env_names_filter: "env_names (filter (\<lambda>v. P (eName v)) vs) = {n \<in> env_names vs. P n}"
  by (induction vs) auto

lemma merge_assoc: "mergeEnvVars (mergeEnvVars es us) vs = mergeEnvVars es (mergeEnvVars us vs)"
proof -
  let ?out = "\<lambda>es. filter (\<lambda>v. eName v \<notin> env_names es)"
  have "env_names (overlay (env_map us) es) = env_names es"
    by (metis env_map_Some names_overlay list.set_map)
  then have disj: "env_names (overlay (env_map us) es) \<inter> env_names (?out es us) = {}"
    by (simp only: env_names_filter [where P = "\<lambda>n. n \<notin> env_names es"]) blast
  have all: "env_names (mergeEnvVars es us) = env_names es \<union> env_names us" by (rule names_merge)
  have out: "mergeEnvVars es us = overlay (env_map us) es @ ?out es us" by (rule mergeEnvVars_eq)
  have "overlay (env_map vs) (mergeEnvVars es us) =
      overlay (env_map us ++ env_map vs) es @ overlay (env_map vs) (?out es us)"
    unfolding out overlay_append [OF disj] overlay_overlay_env ..
  moreover have "?out (mergeEnvVars es us) vs =
      filter (\<lambda>v. eName v \<notin> env_names es \<and> eName v \<notin> env_names us) vs"
    unfolding all by (simp add: conj_commute)
  ultimately have "mergeEnvVars (mergeEnvVars es us) vs =
      overlay (env_map us ++ env_map vs) es @ overlay (env_map vs) (?out es us) @
      filter (\<lambda>v. eName v \<notin> env_names es \<and> eName v \<notin> env_names us) vs"
    by (simp only: mergeEnvVars_eq [of "mergeEnvVars es us"] append_assoc)
  moreover have "?out es (mergeEnvVars us vs) = overlay (env_map vs) (?out es us) @
      filter (\<lambda>v. eName v \<notin> env_names es \<and> eName v \<notin> env_names us) vs"
    unfolding mergeEnvVars_eq [of us vs]
    by (simp add: overlay_filter_env [where P = "\<lambda>n. n \<notin> env_names es"] conj_commute)
  ultimately show ?thesis
    by (simp only: mergeEnvVars_eq [of es "mergeEnvVars us vs"] env_map_merge)
qed

lemma merge_Nil [simp]: "mergeEnvVars es [] = es" "mergeEnvVars [] es = es"
  by (simp_all add: mergeEnvVars_eq)

section \<open>The interface of an environment store\<close>

text \<open>
  What the two controllers rely on when they share a container's environment: merging
  overrides, removing restricts.
\<close>

locale env_store =
  fixes meaning :: "'e \<Rightarrow> (string \<rightharpoonup> 'v)"
    and merge :: "'e \<Rightarrow> 'e \<Rightarrow> 'e"
    and remove :: "'e \<Rightarrow> string set \<Rightarrow> 'e"
  assumes meaning_merge: "meaning (merge a b) = meaning a ++ meaning b"
    and meaning_remove: "meaning (remove a ks) = meaning a |` (- ks)"
begin

lemma injected_wins: "n \<in> dom (meaning b) \<Longrightarrow> meaning (merge a b) n = meaning b n"
  by (auto simp: meaning_merge)

lemma others_kept: "n \<notin> dom (meaning b) \<Longrightarrow> meaning (merge a b) n = meaning a n"
  by (auto simp: meaning_merge map_add_dom_app_simps)

lemma remove_undoes_merge:
  "dom (meaning b) \<subseteq> ks \<Longrightarrow> meaning (remove (merge a b) ks) = meaning (remove a ks)"
  by (auto simp: meaning_merge meaning_remove restrict_map_def map_add_def fun_eq_iff
      split: option.splits)

lemma merges_commute:
  "dom (meaning b) \<inter> dom (meaning c) = {} \<Longrightarrow>
     meaning (merge (merge a b) c) = meaning (merge (merge a c) b)"
  by (metis map_add_assoc map_add_comm meaning_merge)

lemma remove_keeps_others:
  "dom (meaning c) \<inter> ks = {} \<Longrightarrow>
     meaning (remove (merge a c) ks) = meaning (merge (remove a ks) c)"
  by (auto simp: meaning_merge meaning_remove restrict_map_def map_add_def fun_eq_iff
      split: option.splits)

end

interpretation env: env_store env_map mergeEnvVars removeEnvVars
  by unfold_locales (simp_all add: env_map_merge env_map_remove)

end
