(* ===== verification/Managed_Env.thy ===== *)
theory Managed_Env
  imports Env_Vars
begin

text \<open>
  The record of the environment variables that DatastoreBindings manage on a Deployment: the
  annotation \<open>data.polykube.dev/managed-env-vars\<close>, a sorted comma-separated list, and the
  names a binding manages (\<open>datastorebinding_controller.go\<close>).
\<close>

section \<open>The functions\<close>

definition datastoreManagedEnvVarsAnnotation :: string where
  "datastoreManagedEnvVarsAnnotation = ''data.polykube.dev/managed-env-vars''"

text \<open>Reading a missing key of a Go map gives the empty string.\<close>

definition map_read :: "strmap \<Rightarrow> string \<Rightarrow> string" where
  "map_read m k = (case m k of None \<Rightarrow> '''' | Some v \<Rightarrow> v)"

definition datastoreManagedEnvVars :: "Deployment \<Rightarrow> string set" where
  "datastoreManagedEnvVars deployment =
     (case mAnnotations (dMeta deployment) of
        None \<Rightarrow> {}
      | Some annotations \<Rightarrow>
          set (filter (\<lambda>name. name \<noteq> '''')
            (map trim_space
              (split_on (CHR '','')
                (map_read annotations datastoreManagedEnvVarsAnnotation)))))"

text \<open>
  The names are collected from a Go map, in any order, and sorted: \<^const>\<open>sorted_list_of_set\<close>.
\<close>

definition updateDatastoreManagedEnvVars ::
  "Deployment \<Rightarrow> string list \<Rightarrow> string list \<Rightarrow> Deployment" where
  "updateDatastoreManagedEnvVars deployment addNames removeNames =
     (let managed = (datastoreManagedEnvVars deployment - set removeNames) \<union> set addNames;
          m = dMeta deployment
      in if managed = {}
         then deployment\<lparr>dMeta :=
                m\<lparr>mAnnotations :=
                   map_option (\<lambda>a. a(datastoreManagedEnvVarsAnnotation := None)) (mAnnotations m)\<rparr>\<rparr>
         else
           let annotations = (case mAnnotations m of None \<Rightarrow> Map.empty | Some a \<Rightarrow> a);
               names = sorted_list_of_set managed
           in deployment\<lparr>dMeta :=
                m\<lparr>mAnnotations :=
                   Some (annotations(datastoreManagedEnvVarsAnnotation \<mapsto> join '','' names))\<rparr>\<rparr>)"

definition env_prefix :: "string \<Rightarrow> string" where
  "env_prefix name = ''DATASTORE_'' @ to_upper (replace_char (CHR ''-'') (CHR ''_'') name)"

definition datastoreManagedEnvNames :: "DatastoreBinding \<Rightarrow> string list" where
  "datastoreManagedEnvNames binding =
     (let name = mName (dbMeta binding);
          names = [env_prefix name @ ''_URL'', env_prefix name @ ''_REPLICATION_MODE'']
      in if name = ''primary'' then names @ [''DATABASE_URL''] else names)"

definition namesToBoolMap :: "string list \<Rightarrow> string set" where
  "namesToBoolMap names = set names"

section \<open>The interface of a registry of names\<close>

text \<open>
  A registry kept on an object: reading back after an update gives the updated set, for names
  the registry can hold, and an update made twice is made once.
\<close>

locale name_registry =
  fixes names :: "'d \<Rightarrow> string set"
    and update :: "'d \<Rightarrow> string list \<Rightarrow> string list \<Rightarrow> 'd"
    and holdable :: "string \<Rightarrow> bool"
  assumes names_update:
      "list_all holdable adds \<Longrightarrow> names (update d adds removes) = (names d - set removes) \<union> set adds"
    and update_twice:
      "list_all holdable adds \<Longrightarrow> update (update d adds []) adds [] = update d adds []"
begin

lemma added: "list_all holdable adds \<Longrightarrow> set adds \<subseteq> names (update d adds [])"
  by (simp add: names_update)

lemma add_then_remove:
  "list_all holdable adds \<Longrightarrow>
     names (update (update d adds []) [] adds) = names d - set adds"
  by (auto simp: names_update)

lemma others_untouched:
  "list_all holdable adds \<Longrightarrow> n \<notin> set adds \<Longrightarrow> n \<notin> set removes \<Longrightarrow>
     n \<in> names (update d adds removes) \<longleftrightarrow> n \<in> names d"
  by (simp add: names_update)

end

section \<open>The annotation is such a registry\<close>

text \<open>A name that survives the round trip through the annotation.\<close>

definition annotation_name :: "string \<Rightarrow> bool" where
  "annotation_name n \<longleftrightarrow> n \<noteq> [] \<and> CHR '','' \<notin> set n \<and> trim_space n = n"

lemma annotation_name_managed: "n \<in> datastoreManagedEnvVars d \<Longrightarrow> annotation_name n"
  unfolding datastoreManagedEnvVars_def annotation_name_def
  by (auto split: option.splits dest!: split_on_no_sep subsetD [OF trim_space_subset])

lemma finite_managed [simp]: "finite (datastoreManagedEnvVars d)"
  by (auto simp: datastoreManagedEnvVars_def split: option.splits)

lemma managed_of_joined:
  assumes "ns \<noteq> []" and "list_all annotation_name ns"
  shows "set (filter (\<lambda>n. n \<noteq> []) (map trim_space (split_on (CHR '','') (join '','' ns)))) = set ns"
proof -
  have "split_on (CHR '','') (join '','' ns) = ns"
    using assms by (intro split_on_join) (auto simp: list_all_iff annotation_name_def)
  moreover have "map trim_space ns = ns"
    using assms by (intro map_idI) (auto simp: list_all_iff annotation_name_def)
  ultimately show ?thesis
    using assms by (auto simp: list_all_iff annotation_name_def)
qed

lemma managed_update:
  assumes "list_all annotation_name adds"
  shows "datastoreManagedEnvVars (updateDatastoreManagedEnvVars d adds removes) =
    (datastoreManagedEnvVars d - set removes) \<union> set adds"
proof -
  let ?M = "(datastoreManagedEnvVars d - set removes) \<union> set adds"
  have fin: "finite ?M" by simp
  show ?thesis
  proof (cases "?M = {}")
    case True
    then show ?thesis
      by (auto simp: updateDatastoreManagedEnvVars_def Let_def datastoreManagedEnvVars_def map_read_def
          split: option.splits)
  next
    case False
    have "set (filter (\<lambda>n. n \<noteq> []) (map trim_space
        (split_on (CHR '','') (join '','' (sorted_list_of_set ?M))))) = ?M"
    proof (subst managed_of_joined)
      show "sorted_list_of_set ?M \<noteq> []"
        using False fin by (metis set_empty set_sorted_list_of_set)
      show "list_all annotation_name (sorted_list_of_set ?M)"
        using assms fin by (auto simp: list_all_iff dest: annotation_name_managed)
    qed (use fin in simp)
    moreover from False have "datastoreManagedEnvVars (updateDatastoreManagedEnvVars d adds removes) =
      set (filter (\<lambda>n. n \<noteq> []) (map trim_space
        (split_on (CHR '','') (join '','' (sorted_list_of_set ?M)))))"
      by (simp only: updateDatastoreManagedEnvVars_def Let_def if_False)
         (simp add: datastoreManagedEnvVars_def map_read_def)
    ultimately show ?thesis by simp
  qed
qed

text \<open>The annotation's new value depends on the old annotations and the managed set only.\<close>

definition annotate :: "string set \<Rightarrow> strmap option \<Rightarrow> strmap option" where
  "annotate M a =
     (if M = {} then map_option (\<lambda>m. m(datastoreManagedEnvVarsAnnotation := None)) a
      else Some ((case a of None \<Rightarrow> Map.empty | Some m \<Rightarrow> m)
        (datastoreManagedEnvVarsAnnotation \<mapsto> join '','' (sorted_list_of_set M))))"

lemma annotate_twice [simp]: "annotate M (annotate M a) = annotate M a"
  by (cases a) (simp_all add: annotate_def)

lemma update_annotate:
  "updateDatastoreManagedEnvVars d adds removes =
     d\<lparr>dMeta := (dMeta d)\<lparr>mAnnotations :=
       annotate ((datastoreManagedEnvVars d - set removes) \<union> set adds) (mAnnotations (dMeta d))\<rparr>\<rparr>"
  unfolding updateDatastoreManagedEnvVars_def annotate_def Let_def
  by (cases "(datastoreManagedEnvVars d - set removes) \<union> set adds = {}")
     (simp_all only: if_True if_False simp_thms)

lemma managed_update_twice:
  assumes "list_all annotation_name adds"
  shows "updateDatastoreManagedEnvVars (updateDatastoreManagedEnvVars d adds []) adds [] =
    updateDatastoreManagedEnvVars d adds []"
proof -
  let ?M = "datastoreManagedEnvVars d \<union> set adds" and ?d = "updateDatastoreManagedEnvVars d adds []"
  have again: "(datastoreManagedEnvVars ?d - set []) \<union> set adds = ?M"
    using assms by (auto simp: managed_update)
  have "dMeta ?d = (dMeta d)\<lparr>mAnnotations := annotate ?M (mAnnotations (dMeta d))\<rparr>"
    by (simp add: update_annotate)
  then show ?thesis
    unfolding update_annotate [of ?d] again by (simp add: update_annotate [of d])
qed

interpretation annotation:
  name_registry datastoreManagedEnvVars updateDatastoreManagedEnvVars annotation_name
  by unfold_locales (simp_all add: managed_update managed_update_twice)

lemma update_managed_other [simp]:
  "dContainers (updateDatastoreManagedEnvVars d adds removes) = dContainers d"
  "dReplicas (updateDatastoreManagedEnvVars d adds removes) = dReplicas d"
  "mOwnerReferences (dMeta (updateDatastoreManagedEnvVars d adds removes)) = mOwnerReferences (dMeta d)"
  "mName (dMeta (updateDatastoreManagedEnvVars d adds removes)) = mName (dMeta d)"
  "mNamespace (dMeta (updateDatastoreManagedEnvVars d adds removes)) = mNamespace (dMeta d)"
  by (simp_all add: update_annotate)

section \<open>The names of a binding\<close>

text \<open>The characters of a Kubernetes object name (a DNS subdomain).\<close>

definition dns_chars :: string where
  "dns_chars = ''abcdefghijklmnopqrstuvwxyz0123456789-.''"

definition dns_name :: "string \<Rightarrow> bool" where
  "dns_name n \<longleftrightarrow> n \<noteq> [] \<and> set n \<subseteq> set dns_chars"

abbreviation env_char :: "char \<Rightarrow> char" where
  "env_char c \<equiv> upper_char (if c = CHR ''-'' then CHR ''_'' else c)"

lemma env_prefix_map: "env_prefix n = ''DATASTORE_'' @ map env_char n"
  by (simp add: env_prefix_def to_upper_def replace_char_def comp_def)

lemma distinct_env_chars: "distinct (map env_char dns_chars)"
  by code_simp

lemma inj_env_char: "inj_on env_char (set dns_chars)"
  using distinct_env_chars by (simp only: distinct_map)

lemma no_comma_env_chars: "list_all (\<lambda>c. env_char c \<noteq> CHR '','') dns_chars"
  by code_simp

lemma env_prefix_inj:
  assumes "dns_name a" and "dns_name b" and "env_prefix a = env_prefix b"
  shows "a = b"
proof -
  have "map env_char a = map env_char b"
    using assms(3) unfolding env_prefix_map same_append_eq .
  moreover have "inj_on env_char (set a \<union> set b)"
    using assms(1,2) unfolding dns_name_def by (intro inj_on_subset [OF inj_env_char]) simp
  ultimately show ?thesis by (rule map_inj_on)
qed

text \<open>A name that a binding manages comes from the one binding name it was made of.\<close>

lemma managed_names_cases:
  "n \<in> set (datastoreManagedEnvNames b) \<longleftrightarrow>
     n = env_prefix (mName (dbMeta b)) @ ''_URL'' \<or>
     n = env_prefix (mName (dbMeta b)) @ ''_REPLICATION_MODE'' \<or>
     (mName (dbMeta b) = ''primary'' \<and> n = ''DATABASE_URL'')"
  by (auto simp: datastoreManagedEnvNames_def Let_def)

lemma url_not_mode: "p @ ''_URL'' \<noteq> q @ ''_REPLICATION_MODE''"
proof
  assume "p @ ''_URL'' = q @ ''_REPLICATION_MODE''"
  then have "last (p @ ''_URL'') = last (q @ ''_REPLICATION_MODE'')" by (simp only:)
  then show False by simp
qed

lemma prefix_not_alias: "env_prefix n @ s \<noteq> ''DATABASE_URL''"
  by (simp add: env_prefix_def)

lemma distinct_managed_names: "distinct (datastoreManagedEnvNames b)"
  by (simp add: datastoreManagedEnvNames_def Let_def url_not_mode prefix_not_alias
      url_not_mode [symmetric])

lemma annotation_name_edges:
  "CHR '','' \<notin> set n \<Longrightarrow> n \<noteq> [] \<Longrightarrow> \<not> is_space (hd n) \<Longrightarrow> \<not> is_space (last n) \<Longrightarrow>
     annotation_name n"
  by (simp add: annotation_name_def trim_space_id)

lemma managed_names_annotation:
  assumes "dns_name (mName (dbMeta b))"
  shows "list_all annotation_name (datastoreManagedEnvNames b)"
proof -
  let ?p = "env_prefix (mName (dbMeta b))"
  have comma: "CHR '','' \<notin> set ?p"
  proof
    assume "CHR '','' \<in> set ?p"
    then have "CHR '','' \<in> env_char ` set (mName (dbMeta b))"
      by (simp add: env_prefix_map)
    then show False
      using assms no_comma_env_chars by (auto simp: dns_name_def list_all_iff)
  qed
  have hd: "hd (?p @ s) = CHR ''D''" and ne: "?p @ s \<noteq> []" for s
    by (simp_all add: env_prefix_def)
  have "annotation_name (?p @ ''_URL'')"
    by (rule annotation_name_edges) (use comma in \<open>simp_all add: hd ne is_space_def\<close>)
  moreover have "annotation_name (?p @ ''_REPLICATION_MODE'')"
    by (rule annotation_name_edges) (use comma in \<open>simp_all add: hd ne is_space_def\<close>)
  moreover have "annotation_name ''DATABASE_URL''"
    by (rule annotation_name_edges) (simp_all add: is_space_def)
  ultimately show ?thesis
    by (cases "mName (dbMeta b) = ''primary''") (simp_all add: datastoreManagedEnvNames_def Let_def)
qed

end
