(* ===== verification/Env_Properties.thy ===== *)
theory Env_Properties
  imports Managed_Env
begin

text \<open>
  The properties of the environment lists and of the record of managed names, with their
  witnesses.
\<close>

section \<open>Environment lists\<close>

text \<open>C35: the index-based merging of environment lists is the merging of their meanings. The last
  entry of each injected name is replaced in its place, names that were missing are appended in
  the order they are injected, and the result means the old list overridden by the injected
  one.\<close>

theorem merge_reference:
  "mergeEnvVars existing toInject =
     overlay (env_map toInject) existing @ filter (\<lambda>v. eName v \<notin> env_names existing) toInject \<and>
   env_map (mergeEnvVars existing toInject) = env_map existing ++ env_map toInject"
  by (intro conjI mergeEnvVars_eq env_map_merge)

text \<open>Injecting the same variables again, with names of their own, changes nothing, not even
  the order of the list.\<close>

lemma merge_idempotent:
  assumes "distinct (map eName vs)"
  shows "mergeEnvVars (mergeEnvVars es vs) vs = mergeEnvVars es vs"
  by (rule mergeEnvVars_idem [OF assms])

text \<open>Removing the names that a binding manages undoes its injection: what is left means what
  was there before, without these names, and every other variable keeps its meaning.\<close>

lemma remove_undoes_injection:
  assumes "env_names vs \<subseteq> ks"
  shows "env_map (removeEnvVars (mergeEnvVars es vs) ks) = env_map (removeEnvVars es ks) \<and>
    (\<forall>n. n \<notin> ks \<longrightarrow> env_map (removeEnvVars (mergeEnvVars es vs) ks) n = env_map es n)"
  using assms env.remove_undoes_merge [of vs ks es]
  by (simp add: env_map_remove)

text \<open>Two controllers share the list, and neither undoes the other. When the list that the
  Workload's controller renders has the managed variables merged in, rendering it again with
  those variables preserved gives the same list back, entry by entry.\<close>

lemma preserved_render_stable:
  assumes "env_names vs \<subseteq> managed"
  shows "preserveDatastoreManagedEnvVars desired (mergeEnvVars desired vs) managed =
    (if managed = {} then desired else mergeEnvVars desired vs)"
  using merge_preserved_stable [OF assms, of desired]
  by (simp add: preserveDatastoreManagedEnvVars_def)

section \<open>The record of managed names\<close>

text \<open>C36: the annotation is a faithful record of a set of names. After a binding adds its names
  and removes others, reading the annotation back gives exactly the old names without the
  removed ones and with the added ones; nothing else of the Deployment changes but annotations;
  and adding the same names twice is adding them once.\<close>

theorem annotation_roundtrip:
  assumes "dns_name (mName (dbMeta b))"
  shows "datastoreManagedEnvVars (updateDatastoreManagedEnvVars d (datastoreManagedEnvNames b) removed) =
      (datastoreManagedEnvVars d - set removed) \<union> set (datastoreManagedEnvNames b) \<and>
    (\<exists>a. updateDatastoreManagedEnvVars d (datastoreManagedEnvNames b) removed =
       d\<lparr>dMeta := (dMeta d)\<lparr>mAnnotations := a\<rparr>\<rparr>) \<and>
    updateDatastoreManagedEnvVars (updateDatastoreManagedEnvVars d (datastoreManagedEnvNames b) [])
      (datastoreManagedEnvNames b) [] = updateDatastoreManagedEnvVars d (datastoreManagedEnvNames b) []"
  using annotation.names_update annotation.update_twice managed_names_annotation [OF assms]
  by (auto simp: update_annotate)

definition sample_named :: "string \<Rightarrow> DatastoreBinding" where
  "sample_named n =
     \<lparr>dbMeta = \<lparr>mName = n, mNamespace = ''demo'', mUID = '''', mGeneration = 1, mLabels = Map.empty,
        mAnnotations = None, mFinalizers = [], mOwnerReferences = [], mDeletionTimestamp = None\<rparr>,
      dbSpec = \<lparr>dbWorkloadRef = \<lparr>nrName = ''echo'', nrNamespace = ''''\<rparr>, dbEngine = ''postgres'',
        dbConnectionRef = \<lparr>nrName = ''creds'', nrNamespace = ''''\<rparr>, dbReplicationMode = ''None'',
        dbConflictPolicy = ''''\<rparr>,
      dbStatus = \<lparr>dbsConditions = [], dbsObservedGeneration = 0, dbsMessage = ''''\<rparr>\<rparr>"

definition bare_deployment :: Deployment where
  "bare_deployment =
     \<lparr>dMeta = dbMeta (sample_named ''echo''), dReplicas = None, dSelector = None,
      dTemplateLabels = Map.empty, dServiceAccountName = '''', dImagePullSecrets = [],
      dContainers = [], dConditions = []\<rparr>"

theorem annotation_roundtrip_witness:
  "datastoreManagedEnvVars (updateDatastoreManagedEnvVars bare_deployment
      (datastoreManagedEnvNames (sample_named ''main'')) []) =
    {''DATASTORE_MAIN_URL'', ''DATASTORE_MAIN_REPLICATION_MODE''}"
proof -
  have "dns_name (mName (dbMeta (sample_named ''main'')))"
    by (simp add: sample_named_def dns_name_def dns_chars_def)
  moreover have "datastoreManagedEnvNames (sample_named ''main'') =
      [''DATASTORE_MAIN_URL'', ''DATASTORE_MAIN_REPLICATION_MODE'']"
    by code_simp
  moreover have "datastoreManagedEnvVars bare_deployment = {}"
    by (simp add: bare_deployment_def sample_named_def datastoreManagedEnvVars_def)
  ultimately show ?thesis
    using annotation_roundtrip [of "sample_named ''main''" bare_deployment "[]"] by simp
qed

text \<open>Bindings of different names manage different variables: no two bindings of one namespace
  write the same variable. (Names are DNS names; the hyphen becomes an underscore, which no DNS
  name has.)\<close>

lemma managed_names_disjoint:
  assumes "dns_name (mName (dbMeta a))" and "dns_name (mName (dbMeta b))"
    and "mName (dbMeta a) \<noteq> mName (dbMeta b)"
  shows "set (datastoreManagedEnvNames a) \<inter> set (datastoreManagedEnvNames b) = {}"
proof -
  have prefix: "env_prefix (mName (dbMeta a)) \<noteq> env_prefix (mName (dbMeta b))"
    using assms env_prefix_inj by blast
  have "x \<notin> set (datastoreManagedEnvNames b)" if "x \<in> set (datastoreManagedEnvNames a)" for x
    using that prefix assms(3) unfolding managed_names_cases
    by (auto simp: url_not_mode url_not_mode [symmetric] prefix_not_alias prefix_not_alias [symmetric])
  then show ?thesis by blast
qed

end
