(* ===== verification/Conditions.thy ===== *)
theory Conditions
  imports External
begin

text \<open>
  Status conditions: the slice a status function works on, with the aliasing of Go slices,
  and \<open>fields_not_enforced.go\<close>.

  Every status function starts with \<open>nextStatus := obj.Status\<close>, which copies the slice header
  of \<open>Conditions\<close> and not its array. Until \<open>nextStatus.Conditions\<close> gets an array of its own, a
  write to an element is a write to \<open>obj.Status.Conditions\<close> too, and the comparison at the end
  of the function then compares the array with itself. A \<open>conditions_view\<close> follows both.
\<close>

section \<open>Two slices over one array\<close>

record conditions_view =
  cur :: "Condition list"     \<comment> \<open>\<open>nextStatus.Conditions\<close>\<close>
  orig :: "Condition list"    \<comment> \<open>\<open>obj.Status.Conditions\<close>\<close>
  shared :: bool              \<comment> \<open>both have the same array\<close>
  spare :: nat                \<comment> \<open>capacity of the shared array beyond the length of \<open>cur\<close>\<close>

text \<open>\<open>nextStatus := obj.Status\<close>.\<close>

definition alias_view :: "lib \<Rightarrow> Condition list \<Rightarrow> conditions_view" where
  "alias_view L xs = \<lparr>cur = xs, orig = xs, shared = True, spare = l_SpareCapacity L\<rparr>"

text \<open>
  A write in place shows in both slices while they share; \<open>append\<close> writes behind the other
  slice's length if the capacity allows, and otherwise moves \<open>cur\<close> to a new array.
\<close>

fun apply_effect :: "Condition slice_effect \<Rightarrow> conditions_view \<Rightarrow> conditions_view" where
  "apply_effect (InPlace ys) v =
     v\<lparr>cur := ys, orig := (if shared v then take (length (orig v)) ys else orig v)\<rparr>"
| "apply_effect (Append c) v =
     (if spare v > 0 then v\<lparr>cur := cur v @ [c], spare := spare v - 1\<rparr>
      else v\<lparr>cur := cur v @ [c], shared := False\<rparr>)"
| "apply_effect (Fresh ys) v = v\<lparr>cur := ys, shared := False\<rparr>"

definition SetStatusCondition :: "lib \<Rightarrow> time \<Rightarrow> Condition \<Rightarrow> conditions_view \<Rightarrow> conditions_view"
  where "SetStatusCondition L t c v = apply_effect (l_SetStatusCondition L t c (cur v)) v"

definition RemoveStatusCondition :: "lib \<Rightarrow> string \<Rightarrow> conditions_view \<Rightarrow> conditions_view"
  where "RemoveStatusCondition L ty v = apply_effect (l_RemoveStatusCondition L ty (cur v)) v"

section \<open>fields_not_enforced.go\<close>

definition fieldsNotEnforcedCondition :: string where
  "fieldsNotEnforcedCondition = ''FieldsNotEnforced''"

definition setFieldsNotEnforcedCondition ::
  "lib \<Rightarrow> time \<Rightarrow> int64 \<Rightarrow> string list \<Rightarrow> conditions_view \<Rightarrow> conditions_view" where
  "setFieldsNotEnforcedCondition L t generation names v =
     (if length names = 0 then RemoveStatusCondition L fieldsNotEnforcedCondition v
      else
        let verb = (if length names > 1 then ''are'' else ''is'')
        in SetStatusCondition L t
             (mk_condition fieldsNotEnforcedCondition ConditionTrue generation
               ''AcceptedNotEnforced''
               (join '', '' names @ '' '' @ verb @
                '' accepted but not acted on by the v1alpha1 operator. See docs/api-field-support.md.''))
             v)"

definition workloadFieldsNotEnforced :: "WorkloadSpec \<Rightarrow> string list" where
  "workloadFieldsNotEnforced spec =
     (case wTargetPolicy spec of
        None \<Rightarrow> []
      | Some policy \<Rightarrow> if tpStrategy policy \<noteq> '''' then [''spec.targetPolicy.strategy''] else [])
     @ (if wRolloutRef spec \<noteq> None then [''spec.rolloutRef''] else [])"

definition serviceEndpointFieldsNotEnforced :: "ServiceEndpointSpec \<Rightarrow> string list" where
  "serviceEndpointFieldsNotEnforced spec =
     (if seFailoverPolicy spec \<noteq> None then [''spec.failoverPolicy''] else [])
     @ (if seGatewayRef spec \<noteq> None then [''spec.gatewayRef''] else [])"

definition datastoreBindingFieldsNotEnforced :: "DatastoreBindingSpec \<Rightarrow> string list" where
  "datastoreBindingFieldsNotEnforced spec =
     (if dbConflictPolicy spec \<noteq> '''' then [''spec.conflictPolicy''] else [])"

definition federationFieldsNotEnforced :: "FederationSpec \<Rightarrow> string list" where
  "federationFieldsNotEnforced spec =
     (if fDefaultTargetPolicy spec \<noteq> None then [''spec.defaultTargetPolicy''] else [])"

section \<open>What apimeta promises\<close>

text \<open>
  The documentation of \<open>apimeta.SetStatusCondition\<close>: if a condition of the type exists, all its
  fields are updated to the new condition's, the transition time set to now if the status
  differs; if not, the transition time is set to now if unset, and the condition is appended.
  \<open>FindStatusCondition\<close> finds the condition of a type, \<open>RemoveStatusCondition\<close> removes it and
  does nothing to an empty slice.
\<close>

definition find_condition :: "string \<Rightarrow> Condition list \<Rightarrow> Condition option" where
  "find_condition ty xs = find (\<lambda>c. cnType c = ty) xs"

definition stamped :: "time \<Rightarrow> Condition \<Rightarrow> Condition" where
  "stamped t c = (if cnLastTransitionTime c = 0 then c\<lparr>cnLastTransitionTime := t\<rparr> else c)"

definition updated_condition :: "time \<Rightarrow> Condition \<Rightarrow> Condition \<Rightarrow> Condition" where
  "updated_condition t c old =
     (if cnStatus old = cnStatus c
      then c\<lparr>cnLastTransitionTime := cnLastTransitionTime old\<rparr> else stamped t c)"

fun update_condition :: "time \<Rightarrow> Condition \<Rightarrow> Condition list \<Rightarrow> Condition list" where
  "update_condition t c [] = []"
| "update_condition t c (x # xs) =
     (if cnType x = cnType c then updated_condition t c x # xs else x # update_condition t c xs)"

definition conditions_ok :: "lib \<Rightarrow> bool" where
  "conditions_ok L \<longleftrightarrow>
     (\<forall>xs ty. l_FindStatusCondition L xs ty = find_condition ty xs) \<and>
     (\<forall>t c xs. l_SetStatusCondition L t c xs =
        (if find_condition (cnType c) xs = None then Append (stamped t c)
         else InPlace (update_condition t c xs))) \<and>
     (\<forall>ty xs. l_RemoveStatusCondition L ty xs =
        (if xs = [] then InPlace xs else Fresh (filter (\<lambda>c. cnType c \<noteq> ty) xs)))"

section \<open>Values of conditions\<close>

text \<open>The value-level effect of the two operations, without the aliasing.\<close>

definition put_condition :: "time \<Rightarrow> Condition \<Rightarrow> Condition list \<Rightarrow> Condition list" where
  "put_condition t c xs =
     (if find_condition (cnType c) xs = None then xs @ [stamped t c] else update_condition t c xs)"

definition drop_condition :: "string \<Rightarrow> Condition list \<Rightarrow> Condition list" where
  "drop_condition ty xs = filter (\<lambda>c. cnType c \<noteq> ty) xs"

lemma length_update_condition [simp]: "length (update_condition t c xs) = length xs"
  by (induction xs) auto

lemma type_stamped [simp]: "cnType (stamped t c) = cnType c"
  by (simp add: stamped_def)

lemma stamped_simps [simp]:
  "cnStatus (stamped t c) = cnStatus c" "cnReason (stamped t c) = cnReason c"
  "cnMessage (stamped t c) = cnMessage c"
  "cnObservedGeneration (stamped t c) = cnObservedGeneration c"
  by (simp_all add: stamped_def)

lemma updated_condition_simps [simp]:
  "cnType (updated_condition t c x) = cnType c" "cnStatus (updated_condition t c x) = cnStatus c"
  "cnReason (updated_condition t c x) = cnReason c"
  "cnMessage (updated_condition t c x) = cnMessage c"
  "cnObservedGeneration (updated_condition t c x) = cnObservedGeneration c"
  by (simp_all add: updated_condition_def)

lemma find_condition_Nil [simp]: "find_condition ty [] = None"
  by (simp add: find_condition_def)

lemma find_condition_Cons [simp]:
  "find_condition ty (x # xs) = (if cnType x = ty then Some x else find_condition ty xs)"
  by (simp add: find_condition_def)

lemma find_condition_type: "find_condition ty xs = Some x \<Longrightarrow> cnType x = ty"
  by (induction xs) (auto split: if_splits)

lemma find_condition_append:
  "find_condition ty (xs @ ys) =
     (case find_condition ty xs of None \<Rightarrow> find_condition ty ys | Some x \<Rightarrow> Some x)"
  by (induction xs) auto

lemma find_update_condition:
  "find_condition ty (update_condition t c xs) =
     (if ty = cnType c then map_option (updated_condition t c) (find_condition ty xs)
      else find_condition ty xs)"
  by (induction xs) auto

lemma find_put_condition:
  "find_condition ty (put_condition t c xs) =
     (if ty = cnType c
      then Some (case find_condition ty xs of None \<Rightarrow> stamped t c | Some x \<Rightarrow> updated_condition t c x)
      else find_condition ty xs)"
  by (auto simp: put_condition_def find_update_condition find_condition_append
      split: option.splits)

lemma find_drop_condition:
  "find_condition ty (drop_condition ty' xs) = (if ty = ty' then None else find_condition ty xs)"
  by (induction xs) (auto simp: drop_condition_def)

lemma find_condition_None: "find_condition ty xs = None \<longleftrightarrow> ty \<notin> cnType ` set xs"
  by (induction xs) auto

lemma types_update_condition [simp]: "map cnType (update_condition t c xs) = map cnType xs"
  by (induction xs) auto

lemma types_put_condition:
  "map cnType (put_condition t c xs) =
     (if cnType c \<in> cnType ` set xs then map cnType xs else map cnType xs @ [cnType c])"
  by (auto simp: put_condition_def find_condition_None)

lemma distinct_types_put [simp]:
  "distinct (map cnType xs) \<Longrightarrow> distinct (map cnType (put_condition t c xs))"
  by (auto simp: types_put_condition)

lemma distinct_types_drop [simp]:
  "distinct (map cnType xs) \<Longrightarrow> distinct (map cnType (drop_condition ty xs))"
  unfolding drop_condition_def by (rule distinct_map_filter)

text \<open>Putting a condition that the list already shows changes nothing.\<close>

definition shows_condition :: "Condition \<Rightarrow> Condition list \<Rightarrow> bool" where
  "shows_condition c xs \<longleftrightarrow>
     (case find_condition (cnType c) xs of
        None \<Rightarrow> False
      | Some x \<Rightarrow> cnStatus x = cnStatus c \<and> cnReason x = cnReason c \<and> cnMessage x = cnMessage c \<and>
                 cnObservedGeneration x = cnObservedGeneration c)"

lemma update_condition_shown: "shows_condition c xs \<Longrightarrow> update_condition t c xs = xs"
  by (induction xs) (auto simp: shows_condition_def updated_condition_def)

lemma put_condition_shown: "shows_condition c xs \<Longrightarrow> put_condition t c xs = xs"
  by (auto simp: put_condition_def update_condition_shown)
     (auto simp: shows_condition_def split: option.splits)

lemma shows_put_condition: "shows_condition c (put_condition t c xs)"
  by (simp add: shows_condition_def find_put_condition split: option.splits)

lemma shows_put_other:
  "cnType c \<noteq> cnType c' \<Longrightarrow> shows_condition c (put_condition t c' xs) = shows_condition c xs"
  by (simp add: shows_condition_def find_put_condition)

lemma shows_drop_other:
  "cnType c \<noteq> ty \<Longrightarrow> shows_condition c (drop_condition ty xs) = shows_condition c xs"
  by (simp add: shows_condition_def find_drop_condition)

lemma drop_condition_absent: "find_condition ty xs = None \<Longrightarrow> drop_condition ty xs = xs"
  by (induction xs) (auto simp: drop_condition_def split: if_splits)

section \<open>The two slices after each operation\<close>

lemma cur_SetStatusCondition:
  "conditions_ok L \<Longrightarrow> cur (SetStatusCondition L t c v) = put_condition t c (cur v)"
  by (simp add: SetStatusCondition_def conditions_ok_def put_condition_def)

lemma cur_RemoveStatusCondition:
  "conditions_ok L \<Longrightarrow> cur (RemoveStatusCondition L ty v) = drop_condition ty (cur v)"
  by (simp add: RemoveStatusCondition_def conditions_ok_def drop_condition_def)

text \<open>
  A view is detached when no write through \<open>cur\<close> can show in \<open>orig\<close>: the arrays differ, or
  \<open>orig\<close> is empty. Detached views stay detached, and removing a condition detaches.
\<close>

definition detached :: "conditions_view \<Rightarrow> bool" where
  "detached v \<longleftrightarrow> \<not> shared v \<or> orig v = []"

lemma detached_apply: "detached v \<Longrightarrow> detached (apply_effect e v) \<and> orig (apply_effect e v) = orig v"
  by (cases e) (auto simp: detached_def)

lemma detached_Set:
  "detached v \<Longrightarrow> detached (SetStatusCondition L t c v) \<and> orig (SetStatusCondition L t c v) = orig v"
  by (simp add: SetStatusCondition_def detached_apply)

lemma detached_Remove:
  "detached v \<Longrightarrow> detached (RemoveStatusCondition L ty v) \<and> orig (RemoveStatusCondition L ty v) = orig v"
  by (simp add: RemoveStatusCondition_def detached_apply)

lemma detached_Remove_alias:
  "conditions_ok L \<Longrightarrow>
     detached (RemoveStatusCondition L ty (alias_view L xs)) \<and>
     orig (RemoveStatusCondition L ty (alias_view L xs)) = xs"
  by (simp add: RemoveStatusCondition_def conditions_ok_def alias_view_def detached_def)

lemma cur_alias_view [simp]: "cur (alias_view L xs) = xs"
  by (simp add: alias_view_def)

lemmas detached_rules = detached_Set detached_Remove detached_Remove_alias

text \<open>Fields not enforced, by value.\<close>

definition fields_condition :: "int64 \<Rightarrow> string list \<Rightarrow> Condition" where
  "fields_condition generation names =
     mk_condition fieldsNotEnforcedCondition ConditionTrue generation ''AcceptedNotEnforced''
       (join '', '' names @ '' '' @ (if length names > 1 then ''are'' else ''is'') @
        '' accepted but not acted on by the v1alpha1 operator. See docs/api-field-support.md.'')"

definition put_fields :: "time \<Rightarrow> int64 \<Rightarrow> string list \<Rightarrow> Condition list \<Rightarrow> Condition list" where
  "put_fields t generation names xs =
     (if names = [] then drop_condition fieldsNotEnforcedCondition xs
      else put_condition t (fields_condition generation names) xs)"

lemma setFields_eq:
  "setFieldsNotEnforcedCondition L t generation names v =
     (if names = [] then RemoveStatusCondition L fieldsNotEnforcedCondition v
      else SetStatusCondition L t (fields_condition generation names) v)"
  by (simp add: setFieldsNotEnforcedCondition_def fields_condition_def Let_def)

lemma cur_setFields:
  "conditions_ok L \<Longrightarrow>
     cur (setFieldsNotEnforcedCondition L t generation names v) =
     put_fields t generation names (cur v)"
  by (simp add: setFields_eq put_fields_def cur_SetStatusCondition cur_RemoveStatusCondition)

lemma detached_setFields:
  "detached v \<Longrightarrow>
     detached (setFieldsNotEnforcedCondition L t generation names v) \<and>
     orig (setFieldsNotEnforcedCondition L t generation names v) = orig v"
  by (simp add: setFields_eq detached_rules)

lemma type_fields_condition [simp]:
  "cnType (fields_condition generation names) = fieldsNotEnforcedCondition"
  by (simp add: fields_condition_def)

lemma find_put_fields:
  "ty \<noteq> fieldsNotEnforcedCondition \<Longrightarrow>
     find_condition ty (put_fields t generation names xs) = find_condition ty xs"
  by (simp add: put_fields_def find_drop_condition find_put_condition)

lemmas condition_values =
  cur_SetStatusCondition cur_RemoveStatusCondition cur_setFields

end
