(* ===== verification/Snapshot.thy ===== *)
theory Snapshot
  imports Conditions
begin

text \<open>
  Reads that are answered from one state of the cluster, for the properties that say what a
  handler decides. A \<open>snapshot\<close> is what the API server stores; \<open>answers_from K view\<close> is the
  hypothesis that the server's reads return what the snapshot of its world holds (an error
  of the kind not-found for what it does not hold), and that neither a read nor the clock
  changes it. Nothing is assumed of writes. A theory of the same name closes with a server and
  a library that satisfy every hypothesis of the development, for the witnesses.
\<close>

section \<open>Snapshots\<close>

record snapshot =
  s_ClusterMember :: "string \<rightharpoonup> ClusterMember"
  s_Federation :: "string \<rightharpoonup> Federation"
  s_Workload :: "ObjectKey \<rightharpoonup> Workload"
  s_ServiceEndpoint :: "ObjectKey \<rightharpoonup> ServiceEndpoint"
  s_DatastoreBinding :: "ObjectKey \<rightharpoonup> DatastoreBinding"
  s_Deployment :: "ObjectKey \<rightharpoonup> Deployment"
  s_Service :: "ObjectKey \<rightharpoonup> Service"
  s_Secret :: "ObjectKey \<rightharpoonup> Secret"
  s_ConfigMap :: "ObjectKey \<rightharpoonup> ConfigMap"

definition reply :: "'a option \<Rightarrow> error + 'a \<Rightarrow> bool" where
  "reply stored r \<longleftrightarrow>
     (case stored of None \<Rightarrow> \<exists>m. r = Inl (NotFound m) | Some x \<Rightarrow> r = Inr x)"

definition answered :: "('w \<Rightarrow> 'v) \<Rightarrow> ('w \<Rightarrow> 'a \<times> 'w) \<Rightarrow> ('v \<Rightarrow> 'a \<Rightarrow> bool) \<Rightarrow> bool" where
  "answered view f ok \<longleftrightarrow>
     (\<forall>w. case f w of (a, w') \<Rightarrow> ok (view w) a \<and> view w' = view w)"

text \<open>
  Cluster-scoped objects are stored by name. A list with a selector returns the stored members
  whose labels match, each once, under the name it is stored by.
\<close>

definition listed_members :: "snapshot \<Rightarrow> (strmap \<Rightarrow> bool) \<Rightarrow> ClusterMember list \<Rightarrow> bool" where
  "listed_members V sel ms \<longleftrightarrow>
     distinct (map (\<lambda>m. mName (cmMeta m)) ms) \<and>
     (\<forall>m. m \<in> set ms \<longleftrightarrow>
        s_ClusterMember V (mName (cmMeta m)) = Some m \<and> sel (mLabels (cmMeta m)))"

definition answers_from :: "'w kube \<Rightarrow> ('w \<Rightarrow> snapshot) \<Rightarrow> bool" where
  "answers_from K view \<longleftrightarrow>
     answered view (k_Now K) (\<lambda>_ _. True) \<and>
     (\<forall>k. answered view (k_GetClusterMember K k) (\<lambda>V. reply (s_ClusterMember V (kName k)))) \<and>
     (\<forall>k. answered view (k_GetFederation K k) (\<lambda>V. reply (s_Federation V (kName k)))) \<and>
     (\<forall>k. answered view (k_GetWorkload K k) (\<lambda>V. reply (s_Workload V k))) \<and>
     (\<forall>k. answered view (k_GetServiceEndpoint K k) (\<lambda>V. reply (s_ServiceEndpoint V k))) \<and>
     (\<forall>k. answered view (k_GetDatastoreBinding K k) (\<lambda>V. reply (s_DatastoreBinding V k))) \<and>
     (\<forall>k. answered view (k_GetDeployment K k) (\<lambda>V. reply (s_Deployment V k))) \<and>
     (\<forall>k. answered view (k_GetService K k) (\<lambda>V. reply (s_Service V k))) \<and>
     (\<forall>k. answered view (k_GetSecret K k) (\<lambda>V. reply (s_Secret V k))) \<and>
     (\<forall>k. answered view (k_GetConfigMap K k) (\<lambda>V. reply (s_ConfigMap V k))) \<and>
     (\<forall>sel. answered view (k_ListClusterMembers K sel)
        (\<lambda>V r. \<exists>ms. r = Inr ms \<and> listed_members V sel ms))"

text \<open>Objects are stored under their own names.\<close>

definition stored_by_name :: "snapshot \<Rightarrow> bool" where
  "stored_by_name V \<longleftrightarrow>
     (\<forall>n m. s_ClusterMember V n = Some m \<longrightarrow> mName (cmMeta m) = n) \<and>
     (\<forall>n f. s_Federation V n = Some f \<longrightarrow> mName (fedMeta f) = n)"

section \<open>The logic of runs on a snapshot\<close>

text \<open>
  \<open>wpv view m Q V h\<close>: a run of \<open>m\<close> in a world with snapshot \<open>V\<close>, after the trace \<open>h\<close>, ends with a
  result, a snapshot and a trace that satisfy \<open>Q\<close>.
\<close>

definition wpv :: "('w \<Rightarrow> 'v) \<Rightarrow> ('w, 'a) io \<Rightarrow> ('a \<Rightarrow> 'v \<Rightarrow> event list \<Rightarrow> bool) \<Rightarrow>
    'v \<Rightarrow> event list \<Rightarrow> bool" where
  "wpv view m Q V h \<longleftrightarrow>
     (\<forall>s. view (world s) = V \<and> trace s = h \<longrightarrow>
        (case run_state m s of (a, s') \<Rightarrow> Q a (view (world s')) (trace s')))"

named_theorems wpv_intros \<open>introduction rules of the snapshot logic\<close>

lemma wpv_run:
  "wpv view m (\<lambda>a _ es. Q a es) (view w) [] \<Longrightarrow> (case run m w of (a, es, _) \<Rightarrow> Q a es)"
  unfolding wpv_def run_def
  by (auto split: prod.splits) (metis session.select_convs(1,2))

lemma wpv_mono: "wpv view m Q V h \<Longrightarrow> (\<And>a V' h'. Q a V' h' \<Longrightarrow> Q' a V' h') \<Longrightarrow> wpv view m Q' V h"
  unfolding wpv_def by (fastforce split: prod.splits)

text \<open>What holds after every trace, whatever the world, holds here too.\<close>

lemma wpv_wp: "wp m (\<lambda>a h'. \<forall>V'. Q a V' h') h \<Longrightarrow> wpv view m Q V h"
  unfolding wp_def wpv_def by (fastforce split: prod.splits)

lemma wpv_return [wpv_intros]: "Q a V h \<Longrightarrow> wpv view (State_Monad.return a) Q V h"
  by (simp add: wpv_def)

lemma wpv_bind [wpv_intros]:
  "wpv view m (\<lambda>a V' h'. wpv view (f a) Q V' h') V h \<Longrightarrow> wpv view (State_Monad.bind m f) Q V h"
  unfolding wpv_def by (fastforce split: prod.splits)

lemma wpv_checked [wpv_intros]:
  "wpv view m (\<lambda>r V' h'. (\<forall>e. r = Inl e \<longrightarrow> Q (Inl e) V' h') \<and>
     (\<forall>x. r = Inr x \<longrightarrow> wpv view (f x) Q V' h')) V h \<Longrightarrow>
   wpv view (checked m f) Q V h"
  unfolding checked_def
  by (rule wpv_bind, erule wpv_mono) (auto split: sum.splits intro: wpv_return)

lemma wpv_sum [wpv_intros]:
  "(\<And>e. r = Inl e \<Longrightarrow> wpv view (f e) Q V h) \<Longrightarrow> (\<And>x. r = Inr x \<Longrightarrow> wpv view (g x) Q V h) \<Longrightarrow>
   wpv view (case r of Inl e \<Rightarrow> f e | Inr x \<Rightarrow> g x) Q V h"
  by (cases r) auto

lemma wpv_option [wpv_intros]:
  "(r = None \<Longrightarrow> wpv view f Q V h) \<Longrightarrow> (\<And>x. r = Some x \<Longrightarrow> wpv view (g x) Q V h) \<Longrightarrow>
   wpv view (case r of None \<Rightarrow> f | Some x \<Rightarrow> g x) Q V h"
  by (cases r) auto

lemma wpv_prod [wpv_intros]:
  "(\<And>a b. r = (a, b) \<Longrightarrow> wpv view (f a b) Q V h) \<Longrightarrow>
   wpv view (case r of (a, b) \<Rightarrow> f a b) Q V h"
  by (cases r) auto

lemma wpv_if [wpv_intros]:
  "(b \<Longrightarrow> wpv view m Q V h) \<Longrightarrow> (\<not> b \<Longrightarrow> wpv view n Q V h) \<Longrightarrow>
   wpv view (if b then m else n) Q V h"
  by auto

lemma wpv_Let [wpv_intros]: "wpv view (f a) Q V h \<Longrightarrow> wpv view (let x = a in f x) Q V h"
  by simp

lemma wpv_answered:
  "answered view f ok \<Longrightarrow> (\<And>a. ok V a \<Longrightarrow> Q a V (h @ [ev a])) \<Longrightarrow> wpv view (call f ev) Q V h"
  by (auto simp: wpv_def call_def answered_def Let_def split: prod.splits)

lemma wpv_clock [wpv_intros]:
  "answers_from K view \<Longrightarrow> (\<And>t. Q t V h) \<Longrightarrow> wpv view (clock K) Q V h"
  by (auto simp: wpv_def clock_def answers_from_def answered_def Let_def split: prod.splits)

lemma reply_cases:
  "reply stored r \<Longrightarrow> (\<And>m. stored = None \<Longrightarrow> r = Inl (NotFound m) \<Longrightarrow> P) \<Longrightarrow>
     (\<And>x. stored = Some x \<Longrightarrow> r = Inr x \<Longrightarrow> P) \<Longrightarrow> P"
  by (auto simp: reply_def split: option.splits)

text \<open>A read with its two answers.\<close>

lemma wpv_reply:
  assumes "answered view f (\<lambda>V. reply (stored V))"
    and "\<And>m. stored V = None \<Longrightarrow> Q (Inl (NotFound m)) V (h @ [ev (Inl (NotFound m))])"
    and "\<And>x. stored V = Some x \<Longrightarrow> Q (Inr x) V (h @ [ev (Inr x)])"
  shows "wpv view (call f ev) Q V h"
  by (rule wpv_answered [OF assms(1)]) (auto elim!: reply_cases intro: assms(2,3))

lemma wpv_get_ClusterMember [wpv_intros]:
  assumes "answers_from K view"
    and "\<And>m. s_ClusterMember V (kName k) = None \<Longrightarrow>
      Q (Inl (NotFound m)) V (h @ [GotClusterMember k (Inl (NotFound m))])"
    and "\<And>x. s_ClusterMember V (kName k) = Some x \<Longrightarrow> Q (Inr x) V (h @ [GotClusterMember k (Inr x)])"
  shows "wpv view (get_ClusterMember K k) Q V h"
  unfolding get_ClusterMember_def
  by (rule wpv_reply [where stored = "\<lambda>V. s_ClusterMember V (kName k)"])
     (use assms in \<open>auto simp: answers_from_def\<close>)

lemma wpv_get_Federation [wpv_intros]:
  assumes "answers_from K view"
    and "\<And>m. s_Federation V (kName k) = None \<Longrightarrow>
      Q (Inl (NotFound m)) V (h @ [GotFederation k (Inl (NotFound m))])"
    and "\<And>x. s_Federation V (kName k) = Some x \<Longrightarrow> Q (Inr x) V (h @ [GotFederation k (Inr x)])"
  shows "wpv view (get_Federation K k) Q V h"
  unfolding get_Federation_def
  by (rule wpv_reply [where stored = "\<lambda>V. s_Federation V (kName k)"])
     (use assms in \<open>auto simp: answers_from_def\<close>)

lemma wpv_get_Workload [wpv_intros]:
  assumes "answers_from K view"
    and "\<And>m. s_Workload V k = None \<Longrightarrow> Q (Inl (NotFound m)) V (h @ [GotWorkload k (Inl (NotFound m))])"
    and "\<And>x. s_Workload V k = Some x \<Longrightarrow> Q (Inr x) V (h @ [GotWorkload k (Inr x)])"
  shows "wpv view (get_Workload K k) Q V h"
  unfolding get_Workload_def
  by (rule wpv_reply [where stored = "\<lambda>V. s_Workload V k"])
     (use assms in \<open>auto simp: answers_from_def\<close>)

lemma wpv_get_ServiceEndpoint [wpv_intros]:
  assumes "answers_from K view"
    and "\<And>m. s_ServiceEndpoint V k = None \<Longrightarrow>
      Q (Inl (NotFound m)) V (h @ [GotServiceEndpoint k (Inl (NotFound m))])"
    and "\<And>x. s_ServiceEndpoint V k = Some x \<Longrightarrow> Q (Inr x) V (h @ [GotServiceEndpoint k (Inr x)])"
  shows "wpv view (get_ServiceEndpoint K k) Q V h"
  unfolding get_ServiceEndpoint_def
  by (rule wpv_reply [where stored = "\<lambda>V. s_ServiceEndpoint V k"])
     (use assms in \<open>auto simp: answers_from_def\<close>)

lemma wpv_get_DatastoreBinding [wpv_intros]:
  assumes "answers_from K view"
    and "\<And>m. s_DatastoreBinding V k = None \<Longrightarrow>
      Q (Inl (NotFound m)) V (h @ [GotDatastoreBinding k (Inl (NotFound m))])"
    and "\<And>x. s_DatastoreBinding V k = Some x \<Longrightarrow> Q (Inr x) V (h @ [GotDatastoreBinding k (Inr x)])"
  shows "wpv view (get_DatastoreBinding K k) Q V h"
  unfolding get_DatastoreBinding_def
  by (rule wpv_reply [where stored = "\<lambda>V. s_DatastoreBinding V k"])
     (use assms in \<open>auto simp: answers_from_def\<close>)

lemma wpv_get_Deployment [wpv_intros]:
  assumes "answers_from K view"
    and "\<And>m. s_Deployment V k = None \<Longrightarrow> Q (Inl (NotFound m)) V (h @ [GotDeployment k (Inl (NotFound m))])"
    and "\<And>x. s_Deployment V k = Some x \<Longrightarrow> Q (Inr x) V (h @ [GotDeployment k (Inr x)])"
  shows "wpv view (get_Deployment K k) Q V h"
  unfolding get_Deployment_def
  by (rule wpv_reply [where stored = "\<lambda>V. s_Deployment V k"])
     (use assms in \<open>auto simp: answers_from_def\<close>)

lemma wpv_get_Service [wpv_intros]:
  assumes "answers_from K view"
    and "\<And>m. s_Service V k = None \<Longrightarrow> Q (Inl (NotFound m)) V (h @ [GotService k (Inl (NotFound m))])"
    and "\<And>x. s_Service V k = Some x \<Longrightarrow> Q (Inr x) V (h @ [GotService k (Inr x)])"
  shows "wpv view (get_Service K k) Q V h"
  unfolding get_Service_def
  by (rule wpv_reply [where stored = "\<lambda>V. s_Service V k"])
     (use assms in \<open>auto simp: answers_from_def\<close>)

lemma wpv_get_Secret [wpv_intros]:
  assumes "answers_from K view"
    and "\<And>m. s_Secret V k = None \<Longrightarrow> Q (Inl (NotFound m)) V (h @ [GotSecret k (Inl (NotFound m))])"
    and "\<And>x. s_Secret V k = Some x \<Longrightarrow> Q (Inr x) V (h @ [GotSecret k (Inr x)])"
  shows "wpv view (get_Secret K k) Q V h"
  unfolding get_Secret_def
  by (rule wpv_reply [where stored = "\<lambda>V. s_Secret V k"])
     (use assms in \<open>auto simp: answers_from_def\<close>)

lemma wpv_get_ConfigMap [wpv_intros]:
  assumes "answers_from K view"
    and "\<And>m. s_ConfigMap V k = None \<Longrightarrow> Q (Inl (NotFound m)) V (h @ [GotConfigMap k (Inl (NotFound m))])"
    and "\<And>x. s_ConfigMap V k = Some x \<Longrightarrow> Q (Inr x) V (h @ [GotConfigMap k (Inr x)])"
  shows "wpv view (get_ConfigMap K k) Q V h"
  unfolding get_ConfigMap_def
  by (rule wpv_reply [where stored = "\<lambda>V. s_ConfigMap V k"])
     (use assms in \<open>auto simp: answers_from_def\<close>)

lemma wpv_list_ClusterMembers [wpv_intros]:
  assumes "answers_from K view"
    and "\<And>ms. listed_members V sel ms \<Longrightarrow> Q (Inr ms) V (h @ [ListedClusterMembers sel (Inr ms)])"
  shows "wpv view (list_ClusterMembers K sel) Q V h"
  unfolding list_ClusterMembers_def
  by (rule wpv_answered [where ok = "\<lambda>V r. \<exists>ms. r = Inr ms \<and> listed_members V sel ms"])
     (use assms in \<open>auto simp: answers_from_def\<close>)

end
