(* ===== verification/Read_Logic.thy ===== *)
theory Read_Logic
  imports Snapshot
begin

text \<open>
  The events that read and those that write, and two judgements for the parts of a handler
  that only read: what they answer on a snapshot, and what they leave in the trace on any
  server.
\<close>

section \<open>Kinds of events\<close>

primrec is_read :: "event \<Rightarrow> bool" where
  "is_read (GotClusterMember k r) = True"
| "is_read (GotFederation k r) = True"
| "is_read (GotWorkload k r) = True"
| "is_read (GotServiceEndpoint k r) = True"
| "is_read (GotDatastoreBinding k r) = True"
| "is_read (GotDeployment k r) = True"
| "is_read (GotService k r) = True"
| "is_read (GotSecret k r) = True"
| "is_read (GotConfigMap k r) = True"
| "is_read (ListedClusterMembers sel r) = True"
| "is_read (ListedFederations r) = True"
| "is_read (UpdatedServiceEndpoint x r) = False"
| "is_read (UpdatedDatastoreBinding x r) = False"
| "is_read (StatusClusterMember x s) = False"
| "is_read (StatusFederation x s) = False"
| "is_read (StatusWorkload x s) = False"
| "is_read (StatusServiceEndpoint x s) = False"
| "is_read (StatusDatastoreBinding x s) = False"
| "is_read (AppliedDeployment x f s) = False"
| "is_read (AppliedService x f s) = False"
| "is_read (PatchedService x y s) = False"
| "is_read (DeletedService x s) = False"

abbreviation reads :: "event list \<Rightarrow> bool" where
  "reads es \<equiv> list_all is_read es"

text \<open>The events that change the cluster, in their order.\<close>

definition writes :: "event list \<Rightarrow> event list" where
  "writes es = filter (\<lambda>e. \<not> is_read e) es"

lemma writes_append [simp]: "writes (es @ es') = writes es @ writes es'"
  by (simp add: writes_def)

lemma writes_Cons [simp]: "writes (e # es) = (if is_read e then writes es else e # writes es)"
  by (simp add: writes_def)

lemma writes_Nil [simp]: "writes [] = []"
  by (simp add: writes_def)

lemma writes_reads [simp]: "reads es \<Longrightarrow> writes es = []"
  by (auto simp: writes_def filter_empty_conv list_all_iff)

lemma admissible_reads:
  "reads es \<Longrightarrow> (\<And>b e. is_read e \<Longrightarrow> ok b e) \<Longrightarrow> admissible ok before es"
  by (induction es arbitrary: before) auto

text \<open>\<open>h'\<close> is the trace \<open>h\<close> with reads after it.\<close>

definition reads_after :: "event list \<Rightarrow> event list \<Rightarrow> bool" where
  "reads_after h h' \<longleftrightarrow> (\<exists>es. h' = h @ es \<and> reads es)"

lemma reads_after_refl [simp]: "reads_after h h"
  by (simp add: reads_after_def)

lemma reads_after_append [simp]: "reads_after h (h @ es) \<longleftrightarrow> reads es"
  by (auto simp: reads_after_def)

lemma reads_after_step [simp]: "reads_after h h' \<Longrightarrow> reads es \<Longrightarrow> reads_after h (h' @ es)"
  by (auto simp: reads_after_def)

lemma reads_after_shorter [dest]: "reads_after (h @ es) h' \<Longrightarrow> reads es \<Longrightarrow> reads_after h h'"
  by (auto simp: reads_after_def)

lemma reads_after_trans: "reads_after h h' \<Longrightarrow> reads_after h' h'' \<Longrightarrow> reads_after h h''"
  by (auto simp: reads_after_def)

lemma reads_after_writes: "reads_after h h' \<Longrightarrow> writes h' = writes h"
  by (auto simp: reads_after_def)

lemma reads_after_set: "reads_after h h' \<Longrightarrow> set h \<subseteq> set h'"
  by (auto simp: reads_after_def)

lemma reads_after_admissible:
  "reads_after h h' \<Longrightarrow> admissible ok [] h \<Longrightarrow> (\<And>b e. is_read e \<Longrightarrow> ok b e) \<Longrightarrow> admissible ok [] h'"
  using admissible_reads [of _ ok h] by (auto simp: reads_after_def)

lemma admissible_mem: "admissible ok before es \<Longrightarrow> e \<in> set es \<Longrightarrow> \<exists>b. ok b e"
  by (induction es arbitrary: before) auto

section \<open>Parts that only read\<close>

text \<open>On the snapshot \<open>V\<close>, \<open>m\<close> reads only, succeeds and returns a value that satisfies \<open>P\<close>.\<close>

definition answers_so :: "('w \<Rightarrow> 'v) \<Rightarrow> ('w, error + 'a) io \<Rightarrow> 'v \<Rightarrow> ('a \<Rightarrow> bool) \<Rightarrow> bool" where
  "answers_so view m V P \<longleftrightarrow>
     (\<forall>h. wpv view m (\<lambda>r V' h'. V' = V \<and> reads_after h h' \<and> (\<exists>a. r = Inr a \<and> P a)) V h)"

lemma wpv_answers:
  assumes "answers_so view m V P"
    and "\<And>a h'. reads_after h h' \<Longrightarrow> P a \<Longrightarrow> Q (Inr a) V h'"
  shows "wpv view m Q V h"
  by (rule wpv_mono [where Q = "\<lambda>r V' h'. V' = V \<and> reads_after h h' \<and> (\<exists>a. r = Inr a \<and> P a)"])
     (use assms in \<open>auto simp: answers_so_def\<close>)

lemma answers_soI:
  "(\<And>h. wpv view m (\<lambda>r V' h'. V' = V \<and> reads_after h h' \<and> (\<exists>a. r = Inr a \<and> P a)) V h) \<Longrightarrow>
     answers_so view m V P"
  by (simp add: answers_so_def)

lemma answers_so_return: "P a \<Longrightarrow> answers_so view (State_Monad.return (Inr a)) V P"
  by (simp add: answers_so_def wpv_def)

lemma answers_so_checked:
  assumes "answers_so view m V P" and "\<And>a. P a \<Longrightarrow> answers_so view (f a) V P'"
  shows "answers_so view (checked m f) V P'"
  by (rule answers_soI, rule wpv_checked, rule wpv_answers [OF assms(1)])
     (auto intro!: wpv_answers [OF assms(2)] intro: reads_after_trans)

text \<open>On any server, \<open>m\<close> reads only, and its result and the trace after it satisfy \<open>P\<close>.\<close>

definition reads_then :: "('w, 'a) io \<Rightarrow> ('a \<Rightarrow> event list \<Rightarrow> bool) \<Rightarrow> bool" where
  "reads_then m P \<longleftrightarrow> (\<forall>h. wp m (\<lambda>r h'. reads_after h h' \<and> P r h') h)"

lemma wp_reads:
  assumes "reads_then m P" and "\<And>r h'. reads_after h h' \<Longrightarrow> P r h' \<Longrightarrow> Q r h'"
  shows "wp m Q h"
  by (rule wp_mono [where Q = "\<lambda>r h'. reads_after h h' \<and> P r h'"])
     (use assms in \<open>auto simp: reads_then_def\<close>)

lemma reads_thenI:
  "(\<And>h. wp m (\<lambda>r h'. reads_after h h' \<and> P r h') h) \<Longrightarrow> reads_then m P"
  by (simp add: reads_then_def)

lemma reads_then_return [simp]: "reads_then (State_Monad.return a) P \<longleftrightarrow> (\<forall>h. P a h)"
  by (simp add: reads_then_def wp_def) (metis session.select_convs(2))

lemma reads_then_checked:
  assumes "reads_then m P" and "\<And>e h. P (Inl e) h \<Longrightarrow> P' (Inl e) h"
    and "\<And>x. reads_then (f x) (\<lambda>r h. (\<exists>h0. reads_after h0 h \<and> P (Inr x) h0) \<longrightarrow> P' r h)"
  shows "reads_then (checked m f) P'"
proof (rule reads_thenI, rule wp_checked, rule wp_reads [OF assms(1)], intro conjI allI impI)
  fix h h' r x
  assume after: "reads_after h h'" and P: "P r h'" and r: "r = Inr x"
  show "wp (f x) (\<lambda>r h''. reads_after h h'' \<and> P' r h'') h'"
    by (rule wp_reads [OF assms(3)]) (use P r in \<open>auto intro: reads_after_trans [OF after]\<close>)
qed (use assms(2) in auto)

text \<open>What a trace holds stays in it.\<close>

definition lasting :: "(event list \<Rightarrow> bool) \<Rightarrow> bool" where
  "lasting A \<longleftrightarrow> (\<forall>h h'. set h \<subseteq> set h' \<longrightarrow> A h \<longrightarrow> A h')"

lemma lasting_after: "lasting A \<Longrightarrow> reads_after h h' \<Longrightarrow> A h \<Longrightarrow> A h'"
  unfolding lasting_def by (meson reads_after_set)

end
