(* ===== verification/Status_Contract.thy ===== *)
theory Status_Contract
  imports Read_Logic
begin

text \<open>
  The contract that the status functions of the controllers share. Each compares the status
  it wants with the status it read and writes the object at most once.
\<close>

section \<open>The contract\<close>

text \<open>
  \<open>writer L K x\<close> handles the input \<open>x\<close>. When the input is settled it may end without a call;
  otherwise it stores the wanted object, which depends on the readings of the clock, and
  ends with the answer of the server.
\<close>

locale status_writer =
  fixes writer :: "lib \<Rightarrow> 'w kube \<Rightarrow> 'x \<Rightarrow> ('w, error + unit) io"
    and event :: "'o \<Rightarrow> error + unit \<Rightarrow> event"
    and wanted :: "lib \<Rightarrow> 'x \<Rightarrow> time list \<Rightarrow> 'o"
    and settled :: "lib \<Rightarrow> 'x \<Rightarrow> bool"
  assumes contract:
    "conditions_ok L \<Longrightarrow> equality_ok L \<Longrightarrow> (settled L x \<Longrightarrow> Q (Inr ()) h) \<Longrightarrow>
       (\<And>ts r. Q r (h @ [event (wanted L x ts) r])) \<Longrightarrow> wp (writer L K x) Q h"
begin

lemma writes_once:
  assumes "conditions_ok L" and "equality_ok L"
  shows "in_every_run (writer L K x)
    (\<lambda>r es. es = [] \<and> settled L x \<and> r = Inr () \<or> (\<exists>ts. es = [event (wanted L x ts) r]))"
  by (rule in_every_run_wp, rule contract [OF assms]) auto

lemma writes_unless_settled:
  assumes "conditions_ok L" and "equality_ok L" and "\<not> settled L x"
  shows "in_every_run (writer L K x) (\<lambda>r es. \<exists>ts. es = [event (wanted L x ts) r])"
  by (rule in_every_run_wp, rule contract [OF assms(1,2)]) (use assms(3) in auto)

lemma fails_only_by_write:
  assumes "conditions_ok L" and "equality_ok L"
  shows "in_every_run (writer L K x)
    (\<lambda>r es. \<forall>e. r = Inl e \<longrightarrow> (\<exists>ts. es = [event (wanted L x ts) (Inl e)]))"
  by (rule in_every_run_wp, rule contract [OF assms]) auto

end

text \<open>
  A writer that stays quiet on settled input: a second pass over an object that shows what is
  wanted makes no call, so that a controller does not trigger itself.
\<close>

locale quiet_status_writer = status_writer +
  assumes quiet:
    "conditions_ok L \<Longrightarrow> equality_ok L \<Longrightarrow> settled L x \<Longrightarrow> Q (Inr ()) h \<Longrightarrow> wp (writer L K x) Q h"
begin

lemma silent_when_settled:
  assumes "conditions_ok L" and "equality_ok L" and "settled L x"
  shows "in_every_run (writer L K x) (\<lambda>r es. r = Inr () \<and> es = [])"
  by (rule in_every_run_wp, rule quiet [OF assms]) auto

end

section \<open>The conditions of a status\<close>

text \<open>
  The status functions of the Workload, the ServiceEndpoint and the DatastoreBinding drop the
  conditions of some types, put some conditions, and put the condition of the fields that are
  not enforced. \<open>ts\<close> holds the readings of the clock.
\<close>

primrec put_all :: "time list \<Rightarrow> Condition list \<Rightarrow> Condition list \<Rightarrow> Condition list" where
  "put_all ts [] xs = xs"
| "put_all ts (c # cs) xs = put_all (tl ts) cs (put_condition (hd ts) c xs)"

definition settle_conditions ::
  "string list \<Rightarrow> Condition list \<Rightarrow> int64 \<Rightarrow> string list \<Rightarrow> time list \<Rightarrow> Condition list \<Rightarrow> Condition list"
where
  "settle_conditions drops puts generation names ts xs =
     put_fields (ts ! length puts) generation names
       (put_all ts puts (fold drop_condition drops xs))"

text \<open>The types that are dropped, put and reserved for the fields not enforced are different.\<close>

definition settle_types :: "string list \<Rightarrow> Condition list \<Rightarrow> bool" where
  "settle_types drops puts \<longleftrightarrow>
     distinct (map cnType puts) \<and> set drops \<inter> cnType ` set puts = {} \<and>
     fieldsNotEnforcedCondition \<notin> set drops \<union> cnType ` set puts"

lemma find_put_all:
  "ty \<notin> cnType ` set cs \<Longrightarrow> find_condition ty (put_all ts cs xs) = find_condition ty xs"
  by (induction cs arbitrary: ts xs) (auto simp: find_put_condition)

lemma shows_find:
  "find_condition (cnType c) xs = find_condition (cnType c) ys \<Longrightarrow>
     shows_condition c xs = shows_condition c ys"
  by (simp add: shows_condition_def)

lemma shows_put_all:
  "distinct (map cnType cs) \<Longrightarrow> c \<in> set cs \<Longrightarrow> shows_condition c (put_all ts cs xs)"
proof (induction cs arbitrary: ts xs)
  case (Cons d cs)
  show ?case
  proof (cases "c \<in> set cs")
    case True
    with Cons show ?thesis by simp
  next
    case False
    with Cons.prems have c: "c = d" and "cnType d \<notin> cnType ` set cs" by auto
    then have "find_condition (cnType d) (put_all (tl ts) cs (put_condition (hd ts) d xs)) =
        find_condition (cnType d) (put_condition (hd ts) d xs)"
      by (intro find_put_all)
    then show ?thesis
      using shows_find [of d] shows_put_condition by (simp add: c)
  qed
qed simp

lemma put_all_shown: "list_all (\<lambda>c. shows_condition c xs) cs \<Longrightarrow> put_all ts cs xs = xs"
  by (induction cs arbitrary: ts) (auto simp: put_condition_shown)

lemma find_drops:
  "find_condition ty (fold drop_condition drops xs) =
     (if ty \<in> set drops then None else find_condition ty xs)"
  by (induction drops arbitrary: xs) (auto simp: find_drop_condition)

lemma find_put_fields_reserved:
  "find_condition fieldsNotEnforcedCondition (put_fields t generation names xs) = None \<longleftrightarrow> names = []"
  by (simp add: put_fields_def find_drop_condition find_put_condition)

text \<open>What the resulting conditions say.\<close>

lemma settle_find_other:
  "ty \<noteq> fieldsNotEnforcedCondition \<Longrightarrow> ty \<notin> cnType ` set puts \<Longrightarrow>
     find_condition ty (settle_conditions drops puts generation names ts xs) =
       (if ty \<in> set drops then None else find_condition ty xs)"
  by (simp add: settle_conditions_def find_put_fields find_put_all find_drops)

lemma settle_shows:
  assumes "settle_types drops puts" and "c \<in> set puts"
  shows "shows_condition c (settle_conditions drops puts generation names ts xs)"
proof -
  have "cnType c \<noteq> fieldsNotEnforcedCondition"
    using assms unfolding settle_types_def by (metis UnI2 image_eqI)
  then have "find_condition (cnType c) (settle_conditions drops puts generation names ts xs) =
      find_condition (cnType c) (put_all ts puts (fold drop_condition drops xs))"
    by (simp add: settle_conditions_def find_put_fields)
  then show ?thesis
    using assms shows_put_all shows_find [of c] by (auto simp: settle_types_def)
qed

lemma settle_fields:
  "names \<noteq> [] \<Longrightarrow> shows_condition (fields_condition generation names)
     (settle_conditions drops puts generation names ts xs)"
  by (simp add: settle_conditions_def put_fields_def shows_put_condition)

lemma distinct_put_all [simp]:
  "distinct (map cnType xs) \<Longrightarrow> distinct (map cnType (put_all ts cs xs))"
  by (induction cs arbitrary: ts xs) auto

lemma distinct_drops [simp]:
  "distinct (map cnType xs) \<Longrightarrow> distinct (map cnType (fold drop_condition drops xs))"
  by (induction drops arbitrary: xs) auto

lemma distinct_settle:
  "distinct (map cnType xs) \<Longrightarrow>
     distinct (map cnType (settle_conditions drops puts generation names ts xs))"
  by (simp add: settle_conditions_def put_fields_def)

text \<open>Whether the conditions are settled does not depend on the clock.\<close>

lemma settle_any_time:
  assumes types: "settle_types drops puts"
    and same: "settle_conditions drops puts generation names ts xs = xs"
  shows "settle_conditions drops puts generation names ts' xs = xs"
proof -
  let ?ys = "fold drop_condition drops xs"
  have shown: "shows_condition c ?ys" if "c \<in> set puts \<or> names \<noteq> [] \<and> c = fields_condition generation names" for c
  proof -
    have "shows_condition c xs"
      using that settle_shows [OF types] settle_fields [of names generation drops puts ts xs] same
      by metis
    moreover have "cnType c \<notin> set drops"
      using that types by (auto simp: settle_types_def)
    ultimately show ?thesis
      using shows_find [of c ?ys xs] by (simp add: find_drops)
  qed
  then have puts: "put_all us puts ?ys = ?ys" for us
    by (intro put_all_shown) (simp add: list_all_iff)
  have "put_fields u generation names ?ys = put_fields u' generation names ?ys" for u u'
    using shown by (auto simp: put_fields_def put_condition_shown)
  then have "settle_conditions drops puts generation names ts' xs =
      settle_conditions drops puts generation names ts xs"
    unfolding settle_conditions_def puts .
  with same show ?thesis by simp
qed

text \<open>Conditions that were settled stay as they are when they are settled again.\<close>

lemma drops_absent:
  "list_all (\<lambda>ty. find_condition ty xs = None) drops \<Longrightarrow> fold drop_condition drops xs = xs"
  by (induction drops) (simp_all add: drop_condition_absent)

lemma settle_again:
  assumes types: "settle_types drops puts"
  shows "settle_conditions drops puts generation names ts'
      (settle_conditions drops puts generation names ts xs) =
    settle_conditions drops puts generation names ts xs"
proof -
  let ?ys = "settle_conditions drops puts generation names ts xs"
  have "find_condition ty ?ys = None" if "ty \<in> set drops" for ty
  proof -
    have "ty \<noteq> fieldsNotEnforcedCondition" "ty \<notin> cnType ` set puts"
      using that types unfolding settle_types_def by blast+
    then show ?thesis using that by (simp add: settle_find_other)
  qed
  then have "fold drop_condition drops ?ys = ?ys"
    by (intro drops_absent) (simp add: list_all_iff)
  moreover have "put_all ts' puts ?ys = ?ys"
    using settle_shows [OF types] by (intro put_all_shown) (simp add: list_all_iff)
  moreover have "put_fields t generation names ?ys = ?ys" for t
  proof (cases "names = []")
    case True
    then have "find_condition fieldsNotEnforcedCondition ?ys = None"
      unfolding settle_conditions_def by (simp add: find_put_fields_reserved)
    with True show ?thesis by (simp add: put_fields_def drop_condition_absent)
  next
    case False
    then show ?thesis by (simp add: put_fields_def put_condition_shown settle_fields)
  qed
  ultimately show ?thesis
    unfolding settle_conditions_def [of drops puts generation names ts' ?ys] by simp
qed

section \<open>The slices of a status\<close>

text \<open>
  The same on the two slices. A function that removes a condition first leaves the slice it
  read alone, so its comparison is of the status read with the status wanted.
\<close>

primrec set_all :: "lib \<Rightarrow> time list \<Rightarrow> Condition list \<Rightarrow> conditions_view \<Rightarrow> conditions_view" where
  "set_all L ts [] v = v"
| "set_all L ts (c # cs) v = set_all L (tl ts) cs (SetStatusCondition L (hd ts) c v)"

definition settle_view ::
  "lib \<Rightarrow> string list \<Rightarrow> Condition list \<Rightarrow> int64 \<Rightarrow> string list \<Rightarrow> time list \<Rightarrow> conditions_view \<Rightarrow> conditions_view"
where
  "settle_view L drops puts generation names ts v =
     setFieldsNotEnforcedCondition L (ts ! length puts) generation names
       (set_all L ts puts (fold (RemoveStatusCondition L) drops v))"

lemma cur_set_all: "conditions_ok L \<Longrightarrow> cur (set_all L ts cs v) = put_all ts cs (cur v)"
  by (induction cs arbitrary: ts v) (simp_all add: condition_values)

lemma cur_drops:
  "conditions_ok L \<Longrightarrow> cur (fold (RemoveStatusCondition L) drops v) = fold drop_condition drops (cur v)"
  by (induction drops arbitrary: v) (simp_all add: condition_values)

lemma cur_settle:
  "conditions_ok L \<Longrightarrow> cur (settle_view L drops puts generation names ts v) =
     settle_conditions drops puts generation names ts (cur v)"
  by (simp add: settle_view_def settle_conditions_def condition_values cur_set_all cur_drops)

lemma detached_set_all:
  "detached v \<Longrightarrow> detached (set_all L ts cs v) \<and> orig (set_all L ts cs v) = orig v"
  by (induction cs arbitrary: ts v) (simp_all add: detached_rules)

lemma detached_drops:
  "detached v \<Longrightarrow> detached (fold (RemoveStatusCondition L) drops v) \<and>
     orig (fold (RemoveStatusCondition L) drops v) = orig v"
  by (induction drops arbitrary: v) (simp_all add: detached_rules)

lemma orig_settle:
  assumes "conditions_ok L"
  shows "orig (settle_view L (ty # drops) puts generation names ts (alias_view L xs)) = xs"
  using assms
  by (simp add: settle_view_def detached_setFields detached_set_all detached_drops
      detached_Remove_alias)

text \<open>
  Without a condition to remove first, and with a condition of every type that is put, the
  conditions are updated in the array that was read: both slices show the new values.
\<close>

definition in_step :: "conditions_view \<Rightarrow> bool" where
  "in_step v \<longleftrightarrow> shared v \<and> orig v = cur v"

lemma in_step_alias [simp]: "in_step (alias_view L xs)"
  by (simp add: in_step_def alias_view_def)

lemma in_step_Set:
  "conditions_ok L \<Longrightarrow> in_step v \<Longrightarrow> find_condition (cnType c) (cur v) \<noteq> None \<Longrightarrow>
     in_step (SetStatusCondition L t c v) \<and>
     map cnType (cur (SetStatusCondition L t c v)) = map cnType (cur v)"
  by (auto simp: in_step_def SetStatusCondition_def conditions_ok_def)

lemma has_type: "find_condition ty xs \<noteq> None \<longleftrightarrow> ty \<in> set (map cnType xs)"
  by (simp add: find_condition_None)

lemma in_step_set_all:
  "conditions_ok L \<Longrightarrow> in_step v \<Longrightarrow> set (map cnType cs) \<subseteq> set (map cnType (cur v)) \<Longrightarrow>
     in_step (set_all L ts cs v) \<and> map cnType (cur (set_all L ts cs v)) = map cnType (cur v)"
proof (induction cs arbitrary: ts v)
  case (Cons c cs)
  have step: "in_step (SetStatusCondition L (hd ts) c v) \<and>
      map cnType (cur (SetStatusCondition L (hd ts) c v)) = map cnType (cur v)"
    using Cons.prems by (intro in_step_Set) (simp_all only: has_type, simp)
  then have "set (map cnType cs) \<subseteq> set (map cnType (cur (SetStatusCondition L (hd ts) c v)))"
    using Cons.prems by simp
  with Cons.IH [OF Cons.prems(1), of "SetStatusCondition L (hd ts) c v" "tl ts"] step
  show ?case by simp
qed simp

lemma orig_updated:
  assumes ok: "conditions_ok L" and puts: "set (map cnType puts) \<subseteq> set (map cnType xs)"
    and names: "fieldsNotEnforcedCondition \<in> set (map cnType xs) \<longleftrightarrow> names \<noteq> []"
  shows "orig (settle_view L [] puts generation names ts (alias_view L xs)) =
    cur (settle_view L [] puts generation names ts (alias_view L xs))"
proof -
  let ?v = "set_all L ts puts (alias_view L xs)"
  have v: "in_step ?v" "map cnType (cur ?v) = map cnType xs"
    using in_step_set_all [OF ok in_step_alias, of puts L xs ts] puts by simp_all
  show ?thesis
  proof (cases "names = []")
    case True
    then have "drop_condition fieldsNotEnforcedCondition (cur ?v) = cur ?v"
      using names v by (intro drop_condition_absent) (metis has_type)
    moreover have "orig (RemoveStatusCondition L ty ?v) = cur ?v" for ty
      using v ok by (simp add: RemoveStatusCondition_def conditions_ok_def in_step_def)
    ultimately show ?thesis
      using True ok by (simp add: settle_view_def setFields_eq cur_RemoveStatusCondition)
  next
    case False
    then have "find_condition (cnType (fields_condition generation names)) (cur ?v) \<noteq> None"
      unfolding has_type type_fields_condition using False names v by metis
    from in_step_Set [OF ok v(1) this] False show ?thesis
      by (simp add: settle_view_def setFields_eq in_step_def)
  qed
qed

end
