(* ===== verification/ClusterMember_Controller.thy ===== *)
theory ClusterMember_Controller
  imports Status_Contract
begin

text \<open>
  \<open>clustermember_controller.go\<close>: validation of a ClusterMember's spec and its \<open>Ready\<close>
  condition.
\<close>

section \<open>The controller\<close>

definition validateClusterMemberSpec :: "ClusterMemberSpec \<Rightarrow> string" where
  "validateClusterMemberSpec spec =
     (if cmClusterName spec = '''' then ''spec.clusterName must not be empty''
      else if cmProvider spec = '''' then ''spec.provider must not be empty''
      else if cmRegion spec = '''' then ''spec.region must not be empty''
      else '''')"

text \<open>The \<open>Ready\<close> condition that the spec calls for.\<close>

definition clusterMemberReadyCondition :: "ClusterMember \<Rightarrow> Condition" where
  "clusterMemberReadyCondition member =
     (let generation = mGeneration (cmMeta member);
          msg = validateClusterMemberSpec (cmSpec member)
      in if msg \<noteq> '''' then mk_condition ''Ready'' ConditionFalse generation ''InvalidSpec'' msg
         else mk_condition ''Ready'' ConditionTrue generation ''Observed''
                (''ClusterMember '' @ go_quote (mName (cmMeta member)) @
                 '' has been successfully observed.''))"

definition ClusterMember_reconcileStatus ::
  "lib \<Rightarrow> 'w kube \<Rightarrow> ClusterMember \<Rightarrow> ('w, error + unit) io" where
  "ClusterMember_reconcileStatus L K member =
     do {
       now \<leftarrow> clock K;
       t \<leftarrow> clock K;
       let status = cmStatus member;
           generation = mGeneration (cmMeta member);
           v = SetStatusCondition L t (clusterMemberReadyCondition member)
                 (alias_view L (cmsConditions status));
           nextStatus = status\<lparr>cmsObservedGeneration := generation,
             cmsLastObservedAt := Some now, cmsConditions := cur v\<rparr>
       in if l_DeepEqualConditions L (orig v) (cur v)
             \<and> cmsObservedGeneration status = cmsObservedGeneration nextStatus
          then State_Monad.return (Inr ())
          else status_update_ClusterMember K (member\<lparr>cmStatus := nextStatus\<rparr>)
     }"

definition ClusterMember_Reconcile ::
  "lib \<Rightarrow> 'w kube \<Rightarrow> ObjectKey \<Rightarrow> ('w, error + Result) io" where
  "ClusterMember_Reconcile L K req =
     do {
       r \<leftarrow> get_ClusterMember K req;
       case r of
         Inl err \<Rightarrow>
           State_Monad.return (if is_not_found err then Inr no_requeue else Inl err)
       | Inr member \<Rightarrow>
           checked (ClusterMember_reconcileStatus L K member)
             (\<lambda>_. State_Monad.return (Inr no_requeue))
     }"

section \<open>Validation\<close>

definition valid_member_spec :: "ClusterMemberSpec \<Rightarrow> bool" where
  "valid_member_spec spec \<longleftrightarrow>
     cmClusterName spec \<noteq> '''' \<and> cmProvider spec \<noteq> '''' \<and> cmRegion spec \<noteq> ''''"

lemma validate_ok: "validateClusterMemberSpec spec = '''' \<longleftrightarrow> valid_member_spec spec"
  by (simp add: validateClusterMemberSpec_def valid_member_spec_def)

lemma ready_condition_simps [simp]:
  "cnType (clusterMemberReadyCondition m) = ''Ready''"
  "cnObservedGeneration (clusterMemberReadyCondition m) = mGeneration (cmMeta m)"
  "cnStatus (clusterMemberReadyCondition m) =
     (if valid_member_spec (cmSpec m) then ConditionTrue else ConditionFalse)"
  by (simp_all add: clusterMemberReadyCondition_def Let_def validate_ok)

section \<open>The status written\<close>

text \<open>The status that a ClusterMember's controller writes for an object.\<close>

definition member_status_for :: "time \<Rightarrow> time \<Rightarrow> ClusterMember \<Rightarrow> ClusterMemberStatus" where
  "member_status_for now t m =
     \<lparr>cmsObservedGeneration = mGeneration (cmMeta m), cmsLastObservedAt = Some now,
      cmsConditions = put_condition t (clusterMemberReadyCondition m) (cmsConditions (cmStatus m))\<rparr>"

lemma member_status_for_generation [simp]:
  "cmsObservedGeneration (member_status_for now t m) = mGeneration (cmMeta m)"
  by (simp add: member_status_for_def)

text \<open>
  With a \<open>Ready\<close> condition in place, the comparison of the function is of a slice with itself.
\<close>

lemma member_view:
  assumes "conditions_ok L"
  shows "orig (SetStatusCondition L t c (alias_view L xs)) =
    (if find_condition (cnType c) xs = None then xs else put_condition t c xs)"
  using assms
  by (simp add: conditions_ok_def SetStatusCondition_def alias_view_def put_condition_def)

lemma wp_member_status:
  assumes "conditions_ok L" and "equality_ok L"
    and quiet: "find_condition ''Ready'' (cmsConditions (cmStatus m)) \<noteq> None \<Longrightarrow>
      cmsObservedGeneration (cmStatus m) = mGeneration (cmMeta m) \<Longrightarrow> Q (Inr ()) h"
    and stores: "\<And>now t r. find_condition ''Ready'' (cmsConditions (cmStatus m)) = None \<or>
      cmsObservedGeneration (cmStatus m) \<noteq> mGeneration (cmMeta m) \<Longrightarrow>
      Q r (h @ [StatusClusterMember (m\<lparr>cmStatus := member_status_for now t m\<rparr>) r])"
  shows "wp (ClusterMember_reconcileStatus L K m) Q h"
  unfolding ClusterMember_reconcileStatus_def status_update_ClusterMember_def Let_def
proof (intro wp_intros, goal_cases)
  case (1 now t)
  then show ?case
    using assms(1,2) quiet
    by (auto simp: equality_ok_def condition_values member_view put_condition_def
        split: if_splits)
next
  case (2 now t r)
  have "(cmStatus m)\<lparr>cmsObservedGeneration := mGeneration (cmMeta m), cmsLastObservedAt := Some now,
      cmsConditions := put_condition t (clusterMemberReadyCondition m) (cmsConditions (cmStatus m))\<rparr>
    = member_status_for now t m"
    by (simp add: member_status_for_def)
  with 2 show ?case
    using assms(1,2) stores [of r now t]
    by (auto simp: equality_ok_def condition_values member_view split: if_splits)
qed

text \<open>The function fulfils the contract of a status writer; what it takes for settled is weak.\<close>

interpretation member: quiet_status_writer
  ClusterMember_reconcileStatus StatusClusterMember
  "\<lambda>L m ts. m\<lparr>cmStatus := member_status_for (hd ts) (hd (tl ts)) m\<rparr>"
  "\<lambda>L m. find_condition ''Ready'' (cmsConditions (cmStatus m)) \<noteq> None \<and>
     cmsObservedGeneration (cmStatus m) = mGeneration (cmMeta m)"
proof unfold_locales
  fix L and m :: ClusterMember and Q :: "error + unit \<Rightarrow> event list \<Rightarrow> bool" and h and K :: "'w kube"
  assume ok: "conditions_ok L" "equality_ok L"
    and quiet: "find_condition ''Ready'' (cmsConditions (cmStatus m)) \<noteq> None \<and>
      cmsObservedGeneration (cmStatus m) = mGeneration (cmMeta m) \<Longrightarrow> Q (Inr ()) h"
    and stores: "\<And>ts r. Q r (h @ [StatusClusterMember
      (m\<lparr>cmStatus := member_status_for (hd ts) (hd (tl ts)) m\<rparr>) r])"
  show "wp (ClusterMember_reconcileStatus L K m) Q h"
    by (rule wp_member_status [OF ok]) (use quiet stores [of _ "[now, t]" for now t] in auto)
next
  fix L and m :: ClusterMember and Q :: "error + unit \<Rightarrow> event list \<Rightarrow> bool" and h and K :: "'w kube"
  assume "conditions_ok L" "equality_ok L" and "Q (Inr ()) h"
    and "find_condition ''Ready'' (cmsConditions (cmStatus m)) \<noteq> None \<and>
      cmsObservedGeneration (cmStatus m) = mGeneration (cmMeta m)"
  then show "wp (ClusterMember_reconcileStatus L K m) Q h"
    by (intro wp_member_status) auto
qed

lemma wp_member_reconcile:
  assumes "conditions_ok L" and "equality_ok L"
    and failed: "\<And>e. Q (if is_not_found e then Inr no_requeue else Inl e)
      (h @ [GotClusterMember req (Inl e)])"
    and quiet: "\<And>m. find_condition ''Ready'' (cmsConditions (cmStatus m)) \<noteq> None \<Longrightarrow>
      cmsObservedGeneration (cmStatus m) = mGeneration (cmMeta m) \<Longrightarrow>
      Q (Inr no_requeue) (h @ [GotClusterMember req (Inr m)])"
    and stores: "\<And>m now t s. find_condition ''Ready'' (cmsConditions (cmStatus m)) = None \<or>
      cmsObservedGeneration (cmStatus m) \<noteq> mGeneration (cmMeta m) \<Longrightarrow>
      Q (case s of Inl e \<Rightarrow> Inl e | Inr _ \<Rightarrow> Inr no_requeue)
        (h @ [GotClusterMember req (Inr m), StatusClusterMember (m\<lparr>cmStatus := member_status_for now t m\<rparr>) s])"
  shows "wp (ClusterMember_Reconcile L K req) Q h"
  unfolding ClusterMember_Reconcile_def get_ClusterMember_def
proof (intro wp_bind wp_call wp_sum wp_return wp_checked)
  fix r e assume "(r :: error + ClusterMember) = Inl e"
  then show "Q (if is_not_found e then Inr no_requeue else Inl e) (h @ [GotClusterMember req r])"
    using failed by simp
next
  fix r m assume r: "(r :: error + ClusterMember) = Inr m"
  show "wp (ClusterMember_reconcileStatus L K m)
      (\<lambda>r h'. (\<forall>e. r = Inl e \<longrightarrow> Q (Inl e) h') \<and>
        (\<forall>x. r = Inr x \<longrightarrow> wp (State_Monad.return (Inr no_requeue)) Q h'))
      (h @ [GotClusterMember req r])"
    by (rule wp_member_status [OF assms(1,2)])
       (use r quiet [of m] stores [where m = m and s = "Inl e" for e]
         stores [where m = m and s = "Inr ()"] in \<open>auto intro!: wp_return\<close>)
qed

end
