(* ===== verification/Federation_Controller.thy ===== *)
theory Federation_Controller
  imports Status_Contract
begin

text \<open>
  \<open>federation_controller.go\<close>: resolving the members of a Federation, by selector and by name,
  and its status.
\<close>

section \<open>The controller\<close>

definition clusterMemberReady :: "lib \<Rightarrow> ClusterMember \<Rightarrow> bool" where
  "clusterMemberReady L member =
     (case l_FindStatusCondition L (cmsConditions (cmStatus member)) ''Ready'' of
        None \<Rightarrow> False
      | Some cond \<Rightarrow> cnStatus cond = ConditionTrue)"

abbreviation member_name :: "ClusterMember \<Rightarrow> string" where
  "member_name m \<equiv> mName (cmMeta m)"

text \<open>The loop over the listed members; \<open>seen\<close> is the Go map of the names taken.\<close>

primrec collect_listed ::
  "ClusterMember list \<Rightarrow> string set \<Rightarrow> ClusterMember list \<Rightarrow> string set \<times> ClusterMember list" where
  "collect_listed [] seen members = (seen, members)"
| "collect_listed (m # items) seen members =
     (if member_name m \<notin> seen
      then collect_listed items (insert (member_name m) seen) (members @ [m])
      else collect_listed items seen members)"

text \<open>The loop over \<open>spec.members\<close>: a member that does not exist is skipped.\<close>

primrec collect_named ::
  "'w kube \<Rightarrow> FederationMemberReference list \<Rightarrow> string set \<Rightarrow> ClusterMember list \<Rightarrow>
     ('w, error + ClusterMember list) io" where
  "collect_named K [] seen members = State_Monad.return (Inr members)"
| "collect_named K (ref # refs) seen members =
     (if fmrName ref \<in> seen then collect_named K refs seen members
      else do {
        r \<leftarrow> get_ClusterMember K (cluster_key (fmrName ref));
        case r of
          Inl err \<Rightarrow>
            if is_not_found err then collect_named K refs seen members
            else State_Monad.return (Inl err)
        | Inr member \<Rightarrow>
            collect_named K refs (insert (member_name member) seen) (members @ [member])
      })"

definition resolveMembers ::
  "lib \<Rightarrow> 'w kube \<Rightarrow> Federation \<Rightarrow> ('w, error + ClusterMember list) io" where
  "resolveMembers L K federation =
     checked
       (case fMemberSelector (fedSpec federation) of
          None \<Rightarrow> State_Monad.return (Inr ({}, []))
        | Some labelSelector \<Rightarrow>
            (case l_LabelSelectorAsSelector L labelSelector of
               Inl err \<Rightarrow> State_Monad.return (Inl (Failure err))
             | Inr selector \<Rightarrow>
                 checked (list_ClusterMembers K selector)
                   (\<lambda>items. State_Monad.return (Inr (collect_listed items {} [])))))
       (\<lambda>(seen, members). collect_named K (fMembers (fedSpec federation)) seen members)"

text \<open>The loop of the status: the statuses of the members and the \<open>int32\<close> count of ready ones.\<close>

primrec count_ready ::
  "lib \<Rightarrow> ClusterMember list \<Rightarrow> FederationMemberStatus list \<Rightarrow> int32 \<Rightarrow>
     FederationMemberStatus list \<times> int32" where
  "count_ready L [] memberStatuses readyCount = (memberStatuses, readyCount)"
| "count_ready L (m # members) memberStatuses readyCount =
     (let ready = clusterMemberReady L m
      in count_ready L members
           (memberStatuses @ [\<lparr>fmsName = member_name m, fmsReady = ready\<rparr>])
           (if ready then readyCount + 1 else readyCount))"

text \<open>The conditions, for the three outcomes; \<open>t1\<close> and \<open>t2\<close> are the clock at the two calls.\<close>

definition federationConditions ::
  "lib \<Rightarrow> time \<Rightarrow> time \<Rightarrow> int64 \<Rightarrow> ClusterMember list \<Rightarrow> int32 \<Rightarrow> conditions_view \<Rightarrow> conditions_view"
where
  "federationConditions L t1 t2 generation members readyCount v =
     (let allReady = (length members > 0 \<and> readyCount = word_of_nat (length members))
      in if allReady then
           RemoveStatusCondition L ''Degraded''
             (SetStatusCondition L t1
               (mk_condition ''Ready'' ConditionTrue generation ''AllMembersReady''
                 ''All resolved ClusterMember resources are Ready.'') v)
         else if length members = 0 then
           RemoveStatusCondition L ''Degraded''
             (SetStatusCondition L t1
               (mk_condition ''Ready'' ConditionFalse generation ''NoMembers''
                 ''No ClusterMember resources resolved for this Federation.'') v)
         else
           SetStatusCondition L t2
             (mk_condition ''Degraded'' ConditionTrue generation ''MembersNotReady''
               ''One or more ClusterMember resources are not Ready.'')
             (SetStatusCondition L t1
               (mk_condition ''Ready'' ConditionFalse generation ''MembersNotReady''
                 ''One or more ClusterMember resources are not Ready.'') v))"

definition Federation_reconcileStatus ::
  "lib \<Rightarrow> 'w kube \<Rightarrow> Federation \<Rightarrow> ClusterMember list \<Rightarrow> ('w, error + unit) io" where
  "Federation_reconcileStatus L K federation members =
     do {
       t1 \<leftarrow> clock K;
       t2 \<leftarrow> clock K;
       t3 \<leftarrow> clock K;
       let status = fedStatus federation;
           generation = mGeneration (fedMeta federation);
           (memberStatuses, readyCount) = count_ready L members [] 0;
           v = setFieldsNotEnforcedCondition L t3 generation
                 (federationFieldsNotEnforced (fedSpec federation))
                 (federationConditions L t1 t2 generation members readyCount
                   (alias_view L (fsConditions status)));
           nextStatus = status\<lparr>fsObservedGeneration := generation, fsMembers := memberStatuses,
             fsReadyMembers := readyCount, fsConditions := cur v\<rparr>
       in if l_DeepEqualFederationStatus L (status\<lparr>fsConditions := orig v\<rparr>) nextStatus
          then State_Monad.return (Inr ())
          else status_update_Federation K (federation\<lparr>fedStatus := nextStatus\<rparr>)
     }"

definition Federation_Reconcile ::
  "lib \<Rightarrow> 'w kube \<Rightarrow> ObjectKey \<Rightarrow> ('w, error + Result) io" where
  "Federation_Reconcile L K req =
     do {
       r \<leftarrow> get_Federation K req;
       case r of
         Inl err \<Rightarrow>
           State_Monad.return (if is_not_found err then Inr no_requeue else Inl err)
       | Inr federation \<Rightarrow>
           checked (resolveMembers L K federation)
             (\<lambda>members. checked (Federation_reconcileStatus L K federation members)
               (\<lambda>_. State_Monad.return (Inr no_requeue)))
     }"

text \<open>The map function of the watch on ClusterMembers.\<close>

definition enqueueAllFederations :: "'w kube \<Rightarrow> ('w, ObjectKey list) io" where
  "enqueueAllFederations K =
     do {
       r \<leftarrow> list_Federations K;
       case r of
         Inl err \<Rightarrow> State_Monad.return []
       | Inr items \<Rightarrow> State_Monad.return (map (\<lambda>f. key_of (fedMeta f)) items)
     }"

section \<open>The members of a Federation\<close>

text \<open>What the specification promises: the members selected by label or named in the spec.\<close>

definition selected_by :: "lib \<Rightarrow> LabelSelector option \<Rightarrow> strmap \<Rightarrow> bool" where
  "selected_by L s labels =
     (case s of
        None \<Rightarrow> False
      | Some labelSelector \<Rightarrow>
          (case l_LabelSelectorAsSelector L labelSelector of
             Inl err \<Rightarrow> False
           | Inr selector \<Rightarrow> selector labels))"

definition selector_valid :: "lib \<Rightarrow> LabelSelector option \<Rightarrow> bool" where
  "selector_valid L s =
     (case s of
        None \<Rightarrow> True
      | Some labelSelector \<Rightarrow>
          (case l_LabelSelectorAsSelector L labelSelector of Inl err \<Rightarrow> False | Inr selector \<Rightarrow> True))"

abbreviation named_in :: "Federation \<Rightarrow> string set" where
  "named_in federation \<equiv> fmrName ` set (fMembers (fedSpec federation))"

definition federation_members :: "lib \<Rightarrow> snapshot \<Rightarrow> Federation \<Rightarrow> ClusterMember set" where
  "federation_members L V federation =
     {m. s_ClusterMember V (member_name m) = Some m \<and>
         (member_name m \<in> named_in federation \<or>
          selected_by L (fMemberSelector (fedSpec federation)) (mLabels (cmMeta m)))}"

text \<open>The cluster belongs to the Federation: named in its spec, or selected by its labels.\<close>

definition cluster_in_federation :: "lib \<Rightarrow> snapshot \<Rightarrow> string \<Rightarrow> Federation \<Rightarrow> bool" where
  "cluster_in_federation L V n federation \<longleftrightarrow>
     n \<in> named_in federation \<or>
     (\<exists>m. s_ClusterMember V n = Some m \<and>
        selected_by L (fMemberSelector (fedSpec federation)) (mLabels (cmMeta m)))"

lemma cluster_in_federation_iff:
  "stored_by_name V \<Longrightarrow> s_ClusterMember V n = Some m \<Longrightarrow>
     cluster_in_federation L V n federation \<longleftrightarrow> m \<in> federation_members L V federation"
  by (auto simp: cluster_in_federation_def federation_members_def stored_by_name_def)

lemma collect_listed_eq:
  "distinct (map member_name items) \<Longrightarrow> seen \<inter> member_name ` set items = {} \<Longrightarrow>
     collect_listed items seen members = (seen \<union> member_name ` set items, members @ items)"
  by (induction items arbitrary: seen members) (auto simp: disjoint_iff)

text \<open>The loop invariant: \<open>seen\<close> holds the names of the members taken, each taken once.\<close>

definition members_inv :: "snapshot \<Rightarrow> string set \<Rightarrow> ClusterMember list \<Rightarrow> bool" where
  "members_inv V seen members \<longleftrightarrow>
     seen = member_name ` set members \<and> distinct (map member_name members) \<and>
     (\<forall>m \<in> set members. s_ClusterMember V (member_name m) = Some m)"

definition resolved :: "lib \<Rightarrow> snapshot \<Rightarrow> Federation \<Rightarrow> ClusterMember list \<Rightarrow> bool" where
  "resolved L V federation members \<longleftrightarrow>
     distinct (map member_name members) \<and> set members = federation_members L V federation"

lemma collect_named_answers:
  assumes K: "answers_from K view" and V: "stored_by_name V" and "members_inv V seen members"
  shows "answers_so view (collect_named K refs seen members) V
    (\<lambda>members'. distinct (map member_name members') \<and> set members' = set members \<union>
        {m. s_ClusterMember V (member_name m) = Some m \<and> member_name m \<in> fmrName ` set refs})"
  using assms(3)
proof (induction refs arbitrary: seen members)
  case Nil
  then show ?case
    by (simp add: members_inv_def answers_so_return)
next
  case (Cons ref refs)
  let ?here = "{m. s_ClusterMember V (member_name m) = Some m \<and> member_name m = fmrName ref}"
  have split: "{m. s_ClusterMember V (member_name m) = Some m \<and> member_name m \<in> fmrName ` set (ref # refs)}
      = ?here \<union> {m. s_ClusterMember V (member_name m) = Some m \<and> member_name m \<in> fmrName ` set refs}"
    by auto
  show ?case
  proof (cases "fmrName ref \<in> seen")
    case True
    with Cons.prems have "?here \<subseteq> set members"
      by (auto simp: members_inv_def)
    then have same: "set members \<union>
        {m. s_ClusterMember V (member_name m) = Some m \<and> member_name m \<in> fmrName ` set (ref # refs)} =
      set members \<union>
        {m. s_ClusterMember V (member_name m) = Some m \<and> member_name m \<in> fmrName ` set refs}"
      unfolding split by blast
    show ?thesis
      unfolding same using True Cons.IH [OF Cons.prems] by simp
  next
    case False
    show ?thesis
    proof (cases "s_ClusterMember V (fmrName ref)")
      case None
      then have "?here = {}" by auto
      with None False show ?thesis
        by (simp add: split, intro answers_soI wpv_intros K)
           (auto intro!: wpv_answers [OF Cons.IH [OF Cons.prems]])
    next
      case (Some m)
      with V have name: "member_name m = fmrName ref"
        by (auto simp: stored_by_name_def)
      with Some have here: "?here = {m}" by auto
      have inv: "members_inv V (insert (member_name m) seen) (members @ [m])"
        using Cons.prems False Some name by (auto simp: members_inv_def)
      from Some False here show ?thesis
        by (simp add: split, intro answers_soI wpv_intros K)
           (auto intro!: wpv_answers [OF Cons.IH [OF inv]])
    qed
  qed
qed

lemma collect_from_answers:
  assumes "answers_from K view" and "stored_by_name V" and "distinct (map member_name members)"
    and "\<forall>m. m \<in> set members \<longleftrightarrow>
      s_ClusterMember V (member_name m) = Some m \<and>
      selected_by L (fMemberSelector (fedSpec federation)) (mLabels (cmMeta m))"
  shows "answers_so view
    (collect_named K (fMembers (fedSpec federation)) (member_name ` set members) members) V
    (resolved L V federation)"
proof (rule answers_soI, rule wpv_answers [OF collect_named_answers [OF assms(1,2)]])
  show "members_inv V (member_name ` set members) members"
    using assms(3,4) by (simp add: members_inv_def)
next
  fix h members' h'
  assume "reads_after h h'"
    and all: "distinct (map member_name members') \<and> set members' = set members \<union>
      {m. s_ClusterMember V (member_name m) = Some m \<and> member_name m \<in> named_in federation}"
  have "set members' = federation_members L V federation"
    using all unfolding federation_members_def using assms(4) by blast
  with all show "V = V \<and> reads_after h h' \<and>
      (\<exists>a. (Inr members' :: error + ClusterMember list) = Inr a \<and> resolved L V federation a)"
    using \<open>reads_after h h'\<close> by (simp add: resolved_def)
qed

lemma resolveMembers_answers:
  assumes K: "answers_from K view" and V: "stored_by_name V"
    and sel: "selector_valid L (fMemberSelector (fedSpec federation))"
  shows "answers_so view (resolveMembers L K federation) V (resolved L V federation)"
proof (cases "fMemberSelector (fedSpec federation)")
  case None
  have "answers_so view
    (collect_named K (fMembers (fedSpec federation)) (member_name ` set []) []) V (resolved L V federation)"
    by (rule collect_from_answers [OF K V]) (simp_all add: None selected_by_def)
  then show ?thesis
    unfolding resolveMembers_def None by (simp add: checked_def)
next
  case (Some s)
  then obtain selector where ok: "l_LabelSelectorAsSelector L s = Inr selector"
    using sel by (auto simp: selector_valid_def split: sum.splits)
  have step: "answers_so view (collect_named K (fMembers (fedSpec federation)) seen members) V
      (resolved L V federation)"
    if ms: "listed_members V selector ms" and eq: "collect_listed ms {} [] = (seen, members)"
    for ms seen members
  proof -
    from ms eq have "seen = member_name ` set members" "members = ms"
      by (auto simp: collect_listed_eq listed_members_def)
    with ms show ?thesis
      by (simp only:) (rule collect_from_answers [OF K V];
        simp add: listed_members_def Some ok selected_by_def)
  qed
  have list: "answers_so view (checked (list_ClusterMembers K selector)
        (\<lambda>items. State_Monad.return (Inr (collect_listed items {} [])))) V
      (\<lambda>(seen, members). answers_so view
        (collect_named K (fMembers (fedSpec federation)) seen members) V (resolved L V federation))"
    by (rule answers_soI, intro wpv_checked wpv_list_ClusterMembers [OF K])
       (auto intro!: wpv_return, metis step surj_pair)
  show ?thesis
    unfolding resolveMembers_def Some option.case ok sum.case
    by (rule answers_so_checked [OF list]) auto
qed

section \<open>Counting\<close>

lemma count_ready_eq:
  "count_ready L members statuses n =
     (statuses @ map (\<lambda>m. \<lparr>fmsName = member_name m, fmsReady = clusterMemberReady L m\<rparr>) members,
      n + word_of_nat (length (filter (clusterMemberReady L) members)))"
  by (induction members arbitrary: statuses n) (auto simp: Let_def)

text \<open>In the range of \<open>int32\<close> the comparison of the count is the comparison of the numbers.\<close>

lemma length_filter_iff: "length (filter P xs) = length xs \<longleftrightarrow> (\<forall>x \<in> set xs. P x)"
proof (induction xs)
  case (Cons x xs)
  have "length (filter P xs) \<le> length xs" by simp
  then have "length (filter P xs) \<noteq> Suc (length xs)" by linarith
  with Cons show ?case by simp
qed simp

lemma all_ready_iff:
  assumes "length members < 2 ^ 32"
  shows "(word_of_nat (length (filter (clusterMemberReady L) members)) :: int32) =
      word_of_nat (length members) \<longleftrightarrow> list_all (clusterMemberReady L) members"
proof -
  let ?n = "length (filter (clusterMemberReady L) members)"
  have le: "?n \<le> length members" by simp
  have id: "unat (word_of_nat n :: int32) = n" if "n < 2 ^ 32" for n
    using that by (simp add: unat_of_nat take_bit_nat_eq_self flip: take_bit_eq_mod)
  have "(word_of_nat ?n :: int32) = word_of_nat (length members) \<longleftrightarrow> ?n = length members"
    using assms le id by (metis le_less_trans)
  also have "\<dots> \<longleftrightarrow> list_all (clusterMemberReady L) members"
    by (simp add: length_filter_iff list_all_iff)
  finally show ?thesis .
qed

section \<open>The status written\<close>

definition member_statuses :: "lib \<Rightarrow> ClusterMember list \<Rightarrow> FederationMemberStatus list" where
  "member_statuses L members =
     map (\<lambda>m. \<lparr>fmsName = member_name m, fmsReady = clusterMemberReady L m\<rparr>) members"

definition ready_count :: "lib \<Rightarrow> ClusterMember list \<Rightarrow> int32" where
  "ready_count L members = word_of_nat (length (filter (clusterMemberReady L) members))"

text \<open>The condition \<open>Ready\<close> for the members resolved, and the conditions in full.\<close>

definition federation_ready :: "lib \<Rightarrow> int64 \<Rightarrow> ClusterMember list \<Rightarrow> Condition" where
  "federation_ready L generation members =
     (if members \<noteq> [] \<and> ready_count L members = word_of_nat (length members)
      then mk_condition ''Ready'' ConditionTrue generation ''AllMembersReady''
             ''All resolved ClusterMember resources are Ready.''
      else if members = [] then mk_condition ''Ready'' ConditionFalse generation ''NoMembers''
             ''No ClusterMember resources resolved for this Federation.''
      else mk_condition ''Ready'' ConditionFalse generation ''MembersNotReady''
             ''One or more ClusterMember resources are not Ready.'')"

definition federation_conditions ::
  "lib \<Rightarrow> Federation \<Rightarrow> ClusterMember list \<Rightarrow> time list \<Rightarrow> Condition list" where
  "federation_conditions L f members ts =
     (let generation = mGeneration (fedMeta f);
          xs = put_condition (ts ! 0) (federation_ready L generation members) (fsConditions (fedStatus f));
          ys = (if members \<noteq> [] \<and> ready_count L members \<noteq> word_of_nat (length members)
                then put_condition (ts ! 1)
                  (mk_condition ''Degraded'' ConditionTrue generation ''MembersNotReady''
                    ''One or more ClusterMember resources are not Ready.'') xs
                else drop_condition ''Degraded'' xs)
      in put_fields (ts ! 2) generation (federationFieldsNotEnforced (fedSpec f)) ys)"

definition federation_wanted :: "lib \<Rightarrow> Federation \<Rightarrow> ClusterMember list \<Rightarrow> time list \<Rightarrow> Federation" where
  "federation_wanted L f members ts =
     f\<lparr>fedStatus :=
       \<lparr>fsReadyMembers = ready_count L members, fsMembers = member_statuses L members,
        fsConditions = federation_conditions L f members ts,
        fsObservedGeneration = mGeneration (fedMeta f)\<rparr>\<rparr>"

text \<open>What a Federation that is left alone shows already.\<close>

definition federation_shows :: "lib \<Rightarrow> Federation \<Rightarrow> ClusterMember list \<Rightarrow> bool" where
  "federation_shows L f members \<longleftrightarrow>
     fsReadyMembers (fedStatus f) = ready_count L members \<and>
     fsMembers (fedStatus f) = member_statuses L members \<and>
     fsObservedGeneration (fedStatus f) = mGeneration (fedMeta f)"

lemma cur_federationConditions:
  assumes "conditions_ok L"
  shows "cur (setFieldsNotEnforcedCondition L t3 (mGeneration (fedMeta f))
      (federationFieldsNotEnforced (fedSpec f))
      (federationConditions L t1 t2 (mGeneration (fedMeta f)) members (ready_count L members)
        (alias_view L (fsConditions (fedStatus f))))) =
    federation_conditions L f members [t1, t2, t3]"
  using assms
  by (simp add: federationConditions_def federation_conditions_def federation_ready_def Let_def
      condition_values)

lemma wp_federation_status:
  assumes "conditions_ok L" and "equality_ok L"
    and quiet: "federation_shows L f members \<Longrightarrow> Q (Inr ()) h"
    and stores: "\<And>ts r. Q r (h @ [StatusFederation (federation_wanted L f members ts) r])"
  shows "wp (Federation_reconcileStatus L K f members) Q h"
  unfolding Federation_reconcileStatus_def
proof (intro wp_bind wp_clock, goal_cases)
  case (1 t1 t2 t3)
  let ?v = "setFieldsNotEnforcedCondition L t3 (mGeneration (fedMeta f))
      (federationFieldsNotEnforced (fedSpec f))
      (federationConditions L t1 t2 (mGeneration (fedMeta f)) members (ready_count L members)
        (alias_view L (fsConditions (fedStatus f))))"
  let ?next = "(fedStatus f)\<lparr>fsObservedGeneration := mGeneration (fedMeta f),
      fsMembers := member_statuses L members, fsReadyMembers := ready_count L members,
      fsConditions := cur ?v\<rparr>"
  have count: "count_ready L members [] 0 = (member_statuses L members, ready_count L members)"
    by (simp add: count_ready_eq member_statuses_def ready_count_def)
  have wanted: "f\<lparr>fedStatus := ?next\<rparr> = federation_wanted L f members [t1, t2, t3]"
    unfolding cur_federationConditions [OF assms(1)] by (simp add: federation_wanted_def)
  have "wp (if l_DeepEqualFederationStatus L ((fedStatus f)\<lparr>fsConditions := orig ?v\<rparr>) ?next
      then State_Monad.return (Inr ()) else status_update_Federation K (f\<lparr>fedStatus := ?next\<rparr>)) Q h"
    unfolding status_update_Federation_def
  proof (intro wp_intros)
    assume "l_DeepEqualFederationStatus L ((fedStatus f)\<lparr>fsConditions := orig ?v\<rparr>) ?next"
    then have eq: "(fedStatus f)\<lparr>fsConditions := orig ?v\<rparr> = ?next"
      using assms(2) by (simp add: equality_ok_def)
    have "federation_shows L f members"
      using arg_cong [OF eq, of fsReadyMembers] arg_cong [OF eq, of fsMembers]
        arg_cong [OF eq, of fsObservedGeneration]
      by (simp add: federation_shows_def)
    then show "Q (Inr ()) h" by (rule quiet)
  next
    fix r
    show "Q r (h @ [StatusFederation (f\<lparr>fedStatus := ?next\<rparr>) r])"
      unfolding wanted by (rule stores)
  qed
  then show ?case
    by (simp only: Let_def count prod.case)
qed

interpretation federation: status_writer
  "\<lambda>L K (f, members). Federation_reconcileStatus L K f members" StatusFederation
  "\<lambda>L (f, members) ts. federation_wanted L f members ts"
  "\<lambda>L (f, members). federation_shows L f members"
  by unfold_locales (auto intro!: wp_federation_status)

text \<open>The outcome of a run that resolves these members.\<close>

definition federation_outcome ::
  "lib \<Rightarrow> Federation \<Rightarrow> ClusterMember list \<Rightarrow> error + Result \<Rightarrow> event list \<Rightarrow> bool" where
  "federation_outcome L f members r h \<longleftrightarrow>
     writes h = [] \<and> federation_shows L f members \<and> r = Inr no_requeue \<or>
     (\<exists>ts s. writes h = [StatusFederation (federation_wanted L f members ts) s] \<and>
        r = (case s of Inl e \<Rightarrow> Inl e | Inr _ \<Rightarrow> Inr no_requeue))"

lemma wp_federation_outcome:
  assumes "conditions_ok L" and "equality_ok L" and h: "writes h = []"
  shows "wp (checked (Federation_reconcileStatus L K f members)
      (\<lambda>_. State_Monad.return (Inr no_requeue))) (federation_outcome L f members) h"
  by (rule wp_checked, rule wp_federation_status [OF assms(1,2)])
     (auto intro!: wp_return simp: federation_outcome_def h)

lemma wpv_federation_decides:
  assumes ok: "conditions_ok L" "equality_ok L" and K: "answers_from K view" and V: "stored_by_name V"
    and f: "s_Federation V (kName req) = Some f"
    and sel: "selector_valid L (fMemberSelector (fedSpec f))"
  shows "wpv view (Federation_Reconcile L K req)
    (\<lambda>r _ es. \<exists>members. resolved L V f members \<and> federation_outcome L f members r es) V []"
  unfolding Federation_Reconcile_def
proof (intro wpv_bind wpv_get_Federation [OF K] wpv_sum)
  fix x g
  assume "s_Federation V (kName req) = Some x" "(Inr x :: error + Federation) = Inr g"
  with f have g: "g = f" by simp
  show "wpv view (checked (resolveMembers L K g)
      (\<lambda>members. checked (Federation_reconcileStatus L K g members)
        (\<lambda>_. State_Monad.return (Inr no_requeue))))
    (\<lambda>r _ es. \<exists>members. resolved L V f members \<and> federation_outcome L f members r es) V
    ([] @ [GotFederation req (Inr x)])"
    unfolding g
  proof (rule wpv_checked, rule wpv_answers [OF resolveMembers_answers [OF K V sel]], intro conjI allI impI)
    fix a h' members
    assume "reads_after ([] @ [GotFederation req (Inr x)]) h'" and "resolved L V f a"
      and "(Inr a :: error + ClusterMember list) = Inr members"
    then have "writes h' = []" and "resolved L V f members"
      by (auto dest: reads_after_writes)
    then show "wpv view (checked (Federation_reconcileStatus L K f members)
        (\<lambda>_. State_Monad.return (Inr no_requeue)))
      (\<lambda>r _ es. \<exists>members. resolved L V f members \<and> federation_outcome L f members r es) V h'"
      by (intro wpv_wp wp_mono [OF wp_federation_outcome [OF ok]]) auto
  qed simp
qed (use f in auto)

end
