(* ===== verification/Reference.thy ===== *)
theory Reference
  imports Snapshot
begin

text \<open>
  A library and an API server that satisfy every hypothesis of the development, for the
  witnesses: \<open>ref_lib\<close> and \<open>ref_kube\<close>, an in-memory store with a clock that ticks at each
  reading. No other theory models the repository's code by them.
\<close>

section \<open>A library\<close>

definition ref_controller :: "ObjectMeta \<Rightarrow> OwnerReference option" where
  "ref_controller m = find (\<lambda>r. oController r = Some True) (mOwnerReferences m)"

definition ref_IsControlledBy :: "ObjectMeta \<Rightarrow> ObjectMeta \<Rightarrow> bool" where
  "ref_IsControlledBy m owner =
     (case ref_controller m of None \<Rightarrow> False | Some r \<Rightarrow> oUID r = mUID owner)"

definition ref_SetControllerReference :: "ObjectMeta \<Rightarrow> ObjectMeta \<Rightarrow> error + ObjectMeta" where
  "ref_SetControllerReference owner m =
     (case ref_controller m of
        Some r \<Rightarrow> if oUID r = mUID owner then Inr m else Inl (Failure ''already owned'')
      | None \<Rightarrow>
          Inr (m\<lparr>mOwnerReferences := mOwnerReferences m @
            [\<lparr>oKind = ''Workload'', oName = mName owner, oUID = mUID owner,
              oController = Some True\<rparr>]\<rparr>))"

definition ref_Set :: "time \<Rightarrow> Condition \<Rightarrow> Condition list \<Rightarrow> Condition slice_effect" where
  "ref_Set t c xs =
     (if find_condition (cnType c) xs = None then Append (stamped t c)
      else InPlace (update_condition t c xs))"

definition ref_Remove :: "string \<Rightarrow> Condition list \<Rightarrow> Condition slice_effect" where
  "ref_Remove ty xs = (if xs = [] then InPlace xs else Fresh (filter (\<lambda>c. cnType c \<noteq> ty) xs))"

definition ref_lib :: lib where
  "ref_lib =
     \<lparr>l_IsControlledBy = ref_IsControlledBy,
      l_SetControllerReference = ref_SetControllerReference,
      l_AddFinalizer = (\<lambda>fs f. if f \<in> set fs then (False, fs) else (True, fs @ [f])),
      l_ContainsFinalizer = (\<lambda>fs f. f \<in> set fs),
      l_RemoveFinalizer = (\<lambda>fs f. filter (\<lambda>x. x \<noteq> f) fs),
      l_IsZero = (\<lambda>t. t = None \<or> t = Some 0),
      l_SetStatusCondition = ref_Set,
      l_RemoveStatusCondition = ref_Remove,
      l_FindStatusCondition = (\<lambda>xs ty. find_condition ty xs),
      l_SpareCapacity = 0,
      l_LabelSelectorAsSelector =
        (\<lambda>s. if lsMatchExpressions s = [] then Inr (\<lambda>labels. lsMatchLabels s \<subseteq>\<^sub>m labels)
             else Inl ''unsupported operator''),
      l_DeepEqualConditions = (=),
      l_DeepEqualFederationStatus = (=),
      l_DeepEqualWorkloadStatus = (=),
      l_DeepEqualServiceEndpointStatus = (=),
      l_DeepEqualDatastoreBindingStatus = (=)\<rparr>"

lemma ref_lib_simps [simp]:
  "l_IsControlledBy ref_lib = ref_IsControlledBy"
  "l_SetControllerReference ref_lib = ref_SetControllerReference"
  "l_AddFinalizer ref_lib fs f = (if f \<in> set fs then (False, fs) else (True, fs @ [f]))"
  "l_ContainsFinalizer ref_lib fs f = (f \<in> set fs)"
  "l_RemoveFinalizer ref_lib fs f = filter (\<lambda>x. x \<noteq> f) fs"
  "l_IsZero ref_lib t = (t = None \<or> t = Some 0)"
  "l_SetStatusCondition ref_lib = ref_Set"
  "l_RemoveStatusCondition ref_lib = ref_Remove"
  "l_FindStatusCondition ref_lib xs ty = find_condition ty xs"
  "l_SpareCapacity ref_lib = 0"
  "l_LabelSelectorAsSelector ref_lib s =
     (if lsMatchExpressions s = [] then Inr (\<lambda>labels. lsMatchLabels s \<subseteq>\<^sub>m labels)
      else Inl ''unsupported operator'')"
  "l_DeepEqualConditions ref_lib = (=)"
  "l_DeepEqualFederationStatus ref_lib = (=)"
  "l_DeepEqualWorkloadStatus ref_lib = (=)"
  "l_DeepEqualServiceEndpointStatus ref_lib = (=)"
  "l_DeepEqualDatastoreBindingStatus ref_lib = (=)"
  by (simp_all add: ref_lib_def)

lemma ref_conditions_ok [simp]: "conditions_ok ref_lib"
  by (simp add: conditions_ok_def ref_Set_def ref_Remove_def)

lemma ref_equality_ok [simp]: "equality_ok ref_lib"
  by (simp add: equality_ok_def)

lemma ref_finalizers_ok [simp]: "finalizers_ok ref_lib"
  by (simp add: finalizers_ok_def)

lemma find_append_first: "find P xs = None \<Longrightarrow> P y \<Longrightarrow> find P (xs @ [y]) = Some y"
  by (induction xs) auto

lemma ref_owners_ok [simp]: "owners_ok ref_lib"
proof -
  have set: "ref_IsControlledBy m' owner \<and> m' = m\<lparr>mOwnerReferences := mOwnerReferences m'\<rparr> \<and>
      ref_SetControllerReference owner m' = Inr m'"
    if "ref_SetControllerReference owner m = Inr m'" for owner m m'
    using that
    by (auto simp: ref_SetControllerReference_def ref_IsControlledBy_def ref_controller_def
        find_append_first split: option.splits if_splits)
  have free: "\<exists>m'. ref_SetControllerReference owner m = Inr m'"
    if "list_all (\<lambda>r. oController r \<noteq> Some True) (mOwnerReferences m)" for owner m
  proof -
    have "ref_controller m = None"
      using that by (auto simp: ref_controller_def find_None_iff list_all_iff)
    then show ?thesis by (simp add: ref_SetControllerReference_def)
  qed
  have frame: "ref_SetControllerReference owner (m\<lparr>mLabels := l, mAnnotations := a\<rparr>) =
      Inr (m'\<lparr>mLabels := l, mAnnotations := a\<rparr>)"
    if "ref_SetControllerReference owner m = Inr m'" for owner m m' l a
    using that
    by (cases m) (auto simp: ref_SetControllerReference_def ref_controller_def
        split: option.splits if_splits)
  have refs: "ref_IsControlledBy m owner = ref_IsControlledBy m' owner"
    if "mOwnerReferences m = mOwnerReferences m'" for owner m m'
    using that by (simp add: ref_IsControlledBy_def ref_controller_def)
  show ?thesis
    unfolding owners_ok_def ref_lib_simps
    using set free frame refs by blast
qed

section \<open>A server\<close>

record store =
  st_now :: time
  st_ClusterMembers :: "ClusterMember list"
  st_Federations :: "Federation list"
  st_Workloads :: "Workload list"
  st_ServiceEndpoints :: "ServiceEndpoint list"
  st_DatastoreBindings :: "DatastoreBinding list"
  st_Deployments :: "Deployment list"
  st_Services :: "Service list"
  st_Secrets :: "Secret list"
  st_ConfigMaps :: "ConfigMap list"

definition empty_store :: store where
  "empty_store =
     \<lparr>st_now = 1000, st_ClusterMembers = [], st_Federations = [], st_Workloads = [],
      st_ServiceEndpoints = [], st_DatastoreBindings = [], st_Deployments = [],
      st_Services = [], st_Secrets = [], st_ConfigMaps = []\<rparr>"

definition lookup :: "('a \<Rightarrow> ObjectMeta) \<Rightarrow> ObjectKey \<Rightarrow> 'a list \<Rightarrow> 'a option" where
  "lookup meta k xs = find (\<lambda>x. key_of (meta x) = k) xs"

definition lookup_name :: "('a \<Rightarrow> ObjectMeta) \<Rightarrow> string \<Rightarrow> 'a list \<Rightarrow> 'a option" where
  "lookup_name meta n xs = find (\<lambda>x. mName (meta x) = n) xs"

definition put :: "('a \<Rightarrow> ObjectMeta) \<Rightarrow> 'a \<Rightarrow> 'a list \<Rightarrow> 'a list" where
  "put meta x xs = x # filter (\<lambda>y. key_of (meta y) \<noteq> key_of (meta x)) xs"

definition found :: "'a option \<Rightarrow> error + 'a" where
  "found r = (case r of None \<Rightarrow> Inl (NotFound ''not found'') | Some x \<Rightarrow> Inr x)"

fun first_of_each :: "ClusterMember list \<Rightarrow> ClusterMember list" where
  "first_of_each [] = []"
| "first_of_each (m # ms) =
     m # filter (\<lambda>x. mName (cmMeta x) \<noteq> mName (cmMeta m)) (first_of_each ms)"

definition store_snapshot :: "store \<Rightarrow> snapshot" where
  "store_snapshot st =
     \<lparr>s_ClusterMember = (\<lambda>n. lookup_name cmMeta n (st_ClusterMembers st)),
      s_Federation = (\<lambda>n. lookup_name fedMeta n (st_Federations st)),
      s_Workload = (\<lambda>k. lookup wlMeta k (st_Workloads st)),
      s_ServiceEndpoint = (\<lambda>k. lookup seMeta k (st_ServiceEndpoints st)),
      s_DatastoreBinding = (\<lambda>k. lookup dbMeta k (st_DatastoreBindings st)),
      s_Deployment = (\<lambda>k. lookup dMeta k (st_Deployments st)),
      s_Service = (\<lambda>k. lookup svcMeta k (st_Services st)),
      s_Secret = (\<lambda>k. lookup secMeta k (st_Secrets st)),
      s_ConfigMap = (\<lambda>k. lookup cmapMeta k (st_ConfigMaps st))\<rparr>"

definition ref_kube :: "store kube" where
  "ref_kube =
     \<lparr>k_Now = (\<lambda>st. (st_now st, st\<lparr>st_now := st_now st + 1\<rparr>)),
      k_GetClusterMember = (\<lambda>k st. (found (lookup_name cmMeta (kName k) (st_ClusterMembers st)), st)),
      k_GetFederation = (\<lambda>k st. (found (lookup_name fedMeta (kName k) (st_Federations st)), st)),
      k_GetWorkload = (\<lambda>k st. (found (lookup wlMeta k (st_Workloads st)), st)),
      k_GetServiceEndpoint = (\<lambda>k st. (found (lookup seMeta k (st_ServiceEndpoints st)), st)),
      k_GetDatastoreBinding = (\<lambda>k st. (found (lookup dbMeta k (st_DatastoreBindings st)), st)),
      k_GetDeployment = (\<lambda>k st. (found (lookup dMeta k (st_Deployments st)), st)),
      k_GetService = (\<lambda>k st. (found (lookup svcMeta k (st_Services st)), st)),
      k_GetSecret = (\<lambda>k st. (found (lookup secMeta k (st_Secrets st)), st)),
      k_GetConfigMap = (\<lambda>k st. (found (lookup cmapMeta k (st_ConfigMaps st)), st)),
      k_ListClusterMembers =
        (\<lambda>sel st. (Inr (filter (\<lambda>m. sel (mLabels (cmMeta m))) (first_of_each (st_ClusterMembers st))), st)),
      k_ListFederations = (\<lambda>st. (Inr (st_Federations st), st)),
      k_UpdateServiceEndpoint =
        (\<lambda>x st. (Inr x, st\<lparr>st_ServiceEndpoints := put seMeta x (st_ServiceEndpoints st)\<rparr>)),
      k_UpdateDatastoreBinding =
        (\<lambda>x st. (Inr x, st\<lparr>st_DatastoreBindings := put dbMeta x (st_DatastoreBindings st)\<rparr>)),
      k_StatusClusterMember =
        (\<lambda>x st. (Inr (), st\<lparr>st_ClusterMembers := put cmMeta x (st_ClusterMembers st)\<rparr>)),
      k_StatusFederation =
        (\<lambda>x st. (Inr (), st\<lparr>st_Federations := put fedMeta x (st_Federations st)\<rparr>)),
      k_StatusWorkload = (\<lambda>x st. (Inr (), st\<lparr>st_Workloads := put wlMeta x (st_Workloads st)\<rparr>)),
      k_StatusServiceEndpoint =
        (\<lambda>x st. (Inr (), st\<lparr>st_ServiceEndpoints := put seMeta x (st_ServiceEndpoints st)\<rparr>)),
      k_StatusDatastoreBinding =
        (\<lambda>x st. (Inr (), st\<lparr>st_DatastoreBindings := put dbMeta x (st_DatastoreBindings st)\<rparr>)),
      k_CreateOrUpdateDeployment =
        (\<lambda>x f st. (case f (case lookup dMeta (key_of (dMeta x)) (st_Deployments st) of None \<Rightarrow> x | Some y \<Rightarrow> y)
           of Inl e \<Rightarrow> (Inl e, st)
            | Inr y \<Rightarrow> (Inr (), st\<lparr>st_Deployments := put dMeta y (st_Deployments st)\<rparr>))),
      k_CreateOrUpdateService =
        (\<lambda>x f st. (case f (case lookup svcMeta (key_of (svcMeta x)) (st_Services st) of None \<Rightarrow> x | Some y \<Rightarrow> y)
           of Inl e \<Rightarrow> (Inl e, st)
            | Inr y \<Rightarrow> (Inr (), st\<lparr>st_Services := put svcMeta y (st_Services st)\<rparr>))),
      k_PatchService = (\<lambda>old new st. (Inr (), st\<lparr>st_Services := put svcMeta new (st_Services st)\<rparr>)),
      k_DeleteService =
        (\<lambda>x st. (Inr (), st\<lparr>st_Services :=
           filter (\<lambda>y. key_of (svcMeta y) \<noteq> key_of (svcMeta x)) (st_Services st)\<rparr>))\<rparr>"

lemma first_of_each_iff:
  "m \<in> set (first_of_each ms) \<longleftrightarrow> lookup_name cmMeta (mName (cmMeta m)) ms = Some m"
  by (induction ms) (auto simp: lookup_name_def)

lemma distinct_first_of_each: "distinct (map (\<lambda>m. mName (cmMeta m)) (first_of_each ms))"
  by (induction ms) (auto intro: distinct_map_filter)

lemma reply_found [simp]: "reply r (found r)"
  by (auto simp: reply_def found_def split: option.splits)

lemma ref_answers [simp]: "answers_from ref_kube store_snapshot"
  unfolding answers_from_def answered_def
  by (auto simp: ref_kube_def store_snapshot_def listed_members_def first_of_each_iff
      intro: distinct_map_filter distinct_first_of_each)

lemma stored_by_name_store [simp]: "stored_by_name (store_snapshot st)"
  by (auto simp: stored_by_name_def store_snapshot_def lookup_name_def find_Some_iff)

section \<open>Sample objects\<close>

definition sample_meta :: "string \<Rightarrow> string \<Rightarrow> ObjectMeta" where
  "sample_meta ns n =
     \<lparr>mName = n, mNamespace = ns, mUID = ''uid-'' @ n, mGeneration = 3, mLabels = Map.empty,
      mAnnotations = None, mFinalizers = [], mOwnerReferences = [], mDeletionTimestamp = None\<rparr>"

definition sample_owned :: "string \<Rightarrow> ObjectMeta" where
  "sample_owned n =
     (sample_meta ''demo'' n)\<lparr>mUID := ''uid-object'', mOwnerReferences :=
        [\<lparr>oKind = ''Workload'', oName = n, oUID = ''uid-'' @ n, oController = Some True\<rparr>]\<rparr>"

definition sample_member :: "string \<Rightarrow> ClusterMember" where
  "sample_member n =
     \<lparr>cmMeta = sample_meta '''' n,
      cmSpec = \<lparr>cmProvider = ''kind'', cmRegion = ''local'', cmZone = '''', cmEnvironment = '''',
        cmClusterName = n, cmAPIEndpoint = '''', cmPodCIDR = '''', cmServiceCIDR = '''',
        cmLabels = Map.empty\<rparr>,
      cmStatus = \<lparr>cmsObservedGeneration = 0, cmsLastObservedAt = None, cmsConditions = []\<rparr>\<rparr>"

definition sample_federation :: "string list \<Rightarrow> Federation" where
  "sample_federation ms =
     \<lparr>fedMeta = sample_meta '''' ''primary'',
      fedSpec = \<lparr>fMemberSelector = None, fMembers = map (\<lambda>n. \<lparr>fmrName = n\<rparr>) ms,
        fRoutingMode = '''', fDefaultTargetPolicy = None, fNetworking = None\<rparr>,
      fedStatus = \<lparr>fsReadyMembers = 0, fsMembers = [], fsConditions = [], fsObservedGeneration = 0\<rparr>\<rparr>"

definition sample_workload :: Workload where
  "sample_workload =
     \<lparr>wlMeta = sample_meta ''demo'' ''echo'',
      wlSpec = \<lparr>wFederationRef = \<lparr>rrName = ''primary'', rrNamespace = ''''\<rparr>, wImage = ''echo:1'',
        wImagePullSecrets = [], wPorts = [\<lparr>wpName = ''http'', wpContainerPort = 8080, wpProtocol = ''''\<rparr>],
        wEnv = [\<lparr>weName = ''LEVEL'', weValue = ''info''\<rparr>], wEnvFrom = [], wTargetPolicy = None,
        wRolloutRef = None, wReplicas = Some 2, wServiceAccountName = ''''\<rparr>,
      wlStatus = \<lparr>wsConditions = [], wsObservedGeneration = 0, wsTargets = [], wsActiveImage = ''''\<rparr>\<rparr>"

definition sample_container :: "EnvVar list \<Rightarrow> Container" where
  "sample_container env =
     \<lparr>cName = ''app'', cImage = ''echo:1'', cPorts = [], cEnv = env, cEnvFrom = []\<rparr>"

definition sample_deployment :: Deployment where
  "sample_deployment =
     \<lparr>dMeta = sample_owned ''echo'', dReplicas = None, dSelector = None, dTemplateLabels = Map.empty,
      dServiceAccountName = '''', dImagePullSecrets = [], dContainers = [sample_container []],
      dConditions = [\<lparr>dcType = ''Available'', dcStatus = ''True''\<rparr>]\<rparr>"

definition sample_service :: Service where
  "sample_service = \<lparr>svcMeta = sample_owned ''echo'', svcSelector = Map.empty, svcPorts = []\<rparr>"

definition sample_endpoint :: "string \<Rightarrow> string \<Rightarrow> ServiceEndpoint" where
  "sample_endpoint mode primary =
     \<lparr>seMeta = sample_meta ''demo'' ''echo'',
      seSpec = \<lparr>seWorkloadRef = \<lparr>nrName = ''echo'', nrNamespace = ''''\<rparr>,
        seHostnames = [''echo.example.com''], seRoutingMode = mode, sePrimaryMemberRef = primary,
        seFailoverPolicy = None, seGatewayRef = None\<rparr>,
      seStatus = \<lparr>sesConditions = [], sesActiveMemberRef = '''', sesResolvedHostnames = [],
        sesLastTransitionTime = None, sesObservedGeneration = 0\<rparr>\<rparr>"

definition sample_binding :: "string \<Rightarrow> DatastoreBinding" where
  "sample_binding n =
     \<lparr>dbMeta = sample_meta ''demo'' n,
      dbSpec = \<lparr>dbWorkloadRef = \<lparr>nrName = ''echo'', nrNamespace = ''''\<rparr>, dbEngine = ''postgres'',
        dbConnectionRef = \<lparr>nrName = ''creds'', nrNamespace = ''''\<rparr>, dbReplicationMode = ''None'',
        dbConflictPolicy = ''''\<rparr>,
      dbStatus = \<lparr>dbsConditions = [], dbsObservedGeneration = 0, dbsMessage = ''''\<rparr>\<rparr>"

lemmas sample_defs =
  sample_meta_def sample_owned_def sample_member_def sample_federation_def sample_workload_def
  sample_container_def sample_deployment_def sample_service_def sample_endpoint_def
  sample_binding_def

end
