(* ===== verification/Member_Properties.thy ===== *)
theory Member_Properties
  imports ClusterMember_Controller Federation_Controller Reference
begin

text \<open>The properties of the controllers of ClusterMembers and Federations, with their witnesses.\<close>

section \<open>ClusterMembers\<close>

text \<open>C31: a run of a ClusterMember's controller is one of three. The member could not be read: nothing
  is written, and the error is the result unless it is not-found. The member has a \<open>Ready\<close>
  condition and its generation was observed: nothing is written, with success. In every other
  case, a member without the condition or with a newer generation, there is one write, the status
  of the member that was read, with metadata and spec as read: it has observed the member's
  generation, its condition \<open>Ready\<close> is True exactly when the cluster name, the provider and the
  region are set, and the other conditions are kept; a failed write is the result.\<close>

theorem member_status_written:
  assumes "conditions_ok L" and "equality_ok L"
  shows "in_every_run (ClusterMember_Reconcile L K req) (\<lambda>r es.
    (\<exists>e. es = [GotClusterMember req (Inl e)] \<and> r = (if is_not_found e then Inr no_requeue else Inl e)) \<or>
    (\<exists>m. es = [GotClusterMember req (Inr m)] \<and> r = Inr no_requeue \<and>
       find_condition ''Ready'' (cmsConditions (cmStatus m)) \<noteq> None \<and>
       cmsObservedGeneration (cmStatus m) = mGeneration (cmMeta m)) \<or>
    (\<exists>m x s. es = [GotClusterMember req (Inr m), StatusClusterMember x s] \<and>
       (find_condition ''Ready'' (cmsConditions (cmStatus m)) = None \<or>
        cmsObservedGeneration (cmStatus m) \<noteq> mGeneration (cmMeta m)) \<and>
       cmMeta x = cmMeta m \<and> cmSpec x = cmSpec m \<and>
       cmsObservedGeneration (cmStatus x) = mGeneration (cmMeta m) \<and>
       (\<exists>c. find_condition ''Ready'' (cmsConditions (cmStatus x)) = Some c \<and>
          cnObservedGeneration c = mGeneration (cmMeta m) \<and>
          cnStatus c = (if cmClusterName (cmSpec m) \<noteq> '''' \<and> cmProvider (cmSpec m) \<noteq> '''' \<and>
            cmRegion (cmSpec m) \<noteq> '''' then ConditionTrue else ConditionFalse)) \<and>
       (\<forall>ty. ty = ''Ready'' \<or> find_condition ty (cmsConditions (cmStatus x)) =
          find_condition ty (cmsConditions (cmStatus m))) \<and>
       r = (case s of Inl e \<Rightarrow> Inl e | Inr _ \<Rightarrow> Inr no_requeue)))"
proof (rule in_every_run_wp, rule wp_member_reconcile [OF assms], goal_cases)
  case (3 m now t s)
  let ?x = "m\<lparr>cmStatus := member_status_for now t m\<rparr>"
  have "shows_condition (clusterMemberReadyCondition m) (cmsConditions (cmStatus ?x))"
    by (simp add: member_status_for_def shows_put_condition)
  then have "\<exists>c. find_condition ''Ready'' (cmsConditions (cmStatus ?x)) = Some c \<and>
      cnObservedGeneration c = mGeneration (cmMeta m) \<and>
      cnStatus c = (if cmClusterName (cmSpec m) \<noteq> '''' \<and> cmProvider (cmSpec m) \<noteq> '''' \<and>
        cmRegion (cmSpec m) \<noteq> '''' then ConditionTrue else ConditionFalse)"
    by (simp add: shows_condition_def valid_member_spec_def split: option.splits)
  moreover have "ty = ''Ready'' \<or> find_condition ty (cmsConditions (cmStatus ?x)) =
      find_condition ty (cmsConditions (cmStatus m))" for ty
    by (simp add: member_status_for_def find_put_condition)
  ultimately show ?case
    using 3 by (intro disjI2 exI [of _ m] exI [of _ ?x] exI [of _ s]) auto
qed auto

theorem member_status_written_witness:
  "in_every_run (ClusterMember_Reconcile ref_lib ref_kube (cluster_key ''east'')) (\<lambda>r es.
    \<forall>m. es = [GotClusterMember (cluster_key ''east'') (Inr m)] \<longrightarrow>
      find_condition ''Ready'' (cmsConditions (cmStatus m)) \<noteq> None)"
  unfolding in_every_run_def case_prod_unfold
proof (intro allI impI)
  fix w m
  assume "fst (snd (run (ClusterMember_Reconcile ref_lib ref_kube (cluster_key ''east'')) w)) =
    [GotClusterMember (cluster_key ''east'') (Inr m)]"
  with member_status_written [of ref_lib ref_kube "cluster_key ''east''",
      unfolded in_every_run_def case_prod_unfold, THEN spec [of _ w]]
  show "find_condition ''Ready'' (cmsConditions (cmStatus m)) \<noteq> None" by simp
qed

text \<open>C40: a member with a \<open>Ready\<close> condition whose generation was observed is never written again,
  whatever the condition says: the status function updates the condition in the array it
  compares with, so a \<open>Ready\<close> condition that contradicts the spec stays.\<close>

theorem member_drift_kept:
  assumes "conditions_ok L" and "equality_ok L"
    and "find_condition ''Ready'' (cmsConditions (cmStatus m)) = Some c"
    and "cmsObservedGeneration (cmStatus m) = mGeneration (cmMeta m)"
  shows "in_every_run (ClusterMember_reconcileStatus L K m) (\<lambda>r es. r = Inr () \<and> es = [])"
  by (rule member.silent_when_settled [OF assms(1,2)]) (use assms(3,4) in simp)

definition drifted_member :: ClusterMember where
  "drifted_member = (sample_member ''east'')\<lparr>cmStatus :=
     \<lparr>cmsObservedGeneration = 3, cmsLastObservedAt = Some 1,
      cmsConditions = [mk_condition ''Ready'' ConditionFalse 3 ''Edited'' ''by hand'']\<rparr>\<rparr>"

theorem member_drift_kept_witness:
  "valid_member_spec (cmSpec drifted_member) \<and>
   in_every_run (ClusterMember_reconcileStatus ref_lib ref_kube drifted_member)
     (\<lambda>r es. r = Inr () \<and> es = [])"
  using member_drift_kept [of ref_lib drifted_member _ ref_kube]
  by (simp add: drifted_member_def sample_member_def sample_meta_def valid_member_spec_def)

section \<open>Federations\<close>

text \<open>A number in the range of \<open>int32\<close> is the one that the counter holds.\<close>

lemma sint_of_length: "n < 2 ^ 31 \<Longrightarrow> sint (word_of_nat n :: int32) = int n"
  using sint_sbintrunc' [where bin = "int n" and 'a = 32]
  by (simp add: signed_take_bit_int_eq_self_iff)

text \<open>C29: on a server that answers from one state of the cluster, the controller of a Federation
  whose member selector is absent or valid (with an invalid one it fails before it reads a member)
  resolves exactly the members that exist and are named in the spec or selected by their labels,
  each once. It makes at most one write, the status for these members; it leaves the object
  alone only when the stored status lists these members, their number of ready ones and the
  generation already; a failed write is the result.\<close>

theorem federation_members_resolved:
  assumes "conditions_ok L" and "equality_ok L" and "answers_from K view"
    and "stored_by_name (view st)" and "s_Federation (view st) n = Some f"
    and "selector_valid L (fMemberSelector (fedSpec f))"
  shows "case run (Federation_Reconcile L K (cluster_key n)) st of (r, es, _) \<Rightarrow>
    \<exists>members. distinct (map member_name members) \<and>
      set members = federation_members L (view st) f \<and> federation_outcome L f members r es"
proof -
  have "s_Federation (view st) (kName (cluster_key n)) = Some f" using assms(5) by simp
  from wpv_run [OF wpv_federation_decides [OF assms(1-4) this assms(6)]]
  show ?thesis by (simp add: resolved_def conj_assoc)
qed

definition two_members :: store where
  "two_members = empty_store\<lparr>st_ClusterMembers := [sample_member ''east'', sample_member ''west''],
     st_Federations := [sample_federation [''west'', ''gone'', ''west'']]\<rparr>"

lemma two_snapshot:
  "s_Federation (store_snapshot two_members) ''primary'' =
     Some (sample_federation [''west'', ''gone'', ''west''])"
  by (simp add: two_members_def store_snapshot_def empty_store_def lookup_name_def
      sample_federation_def sample_meta_def)

theorem federation_members_resolved_witness:
  "case run (Federation_Reconcile ref_lib ref_kube (cluster_key ''primary'')) two_members of (r, es, _) \<Rightarrow>
    \<exists>members. distinct (map member_name members) \<and>
      set members = federation_members ref_lib (store_snapshot two_members)
        (sample_federation [''west'', ''gone'', ''west'']) \<and>
      federation_outcome ref_lib (sample_federation [''west'', ''gone'', ''west'']) members r es"
  by (rule federation_members_resolved)
     (simp_all add: two_snapshot, simp add: selector_valid_def sample_federation_def)

text \<open>C30: a status that is written for a list of fewer than \<open>2 ^ 31\<close> members, the range of the counter's
  type \<open>int32\<close>, counts them right: the count of ready members, read as a signed number, is their
  number, \<open>Ready\<close> is True exactly when there are members and all are ready, and \<open>Degraded\<close> is
  present exactly when some member is not ready.\<close>

theorem federation_status_counts:
  assumes "conditions_ok L" and "equality_ok L" and "length members < 2 ^ 31"
  shows "in_every_run (Federation_reconcileStatus L K f members) (\<lambda>r es.
    \<forall>x s. StatusFederation x s \<in> set es \<longrightarrow>
      map fmsName (fsMembers (fedStatus x)) = map member_name members \<and>
      map fmsReady (fsMembers (fedStatus x)) = map (clusterMemberReady L) members \<and>
      sint (fsReadyMembers (fedStatus x)) = int (length (filter (clusterMemberReady L) members)) \<and>
      fsObservedGeneration (fedStatus x) = mGeneration (fedMeta f) \<and>
      (\<exists>c. find_condition ''Ready'' (fsConditions (fedStatus x)) = Some c \<and>
         cnStatus c = (if members \<noteq> [] \<and> list_all (clusterMemberReady L) members
           then ConditionTrue else ConditionFalse)) \<and>
      (find_condition ''Degraded'' (fsConditions (fedStatus x)) \<noteq> None \<longleftrightarrow>
         \<not> list_all (clusterMemberReady L) members))"
proof (rule in_every_run_wp, rule wp_federation_status [OF assms(1,2)])
  fix ts r
  let ?x = "federation_wanted L f members ts" and ?n = "length (filter (clusterMemberReady L) members)"
  have small: "length members < 2 ^ 32" using assms(3) by simp
  have ready: "ready_count L members = word_of_nat (length members) \<longleftrightarrow>
      list_all (clusterMemberReady L) members"
    unfolding ready_count_def by (rule all_ready_iff [OF small])
  have "?n \<le> length members" by simp
  then have "?n < 2 ^ 31" using assms(3) by (rule le_less_trans)
  then have count: "sint (ready_count L members) = int ?n"
    unfolding ready_count_def by (rule sint_of_length)
  have conds: "fsConditions (fedStatus ?x) = federation_conditions L f members ts"
    by (simp add: federation_wanted_def)
  have "\<exists>c. find_condition ''Ready'' (fsConditions (fedStatus ?x)) = Some c \<and>
      cnStatus c = (if members \<noteq> [] \<and> list_all (clusterMemberReady L) members
        then ConditionTrue else ConditionFalse)"
    unfolding conds federation_conditions_def Let_def ready
    by (simp add: find_put_fields fieldsNotEnforcedCondition_def find_put_condition find_drop_condition
        federation_ready_def ready split: option.split)
  moreover have "find_condition ''Degraded'' (fsConditions (fedStatus ?x)) \<noteq> None \<longleftrightarrow>
      \<not> list_all (clusterMemberReady L) members"
    unfolding conds federation_conditions_def Let_def ready
    by (cases "members = []")
       (simp_all add: find_put_fields fieldsNotEnforcedCondition_def find_put_condition find_drop_condition)
  ultimately show "\<forall>x s. StatusFederation x s \<in> set ([] @ [StatusFederation ?x r]) \<longrightarrow>
      map fmsName (fsMembers (fedStatus x)) = map member_name members \<and>
      map fmsReady (fsMembers (fedStatus x)) = map (clusterMemberReady L) members \<and>
      sint (fsReadyMembers (fedStatus x)) = int (length (filter (clusterMemberReady L) members)) \<and>
      fsObservedGeneration (fedStatus x) = mGeneration (fedMeta f) \<and>
      (\<exists>c. find_condition ''Ready'' (fsConditions (fedStatus x)) = Some c \<and>
         cnStatus c = (if members \<noteq> [] \<and> list_all (clusterMemberReady L) members
           then ConditionTrue else ConditionFalse)) \<and>
      (find_condition ''Degraded'' (fsConditions (fedStatus x)) \<noteq> None \<longleftrightarrow>
         \<not> list_all (clusterMemberReady L) members)"
    using count by (simp add: federation_wanted_def member_statuses_def comp_def)
qed simp

theorem federation_status_counts_witness:
  "in_every_run (Federation_reconcileStatus ref_lib ref_kube (sample_federation [''east'']) [sample_member ''east''])
    (\<lambda>r es. \<forall>x s. StatusFederation x s \<in> set es \<longrightarrow> sint (fsReadyMembers (fedStatus x)) = 0)"
  using federation_status_counts [of ref_lib "[sample_member ''east'']" ref_kube "sample_federation [''east'']"]
  unfolding in_every_run_def
  by (simp add: clusterMemberReady_def sample_member_def case_prod_unfold)

end
