(* ===== verification/Workload_Gate.thy ===== *)
theory Workload_Gate
  imports Status_Contract Federation_Controller
begin

text \<open>
  The checks of \<open>workload_controller.go\<close> that come before anything is applied: membership of
  the Federation, the target policy, the dependencies and the ownership of the objects.
\<close>

section \<open>The checks\<close>

record workloadDegradedState =
  wdReason :: string
  wdMessage :: string

definition workload_clusterMemberRef :: "string \<Rightarrow> string" where
  "workload_clusterMemberRef clusterMemberName =
     (if clusterMemberName \<noteq> '''' then clusterMemberName else ''local'')"

definition missingWorkloadSecret :: "Workload \<Rightarrow> string \<Rightarrow> workloadDegradedState" where
  "missingWorkloadSecret workload name =
     \<lparr>wdReason = ''SecretNotFound'',
      wdMessage = ''Secret '' @ go_quote name @ '' not found in namespace '' @
        go_quote (mNamespace (wlMeta workload)) @
        ''. Ensure the Secret exists before reconciling the Workload. See docs/architecture.md for the recommended secrets provisioning model.''\<rparr>"

definition workloadOwnershipConflict :: "string \<Rightarrow> Workload \<Rightarrow> workloadDegradedState" where
  "workloadOwnershipConflict kind workload =
     \<lparr>wdReason = kind @ ''OwnershipConflict'',
      wdMessage = kind @ '' '' @ go_quote (mName (wlMeta workload)) @
        '' already exists in namespace '' @ go_quote (mNamespace (wlMeta workload)) @
        '' and is not controlled by Workload '' @ go_quote (mName (wlMeta workload)) @
        ''. Rename or remove the conflicting object before reconciling the Workload.''\<rparr>"

definition isFederationMember ::
  "lib \<Rightarrow> 'w kube \<Rightarrow> string \<Rightarrow> Workload \<Rightarrow>
     ('w, error + bool \<times> workloadDegradedState option) io" where
  "isFederationMember L K clusterMemberName workload =
     (let federationName = rrName (wFederationRef (wlSpec workload)) in
      if federationName = '''' then State_Monad.return (Inr (True, None))
      else do {
        r \<leftarrow> get_Federation K (cluster_key federationName);
        case r of
          Inl err \<Rightarrow>
            State_Monad.return
              (if is_not_found err
               then Inr (False, Some \<lparr>wdReason = ''FederationNotFound'',
                 wdMessage = ''Federation '' @ go_quote federationName @
                   '' not found. Create the Federation or update spec.federationRef before reconciling the Workload.''\<rparr>)
               else Inl err)
        | Inr federation \<Rightarrow>
            if list_ex (\<lambda>ref. fmrName ref = clusterMemberName) (fMembers (fedSpec federation))
            then State_Monad.return (Inr (True, None))
            else (case fMemberSelector (fedSpec federation) of
                None \<Rightarrow> State_Monad.return (Inr (False, None))
              | Some labelSelector \<Rightarrow> do {
                  r \<leftarrow> get_ClusterMember K (cluster_key clusterMemberName);
                  case r of
                    Inl err \<Rightarrow>
                      State_Monad.return
                        (if is_not_found err
                         then Inr (False, Some \<lparr>wdReason = ''ClusterMemberNotFound'',
                           wdMessage = ''ClusterMember '' @ go_quote clusterMemberName @
                             '' required to evaluate Federation '' @ go_quote federationName @
                             '' was not found.''\<rparr>)
                         else Inl err)
                  | Inr member \<Rightarrow>
                      (case l_LabelSelectorAsSelector L labelSelector of
                         Inl err \<Rightarrow>
                           State_Monad.return (Inr (False, Some
                             \<lparr>wdReason = ''InvalidFederationSelector'',
                              wdMessage = ''Federation '' @ go_quote federationName @
                                '' has an invalid memberSelector: '' @ err @ ''.''\<rparr>))
                       | Inr selector \<Rightarrow>
                           State_Monad.return (Inr (selector (mLabels (cmMeta member)), None)))
                })
      })"

definition isTargetPolicyMatch ::
  "lib \<Rightarrow> 'w kube \<Rightarrow> string \<Rightarrow> Workload \<Rightarrow>
     ('w, error + bool \<times> workloadDegradedState option) io" where
  "isTargetPolicyMatch L K clusterMemberName workload =
     (case wTargetPolicy (wlSpec workload) of
        None \<Rightarrow> State_Monad.return (Inr (True, None))
      | Some policy \<Rightarrow>
          if length (tpMembers policy) > 0
          then State_Monad.return (Inr (list_ex (\<lambda>name. name = clusterMemberName) (tpMembers policy), None))
          else (case tpMemberSelector policy of
              None \<Rightarrow> State_Monad.return (Inr (True, None))
            | Some labelSelector \<Rightarrow>
                (case l_LabelSelectorAsSelector L labelSelector of
                   Inl err \<Rightarrow>
                     State_Monad.return (Inr (False, Some \<lparr>wdReason = ''InvalidTargetPolicy'',
                       wdMessage = ''Workload targetPolicy.memberSelector is invalid: '' @ err @ ''.''\<rparr>))
                 | Inr selector \<Rightarrow> do {
                     r \<leftarrow> get_ClusterMember K (cluster_key clusterMemberName);
                     case r of
                       Inl err \<Rightarrow>
                         State_Monad.return
                           (if is_not_found err
                            then Inr (False, Some \<lparr>wdReason = ''ClusterMemberNotFound'',
                              wdMessage = ''ClusterMember '' @ go_quote clusterMemberName @
                                '' required to evaluate Workload targetPolicy was not found.''\<rparr>)
                            else Inl err)
                     | Inr member \<Rightarrow>
                         State_Monad.return (Inr (selector (mLabels (cmMeta member)), None))
                   })))"

text \<open>The two loops of the dependency check: the pull secrets, then the sources of variables.\<close>

primrec check_pull_secrets ::
  "'w kube \<Rightarrow> Workload \<Rightarrow> string list \<Rightarrow> ('w, error + workloadDegradedState option) io" where
  "check_pull_secrets K workload [] = State_Monad.return (Inr None)"
| "check_pull_secrets K workload (name # names) =
     do {
       r \<leftarrow> get_Secret K (object_key (mNamespace (wlMeta workload)) name);
       case r of
         Inl err \<Rightarrow>
           State_Monad.return
             (if is_not_found err then Inr (Some (missingWorkloadSecret workload name)) else Inl err)
       | Inr secret \<Rightarrow> check_pull_secrets K workload names
     }"

definition check_config_map ::
  "'w kube \<Rightarrow> Workload \<Rightarrow> string option \<Rightarrow> ('w, error + workloadDegradedState option) io" where
  "check_config_map K workload ref =
     (case ref of
        None \<Rightarrow> State_Monad.return (Inr None)
      | Some name \<Rightarrow> do {
          r \<leftarrow> get_ConfigMap K (object_key (mNamespace (wlMeta workload)) name);
          State_Monad.return
            (case r of
               Inl err \<Rightarrow>
                 if is_not_found err
                 then Inr (Some \<lparr>wdReason = ''ConfigMapNotFound'',
                   wdMessage = ''ConfigMap '' @ go_quote name @ '' not found in namespace '' @
                     go_quote (mNamespace (wlMeta workload)) @
                     ''. Create the ConfigMap before reconciling the Workload.''\<rparr>)
                 else Inl err
             | Inr configMap \<Rightarrow> Inr None)
        })"

definition check_secret ::
  "'w kube \<Rightarrow> Workload \<Rightarrow> string option \<Rightarrow> ('w, error + workloadDegradedState option) io" where
  "check_secret K workload ref =
     (case ref of
        None \<Rightarrow> State_Monad.return (Inr None)
      | Some name \<Rightarrow> do {
          r \<leftarrow> get_Secret K (object_key (mNamespace (wlMeta workload)) name);
          State_Monad.return
            (case r of
               Inl err \<Rightarrow>
                 if is_not_found err then Inr (Some (missingWorkloadSecret workload name)) else Inl err
             | Inr secret \<Rightarrow> Inr None)
        })"

text \<open>The next step of a check, when this one found nothing.\<close>

definition or_else ::
  "('w, error + workloadDegradedState option) io \<Rightarrow>
     ('w, error + workloadDegradedState option) io \<Rightarrow>
     ('w, error + workloadDegradedState option) io" where
  "or_else m n =
     checked m (\<lambda>degraded. case degraded of
       None \<Rightarrow> n | Some d \<Rightarrow> State_Monad.return (Inr (Some d)))"

primrec check_env_from ::
  "'w kube \<Rightarrow> Workload \<Rightarrow> WorkloadEnvFromSource list \<Rightarrow>
     ('w, error + workloadDegradedState option) io" where
  "check_env_from K workload [] = State_Monad.return (Inr None)"
| "check_env_from K workload (source # sources) =
     or_else (check_config_map K workload (wefConfigMapRef source))
       (or_else (check_secret K workload (wefSecretRef source))
         (check_env_from K workload sources))"

definition dependencyPreflight ::
  "'w kube \<Rightarrow> Workload \<Rightarrow> ('w, error + workloadDegradedState option) io" where
  "dependencyPreflight K workload =
     or_else (check_pull_secrets K workload (wImagePullSecrets (wlSpec workload)))
       (check_env_from K workload (wEnvFrom (wlSpec workload)))"

definition ownershipPreflight ::
  "lib \<Rightarrow> 'w kube \<Rightarrow> Workload \<Rightarrow> ('w, error + workloadDegradedState option) io" where
  "ownershipPreflight L K workload =
     or_else
       (do {
          r \<leftarrow> get_Deployment K (key_of (wlMeta workload));
          State_Monad.return
            (case r of
               Inr deployment \<Rightarrow>
                 if \<not> l_IsControlledBy L (dMeta deployment) (wlMeta workload)
                 then Inr (Some (workloadOwnershipConflict ''Deployment'' workload)) else Inr None
             | Inl err \<Rightarrow> if \<not> is_not_found err then Inl err else Inr None)
        })
       (if length (wPorts (wlSpec workload)) = 0 then State_Monad.return (Inr None)
        else do {
          r \<leftarrow> get_Service K (key_of (wlMeta workload));
          State_Monad.return
            (case r of
               Inr service \<Rightarrow>
                 if \<not> l_IsControlledBy L (svcMeta service) (wlMeta workload)
                 then Inr (Some (workloadOwnershipConflict ''Service'' workload)) else Inr None
             | Inl err \<Rightarrow> if \<not> is_not_found err then Inl err else Inr None)
        })"

section \<open>What the checks decide\<close>

definition membership_ok :: "lib \<Rightarrow> snapshot \<Rightarrow> string \<Rightarrow> Workload \<Rightarrow> bool" where
  "membership_ok L V n workload \<longleftrightarrow>
     rrName (wFederationRef (wlSpec workload)) = '''' \<or>
     (\<exists>f. s_Federation V (rrName (wFederationRef (wlSpec workload))) = Some f \<and>
        cluster_in_federation L V n f)"

text \<open>A list of members in the target policy takes precedence over its selector.\<close>

definition targeted :: "lib \<Rightarrow> snapshot \<Rightarrow> string \<Rightarrow> Workload \<Rightarrow> bool" where
  "targeted L V n workload \<longleftrightarrow>
     (case wTargetPolicy (wlSpec workload) of
        None \<Rightarrow> True
      | Some policy \<Rightarrow>
          if tpMembers policy \<noteq> [] then n \<in> set (tpMembers policy)
          else tpMemberSelector policy = None \<or>
            (\<exists>m. s_ClusterMember V n = Some m \<and>
               selected_by L (tpMemberSelector policy) (mLabels (cmMeta m))))"

abbreviation beside :: "Workload \<Rightarrow> string \<Rightarrow> ObjectKey" where
  "beside workload n \<equiv> object_key (mNamespace (wlMeta workload)) n"

text \<open>The Secrets and ConfigMaps a Workload refers to.\<close>

definition needed_secrets :: "Workload \<Rightarrow> ObjectKey set" where
  "needed_secrets workload =
     beside workload ` (set (wImagePullSecrets (wlSpec workload)) \<union>
       {n. \<exists>s \<in> set (wEnvFrom (wlSpec workload)). wefSecretRef s = Some n})"

definition needed_config_maps :: "Workload \<Rightarrow> ObjectKey set" where
  "needed_config_maps workload =
     beside workload ` {n. \<exists>s \<in> set (wEnvFrom (wlSpec workload)). wefConfigMapRef s = Some n}"

definition dependencies_ok :: "snapshot \<Rightarrow> Workload \<Rightarrow> bool" where
  "dependencies_ok V workload \<longleftrightarrow>
     needed_secrets workload \<subseteq> dom (s_Secret V) \<and>
     needed_config_maps workload \<subseteq> dom (s_ConfigMap V)"

definition ownership_ok :: "lib \<Rightarrow> snapshot \<Rightarrow> Workload \<Rightarrow> bool" where
  "ownership_ok L V workload \<longleftrightarrow>
     (\<forall>d. s_Deployment V (key_of (wlMeta workload)) = Some d \<longrightarrow>
        l_IsControlledBy L (dMeta d) (wlMeta workload)) \<and>
     (wPorts (wlSpec workload) \<noteq> [] \<longrightarrow>
        (\<forall>s. s_Service V (key_of (wlMeta workload)) = Some s \<longrightarrow>
           l_IsControlledBy L (svcMeta s) (wlMeta workload)))"

text \<open>What each reason that the controller reports says of the cluster.\<close>

definition explains :: "lib \<Rightarrow> snapshot \<Rightarrow> string \<Rightarrow> Workload \<Rightarrow> string \<Rightarrow> bool" where
  "explains L V n workload reason \<longleftrightarrow>
     (let federation = s_Federation V (rrName (wFederationRef (wlSpec workload)));
          deployment = s_Deployment V (key_of (wlMeta workload));
          service = s_Service V (key_of (wlMeta workload))
      in reason = ''FederationNotFound'' \<and> federation = None \<or>
         reason = ''ClusterMemberNotFound'' \<and> s_ClusterMember V n = None \<or>
         reason = ''InvalidFederationSelector'' \<and>
           (\<exists>f. federation = Some f \<and> \<not> selector_valid L (fMemberSelector (fedSpec f))) \<or>
         reason = ''InvalidTargetPolicy'' \<and>
           (\<exists>p. wTargetPolicy (wlSpec workload) = Some p \<and> \<not> selector_valid L (tpMemberSelector p)) \<or>
         reason = ''SecretNotFound'' \<and> (\<exists>k \<in> needed_secrets workload. s_Secret V k = None) \<or>
         reason = ''ConfigMapNotFound'' \<and> (\<exists>k \<in> needed_config_maps workload. s_ConfigMap V k = None) \<or>
         reason = ''DeploymentOwnershipConflict'' \<and>
           (\<exists>d. deployment = Some d \<and> \<not> l_IsControlledBy L (dMeta d) (wlMeta workload)) \<or>
         reason = ''ServiceOwnershipConflict'' \<and>
           (\<exists>s. service = Some s \<and> \<not> l_IsControlledBy L (svcMeta s) (wlMeta workload)))"

fun gate_answer :: "bool \<Rightarrow> (string \<Rightarrow> bool) \<Rightarrow> bool \<times> workloadDegradedState option \<Rightarrow> bool" where
  "gate_answer ok why (b, None) \<longleftrightarrow> b = ok"
| "gate_answer ok why (b, Some d) \<longleftrightarrow> \<not> b \<and> \<not> ok \<and> why (wdReason d)"

fun check_answer :: "bool \<Rightarrow> (string \<Rightarrow> bool) \<Rightarrow> workloadDegradedState option \<Rightarrow> bool" where
  "check_answer ok why None \<longleftrightarrow> ok"
| "check_answer ok why (Some d) \<longleftrightarrow> \<not> ok \<and> why (wdReason d)"

section \<open>The checks decide so\<close>

lemmas gate_defs =
  membership_ok_def targeted_def cluster_in_federation_def explains_def selected_by_def
  selector_valid_def Let_def

lemma isFederationMember_decides:
  assumes K: "answers_from K view"
  shows "answers_so view (isFederationMember L K n workload) V
    (gate_answer (membership_ok L V n workload) (explains L V n workload))"
  unfolding isFederationMember_def Let_def
  by (rule answers_soI, intro wpv_intros K) (auto simp: gate_defs list_ex_iff split: option.splits)

lemma isTargetPolicyMatch_decides:
  assumes K: "answers_from K view"
  shows "answers_so view (isTargetPolicyMatch L K n workload) V
    (gate_answer (targeted L V n workload) (explains L V n workload))"
  unfolding isTargetPolicyMatch_def
  by (rule answers_soI, intro wpv_intros K) (auto simp: gate_defs list_ex_iff split: option.splits)

lemma explains_missing:
  "k \<in> needed_secrets workload \<Longrightarrow> s_Secret V k = None \<Longrightarrow> explains L V n workload ''SecretNotFound''"
  "k \<in> needed_config_maps workload \<Longrightarrow> s_ConfigMap V k = None \<Longrightarrow>
     explains L V n workload ''ConfigMapNotFound''"
  by (auto simp: explains_def Let_def)

lemma reason_missing [simp]: "wdReason (missingWorkloadSecret workload name) = ''SecretNotFound''"
  by (simp add: missingWorkloadSecret_def)

text \<open>Two checks in a row, each with what it decides.\<close>

lemma or_else_decides:
  assumes "answers_so view m V (check_answer A why)" and "answers_so view n V (check_answer B why)"
  shows "answers_so view (or_else m n) V (check_answer (A \<and> B) why)"
  unfolding or_else_def
  by (rule answers_so_checked [OF assms(1)])
     (use assms(2) in \<open>auto split: option.split intro!: answers_so_return\<close>)

lemma check_pull_secrets_decides:
  assumes K: "answers_from K view" and "beside workload ` set names \<subseteq> needed_secrets workload"
  shows "answers_so view (check_pull_secrets K workload names) V
    (check_answer (beside workload ` set names \<subseteq> dom (s_Secret V)) (explains L V n workload))"
  using assms(2)
proof (induction names)
  case Nil
  then show ?case by (simp add: answers_so_return)
next
  case (Cons name names)
  have "answers_so view (check_pull_secrets K workload names) V
      (check_answer (beside workload ` set names \<subseteq> dom (s_Secret V)) (explains L V n workload))"
    using Cons by simp
  then show ?case
    unfolding check_pull_secrets.simps
    using Cons.prems
    by (intro answers_soI wpv_intros K)
       (auto simp: explains_missing domIff elim!: wpv_answers)
qed

lemma check_config_map_decides:
  assumes K: "answers_from K view"
    and "\<And>name. ref = Some name \<Longrightarrow> beside workload name \<in> needed_config_maps workload"
  shows "answers_so view (check_config_map K workload ref) V
    (check_answer (beside workload ` set_option ref \<subseteq> dom (s_ConfigMap V)) (explains L V n workload))"
  unfolding check_config_map_def
  by (intro answers_soI wpv_intros K) (use assms(2) in \<open>auto simp: explains_missing domIff\<close>)

lemma check_secret_decides:
  assumes K: "answers_from K view"
    and "\<And>name. ref = Some name \<Longrightarrow> beside workload name \<in> needed_secrets workload"
  shows "answers_so view (check_secret K workload ref) V
    (check_answer (beside workload ` set_option ref \<subseteq> dom (s_Secret V)) (explains L V n workload))"
  unfolding check_secret_def
  by (intro answers_soI wpv_intros K)
     (use assms(2) in \<open>auto simp: explains_missing domIff\<close>)

text \<open>What the sources of a list need.\<close>

definition sources_ok :: "snapshot \<Rightarrow> Workload \<Rightarrow> WorkloadEnvFromSource list \<Rightarrow> bool" where
  "sources_ok V workload sources \<longleftrightarrow>
     (\<forall>s \<in> set sources.
        beside workload ` set_option (wefConfigMapRef s) \<subseteq> dom (s_ConfigMap V) \<and>
        beside workload ` set_option (wefSecretRef s) \<subseteq> dom (s_Secret V))"

lemma check_env_from_decides:
  assumes K: "answers_from K view" and "set sources \<subseteq> set (wEnvFrom (wlSpec workload))"
  shows "answers_so view (check_env_from K workload sources) V
    (check_answer (sources_ok V workload sources) (explains L V n workload))"
  using assms(2)
proof (induction sources)
  case Nil
  then show ?case by (simp add: answers_so_return sources_ok_def)
next
  case (Cons s sources)
  have maps: "\<And>name. wefConfigMapRef s = Some name \<Longrightarrow> beside workload name \<in> needed_config_maps workload"
    and secrets: "\<And>name. wefSecretRef s = Some name \<Longrightarrow> beside workload name \<in> needed_secrets workload"
    using Cons.prems by (auto simp: needed_config_maps_def needed_secrets_def)
  have eq: "sources_ok V workload (s # sources) \<longleftrightarrow>
      beside workload ` set_option (wefConfigMapRef s) \<subseteq> dom (s_ConfigMap V) \<and>
      beside workload ` set_option (wefSecretRef s) \<subseteq> dom (s_Secret V) \<and>
      sources_ok V workload sources"
    by (auto simp: sources_ok_def)
  show ?case
    unfolding check_env_from.simps eq using Cons
    by (intro or_else_decides check_config_map_decides check_secret_decides K maps secrets) simp_all
qed

lemma dependencies_split:
  "dependencies_ok V workload \<longleftrightarrow>
     beside workload ` set (wImagePullSecrets (wlSpec workload)) \<subseteq> dom (s_Secret V) \<and>
     sources_ok V workload (wEnvFrom (wlSpec workload))"
  unfolding dependencies_ok_def needed_secrets_def needed_config_maps_def sources_ok_def
  by (auto simp: image_subset_iff)

lemma dependencyPreflight_decides:
  assumes K: "answers_from K view"
  shows "answers_so view (dependencyPreflight K workload) V
    (check_answer (dependencies_ok V workload) (explains L V n workload))"
  unfolding dependencyPreflight_def dependencies_split
  by (intro or_else_decides check_pull_secrets_decides check_env_from_decides K subset_refl)
     (auto simp: needed_secrets_def)

lemma ownershipPreflight_decides:
  assumes K: "answers_from K view"
  shows "answers_so view (ownershipPreflight L K workload) V
    (check_answer (ownership_ok L V workload) (explains L V n workload))"
  unfolding ownershipPreflight_def ownership_ok_def
  by (rule or_else_decides; intro answers_soI wpv_intros K;
      auto simp: explains_def Let_def workloadOwnershipConflict_def)

section \<open>What the checks have seen\<close>

text \<open>
  The same without a snapshot, for every server: a check that passes leaves the reads it
  rests on in the trace.
\<close>

definition dependencies_seen :: "Workload \<Rightarrow> event list \<Rightarrow> bool" where
  "dependencies_seen workload h \<longleftrightarrow>
     (\<forall>k \<in> needed_secrets workload. \<exists>s. GotSecret k (Inr s) \<in> set h) \<and>
     (\<forall>k \<in> needed_config_maps workload. \<exists>m. GotConfigMap k (Inr m) \<in> set h)"

definition deployment_seen :: "lib \<Rightarrow> Workload \<Rightarrow> event list \<Rightarrow> bool" where
  "deployment_seen L workload h \<longleftrightarrow>
     (\<exists>r. GotDeployment (key_of (wlMeta workload)) r \<in> set h \<and>
        (case r of Inl e \<Rightarrow> is_not_found e
         | Inr d \<Rightarrow> l_IsControlledBy L (dMeta d) (wlMeta workload)))"

definition service_seen :: "lib \<Rightarrow> Workload \<Rightarrow> event list \<Rightarrow> bool" where
  "service_seen L workload h \<longleftrightarrow>
     (\<exists>r. GotService (key_of (wlMeta workload)) r \<in> set h \<and>
        (case r of Inl e \<Rightarrow> is_not_found e
         | Inr s \<Rightarrow> l_IsControlledBy L (svcMeta s) (wlMeta workload)))"

definition sources_seen :: "Workload \<Rightarrow> WorkloadEnvFromSource list \<Rightarrow> event list \<Rightarrow> bool" where
  "sources_seen workload sources h \<longleftrightarrow>
     (\<forall>s \<in> set sources.
        (\<forall>name \<in> set_option (wefConfigMapRef s). \<exists>m. GotConfigMap (beside workload name) (Inr m) \<in> set h) \<and>
        (\<forall>name \<in> set_option (wefSecretRef s). \<exists>x. GotSecret (beside workload name) (Inr x) \<in> set h))"

lemma isFederationMember_reads: "reads_then (isFederationMember L K n workload) (\<lambda>_ _. True)"
  unfolding isFederationMember_def Let_def client_defs
  by (rule reads_thenI, intro wp_intros) auto

lemma isTargetPolicyMatch_reads: "reads_then (isTargetPolicyMatch L K n workload) (\<lambda>_ _. True)"
  unfolding isTargetPolicyMatch_def client_defs
  by (rule reads_thenI, intro wp_intros) auto

lemma or_else_reads:
  assumes "reads_then m (\<lambda>r h. r = Inr None \<longrightarrow> A h)" and "reads_then n (\<lambda>r h. r = Inr None \<longrightarrow> B h)"
    and "lasting A"
  shows "reads_then (or_else m n) (\<lambda>r h. r = Inr None \<longrightarrow> A h \<and> B h)"
  unfolding or_else_def
proof (rule reads_thenI, rule wp_checked, rule wp_reads [OF assms(1)], intro conjI allI impI wp_option)
  fix h h' r x
  assume after: "reads_after h h'" and "r = Inr None \<longrightarrow> A h'" and "r = Inr x" and "x = None"
  then have "A h'" by simp
  then show "wp n (\<lambda>r h''. reads_after h h'' \<and> (r = Inr None \<longrightarrow> A h'' \<and> B h'')) h'"
    by (intro wp_reads [OF assms(2)]) (auto intro: reads_after_trans [OF after] lasting_after [OF assms(3)])
qed (auto intro!: wp_return)

lemma check_pull_secrets_reads:
  "reads_then (check_pull_secrets K workload names)
     (\<lambda>r h. r = Inr None \<longrightarrow>
        (\<forall>name \<in> set names. \<exists>s. GotSecret (beside workload name) (Inr s) \<in> set h))"
proof (induction names)
  case (Cons name names)
  show ?case
    unfolding check_pull_secrets.simps client_defs
  proof (rule reads_thenI, intro wp_intros)
    fix h and a :: "error + Secret" and x
    assume a: "a = Inr x"
    show "wp (check_pull_secrets K workload names)
      (\<lambda>r h'. reads_after h h' \<and> (r = Inr None \<longrightarrow>
        (\<forall>name' \<in> set (name # names). \<exists>s. GotSecret (beside workload name') (Inr s) \<in> set h')))
      (h @ [GotSecret (beside workload name) a])"
    proof (rule wp_reads [OF Cons.IH], intro conjI impI)
      fix r h'
      assume after: "reads_after (h @ [GotSecret (beside workload name) a]) h'"
        and seen: "r = Inr None \<longrightarrow> (\<forall>name \<in> set names. \<exists>s. GotSecret (beside workload name) (Inr s) \<in> set h')"
      have "GotSecret (beside workload name) (Inr x) \<in> set h'"
        using reads_after_set [OF after] a by simp
      then show "r = Inr None \<Longrightarrow>
          \<forall>name' \<in> set (name # names). \<exists>s. GotSecret (beside workload name') (Inr s) \<in> set h'"
        using seen by auto
      show "reads_after h h'" using after by auto
    qed
  qed (auto split: if_splits)
qed simp

lemma check_config_map_reads:
  "reads_then (check_config_map K workload ref)
     (\<lambda>r h. r = Inr None \<longrightarrow>
        (\<forall>name \<in> set_option ref. \<exists>m. GotConfigMap (beside workload name) (Inr m) \<in> set h))"
  unfolding check_config_map_def client_defs
  by (intro reads_thenI wp_intros) (auto split: sum.splits if_splits)

lemma check_secret_reads:
  "reads_then (check_secret K workload ref)
     (\<lambda>r h. r = Inr None \<longrightarrow>
        (\<forall>name \<in> set_option ref. \<exists>s. GotSecret (beside workload name) (Inr s) \<in> set h))"
  unfolding check_secret_def client_defs
  by (intro reads_thenI wp_intros) (auto split: sum.splits if_splits)

lemma check_env_from_reads:
  "reads_then (check_env_from K workload sources) (\<lambda>r h. r = Inr None \<longrightarrow> sources_seen workload sources h)"
proof (induction sources)
  case (Cons s sources)
  have eq: "sources_seen workload (s # sources) h \<longleftrightarrow>
      (\<forall>name \<in> set_option (wefConfigMapRef s). \<exists>m. GotConfigMap (beside workload name) (Inr m) \<in> set h) \<and>
      (\<forall>name \<in> set_option (wefSecretRef s). \<exists>x. GotSecret (beside workload name) (Inr x) \<in> set h) \<and>
      sources_seen workload sources h" for h
    by (auto simp: sources_seen_def)
  show ?case
    unfolding check_env_from.simps eq
    by (intro or_else_reads check_config_map_reads check_secret_reads Cons)
       (unfold lasting_def, blast+)
qed (simp add: sources_seen_def)

lemma dependencies_seen_split:
  "dependencies_seen workload h \<longleftrightarrow>
     (\<forall>name \<in> set (wImagePullSecrets (wlSpec workload)). \<exists>s. GotSecret (beside workload name) (Inr s) \<in> set h) \<and>
     sources_seen workload (wEnvFrom (wlSpec workload)) h"
  unfolding dependencies_seen_def needed_secrets_def needed_config_maps_def sources_seen_def
  by auto

lemma dependencyPreflight_reads:
  "reads_then (dependencyPreflight K workload) (\<lambda>r h. r = Inr None \<longrightarrow> dependencies_seen workload h)"
  unfolding dependencyPreflight_def dependencies_seen_split
  by (intro or_else_reads check_pull_secrets_reads check_env_from_reads)
     (unfold lasting_def, blast)

lemma ownershipPreflight_reads:
  "reads_then (ownershipPreflight L K workload)
     (\<lambda>r h. r = Inr None \<longrightarrow> deployment_seen L workload h \<and>
        (wPorts (wlSpec workload) \<noteq> [] \<longrightarrow> service_seen L workload h))"
  unfolding ownershipPreflight_def
proof (rule or_else_reads)
  show "lasting (deployment_seen L workload)"
    unfolding lasting_def deployment_seen_def by blast
qed (unfold client_defs, intro reads_thenI wp_intros;
     auto simp: deployment_seen_def service_seen_def split: sum.splits if_splits)+

end
