(* ===== verification/Workload_Render.thy ===== *)
theory Workload_Render
  imports Managed_Env
begin

text \<open>
  The objects that \<open>workload_controller.go\<close> renders from a Workload: the mutate functions that
  it passes to \<open>controllerutil.CreateOrUpdate\<close> for the Deployment and the Service.
\<close>

section \<open>The rendered parts\<close>

definition workloadNameLabel :: string where
  "workloadNameLabel = ''polykube.dev/workload''"

definition workloadLabels :: "Workload \<Rightarrow> strmap" where
  "workloadLabels workload =
     [''app.kubernetes.io/managed-by'' \<mapsto> ''polykube-operator'',
      workloadNameLabel \<mapsto> mName (wlMeta workload)]"

definition metav1LabelSelector :: "strmap \<Rightarrow> LabelSelector option" where
  "metav1LabelSelector labels = Some \<lparr>lsMatchLabels = labels, lsMatchExpressions = []\<rparr>"

text \<open>References are modelled by their names, so the copy of the list is the list.\<close>

primrec imagePullSecrets :: "string list \<Rightarrow> string list" where
  "imagePullSecrets [] = []"
| "imagePullSecrets (ref # refs) = ref # imagePullSecrets refs"

definition protocol :: "string \<Rightarrow> string" where
  "protocol value = (if value = '''' then ''TCP'' else value)"

primrec containerPorts :: "WorkloadContainerPort list \<Rightarrow> ContainerPort list" where
  "containerPorts [] = []"
| "containerPorts (port # ports) =
     \<lparr>cpName = wpName port, cpContainerPort = wpContainerPort port,
      cpProtocol = protocol (wpProtocol port)\<rparr> # containerPorts ports"

primrec servicePorts :: "WorkloadContainerPort list \<Rightarrow> ServicePort list" where
  "servicePorts [] = []"
| "servicePorts (port # ports) =
     \<lparr>spName = wpName port, spPort = wpContainerPort port,
      spTargetPort = FromInt32 (wpContainerPort port),
      spProtocol = protocol (wpProtocol port)\<rparr> # servicePorts ports"

primrec envVars :: "WorkloadEnvVar list \<Rightarrow> EnvVar list" where
  "envVars [] = []"
| "envVars (variable # vars) =
     \<lparr>eName = weName variable, eValue = weValue variable, eValueFrom = None\<rparr> # envVars vars"

definition configMapEnvSource :: "string option \<Rightarrow> string option" where
  "configMapEnvSource ref = (case ref of None \<Rightarrow> None | Some name \<Rightarrow> Some name)"

definition secretEnvSource :: "string option \<Rightarrow> string option" where
  "secretEnvSource ref = (case ref of None \<Rightarrow> None | Some name \<Rightarrow> Some name)"

primrec envFromSources :: "WorkloadEnvFromSource list \<Rightarrow> EnvFromSource list" where
  "envFromSources [] = []"
| "envFromSources (source # sources) =
     \<lparr>efConfigMapRef = configMapEnvSource (wefConfigMapRef source),
      efSecretRef = secretEnvSource (wefSecretRef source)\<rparr> # envFromSources sources"

section \<open>The mutate functions\<close>

text \<open>The object that \<open>reconcileDeployment\<close> passes: a Deployment with a name only.\<close>

definition empty_meta :: ObjectMeta where
  "empty_meta =
     \<lparr>mName = '''', mNamespace = '''', mUID = '''', mGeneration = 0, mLabels = Map.empty,
      mAnnotations = None, mFinalizers = [], mOwnerReferences = [], mDeletionTimestamp = None\<rparr>"

definition named_deployment :: "Workload \<Rightarrow> Deployment" where
  "named_deployment workload =
     \<lparr>dMeta = empty_meta\<lparr>mName := mName (wlMeta workload), mNamespace := mNamespace (wlMeta workload)\<rparr>,
      dReplicas = None, dSelector = None, dTemplateLabels = Map.empty, dServiceAccountName = '''',
      dImagePullSecrets = [], dContainers = [], dConditions = []\<rparr>"

definition mutateDeployment :: "lib \<Rightarrow> Workload \<Rightarrow> Deployment \<Rightarrow> error + Deployment" where
  "mutateDeployment L workload deployment =
     (case l_SetControllerReference L (wlMeta workload) (dMeta deployment) of
        Inl err \<Rightarrow> Inl err
      | Inr meta \<Rightarrow>
          let labels = workloadLabels workload;
              deployment = deployment\<lparr>dMeta := meta\<lparr>mLabels := labels\<rparr>,
                dReplicas := wReplicas (wlSpec workload),
                dSelector := metav1LabelSelector labels,
                dTemplateLabels := labels,
                dServiceAccountName := wServiceAccountName (wlSpec workload),
                dImagePullSecrets := imagePullSecrets (wImagePullSecrets (wlSpec workload))\<rparr>;
              env = envVars (wEnv (wlSpec workload));
              env =
                (case dContainers deployment of
                   [] \<Rightarrow> env
                 | container # _ \<Rightarrow>
                     preserveDatastoreManagedEnvVars env (cEnv container)
                       (datastoreManagedEnvVars deployment))
          in Inr (deployment\<lparr>dContainers :=
               [\<lparr>cName = ''app'', cImage = wImage (wlSpec workload),
                 cPorts = containerPorts (wPorts (wlSpec workload)), cEnv = env,
                 cEnvFrom = envFromSources (wEnvFrom (wlSpec workload))\<rparr>]\<rparr>))"

definition named_service :: "Workload \<Rightarrow> Service" where
  "named_service workload =
     \<lparr>svcMeta = empty_meta\<lparr>mName := mName (wlMeta workload), mNamespace := mNamespace (wlMeta workload)\<rparr>,
      svcSelector = Map.empty, svcPorts = []\<rparr>"

definition mutateService :: "lib \<Rightarrow> Workload \<Rightarrow> Service \<Rightarrow> error + Service" where
  "mutateService L workload service =
     (case l_SetControllerReference L (wlMeta workload) (svcMeta service) of
        Inl err \<Rightarrow> Inl err
      | Inr meta \<Rightarrow>
          Inr (service\<lparr>svcMeta := meta\<lparr>mLabels := workloadLabels workload\<rparr>,
            svcSelector := workloadLabels workload,
            svcPorts := servicePorts (wPorts (wlSpec workload))\<rparr>))"

section \<open>Facts about the parts\<close>

lemma imagePullSecrets_id [simp]: "imagePullSecrets refs = refs"
  by (induction refs) auto

lemma containerPorts_map:
  "containerPorts ports =
     map (\<lambda>p. \<lparr>cpName = wpName p, cpContainerPort = wpContainerPort p, cpProtocol = protocol (wpProtocol p)\<rparr>) ports"
  by (induction ports) auto

lemma servicePorts_map:
  "servicePorts ports =
     map (\<lambda>p. \<lparr>spName = wpName p, spPort = wpContainerPort p,
       spTargetPort = FromInt32 (wpContainerPort p), spProtocol = protocol (wpProtocol p)\<rparr>) ports"
  by (induction ports) auto

lemma envVars_map:
  "envVars vars = map (\<lambda>v. \<lparr>eName = weName v, eValue = weValue v, eValueFrom = None\<rparr>) vars"
  by (induction vars) auto

lemma env_names_envVars: "env_names (envVars vars) = weName ` set vars"
  by (simp add: envVars_map image_image)

section \<open>The rendered environment\<close>

text \<open>The environment of the first container, which is the one the controller keeps.\<close>

definition container_env :: "Deployment \<Rightarrow> EnvVar list" where
  "container_env d = (case dContainers d of [] \<Rightarrow> [] | c # _ \<Rightarrow> cEnv c)"

text \<open>The environment that the controller renders over a Deployment.\<close>

definition rendered_env :: "Workload \<Rightarrow> Deployment \<Rightarrow> EnvVar list" where
  "rendered_env workload d =
     preserveDatastoreManagedEnvVars (envVars (wEnv (wlSpec workload))) (container_env d)
       (datastoreManagedEnvVars d)"

lemma preserve_Nil [simp]: "preserveDatastoreManagedEnvVars env [] managed = env"
  by (simp add: preserveDatastoreManagedEnvVars_def mergeEnvVars_eq)

lemma managed_cong:
  "mAnnotations (dMeta d) = mAnnotations (dMeta d') \<Longrightarrow>
     datastoreManagedEnvVars d = datastoreManagedEnvVars d'"
  by (simp add: datastoreManagedEnvVars_def)

lemma mutateDeployment_cases:
  assumes "owners_ok L" and "mutateDeployment L workload d = Inr d'"
  obtains meta where "l_SetControllerReference L (wlMeta workload) (dMeta d) = Inr meta"
    and "l_IsControlledBy L meta (wlMeta workload)"
    and "meta = (dMeta d)\<lparr>mOwnerReferences := mOwnerReferences meta\<rparr>"
    and "d' = \<lparr>dMeta = meta\<lparr>mLabels := workloadLabels workload\<rparr>,
       dReplicas = wReplicas (wlSpec workload),
       dSelector = metav1LabelSelector (workloadLabels workload),
       dTemplateLabels = workloadLabels workload,
       dServiceAccountName = wServiceAccountName (wlSpec workload),
       dImagePullSecrets = wImagePullSecrets (wlSpec workload),
       dContainers = [\<lparr>cName = ''app'', cImage = wImage (wlSpec workload),
         cPorts = containerPorts (wPorts (wlSpec workload)), cEnv = rendered_env workload d,
         cEnvFrom = envFromSources (wEnvFrom (wlSpec workload))\<rparr>],
       dConditions = dConditions d\<rparr>"
proof -
  from assms(2) obtain meta where
    set: "l_SetControllerReference L (wlMeta workload) (dMeta d) = Inr meta"
    by (auto simp: mutateDeployment_def split: sum.splits)
  with assms(1) have ctl: "l_IsControlledBy L meta (wlMeta workload)"
    and meta: "meta = (dMeta d)\<lparr>mOwnerReferences := mOwnerReferences meta\<rparr>"
    unfolding owners_ok_def by blast+
  have ann: "mAnnotations meta = mAnnotations (dMeta d)"
    by (subst meta) simp
  have "d' = \<lparr>dMeta = meta\<lparr>mLabels := workloadLabels workload\<rparr>,
       dReplicas = wReplicas (wlSpec workload),
       dSelector = metav1LabelSelector (workloadLabels workload),
       dTemplateLabels = workloadLabels workload,
       dServiceAccountName = wServiceAccountName (wlSpec workload),
       dImagePullSecrets = wImagePullSecrets (wlSpec workload),
       dContainers = [\<lparr>cName = ''app'', cImage = wImage (wlSpec workload),
         cPorts = containerPorts (wPorts (wlSpec workload)), cEnv = rendered_env workload d,
         cEnvFrom = envFromSources (wEnvFrom (wlSpec workload))\<rparr>],
       dConditions = dConditions d\<rparr>"
    using assms(2) set ann
    by (cases d) (auto simp: mutateDeployment_def Let_def rendered_env_def container_env_def
        datastoreManagedEnvVars_def split: list.splits)
  with set ctl meta show thesis by (rule that)
qed

section \<open>Properties of the rendering\<close>

text \<open>
  Every variable of the spec is rendered, but for the names that a DatastoreBinding manages
  the entries of the container stay.
\<close>

lemma env_map_rendered:
  "env_map (rendered_env workload d) =
     env_map (envVars (wEnv (wlSpec workload))) ++
     (env_map (container_env d) |` datastoreManagedEnvVars d)"
proof (cases "datastoreManagedEnvVars d = {}")
  case True
  then show ?thesis by (simp add: rendered_env_def preserveDatastoreManagedEnvVars_def)
next
  case False
  then show ?thesis
    by (simp add: rendered_env_def preserveDatastoreManagedEnvVars_def env_map_merge
        env_map_filter [where P = "\<lambda>n. n \<in> datastoreManagedEnvVars d"])
qed

lemma rendered_twice:
  assumes "container_env d' = rendered_env workload d"
    and "datastoreManagedEnvVars d' = datastoreManagedEnvVars d"
  shows "rendered_env workload d' = rendered_env workload d"
proof (cases "datastoreManagedEnvVars d = {}")
  case True
  then show ?thesis using assms by (simp add: rendered_env_def preserveDatastoreManagedEnvVars_def)
next
  case False
  let ?vs = "filter (\<lambda>v. eName v \<in> datastoreManagedEnvVars d) (container_env d)"
  have "env_names ?vs \<subseteq> datastoreManagedEnvVars d" by auto
  from merge_preserved_stable [OF this, of "envVars (wEnv (wlSpec workload))"] False assms
  show ?thesis by (simp add: rendered_env_def preserveDatastoreManagedEnvVars_def)
qed

lemma annotations_of_controlled:
  "meta = m\<lparr>mOwnerReferences := refs\<rparr> \<Longrightarrow> mAnnotations meta = mAnnotations m"
  by simp

lemma mutateDeployment_twice:
  assumes "owners_ok L" and "mutateDeployment L workload d = Inr d'"
  shows "mutateDeployment L workload d' = Inr d'"
proof -
  from assms obtain meta where set: "l_SetControllerReference L (wlMeta workload) (dMeta d) = Inr meta"
    and meta: "meta = (dMeta d)\<lparr>mOwnerReferences := mOwnerReferences meta\<rparr>"
    and d': "d' = \<lparr>dMeta = meta\<lparr>mLabels := workloadLabels workload\<rparr>,
       dReplicas = wReplicas (wlSpec workload),
       dSelector = metav1LabelSelector (workloadLabels workload),
       dTemplateLabels = workloadLabels workload,
       dServiceAccountName = wServiceAccountName (wlSpec workload),
       dImagePullSecrets = wImagePullSecrets (wlSpec workload),
       dContainers = [\<lparr>cName = ''app'', cImage = wImage (wlSpec workload),
         cPorts = containerPorts (wPorts (wlSpec workload)), cEnv = rendered_env workload d,
         cEnvFrom = envFromSources (wEnvFrom (wlSpec workload))\<rparr>],
       dConditions = dConditions d\<rparr>"
    by (elim mutateDeployment_cases)
  have frame: "\<And>m m' labels annotations. l_SetControllerReference L (wlMeta workload) m = Inr m' \<Longrightarrow>
      l_SetControllerReference L (wlMeta workload) (m\<lparr>mLabels := labels, mAnnotations := annotations\<rparr>) =
        Inr (m'\<lparr>mLabels := labels, mAnnotations := annotations\<rparr>)"
    and again: "l_SetControllerReference L (wlMeta workload) meta = Inr meta"
    using assms(1) set unfolding owners_ok_def by blast+
  have labelled: "l_SetControllerReference L (wlMeta workload) (meta\<lparr>mLabels := workloadLabels workload\<rparr>) =
      Inr (meta\<lparr>mLabels := workloadLabels workload\<rparr>)"
    using frame [OF again, where labels = "workloadLabels workload" and annotations = "mAnnotations meta"] by simp
  have ann: "mAnnotations meta = mAnnotations (dMeta d)"
    using meta by (rule annotations_of_controlled)
  have "rendered_env workload d' = rendered_env workload d"
    by (rule rendered_twice) (simp_all add: d' container_env_def datastoreManagedEnvVars_def ann)
  then show ?thesis
    by (simp add: d' mutateDeployment_def labelled Let_def rendered_env_def container_env_def
        datastoreManagedEnvVars_def)
qed

lemma mutateService_spec:
  assumes "owners_ok L" and "mutateService L workload s = Inr s'"
  shows "l_IsControlledBy L (svcMeta s') (wlMeta workload)"
    and "mName (svcMeta s') = mName (svcMeta s)" and "mNamespace (svcMeta s') = mNamespace (svcMeta s)"
    and "mAnnotations (svcMeta s') = mAnnotations (svcMeta s)"
    and "svcSelector s' = workloadLabels workload"
    and "svcPorts s' = servicePorts (wPorts (wlSpec workload))"
proof -
  from assms(2) obtain meta where set: "l_SetControllerReference L (wlMeta workload) (svcMeta s) = Inr meta"
    and s': "s' = s\<lparr>svcMeta := meta\<lparr>mLabels := workloadLabels workload\<rparr>,
      svcSelector := workloadLabels workload, svcPorts := servicePorts (wPorts (wlSpec workload))\<rparr>"
    by (auto simp: mutateService_def split: sum.splits)
  have ctl: "l_IsControlledBy L meta (wlMeta workload)"
    and meta: "meta = (svcMeta s)\<lparr>mOwnerReferences := mOwnerReferences meta\<rparr>"
    using assms(1) set unfolding owners_ok_def by blast+
  have "\<And>m m'. mOwnerReferences m = mOwnerReferences m' \<Longrightarrow>
      l_IsControlledBy L m (wlMeta workload) = l_IsControlledBy L m' (wlMeta workload)"
    using assms(1) unfolding owners_ok_def by blast
  from this [of "meta\<lparr>mLabels := workloadLabels workload\<rparr>" meta] ctl s'
  show "l_IsControlledBy L (svcMeta s') (wlMeta workload)" by simp
  have "mName meta = mName (svcMeta s) \<and> mNamespace meta = mNamespace (svcMeta s) \<and>
      mAnnotations meta = mAnnotations (svcMeta s)"
    by (subst (1 2 3) meta) simp
  with s' show "mName (svcMeta s') = mName (svcMeta s)" "mNamespace (svcMeta s') = mNamespace (svcMeta s)"
    "mAnnotations (svcMeta s') = mAnnotations (svcMeta s)" "svcSelector s' = workloadLabels workload"
    "svcPorts s' = servicePorts (wPorts (wlSpec workload))"
    by simp_all
qed

end
