(* ===== verification/Workload_Status.thy ===== *)
theory Workload_Status
  imports Workload_Gate Workload_Render
begin

text \<open>
  The status of a Workload: the three functions of \<open>workload_controller.go\<close> that write it, for
  a Workload that is degraded, pending or applied.
\<close>

section \<open>The functions\<close>

text \<open>
  The loop that all three functions share: the transition time of the first target of this
  cluster that is in the state already, and \<open>now\<close> otherwise.
\<close>

primrec target_transition ::
  "string \<Rightarrow> string \<Rightarrow> WorkloadTargetStatus list \<Rightarrow> time \<Rightarrow> time" where
  "target_transition member state [] now = now"
| "target_transition member state (target # targets) now =
     (if wtClusterMemberRef target = member \<and> wtState target = state \<and>
         wtLastTransitionTime target \<noteq> None
      then the (wtLastTransitionTime target)
      else target_transition member state targets now)"

definition reconcileDegradedStatus ::
  "lib \<Rightarrow> 'w kube \<Rightarrow> string \<Rightarrow> Workload \<Rightarrow> string \<Rightarrow> string \<Rightarrow> ('w, error + unit) io" where
  "reconcileDegradedStatus L K clusterMemberName workload reason message =
     do {
       t0 \<leftarrow> clock K;
       t1 \<leftarrow> clock K;
       t2 \<leftarrow> clock K;
       let status = wlStatus workload;
           generation = mGeneration (wlMeta workload);
           member = workload_clusterMemberRef clusterMemberName;
           now = target_transition member WorkloadTargetStateDegraded (wsTargets status) t0;
           targets = [\<lparr>wtClusterMemberRef = member, wtState = WorkloadTargetStateDegraded,
             wtRuntimeRef = '''', wtLastTransitionTime = Some now, wtMessage = message\<rparr>];
           v = alias_view L (wsConditions status);
           v = RemoveStatusCondition L ''Pending'' v;
           v = RemoveStatusCondition L ''RuntimeObjectsApplied'' v;
           v = RemoveStatusCondition L ''Available'' v;
           v = SetStatusCondition L t1
                 (mk_condition ''Degraded'' ConditionTrue generation reason message) v;
           v = setFieldsNotEnforcedCondition L t2 generation
                 (workloadFieldsNotEnforced (wlSpec workload)) v;
           nextStatus = status\<lparr>wsObservedGeneration := generation, wsTargets := targets,
             wsConditions := cur v\<rparr>
       in if l_DeepEqualWorkloadStatus L (status\<lparr>wsConditions := orig v\<rparr>) nextStatus
          then State_Monad.return (Inr ())
          else status_update_Workload K (workload\<lparr>wlStatus := nextStatus\<rparr>)
     }"

definition reconcilePendingStatus ::
  "lib \<Rightarrow> 'w kube \<Rightarrow> string \<Rightarrow> Workload \<Rightarrow> string \<Rightarrow> string \<Rightarrow> ('w, error + unit) io" where
  "reconcilePendingStatus L K clusterMemberName workload reason message =
     do {
       t0 \<leftarrow> clock K;
       t1 \<leftarrow> clock K;
       t2 \<leftarrow> clock K;
       let status = wlStatus workload;
           generation = mGeneration (wlMeta workload);
           member = workload_clusterMemberRef clusterMemberName;
           now = target_transition member WorkloadTargetStatePending (wsTargets status) t0;
           targets = [\<lparr>wtClusterMemberRef = member, wtState = WorkloadTargetStatePending,
             wtRuntimeRef = '''', wtLastTransitionTime = Some now, wtMessage = message\<rparr>];
           v = alias_view L (wsConditions status);
           v = RemoveStatusCondition L ''Degraded'' v;
           v = RemoveStatusCondition L ''RuntimeObjectsApplied'' v;
           v = RemoveStatusCondition L ''Available'' v;
           v = SetStatusCondition L t1
                 (mk_condition ''Pending'' ConditionTrue generation reason message) v;
           v = setFieldsNotEnforcedCondition L t2 generation
                 (workloadFieldsNotEnforced (wlSpec workload)) v;
           nextStatus = status\<lparr>wsObservedGeneration := generation, wsTargets := targets,
             wsConditions := cur v\<rparr>
       in if l_DeepEqualWorkloadStatus L (status\<lparr>wsConditions := orig v\<rparr>) nextStatus
          then State_Monad.return (Inr ())
          else status_update_Workload K (workload\<lparr>wlStatus := nextStatus\<rparr>)
     }"

definition deploymentAvailable :: "Deployment \<Rightarrow> bool" where
  "deploymentAvailable deployment =
     list_ex (\<lambda>c. dcType c = ''Available'' \<and> dcStatus c = ConditionTrue) (dConditions deployment)"

definition workloadTargetStatus ::
  "time \<Rightarrow> Workload \<Rightarrow> Deployment \<Rightarrow> string \<Rightarrow> WorkloadTargetStatus" where
  "workloadTargetStatus t workload deployment clusterMemberName =
     (let (state, message) =
            (if deploymentAvailable deployment
             then (WorkloadTargetStateAvailable, ''Deployment is available in the local cluster.'')
             else (WorkloadTargetStateReconciling, ''Deployment is reconciling in the local cluster.''));
          now = target_transition clusterMemberName state (wsTargets (wlStatus workload)) t
      in \<lparr>wtClusterMemberRef = clusterMemberName, wtState = state,
          wtRuntimeRef = mName (dMeta deployment), wtLastTransitionTime = Some now,
          wtMessage = message\<rparr>)"

definition availabilityCondition :: "Workload \<Rightarrow> Deployment \<Rightarrow> Condition" where
  "availabilityCondition workload deployment =
     (if deploymentAvailable deployment
      then mk_condition ''Available'' ConditionTrue (mGeneration (wlMeta workload))
             ''DeploymentAvailable'' ''Deployment is available in the local cluster.''
      else mk_condition ''Available'' ConditionFalse (mGeneration (wlMeta workload))
             ''DeploymentReconciling'' ''Deployment has not reported availability yet.'')"

text \<open>\<open>reconcileStatus\<close> once it has read the Deployment.\<close>

definition writeAppliedStatus ::
  "lib \<Rightarrow> 'w kube \<Rightarrow> string \<Rightarrow> Workload \<Rightarrow> Deployment \<Rightarrow> ('w, error + unit) io" where
  "writeAppliedStatus L K clusterMemberName workload deployment =
     do {
       t0 \<leftarrow> clock K;
       t1 \<leftarrow> clock K;
       t2 \<leftarrow> clock K;
       t3 \<leftarrow> clock K;
       let status = wlStatus workload;
           generation = mGeneration (wlMeta workload);
           targets = [workloadTargetStatus t0 workload deployment
             (workload_clusterMemberRef clusterMemberName)];
           v = alias_view L (wsConditions status);
           v = RemoveStatusCondition L ''Degraded'' v;
           v = RemoveStatusCondition L ''Pending'' v;
           v = SetStatusCondition L t1
                 (mk_condition ''RuntimeObjectsApplied'' ConditionTrue generation ''ApplySucceeded''
                   ''Deployment and Service desired state applied to the local cluster.'') v;
           v = SetStatusCondition L t2 (availabilityCondition workload deployment) v;
           v = setFieldsNotEnforcedCondition L t3 generation
                 (workloadFieldsNotEnforced (wlSpec workload)) v;
           nextStatus = status\<lparr>wsObservedGeneration := generation,
             wsActiveImage := wImage (wlSpec workload), wsTargets := targets,
             wsConditions := cur v\<rparr>
       in if l_DeepEqualWorkloadStatus L (status\<lparr>wsConditions := orig v\<rparr>) nextStatus
          then State_Monad.return (Inr ())
          else status_update_Workload K (workload\<lparr>wlStatus := nextStatus\<rparr>)
     }"

definition Workload_reconcileStatus ::
  "lib \<Rightarrow> 'w kube \<Rightarrow> string \<Rightarrow> Workload \<Rightarrow> ('w, error + unit) io" where
  "Workload_reconcileStatus L K clusterMemberName workload =
     checked (get_Deployment K (key_of (wlMeta workload)))
       (\<lambda>deployment. writeAppliedStatus L K clusterMemberName workload deployment)"

section \<open>The status wanted\<close>

text \<open>
  The Workload with the status of one that is held back: \<open>ty\<close> is \<open>Degraded\<close> or \<open>Pending\<close>, \<open>other\<close>
  the other one. \<open>ts\<close> holds the readings of the clock.
\<close>

definition held_conditions ::
  "string \<Rightarrow> string \<Rightarrow> Workload \<Rightarrow> string \<Rightarrow> string \<Rightarrow> time list \<Rightarrow> Condition list" where
  "held_conditions ty other workload reason message ts =
     settle_conditions [other, ''RuntimeObjectsApplied'', ''Available'']
       [mk_condition ty ConditionTrue (mGeneration (wlMeta workload)) reason message]
       (mGeneration (wlMeta workload)) (workloadFieldsNotEnforced (wlSpec workload)) ts
       (wsConditions (wlStatus workload))"

definition held_target ::
  "string \<Rightarrow> string \<Rightarrow> Workload \<Rightarrow> string \<Rightarrow> time \<Rightarrow> WorkloadTargetStatus" where
  "held_target ty n workload message t =
     \<lparr>wtClusterMemberRef = workload_clusterMemberRef n, wtState = ty, wtRuntimeRef = '''',
      wtLastTransitionTime =
        Some (target_transition (workload_clusterMemberRef n) ty (wsTargets (wlStatus workload)) t),
      wtMessage = message\<rparr>"

definition held_workload ::
  "string \<Rightarrow> string \<Rightarrow> string \<Rightarrow> Workload \<Rightarrow> string \<Rightarrow> string \<Rightarrow> time list \<Rightarrow> Workload" where
  "held_workload ty other n workload reason message ts =
     workload\<lparr>wlStatus := (wlStatus workload)
       \<lparr>wsObservedGeneration := mGeneration (wlMeta workload),
        wsTargets := [held_target ty n workload message (hd ts)],
        wsConditions := held_conditions ty other workload reason message (tl ts)\<rparr>\<rparr>"

definition applied_conditions :: "Workload \<Rightarrow> Deployment \<Rightarrow> time list \<Rightarrow> Condition list" where
  "applied_conditions workload deployment ts =
     settle_conditions [''Degraded'', ''Pending'']
       [mk_condition ''RuntimeObjectsApplied'' ConditionTrue (mGeneration (wlMeta workload))
          ''ApplySucceeded'' ''Deployment and Service desired state applied to the local cluster.'',
        availabilityCondition workload deployment]
       (mGeneration (wlMeta workload)) (workloadFieldsNotEnforced (wlSpec workload)) ts
       (wsConditions (wlStatus workload))"

definition applied_workload :: "string \<Rightarrow> Workload \<Rightarrow> Deployment \<Rightarrow> time list \<Rightarrow> Workload" where
  "applied_workload n workload deployment ts =
     workload\<lparr>wlStatus := (wlStatus workload)
       \<lparr>wsObservedGeneration := mGeneration (wlMeta workload),
        wsActiveImage := wImage (wlSpec workload),
        wsTargets := [workloadTargetStatus (hd ts) workload deployment (workload_clusterMemberRef n)],
        wsConditions := applied_conditions workload deployment (tl ts)\<rparr>\<rparr>"

definition zero_times :: "time list" where
  "zero_times = replicate 8 0"

lemma type_availability [simp]: "cnType (availabilityCondition workload d) = ''Available''"
  by (simp add: availabilityCondition_def)

definition hold_kind :: "string \<Rightarrow> string \<Rightarrow> bool" where
  "hold_kind ty other \<longleftrightarrow>
     ty = ''Degraded'' \<and> other = ''Pending'' \<or> ty = ''Pending'' \<and> other = ''Degraded''"

lemma hold_kinds: "hold_kind ''Degraded'' ''Pending''" "hold_kind ''Pending'' ''Degraded''"
  by (simp_all add: hold_kind_def)

lemma held_types:
  "hold_kind ty other \<Longrightarrow>
     settle_types [other, ''RuntimeObjectsApplied'', ''Available''] [mk_condition ty s g r m]"
  by (auto simp: settle_types_def fieldsNotEnforcedCondition_def hold_kind_def)

lemma applied_types:
  "settle_types [''Degraded'', ''Pending'']
     [mk_condition ''RuntimeObjectsApplied'' s g r m, availabilityCondition workload d]"
  by (simp add: settle_types_def fieldsNotEnforcedCondition_def)

lemma status_eq_iff:
  "wlStatus (held_workload ty other n workload reason message ts) = wlStatus workload \<longleftrightarrow>
     wsObservedGeneration (wlStatus workload) = mGeneration (wlMeta workload) \<and>
     wsTargets (wlStatus workload) = [held_target ty n workload message (hd ts)] \<and>
     wsConditions (wlStatus workload) = held_conditions ty other workload reason message (tl ts)"
  by (cases "wlStatus workload") (auto simp: held_workload_def)

lemma held_same_iff:
  "held_workload ty other n workload reason message ts = workload \<longleftrightarrow>
     wlStatus (held_workload ty other n workload reason message ts) = wlStatus workload"
  by (cases workload) (auto simp: held_workload_def)

lemma transition_self:
  "targets = [t] \<Longrightarrow> wtClusterMemberRef t = member \<Longrightarrow> wtState t = state \<Longrightarrow>
     wtLastTransitionTime t \<noteq> None \<Longrightarrow>
     target_transition member state targets a = target_transition member state targets b"
  by simp

lemma held_target_kept:
  assumes "wsTargets (wlStatus workload) = [held_target ty n workload message t]"
  shows "held_target ty n workload message t' = held_target ty n workload message t"
proof -
  have "target_transition (workload_clusterMemberRef n) ty (wsTargets (wlStatus workload)) t' =
      target_transition (workload_clusterMemberRef n) ty (wsTargets (wlStatus workload)) t"
    by (rule transition_self [OF assms]) (simp_all add: held_target_def)
  then show ?thesis by (simp add: held_target_def)
qed

lemma held_any_time:
  assumes kind: "hold_kind ty other"
    and same: "held_workload ty other n workload reason message ts = workload"
  shows "held_workload ty other n workload reason message ts' = workload"
  using same unfolding held_same_iff status_eq_iff
  by (metis held_target_kept held_conditions_def settle_any_time [OF held_types [OF kind]])

lemma applied_status_iff:
  "wlStatus (applied_workload n workload d ts) = wlStatus workload \<longleftrightarrow>
     wsObservedGeneration (wlStatus workload) = mGeneration (wlMeta workload) \<and>
     wsActiveImage (wlStatus workload) = wImage (wlSpec workload) \<and>
     wsTargets (wlStatus workload) =
       [workloadTargetStatus (hd ts) workload d (workload_clusterMemberRef n)] \<and>
     wsConditions (wlStatus workload) = applied_conditions workload d (tl ts)"
  by (cases "wlStatus workload") (auto simp: applied_workload_def)

lemma applied_same_iff:
  "applied_workload n workload d ts = workload \<longleftrightarrow>
     wlStatus (applied_workload n workload d ts) = wlStatus workload"
  by (cases workload) (auto simp: applied_workload_def)

lemma applied_target_kept:
  assumes "wsTargets (wlStatus workload) = [workloadTargetStatus t workload d member]"
  shows "workloadTargetStatus t' workload d member = workloadTargetStatus t workload d member"
proof -
  let ?state = "if deploymentAvailable d then WorkloadTargetStateAvailable
    else WorkloadTargetStateReconciling"
  have "target_transition member ?state (wsTargets (wlStatus workload)) t' =
      target_transition member ?state (wsTargets (wlStatus workload)) t"
    by (rule transition_self [OF assms]) (simp_all add: workloadTargetStatus_def)
  then show ?thesis by (simp add: workloadTargetStatus_def split: if_splits)
qed

lemma applied_any_time:
  assumes same: "applied_workload n workload d ts = workload"
  shows "applied_workload n workload d ts' = workload"
  using same unfolding applied_same_iff applied_status_iff
  by (metis applied_target_kept applied_conditions_def settle_any_time [OF applied_types])

section \<open>The functions write the status wanted\<close>

text \<open>The end that all of them share: compare, then write or not.\<close>

lemma wp_workload_status:
  assumes "equality_ok L"
    and "workload\<lparr>wlStatus := st\<rparr> = workload \<Longrightarrow> Q (Inr ()) h"
    and "\<And>r. workload\<lparr>wlStatus := st\<rparr> \<noteq> workload \<Longrightarrow>
      Q r (h @ [StatusWorkload (workload\<lparr>wlStatus := st\<rparr>) r])"
  shows "wp (if l_DeepEqualWorkloadStatus L (wlStatus workload) st then State_Monad.return (Inr ())
    else status_update_Workload K (workload\<lparr>wlStatus := st\<rparr>)) Q h"
  unfolding status_update_Workload_def
proof (intro wp_intros)
  assume "l_DeepEqualWorkloadStatus L (wlStatus workload) st"
  then show "Q (Inr ()) h"
    using assms(1) by (intro assms(2)) (simp add: equality_ok_def)
next
  fix r assume "\<not> l_DeepEqualWorkloadStatus L (wlStatus workload) st"
  then have "wlStatus (workload\<lparr>wlStatus := st\<rparr>) \<noteq> wlStatus workload"
    using assms(1) by (auto simp: equality_ok_def)
  then have "workload\<lparr>wlStatus := st\<rparr> \<noteq> workload" by metis
  then show "Q r (h @ [StatusWorkload (workload\<lparr>wlStatus := st\<rparr>) r])" by (rule assms(3))
qed

lemma wp_degraded:
  assumes "conditions_ok L" and "equality_ok L"
    and "\<And>ts. held_workload ''Degraded'' ''Pending'' n workload reason message ts = workload \<Longrightarrow> Q (Inr ()) h"
    and "\<And>ts r. held_workload ''Degraded'' ''Pending'' n workload reason message ts \<noteq> workload \<Longrightarrow>
      Q r (h @ [StatusWorkload (held_workload ''Degraded'' ''Pending'' n workload reason message ts) r])"
  shows "wp (reconcileDegradedStatus L K n workload reason message) Q h"
  unfolding reconcileDegradedStatus_def
proof (intro wp_bind wp_clock, goal_cases)
  case (1 t0 t1 t2)
  let ?v = "settle_view L [''Pending'', ''RuntimeObjectsApplied'', ''Available'']
    [mk_condition ''Degraded'' ConditionTrue (mGeneration (wlMeta workload)) reason message]
    (mGeneration (wlMeta workload)) (workloadFieldsNotEnforced (wlSpec workload)) [t1, t2]
    (alias_view L (wsConditions (wlStatus workload)))"
  have "cur ?v = held_conditions ''Degraded'' ''Pending'' workload reason message [t1, t2]"
    "orig ?v = wsConditions (wlStatus workload)"
    using assms(1) by (simp_all add: cur_settle orig_settle held_conditions_def)
  moreover note wp_workload_status [OF assms(2),
    where workload = workload and h = h and Q = Q and K = K and
      st = "wlStatus (held_workload ''Degraded'' ''Pending'' n workload reason message [t0, t1, t2])"]
  ultimately show ?case
    using assms(3,4) [of "[t0, t1, t2]"]
    by (simp add: settle_view_def held_workload_def held_target_def target_state_defs Let_def
        split del: if_split cong: if_cong)
qed

lemma wp_pending:
  assumes "conditions_ok L" and "equality_ok L"
    and "\<And>ts. held_workload ''Pending'' ''Degraded'' n workload reason message ts = workload \<Longrightarrow> Q (Inr ()) h"
    and "\<And>ts r. held_workload ''Pending'' ''Degraded'' n workload reason message ts \<noteq> workload \<Longrightarrow>
      Q r (h @ [StatusWorkload (held_workload ''Pending'' ''Degraded'' n workload reason message ts) r])"
  shows "wp (reconcilePendingStatus L K n workload reason message) Q h"
  unfolding reconcilePendingStatus_def
proof (intro wp_bind wp_clock, goal_cases)
  case (1 t0 t1 t2)
  let ?v = "settle_view L [''Degraded'', ''RuntimeObjectsApplied'', ''Available'']
    [mk_condition ''Pending'' ConditionTrue (mGeneration (wlMeta workload)) reason message]
    (mGeneration (wlMeta workload)) (workloadFieldsNotEnforced (wlSpec workload)) [t1, t2]
    (alias_view L (wsConditions (wlStatus workload)))"
  have "cur ?v = held_conditions ''Pending'' ''Degraded'' workload reason message [t1, t2]"
    "orig ?v = wsConditions (wlStatus workload)"
    using assms(1) by (simp_all add: cur_settle orig_settle held_conditions_def)
  moreover note wp_workload_status [OF assms(2),
    where workload = workload and h = h and Q = Q and K = K and
      st = "wlStatus (held_workload ''Pending'' ''Degraded'' n workload reason message [t0, t1, t2])"]
  ultimately show ?case
    using assms(3,4) [of "[t0, t1, t2]"]
    by (simp add: settle_view_def held_workload_def held_target_def target_state_defs Let_def
        split del: if_split cong: if_cong)
qed

lemma wp_applied:
  assumes "conditions_ok L" and "equality_ok L"
    and "\<And>ts. applied_workload n workload d ts = workload \<Longrightarrow> Q (Inr ()) h"
    and "\<And>ts r. applied_workload n workload d ts \<noteq> workload \<Longrightarrow>
      Q r (h @ [StatusWorkload (applied_workload n workload d ts) r])"
  shows "wp (writeAppliedStatus L K n workload d) Q h"
  unfolding writeAppliedStatus_def
proof (intro wp_bind wp_clock, goal_cases)
  case (1 t0 t1 t2 t3)
  let ?v = "settle_view L [''Degraded'', ''Pending'']
    [mk_condition ''RuntimeObjectsApplied'' ConditionTrue (mGeneration (wlMeta workload))
       ''ApplySucceeded'' ''Deployment and Service desired state applied to the local cluster.'',
     availabilityCondition workload d]
    (mGeneration (wlMeta workload)) (workloadFieldsNotEnforced (wlSpec workload)) [t1, t2, t3]
    (alias_view L (wsConditions (wlStatus workload)))"
  have "cur ?v = applied_conditions workload d [t1, t2, t3]"
    "orig ?v = wsConditions (wlStatus workload)"
    using assms(1) by (simp_all add: cur_settle orig_settle applied_conditions_def)
  moreover note wp_workload_status [OF assms(2),
    where workload = workload and h = h and Q = Q and K = K and
      st = "wlStatus (applied_workload n workload d [t0, t1, t2, t3])"]
  ultimately show ?case
    using assms(3,4) [of "[t0, t1, t2, t3]"]
    by (simp add: settle_view_def applied_workload_def Let_def split del: if_split cong: if_cong)
qed

section \<open>They fulfil the contract of a status writer\<close>

interpretation degraded: quiet_status_writer
  "\<lambda>L K (n, workload, reason, message). reconcileDegradedStatus L K n workload reason message"
  StatusWorkload
  "\<lambda>L (n, workload, reason, message) ts.
     held_workload ''Degraded'' ''Pending'' n workload reason message ts"
  "\<lambda>L (n, workload, reason, message).
     held_workload ''Degraded'' ''Pending'' n workload reason message zero_times = workload"
  by unfold_locales
     (auto intro!: wp_degraded dest: held_any_time [OF hold_kinds(1)])

interpretation pending: quiet_status_writer
  "\<lambda>L K (n, workload, reason, message). reconcilePendingStatus L K n workload reason message"
  StatusWorkload
  "\<lambda>L (n, workload, reason, message) ts.
     held_workload ''Pending'' ''Degraded'' n workload reason message ts"
  "\<lambda>L (n, workload, reason, message).
     held_workload ''Pending'' ''Degraded'' n workload reason message zero_times = workload"
  by unfold_locales
     (auto intro!: wp_pending dest: held_any_time [OF hold_kinds(2)])

interpretation applied: quiet_status_writer
  "\<lambda>L K (n, workload, d). writeAppliedStatus L K n workload d"
  StatusWorkload
  "\<lambda>L (n, workload, d) ts. applied_workload n workload d ts"
  "\<lambda>L (n, workload, d). applied_workload n workload d zero_times = workload"
  by unfold_locales (auto intro!: wp_applied dest: applied_any_time)

section \<open>What a written status says\<close>

text \<open>
  A Workload is in one of three phases, and its one target, its conditions and its observed
  generation agree on which: degraded, pending, or applied (available or still reconciling).
\<close>

definition holds_true :: "Workload \<Rightarrow> string \<Rightarrow> bool" where
  "holds_true x ty \<longleftrightarrow>
     (case find_condition ty (wsConditions (wlStatus x)) of
        None \<Rightarrow> False
      | Some c \<Rightarrow> cnStatus c = ConditionTrue \<and> cnObservedGeneration c = mGeneration (wlMeta x))"

definition absent :: "Workload \<Rightarrow> string \<Rightarrow> bool" where
  "absent x ty \<longleftrightarrow> find_condition ty (wsConditions (wlStatus x)) = None"

definition coherent_status :: "string \<Rightarrow> Workload \<Rightarrow> bool" where
  "coherent_status n x \<longleftrightarrow>
     wsObservedGeneration (wlStatus x) = mGeneration (wlMeta x) \<and>
     (\<exists>t. wsTargets (wlStatus x) = [t] \<and> wtClusterMemberRef t = workload_clusterMemberRef n \<and>
        wtLastTransitionTime t \<noteq> None \<and>
        (wtState t = WorkloadTargetStateDegraded \<and> holds_true x ''Degraded'' \<and> absent x ''Pending'' \<and>
           absent x ''RuntimeObjectsApplied'' \<and> absent x ''Available'' \<or>
         wtState t = WorkloadTargetStatePending \<and> holds_true x ''Pending'' \<and> absent x ''Degraded'' \<and>
           absent x ''RuntimeObjectsApplied'' \<and> absent x ''Available'' \<or>
         wtState t = (if holds_true x ''Available'' then WorkloadTargetStateAvailable
                      else WorkloadTargetStateReconciling) \<and>
           holds_true x ''RuntimeObjectsApplied'' \<and> \<not> absent x ''Available'' \<and>
           absent x ''Degraded'' \<and> absent x ''Pending'' \<and>
           wsActiveImage (wlStatus x) = wImage (wlSpec x)))"

lemma shows_true:
  "shows_condition (mk_condition ty ConditionTrue g r m) xs \<Longrightarrow>
     (case find_condition ty xs of
        None \<Rightarrow> False | Some c \<Rightarrow> cnStatus c = ConditionTrue \<and> cnObservedGeneration c = g)"
  by (auto simp: shows_condition_def split: option.splits)

lemma held_coherent:
  assumes "hold_kind ty other"
  shows "coherent_status n (held_workload ty other n w reason message ts)"
proof -
  let ?x = "held_workload ty other n w reason message ts"
  have conds: "wsConditions (wlStatus ?x) = held_conditions ty other w reason message (tl ts)"
    and meta: "wlMeta ?x = wlMeta w"
    by (simp_all add: held_workload_def)
  have "holds_true ?x ty"
    unfolding holds_true_def conds meta held_conditions_def
    by (rule shows_true, rule settle_shows [OF held_types [OF assms]]) simp
  moreover have "absent ?x ty'" if "ty' \<in> {other, ''RuntimeObjectsApplied'', ''Available''}" for ty'
    unfolding absent_def conds held_conditions_def
    by (subst settle_find_other)
       (use that assms in \<open>auto simp: hold_kind_def fieldsNotEnforcedCondition_def\<close>)
  ultimately show ?thesis
    using assms
    by (auto simp: coherent_status_def hold_kind_def target_state_defs held_workload_def held_target_def)
qed

lemma applied_coherent: "coherent_status n (applied_workload n w d ts)"
proof -
  let ?x = "applied_workload n w d ts"
  have conds: "wsConditions (wlStatus ?x) = applied_conditions w d (tl ts)"
    and meta: "wlMeta ?x = wlMeta w"
    by (simp_all add: applied_workload_def)
  have "holds_true ?x ''RuntimeObjectsApplied''"
    unfolding holds_true_def conds meta applied_conditions_def
    by (rule shows_true, rule settle_shows [OF applied_types], rule list.set_intros(1))
  moreover have "absent ?x ty'" if "ty' \<in> {''Degraded'', ''Pending''}" for ty'
    unfolding absent_def conds applied_conditions_def
    by (subst settle_find_other) (use that in \<open>auto simp: fieldsNotEnforcedCondition_def\<close>)
  moreover have "shows_condition (availabilityCondition w d) (wsConditions (wlStatus ?x))"
    unfolding conds applied_conditions_def by (rule settle_shows [OF applied_types]) simp
  then have "\<not> absent ?x ''Available''" "holds_true ?x ''Available'' \<longleftrightarrow> deploymentAvailable d"
    unfolding absent_def holds_true_def meta
    by (auto simp: shows_condition_def availabilityCondition_def split: option.splits if_splits)
  ultimately show ?thesis
    by (simp add: coherent_status_def applied_workload_def workloadTargetStatus_def)
qed

text \<open>A status that was written is settled: writing it again changes nothing.\<close>

lemma held_again:
  assumes "hold_kind ty other"
  shows "held_workload ty other n (held_workload ty other n w reason message ts) reason message ts' =
    held_workload ty other n w reason message ts"
proof -
  let ?x = "held_workload ty other n w reason message ts"
  have "held_conditions ty other ?x reason message (tl ts') = held_conditions ty other w reason message (tl ts)"
    using settle_again [OF held_types [OF assms]]
    by (simp add: held_workload_def held_conditions_def)
  then show ?thesis
    unfolding held_same_iff status_eq_iff
    by (simp add: held_workload_def held_target_def)
qed

lemma applied_again:
  "applied_workload n (applied_workload n w d ts) d ts' = applied_workload n w d ts"
proof -
  let ?x = "applied_workload n w d ts"
  have same: "wlMeta ?x = wlMeta w" "wlSpec ?x = wlSpec w" "availabilityCondition ?x d = availabilityCondition w d"
    "wsConditions (wlStatus ?x) = applied_conditions w d (tl ts)"
    by (simp_all add: applied_workload_def availabilityCondition_def)
  have "applied_conditions ?x d (tl ts') = applied_conditions w d (tl ts)"
    unfolding applied_conditions_def [of ?x] same
    unfolding applied_conditions_def by (rule settle_again [OF applied_types])
  then show ?thesis
    unfolding applied_same_iff applied_status_iff
    by (simp add: applied_workload_def workloadTargetStatus_def)
qed

end
