(* ===== verification/Workload_Controller.thy ===== *)
theory Workload_Controller
  imports Workload_Status Reference
begin

text \<open>
  The reconciler of \<open>workload_controller.go\<close>: the application of the Deployment and the Service,
  the whole of \<open>Reconcile\<close>, and what it promises: what it applies and when, and what it tells
  of the rest.
\<close>

section \<open>The controller\<close>

definition reconcileDeployment :: "lib \<Rightarrow> 'w kube \<Rightarrow> Workload \<Rightarrow> ('w, error + unit) io" where
  "reconcileDeployment L K workload =
     create_or_update_Deployment K (named_deployment workload) (mutateDeployment L workload)"

definition reconcileService :: "lib \<Rightarrow> 'w kube \<Rightarrow> Workload \<Rightarrow> ('w, error + unit) io" where
  "reconcileService L K workload =
     (if length (wPorts (wlSpec workload)) = 0
      then do {
        r \<leftarrow> get_Service K (key_of (wlMeta workload));
        case r of
          Inl err \<Rightarrow> State_Monad.return (if is_not_found err then Inr () else Inl err)
        | Inr service \<Rightarrow>
            if \<not> l_IsControlledBy L (svcMeta service) (wlMeta workload)
            then State_Monad.return (Inr ())
            else do {
              r \<leftarrow> delete_Service K service;
              State_Monad.return
                (case r of Inl err \<Rightarrow> if \<not> is_not_found err then Inl err else Inr () | Inr _ \<Rightarrow> Inr ())
            }
      }
      else create_or_update_Service K (named_service workload) (mutateService L workload))"

definition Workload_reconcileDegraded ::
  "lib \<Rightarrow> 'w kube \<Rightarrow> string \<Rightarrow> Workload \<Rightarrow> workloadDegradedState \<Rightarrow> ('w, error + Result) io" where
  "Workload_reconcileDegraded L K clusterMemberName workload degraded =
     checked (reconcileDegradedStatus L K clusterMemberName workload (wdReason degraded) (wdMessage degraded))
       (\<lambda>_. State_Monad.return (Inr (requeue_after_seconds 30)))"

definition Workload_reconcilePending ::
  "lib \<Rightarrow> 'w kube \<Rightarrow> string \<Rightarrow> Workload \<Rightarrow> string \<Rightarrow> string \<Rightarrow> ('w, error + Result) io" where
  "Workload_reconcilePending L K clusterMemberName workload reason message =
     checked (reconcilePendingStatus L K clusterMemberName workload reason message)
       (\<lambda>_. State_Monad.return (Inr (requeue_after_seconds 30)))"

text \<open>The steps after the checks of the cluster, from the dependency check on.\<close>

definition apply_workload :: "lib \<Rightarrow> 'w kube \<Rightarrow> string \<Rightarrow> Workload \<Rightarrow> ('w, error + Result) io" where
  "apply_workload L K clusterMemberName workload =
     checked (reconcileDeployment L K workload) (\<lambda>_.
     checked (reconcileService L K workload) (\<lambda>_.
     checked (Workload_reconcileStatus L K clusterMemberName workload) (\<lambda>_.
     State_Monad.return (Inr no_requeue))))"

definition preflight_and_apply ::
  "lib \<Rightarrow> 'w kube \<Rightarrow> string \<Rightarrow> Workload \<Rightarrow> ('w, error + Result) io" where
  "preflight_and_apply L K clusterMemberName workload =
     checked (dependencyPreflight K workload) (\<lambda>degraded.
       case degraded of
         Some d \<Rightarrow> Workload_reconcileDegraded L K clusterMemberName workload d
       | None \<Rightarrow>
           checked (ownershipPreflight L K workload) (\<lambda>degraded.
             case degraded of
               Some d \<Rightarrow> Workload_reconcileDegraded L K clusterMemberName workload d
             | None \<Rightarrow> apply_workload L K clusterMemberName workload))"

text \<open>The two gates, which a controller without the name of its cluster skips.\<close>

definition gates ::
  "lib \<Rightarrow> 'w kube \<Rightarrow> string \<Rightarrow> Workload \<Rightarrow> ('w, error + Result) io \<Rightarrow> ('w, error + Result) io" where
  "gates L K clusterMemberName workload go_on =
     checked (isFederationMember L K clusterMemberName workload) (\<lambda>(member, degraded).
       case degraded of
         Some d \<Rightarrow> Workload_reconcileDegraded L K clusterMemberName workload d
       | None \<Rightarrow>
           if \<not> member then
             Workload_reconcilePending L K clusterMemberName workload ''NotAFederationMember''
               (''ClusterMember '' @ go_quote clusterMemberName @ '' is not a member of Federation '' @
                go_quote (rrName (wFederationRef (wlSpec workload))) @ ''.'')
           else
             checked (isTargetPolicyMatch L K clusterMemberName workload) (\<lambda>(is_targeted, degraded).
               case degraded of
                 Some d \<Rightarrow> Workload_reconcileDegraded L K clusterMemberName workload d
               | None \<Rightarrow>
                   if \<not> is_targeted then
                     Workload_reconcilePending L K clusterMemberName workload ''ExcludedByTargetPolicy''
                       (''ClusterMember '' @ go_quote clusterMemberName @
                        '' is excluded by Workload targetPolicy.'')
                   else go_on))"

definition Workload_Reconcile ::
  "lib \<Rightarrow> 'w kube \<Rightarrow> string \<Rightarrow> ObjectKey \<Rightarrow> ('w, error + Result) io" where
  "Workload_Reconcile L K clusterMemberName req =
     do {
       r \<leftarrow> get_Workload K req;
       case r of
         Inl err \<Rightarrow> State_Monad.return (if is_not_found err then Inr no_requeue else Inl err)
       | Inr workload \<Rightarrow>
           if clusterMemberName \<noteq> ''''
           then gates L K clusterMemberName workload
                  (preflight_and_apply L K clusterMemberName workload)
           else preflight_and_apply L K clusterMemberName workload
     }"

section \<open>Writes on any server\<close>

text \<open>
  What the controller of a Workload may do to the cluster, given what happened before: write
  the status of the Workload it read, as one of those of theory \<open>Workload_Status\<close>, and the
  status of an applied one only after its Deployment was applied and read back; apply its
  Deployment once every Secret and ConfigMap it needs was found and the Deployment was found
  controlled by the Workload or not at all; apply or delete its Service after that.
\<close>

definition read_workload :: "ObjectKey \<Rightarrow> Workload \<Rightarrow> event list \<Rightarrow> bool" where
  "read_workload req workload before \<longleftrightarrow> GotWorkload req (Inr workload) \<in> set before"

definition deployment_stored :: "lib \<Rightarrow> Workload \<Rightarrow> event list \<Rightarrow> bool" where
  "deployment_stored L w before \<longleftrightarrow>
     AppliedDeployment (named_deployment w) (mutateDeployment L w) (Inr ()) \<in> set before"

definition status_of :: "lib \<Rightarrow> string \<Rightarrow> Workload \<Rightarrow> event list \<Rightarrow> Workload \<Rightarrow> bool" where
  "status_of L n w before x \<longleftrightarrow>
     (\<exists>ty other reason message ts.
        hold_kind ty other \<and> x = held_workload ty other n w reason message ts) \<or>
     (\<exists>d ts. x = applied_workload n w d ts \<and> GotDeployment (key_of (wlMeta w)) (Inr d) \<in> set before \<and>
        deployment_stored L w before)"

primrec workload_write_ok :: "lib \<Rightarrow> string \<Rightarrow> ObjectKey \<Rightarrow> event list \<Rightarrow> event \<Rightarrow> bool" where
  "workload_write_ok L n req before (StatusWorkload x r) \<longleftrightarrow>
     (\<exists>w. read_workload req w before \<and> status_of L n w before x)"
| "workload_write_ok L n req before (AppliedDeployment d f r) \<longleftrightarrow>
     (\<exists>w. read_workload req w before \<and> d = named_deployment w \<and> f = mutateDeployment L w \<and>
        dependencies_seen w before \<and> deployment_seen L w before \<and>
        (wPorts (wlSpec w) \<noteq> [] \<longrightarrow> service_seen L w before))"
| "workload_write_ok L n req before (AppliedService s f r) \<longleftrightarrow>
     (\<exists>w. read_workload req w before \<and> s = named_service w \<and> f = mutateService L w \<and>
        wPorts (wlSpec w) \<noteq> [] \<and> service_seen L w before \<and>
        deployment_stored L w before)"
| "workload_write_ok L n req before (DeletedService s r) \<longleftrightarrow>
     (\<exists>w. read_workload req w before \<and> wPorts (wlSpec w) = [] \<and>
        GotService (key_of (wlMeta w)) (Inr s) \<in> set before \<and>
        l_IsControlledBy L (svcMeta s) (wlMeta w) \<and>
        deployment_stored L w before)"
| "workload_write_ok L n req before (PatchedService x y r) \<longleftrightarrow> False"
| "workload_write_ok L n req before (UpdatedServiceEndpoint x r) \<longleftrightarrow> False"
| "workload_write_ok L n req before (UpdatedDatastoreBinding x r) \<longleftrightarrow> False"
| "workload_write_ok L n req before (StatusClusterMember x r) \<longleftrightarrow> False"
| "workload_write_ok L n req before (StatusFederation x r) \<longleftrightarrow> False"
| "workload_write_ok L n req before (StatusServiceEndpoint x r) \<longleftrightarrow> False"
| "workload_write_ok L n req before (StatusDatastoreBinding x r) \<longleftrightarrow> False"
| "workload_write_ok L n req before (GotClusterMember k r) \<longleftrightarrow> True"
| "workload_write_ok L n req before (GotFederation k r) \<longleftrightarrow> True"
| "workload_write_ok L n req before (GotWorkload k r) \<longleftrightarrow> True"
| "workload_write_ok L n req before (GotServiceEndpoint k r) \<longleftrightarrow> True"
| "workload_write_ok L n req before (GotDatastoreBinding k r) \<longleftrightarrow> True"
| "workload_write_ok L n req before (GotDeployment k r) \<longleftrightarrow> True"
| "workload_write_ok L n req before (GotService k r) \<longleftrightarrow> True"
| "workload_write_ok L n req before (GotSecret k r) \<longleftrightarrow> True"
| "workload_write_ok L n req before (GotConfigMap k r) \<longleftrightarrow> True"
| "workload_write_ok L n req before (ListedClusterMembers sel r) \<longleftrightarrow> True"
| "workload_write_ok L n req before (ListedFederations r) \<longleftrightarrow> True"

lemma workload_read_ok: "is_read e \<Longrightarrow> workload_write_ok L n req before e"
  by (cases e) simp_all

text \<open>The state of a trace from which the rest of the handler is well-behaved.\<close>

definition good_trace :: "lib \<Rightarrow> string \<Rightarrow> ObjectKey \<Rightarrow> Workload \<Rightarrow> event list \<Rightarrow> bool" where
  "good_trace L n req w h \<longleftrightarrow> read_workload req w h \<and> admissible (workload_write_ok L n req) [] h"

lemma good_trace_reads: "good_trace L n req w h \<Longrightarrow> reads_after h h' \<Longrightarrow> good_trace L n req w h'"
  unfolding good_trace_def read_workload_def
  using reads_after_set reads_after_admissible workload_read_ok by blast

lemma good_trace_step:
  "good_trace L n req w h \<Longrightarrow> workload_write_ok L n req h e \<Longrightarrow> good_trace L n req w (h @ [e])"
  by (simp add: good_trace_def read_workload_def)

abbreviation stays_good :: "lib \<Rightarrow> string \<Rightarrow> ObjectKey \<Rightarrow> Workload \<Rightarrow> 'a \<Rightarrow> event list \<Rightarrow> bool" where
  "stays_good L n req w \<equiv> \<lambda>r h. good_trace L n req w h"

lemma good_trace_status:
  "good_trace L n req w h \<Longrightarrow> status_of L n w h x \<Longrightarrow> good_trace L n req w (h @ [StatusWorkload x r])"
  by (rule good_trace_step) (auto simp: good_trace_def)

lemma status_of_held:
  "status_of L n w h (held_workload ''Degraded'' ''Pending'' n w reason message ts)"
  "status_of L n w h (held_workload ''Pending'' ''Degraded'' n w reason message ts)"
  using hold_kinds unfolding status_of_def by blast+

lemma wp_good_degraded:
  assumes "conditions_ok L" and "equality_ok L" and "good_trace L n req w h"
  shows "wp (Workload_reconcileDegraded L K n w d) (stays_good L n req w) h"
  unfolding Workload_reconcileDegraded_def
  by (rule wp_checked, rule wp_degraded [OF assms(1,2)])
     (use assms(3) in \<open>auto intro!: wp_return good_trace_status status_of_held\<close>)

lemma wp_good_pending:
  assumes "conditions_ok L" and "equality_ok L" and "good_trace L n req w h"
  shows "wp (Workload_reconcilePending L K n w reason message) (stays_good L n req w) h"
  unfolding Workload_reconcilePending_def
  by (rule wp_checked, rule wp_pending [OF assms(1,2)])
     (use assms(3) in \<open>auto intro!: wp_return good_trace_status status_of_held\<close>)

text \<open>A good trace in which the Deployment has been stored.\<close>

definition stored_trace :: "lib \<Rightarrow> string \<Rightarrow> ObjectKey \<Rightarrow> Workload \<Rightarrow> event list \<Rightarrow> bool" where
  "stored_trace L n req w h \<longleftrightarrow> good_trace L n req w h \<and> deployment_stored L w h"

lemma stored_trace_step:
  "stored_trace L n req w h \<Longrightarrow> workload_write_ok L n req h e \<Longrightarrow> stored_trace L n req w (h @ [e])"
  by (auto simp: stored_trace_def deployment_stored_def intro: good_trace_step)

lemma wp_stored_status:
  assumes "conditions_ok L" and "equality_ok L" and h: "stored_trace L n req w h"
  shows "wp (Workload_reconcileStatus L K n w) (\<lambda>_. stored_trace L n req w) h"
  unfolding Workload_reconcileStatus_def client_defs
proof (rule wp_checked, rule wp_call, intro conjI allI impI)
  fix r :: "error + Deployment"
  let ?h = "h @ [GotDeployment (key_of (wlMeta w)) r]"
  have read: "stored_trace L n req w ?h"
    using h by (rule stored_trace_step) simp
  then show "stored_trace L n req w ?h" .
  fix d assume d: "r = Inr d"
  have st: "status_of L n w ?h (applied_workload n w d ts)" for ts
    using read d by (auto simp: status_of_def stored_trace_def)
  have "stored_trace L n req w (?h @ [StatusWorkload (applied_workload n w d ts) r'])" for ts r'
    by (rule stored_trace_step [OF read]) (use read st in \<open>auto simp: stored_trace_def good_trace_def\<close>)
  with read show "wp (writeAppliedStatus L K n w d) (\<lambda>_. stored_trace L n req w) ?h"
    by (intro wp_applied [OF assms(1,2)])
qed

lemma wp_stored_service:
  assumes h: "stored_trace L n req w h"
    and seen: "wPorts (wlSpec w) \<noteq> [] \<Longrightarrow> service_seen L w h"
  shows "wp (reconcileService L K w) (\<lambda>_. stored_trace L n req w) h"
proof (cases "wPorts (wlSpec w) = []")
  case True
  show ?thesis
    unfolding reconcileService_def client_defs
  proof (simp add: True, intro wp_intros)
    fix r :: "error + Service"
    let ?h = "h @ [GotService (key_of (wlMeta w)) r]"
    have read: "stored_trace L n req w ?h"
      using h by (rule stored_trace_step) simp
    then show "stored_trace L n req w ?h" "stored_trace L n req w ?h" by -
    fix s r'
    assume "r = Inr s" and "\<not> \<not> l_IsControlledBy L (svcMeta s) (wlMeta w)"
    then show "stored_trace L n req w (?h @ [DeletedService s r'])"
      using True read
      by (intro stored_trace_step [OF read])
         (auto simp: stored_trace_def good_trace_def read_workload_def)
  qed
next
  case False
  then show ?thesis
    unfolding reconcileService_def client_defs
    using h seen
    by (simp, intro wp_call stored_trace_step) (auto simp: stored_trace_def good_trace_def)
qed

lemma wp_good_apply:
  assumes "conditions_ok L" and "equality_ok L" and good: "good_trace L n req w h"
    and "dependencies_seen w h" and "deployment_seen L w h"
    and seen: "wPorts (wlSpec w) \<noteq> [] \<Longrightarrow> service_seen L w h"
  shows "wp (apply_workload L K n w) (stays_good L n req w) h"
  unfolding apply_workload_def reconcileDeployment_def create_or_update_Deployment_def
proof (rule wp_checked, rule wp_call, intro conjI allI impI)
  fix r :: "error + unit"
  let ?h = "h @ [AppliedDeployment (named_deployment w) (mutateDeployment L w) r]"
  have after: "good_trace L n req w ?h"
    using good assms(4-6) by (intro good_trace_step) (auto simp: good_trace_def)
  then show "good_trace L n req w ?h" .
  fix x assume "r = Inr x"
  with after have stored: "stored_trace L n req w ?h"
    by (simp add: stored_trace_def deployment_stored_def)
  have service: "wPorts (wlSpec w) \<noteq> [] \<Longrightarrow> service_seen L w ?h"
    using seen by (auto simp: service_seen_def)
  show "wp (checked (reconcileService L K w) (\<lambda>_. checked (Workload_reconcileStatus L K n w)
      (\<lambda>_. State_Monad.return (Inr no_requeue)))) (stays_good L n req w) ?h"
    by (intro wp_checked wp_mono [OF wp_stored_service [OF stored service]] conjI allI impI
        wp_mono [OF wp_stored_status [OF assms(1,2)]] wp_return) (auto simp: stored_trace_def)
qed

lemma wp_good_preflight:
  assumes "conditions_ok L" and "equality_ok L" and good: "good_trace L n req w h"
  shows "wp (preflight_and_apply L K n w) (stays_good L n req w) h"
  unfolding preflight_and_apply_def
proof (rule wp_checked, rule wp_reads [OF dependencyPreflight_reads], intro conjI allI impI wp_option)
  fix h' e
  assume "reads_after h h'"
  then show "good_trace L n req w h'" by (rule good_trace_reads [OF good])
next
  fix h' x d
  assume "reads_after h h'"
  then show "wp (Workload_reconcileDegraded L K n w d) (stays_good L n req w) h'"
    by (intro wp_good_degraded assms good_trace_reads [OF good])
next
  fix r :: "error + workloadDegradedState option" and x h1
  assume h1: "reads_after h h1" and deps: "r = Inr None \<longrightarrow> dependencies_seen w h1"
    and "r = Inr x" and "x = None"
  then have deps: "dependencies_seen w h1" by simp
  have good1: "good_trace L n req w h1" by (rule good_trace_reads [OF good h1])
  show "wp (checked (ownershipPreflight L K w) (\<lambda>degraded. case degraded of
      None \<Rightarrow> apply_workload L K n w | Some d \<Rightarrow> Workload_reconcileDegraded L K n w d))
    (stays_good L n req w) h1"
  proof (intro wp_checked wp_reads [OF ownershipPreflight_reads] conjI allI impI wp_option)
    fix h2 assume "reads_after h1 h2"
    then show "good_trace L n req w h2" by (rule good_trace_reads [OF good1])
  next
    fix h2 d assume "reads_after h1 h2"
    then show "wp (Workload_reconcileDegraded L K n w d) (stays_good L n req w) h2"
      by (intro wp_good_degraded assms good_trace_reads [OF good1])
  next
    fix r :: "error + workloadDegradedState option" and x h2
    assume h2: "reads_after h1 h2"
      and "r = Inr None \<longrightarrow> deployment_seen L w h2 \<and> (wPorts (wlSpec w) \<noteq> [] \<longrightarrow> service_seen L w h2)"
      and "r = Inr x" and "x = None"
    moreover have "dependencies_seen w h2"
      using deps reads_after_set [OF h2] unfolding dependencies_seen_def by blast
    ultimately show "wp (apply_workload L K n w) (stays_good L n req w) h2"
      by (intro wp_good_apply assms good_trace_reads [OF good1 h2]) auto
  qed
qed

lemma wp_good_gates:
  assumes "conditions_ok L" and "equality_ok L" and good: "good_trace L n req w h"
    and go_on: "\<And>h'. good_trace L n req w h' \<Longrightarrow> wp go_on (stays_good L n req w) h'"
  shows "wp (gates L K n w go_on) (stays_good L n req w) h"
  unfolding gates_def
  by (intro wp_checked wp_reads [OF isFederationMember_reads] wp_reads [OF isTargetPolicyMatch_reads]
      conjI allI impI wp_option wp_prod wp_if wp_good_degraded wp_good_pending assms(1,2) go_on)
     (auto intro: good_trace_reads [OF good] good_trace_reads [OF good_trace_reads [OF good]])

lemma wp_workload_writes:
  assumes "conditions_ok L" and "equality_ok L"
  shows "wp (Workload_Reconcile L K n req) (\<lambda>r h. admissible (workload_write_ok L n req) [] h) []"
  unfolding Workload_Reconcile_def get_Workload_def
proof (intro wp_intros)
  fix a :: "error + Workload" and w assume a: "a = Inr w"
  then have good: "good_trace L n req w ([] @ [GotWorkload req a])"
    by (simp add: good_trace_def read_workload_def)
  note pre = wp_good_preflight [OF assms, where K = K and n = n]
  show "wp (gates L K n w (preflight_and_apply L K n w))
      (\<lambda>r h. admissible (workload_write_ok L n req) [] h) ([] @ [GotWorkload req a])"
    by (rule wp_mono [OF wp_good_gates [OF assms good pre]]) (auto simp: good_trace_def)
  show "wp (preflight_and_apply L K n w)
      (\<lambda>r h. admissible (workload_write_ok L n req) [] h) ([] @ [GotWorkload req a])"
    by (rule wp_mono [OF pre [OF good]]) (simp add: good_trace_def)
qed simp

section \<open>What it decides\<close>

text \<open>The Workload runs here: the cluster is chosen, and nothing it needs is missing or taken.\<close>

definition chosen :: "lib \<Rightarrow> snapshot \<Rightarrow> string \<Rightarrow> Workload \<Rightarrow> bool" where
  "chosen L V n w \<longleftrightarrow> n = '''' \<or> membership_ok L V n w \<and> targeted L V n w"

definition admitted :: "lib \<Rightarrow> snapshot \<Rightarrow> string \<Rightarrow> Workload \<Rightarrow> bool" where
  "admitted L V n w \<longleftrightarrow> chosen L V n w \<and> dependencies_ok V w \<and> ownership_ok L V w"

text \<open>
  The outcome for a Workload that is held back: it is applied nowhere, its status is the only
  write, the next reconciliation is due in 30 seconds unless the write failed, and the reason
  it gives is true of the cluster.
\<close>

definition pending_reason :: "lib \<Rightarrow> snapshot \<Rightarrow> string \<Rightarrow> Workload \<Rightarrow> string \<Rightarrow> bool" where
  "pending_reason L V n w reason \<longleftrightarrow>
     reason = ''NotAFederationMember'' \<and> \<not> membership_ok L V n w \<or>
     reason = ''ExcludedByTargetPolicy'' \<and> membership_ok L V n w \<and> \<not> targeted L V n w"

definition held_result ::
  "(time list \<Rightarrow> Workload) \<Rightarrow> Workload \<Rightarrow> error + Result \<Rightarrow> event list \<Rightarrow> bool" where
  "held_result held w r h \<longleftrightarrow>
     (\<exists>ts. writes h = [] \<and> held ts = w \<and> r = Inr (requeue_after_seconds 30) \<or>
        (\<exists>s. writes h = [StatusWorkload (held ts) s] \<and>
           r = (case s of Inl e \<Rightarrow> Inl e | Inr _ \<Rightarrow> Inr (requeue_after_seconds 30))))"

definition held_outcome ::
  "lib \<Rightarrow> snapshot \<Rightarrow> string \<Rightarrow> Workload \<Rightarrow> error + Result \<Rightarrow> event list \<Rightarrow> bool" where
  "held_outcome L V n w r h \<longleftrightarrow>
     (\<exists>reason message.
        explains L V n w reason \<and>
          held_result (held_workload ''Degraded'' ''Pending'' n w reason message) w r h \<or>
        pending_reason L V n w reason \<and>
          held_result (held_workload ''Pending'' ''Degraded'' n w reason message) w r h)"

lemma wp_held_degraded:
  assumes "conditions_ok L" and "equality_ok L" and h: "writes h = []"
  shows "wp (Workload_reconcileDegraded L K n w d)
    (held_result (held_workload ''Degraded'' ''Pending'' n w (wdReason d) (wdMessage d)) w) h"
  unfolding Workload_reconcileDegraded_def held_result_def
  by (rule wp_checked, rule wp_degraded [OF assms(1,2)]) (auto intro!: wp_return simp: h)

lemma wp_held_pending:
  assumes "conditions_ok L" and "equality_ok L" and h: "writes h = []"
  shows "wp (Workload_reconcilePending L K n w reason message)
    (held_result (held_workload ''Pending'' ''Degraded'' n w reason message) w) h"
  unfolding Workload_reconcilePending_def held_result_def
  by (rule wp_checked, rule wp_pending [OF assms(1,2)]) (auto intro!: wp_return simp: h)

lemma wpv_held_degraded:
  assumes "conditions_ok L" and "equality_ok L" and "writes h = []"
    and "explains L V n w (wdReason d)"
    and "\<And>r V' h'. held_outcome L V n w r h' \<Longrightarrow> Q r V' h'"
  shows "wpv view (Workload_reconcileDegraded L K n w d) Q V h"
  by (rule wpv_wp, rule wp_mono [OF wp_held_degraded [OF assms(1-3)]], intro allI assms(5))
     (use assms(4) in \<open>unfold held_outcome_def, blast\<close>)

lemma wpv_held_pending:
  assumes "conditions_ok L" and "equality_ok L" and "writes h = []"
    and "pending_reason L V n w reason"
    and "\<And>r V' h'. held_outcome L V n w r h' \<Longrightarrow> Q r V' h'"
  shows "wpv view (Workload_reconcilePending L K n w reason message) Q V h"
  by (rule wpv_wp, rule wp_mono [OF wp_held_pending [OF assms(1-3)]], intro allI assms(5))
     (use assms(4) in \<open>unfold held_outcome_def, blast\<close>)

text \<open>For an admitted Workload the first write is its Deployment.\<close>

definition applied_first :: "lib \<Rightarrow> Workload \<Rightarrow> event list \<Rightarrow> bool" where
  "applied_first L w h \<longleftrightarrow>
     (\<exists>s es. writes h = AppliedDeployment (named_deployment w) (mutateDeployment L w) s # es)"

lemma applied_first_extends: "applied_first L w h \<Longrightarrow> applied_first L w (h @ es)"
  by (auto simp: applied_first_def)

lemma wp_first_service:
  "applied_first L w h \<Longrightarrow> wp (reconcileService L K w) (\<lambda>_. applied_first L w) h"
  unfolding reconcileService_def client_defs
  by (intro wp_intros applied_first_extends)

lemma wp_first_status:
  assumes "conditions_ok L" and "equality_ok L" and "applied_first L w h"
  shows "wp (Workload_reconcileStatus L K n w) (\<lambda>_. applied_first L w) h"
  unfolding Workload_reconcileStatus_def client_defs
  by (intro wp_checked wp_call conjI allI impI wp_applied [OF assms(1,2)] applied_first_extends assms(3))

lemma wpv_apply_first:
  assumes ok: "conditions_ok L" "equality_ok L" and h: "writes h = []"
    and Q: "\<And>r V' h'. applied_first L w h' \<Longrightarrow> Q r V' h'"
  shows "wpv view (apply_workload L K n w) Q V h"
  unfolding apply_workload_def reconcileDeployment_def create_or_update_Deployment_def
proof (rule wpv_wp, rule wp_checked, rule wp_call, intro conjI allI impI Q)
  fix r :: "error + unit"
  let ?h = "h @ [AppliedDeployment (named_deployment w) (mutateDeployment L w) r]"
  have first: "applied_first L w ?h" by (simp add: applied_first_def h)
  then show "applied_first L w ?h" .
  show "wp (checked (reconcileService L K w) (\<lambda>_. checked (Workload_reconcileStatus L K n w)
      (\<lambda>_. State_Monad.return (Inr no_requeue)))) (\<lambda>r h. \<forall>V'. Q r V' h) ?h"
    by (intro wp_checked wp_mono [OF wp_first_service [OF first]] conjI allI impI
        wp_mono [OF wp_first_status [OF ok]] wp_return Q)
qed

text \<open>The whole handler, for a Workload in the snapshot.\<close>

definition decided :: "lib \<Rightarrow> snapshot \<Rightarrow> string \<Rightarrow> Workload \<Rightarrow> error + Result \<Rightarrow> event list \<Rightarrow> bool" where
  "decided L V n w r h \<longleftrightarrow>
     (if admitted L V n w then applied_first L w h else held_outcome L V n w r h)"

lemma wpv_preflight_decides:
  assumes ok: "conditions_ok L" "equality_ok L" and K: "answers_from K view"
    and h: "writes h = []" and "chosen L V n w"
  shows "wpv view (preflight_and_apply L K n w) (\<lambda>r _. decided L V n w r) V h"
  unfolding preflight_and_apply_def
proof (rule wpv_checked, rule wpv_answers [OF dependencyPreflight_decides [where n = n and L = L, OF K]],
    intro conjI allI impI wpv_option)
  fix a h1 x
  assume h1: "reads_after h h1" and a: "check_answer (dependencies_ok V w) (explains L V n w) a"
    and x: "(Inr a :: error + workloadDegradedState option) = Inr x"
  have w1: "writes h1 = []" using h reads_after_writes [OF h1] by simp
  show "wpv view (Workload_reconcileDegraded L K n w d) (\<lambda>r _. decided L V n w r) V h1"
    if "x = Some d" for d
    using a x that by (intro wpv_held_degraded ok w1) (auto simp: decided_def admitted_def)
  show "wpv view (checked (ownershipPreflight L K w) (\<lambda>degraded. case degraded of
      None \<Rightarrow> apply_workload L K n w | Some d \<Rightarrow> Workload_reconcileDegraded L K n w d))
    (\<lambda>r _. decided L V n w r) V h1" if "x = None"
  proof (rule wpv_checked, rule wpv_answers [OF ownershipPreflight_decides [where n = n, OF K]],
      intro conjI allI impI wpv_option)
    fix b h2 y
    assume h2: "reads_after h1 h2" and b: "check_answer (ownership_ok L V w) (explains L V n w) b"
      and y: "(Inr b :: error + workloadDegradedState option) = Inr y"
    have w2: "writes h2 = []" using w1 reads_after_writes [OF h2] by simp
    show "wpv view (Workload_reconcileDegraded L K n w d) (\<lambda>r _. decided L V n w r) V h2"
      if "y = Some d" for d
      using b y that by (intro wpv_held_degraded ok w2) (auto simp: decided_def admitted_def)
    show "wpv view (apply_workload L K n w) (\<lambda>r _. decided L V n w r) V h2" if "y = None"
      using a b x y \<open>x = None\<close> that assms(5)
      by (intro wpv_apply_first ok w2) (simp add: decided_def admitted_def)
  qed simp
qed simp

lemma wpv_gates_decide:
  assumes ok: "conditions_ok L" "equality_ok L" and K: "answers_from K view"
    and h: "writes h = []" and n: "n \<noteq> ''''"
    and go_on: "\<And>h'. writes h' = [] \<Longrightarrow> chosen L V n w \<Longrightarrow> wpv view go_on (\<lambda>r _. decided L V n w r) V h'"
  shows "wpv view (gates L K n w go_on) (\<lambda>r _. decided L V n w r) V h"
  unfolding gates_def
proof (rule wpv_checked, rule wpv_answers [OF isFederationMember_decides [where n = n and L = L, OF K]],
    intro conjI allI impI wpv_prod)
  fix a h1 x member degraded
  assume h1: "reads_after h h1" and a: "gate_answer (membership_ok L V n w) (explains L V n w) a"
    and x: "(Inr a :: error + bool \<times> workloadDegradedState option) = Inr x" "x = (member, degraded)"
  have w1: "writes h1 = []" using h reads_after_writes [OF h1] by simp
  note not_chosen = decided_def admitted_def chosen_def pending_reason_def
  show "wpv view (case degraded of
      None \<Rightarrow> if \<not> member
        then Workload_reconcilePending L K n w ''NotAFederationMember''
          (''ClusterMember '' @ go_quote n @ '' is not a member of Federation '' @
           go_quote (rrName (wFederationRef (wlSpec w))) @ ''.'')
        else checked (isTargetPolicyMatch L K n w) (\<lambda>(is_targeted, degraded).
          case degraded of
            None \<Rightarrow> if \<not> is_targeted
              then Workload_reconcilePending L K n w ''ExcludedByTargetPolicy''
                (''ClusterMember '' @ go_quote n @ '' is excluded by Workload targetPolicy.'')
              else go_on
          | Some d \<Rightarrow> Workload_reconcileDegraded L K n w d)
      | Some d \<Rightarrow> Workload_reconcileDegraded L K n w d) (\<lambda>r _. decided L V n w r) V h1"
  proof (intro wpv_option wpv_if)
    fix d assume "degraded = Some d"
    then show "wpv view (Workload_reconcileDegraded L K n w d) (\<lambda>r _. decided L V n w r) V h1"
      using a x n by (intro wpv_held_degraded ok w1) (auto simp: not_chosen)
  next
    assume "degraded = None" "\<not> member"
    then show "wpv view (Workload_reconcilePending L K n w ''NotAFederationMember''
          (''ClusterMember '' @ go_quote n @ '' is not a member of Federation '' @
           go_quote (rrName (wFederationRef (wlSpec w))) @ ''.'')) (\<lambda>r _. decided L V n w r) V h1"
      using a x n by (intro wpv_held_pending ok w1) (auto simp: not_chosen)
  next
    assume "degraded = None" "\<not> \<not> member"
    then have member: "membership_ok L V n w" using a x by simp
    show "wpv view (checked (isTargetPolicyMatch L K n w) (\<lambda>(is_targeted, degraded).
          case degraded of
            None \<Rightarrow> if \<not> is_targeted
              then Workload_reconcilePending L K n w ''ExcludedByTargetPolicy''
                (''ClusterMember '' @ go_quote n @ '' is excluded by Workload targetPolicy.'')
              else go_on
          | Some d \<Rightarrow> Workload_reconcileDegraded L K n w d)) (\<lambda>r _. decided L V n w r) V h1"
    proof (rule wpv_checked, rule wpv_answers [OF isTargetPolicyMatch_decides [where n = n and L = L, OF K]],
        intro conjI allI impI wpv_prod wpv_option wpv_if)
      fix b h2 y is_targeted degraded
      assume h2: "reads_after h1 h2" and b: "gate_answer (targeted L V n w) (explains L V n w) b"
        and y: "(Inr b :: error + bool \<times> workloadDegradedState option) = Inr y" "y = (is_targeted, degraded)"
      have w2: "writes h2 = []" using w1 reads_after_writes [OF h2] by simp
      show "wpv view (Workload_reconcileDegraded L K n w d) (\<lambda>r _. decided L V n w r) V h2"
        if "degraded = Some d" for d
        using that b y n by (intro wpv_held_degraded ok w2) (auto simp: not_chosen)
      show "wpv view (Workload_reconcilePending L K n w ''ExcludedByTargetPolicy''
                (''ClusterMember '' @ go_quote n @ '' is excluded by Workload targetPolicy.''))
              (\<lambda>r _. decided L V n w r) V h2"
        if "degraded = None" "\<not> is_targeted"
        using that b y n member by (intro wpv_held_pending ok w2) (auto simp: not_chosen)
      show "wpv view go_on (\<lambda>r _. decided L V n w r) V h2" if "degraded = None" "\<not> \<not> is_targeted"
        using that b y member by (intro go_on w2) (simp add: chosen_def)
    qed simp
  qed
qed simp

lemma wpv_workload_decides:
  assumes ok: "conditions_ok L" "equality_ok L" and K: "answers_from K view"
    and w: "s_Workload V req = Some w"
  shows "wpv view (Workload_Reconcile L K n req) (\<lambda>r _. decided L V n w r) V []"
  unfolding Workload_Reconcile_def
proof (intro wpv_bind wpv_get_Workload [OF K] wpv_sum wpv_if)
  fix x v
  assume "s_Workload V req = Some x" "(Inr x :: error + Workload) = Inr v"
  with w have v: "v = w" by simp
  show "wpv view (gates L K n v (preflight_and_apply L K n v)) (\<lambda>r _. decided L V n w r) V
      ([] @ [GotWorkload req (Inr x)])" if "n \<noteq> ''''"
    unfolding v
    by (rule wpv_gates_decide [OF ok K _ that])
       (use wpv_preflight_decides [OF ok K] in auto)
  show "wpv view (preflight_and_apply L K n v) (\<lambda>r _. decided L V n w r) V
      ([] @ [GotWorkload req (Inr x)])" if "\<not> n \<noteq> ''''"
    unfolding v by (rule wpv_preflight_decides [OF ok K]) (use that in \<open>auto simp: chosen_def\<close>)
qed (use w in auto)

end
