(* ===== verification/Workload_Properties.thy ===== *)
theory Workload_Properties
  imports Workload_Controller
begin

text \<open>The properties of the Workload's controller, with their witnesses.\<close>

section \<open>A sample cluster\<close>

definition east_store :: store where
  "east_store = empty_store\<lparr>st_ClusterMembers := [sample_member ''east''],
     st_Federations := [sample_federation [''east'']], st_Workloads := [sample_workload]\<rparr>"

abbreviation echo_key :: ObjectKey where
  "echo_key \<equiv> object_key ''demo'' ''echo''"

lemma east_snapshot:
  "s_Workload (store_snapshot east_store) echo_key = Some sample_workload"
  "s_Federation (store_snapshot east_store) ''primary'' = Some (sample_federation [''east''])"
  "s_Deployment (store_snapshot east_store) k = None"
  "s_Service (store_snapshot east_store) k = None"
  by (simp_all add: store_snapshot_def east_store_def empty_store_def lookup_def lookup_name_def
      sample_workload_def sample_federation_def sample_meta_def)

lemma east_admitted:
  "admitted ref_lib (store_snapshot east_store) n sample_workload \<longleftrightarrow> n \<in> {'''', ''east''}"
proof -
  have "membership_ok ref_lib (store_snapshot east_store) n sample_workload \<longleftrightarrow> n = ''east''"
    by (simp add: membership_ok_def cluster_in_federation_def selected_by_def sample_workload_def
        east_snapshot) (simp add: sample_federation_def)
  moreover have "targeted ref_lib (store_snapshot east_store) n sample_workload"
    by (simp add: targeted_def sample_workload_def)
  moreover have "dependencies_ok (store_snapshot east_store) sample_workload"
    by (simp add: dependencies_ok_def needed_secrets_def needed_config_maps_def sample_workload_def)
  moreover have "ownership_ok ref_lib (store_snapshot east_store) sample_workload"
    by (simp add: ownership_ok_def east_snapshot)
  ultimately show ?thesis
    by (auto simp: admitted_def chosen_def)
qed

section \<open>What the controller writes\<close>

text \<open>C1: whatever the API server answers, and whoever else writes to it, the Workload's
  controller makes only these writes: the status of the Workload it read; its Deployment, once
  each Secret and ConfigMap it refers to was found and the Deployment (and the Service, when it
  has ports) was found controlled by the Workload or absent; its Service, or the deletion of a
  Service that it controls when it has no ports, once the Deployment was stored. A status that
  says applied is written only after the Deployment was stored and read back.\<close>

theorem workload_writes_safe:
  assumes "conditions_ok L" and "equality_ok L"
  shows "in_every_run (Workload_Reconcile L K n req)
    (\<lambda>r es. admissible (workload_write_ok L n req) [] es)"
  by (rule in_every_run_wp, rule wp_workload_writes [OF assms])

theorem workload_writes_safe_witness:
  "in_every_run (Workload_Reconcile ref_lib ref_kube ''east'' echo_key)
    (\<lambda>r es. admissible (workload_write_ok ref_lib ''east'' echo_key) [] es)"
  by (rule workload_writes_safe) simp_all

text \<open>C2: on a server that answers from one state of the cluster, the controller decides as the
  specification says. A Workload is admitted when the cluster is a member of its Federation (by
  name or by labels) and chosen by its target policy, all Secrets and ConfigMaps exist, and the
  objects of its name are its own or absent; then the first write applies its Deployment. Any
  other Workload is applied nowhere: at most its status is written, with a reason that is true of
  the cluster, and the reconciliation is repeated after 30 seconds unless that write failed.\<close>

theorem workload_decision:
  assumes "conditions_ok L" and "equality_ok L" and "answers_from K view"
    and "s_Workload (view st) req = Some w"
  shows "case run (Workload_Reconcile L K n req) st of (r, es, _) \<Rightarrow>
    if admitted L (view st) n w then applied_first L w es
    else held_outcome L (view st) n w r es"
  using wpv_run [OF wpv_workload_decides [OF assms]] by (simp add: decided_def)

theorem workload_decision_witness:
  "(case run (Workload_Reconcile ref_lib ref_kube ''east'' echo_key) east_store of (r, es, _) \<Rightarrow>
      applied_first ref_lib sample_workload es) \<and>
   (case run (Workload_Reconcile ref_lib ref_kube ''west'' echo_key) east_store of (r, es, _) \<Rightarrow>
      held_outcome ref_lib (store_snapshot east_store) ''west'' sample_workload r es)"
  using workload_decision [of ref_lib ref_kube store_snapshot east_store echo_key sample_workload "''east''"]
    workload_decision [of ref_lib ref_kube store_snapshot east_store echo_key sample_workload "''west''"]
  by (simp add: east_snapshot east_admitted)

text \<open>C10: every status the controller writes is coherent, whatever the server answers: exactly
  one target, that of this cluster; its state, the conditions and the observed generation
  agree on one phase (degraded, pending, or applied), and the conditions of the other phases
  are gone.\<close>

theorem workload_status_coherent:
  assumes "conditions_ok L" and "equality_ok L"
  shows "in_every_run (Workload_Reconcile L K n req)
    (\<lambda>r es. \<forall>x s. StatusWorkload x s \<in> set es \<longrightarrow> coherent_status n x)"
proof (rule in_every_run_wp, rule wp_mono [OF wp_workload_writes [OF assms]], intro allI impI)
  fix r es x s
  assume "admissible (workload_write_ok L n req) [] es" and "StatusWorkload x s \<in> set es"
  then obtain before where "workload_write_ok L n req before (StatusWorkload x s)"
    by (auto dest: admissible_mem)
  then show "coherent_status n x"
    by (auto simp: status_of_def held_coherent applied_coherent)
qed

theorem workload_status_coherent_witness:
  "in_every_run (Workload_Reconcile ref_lib ref_kube ''east'' echo_key)
    (\<lambda>r es. \<forall>x s. StatusWorkload x s \<in> set es \<longrightarrow> coherent_status ''east'' x)"
  by (rule workload_status_coherent) simp_all

text \<open>C33: the controller does not trigger itself. Once the status of a degraded, a pending or an
  applied Workload is written, the same function on the Workload with that status makes no
  further write, at whatever time it runs.\<close>

theorem workload_status_quiet:
  assumes "conditions_ok L" and "equality_ok L"
  shows "in_every_run (reconcileDegradedStatus L K n
      (held_workload ''Degraded'' ''Pending'' n w reason message ts) reason message)
      (\<lambda>r es. r = Inr () \<and> es = []) \<and>
    in_every_run (reconcilePendingStatus L K n
      (held_workload ''Pending'' ''Degraded'' n w reason message ts) reason message)
      (\<lambda>r es. r = Inr () \<and> es = []) \<and>
    in_every_run (writeAppliedStatus L K n (applied_workload n w d ts) d)
      (\<lambda>r es. r = Inr () \<and> es = [])"
  using degraded.silent_when_settled [OF assms,
      of "(n, held_workload ''Degraded'' ''Pending'' n w reason message ts, reason, message)" K]
    pending.silent_when_settled [OF assms,
      of "(n, held_workload ''Pending'' ''Degraded'' n w reason message ts, reason, message)" K]
    applied.silent_when_settled [OF assms, of "(n, applied_workload n w d ts, d)" K]
  by (simp add: held_again [OF hold_kinds(1)] held_again [OF hold_kinds(2)] applied_again)

theorem workload_status_quiet_witness:
  "in_every_run (writeAppliedStatus ref_lib ref_kube ''east''
     (applied_workload ''east'' sample_workload sample_deployment [5, 6, 7, 8]) sample_deployment)
     (\<lambda>r es. r = Inr () \<and> es = [])"
  using workload_status_quiet [of ref_lib ref_kube "''east''" sample_workload "''R''" "''M''" "[5, 6, 7, 8]"
      sample_deployment] by simp

section \<open>What the controller renders\<close>

text \<open>The variables that no DatastoreBinding manages are those of the spec, in its order.\<close>

lemma rendered_env_others:
  "filter (\<lambda>v. eName v \<notin> datastoreManagedEnvVars d) (rendered_env w d) =
     filter (\<lambda>v. eName v \<notin> datastoreManagedEnvVars d) (envVars (wEnv (wlSpec w)))"
proof (cases "datastoreManagedEnvVars d = {}")
  case True
  then show ?thesis by (simp add: rendered_env_def preserveDatastoreManagedEnvVars_def)
next
  case False
  let ?M = "datastoreManagedEnvVars d" and ?es = "envVars (wEnv (wlSpec w))"
  let ?vs = "filter (\<lambda>v. eName v \<in> ?M) (container_env d)"
  let ?spec = "filter (\<lambda>v. eName v \<notin> ?M) ?es"
  have "overlay (env_map ?vs) ?spec = overlay Map.empty ?spec"
    by (rule overlay_cong) (auto simp: env_map_None)
  then have "filter (\<lambda>v. eName v \<notin> ?M) (overlay (env_map ?vs) ?es) = ?spec"
    by (simp add: overlay_filter_env [where P = "\<lambda>n. n \<notin> ?M"])
  moreover have "filter (\<lambda>v. eName v \<notin> ?M) (filter (\<lambda>v. eName v \<notin> env_names ?es) ?vs) = []"
    by (auto simp: filter_empty_conv)
  ultimately show ?thesis
    using False by (simp add: rendered_env_def preserveDatastoreManagedEnvVars_def mergeEnvVars_eq
        del: filter_filter)
qed

lemma envFromSources_map:
  "envFromSources ss = map (\<lambda>s. \<lparr>efConfigMapRef = wefConfigMapRef s, efSecretRef = wefSecretRef s\<rparr>) ss"
  by (induction ss) (auto simp: configMapEnvSource_def secretEnvSource_def split: option.split)

text \<open>C11: a Deployment that the controller renders is the spec, entry by entry. It is controlled by the
  Workload and keeps its name, namespace and annotations and its own status; its labels, the labels
  of its pods and its selector are the two labels of the Workload; it has the replicas, service
  account and pull secrets of the spec and one container, named \<open>app\<close>, with the image, the ports
  (with TCP for a protocol left open) and the environment sources of the spec, each with its
  ConfigMap and its Secret. The environment of that container is the one of the spec, each variable
  with its literal value and in the order of the spec, except that the entries which the first
  container had for the names that DatastoreBindings manage are kept and override it.\<close>

theorem workload_render:
  assumes "owners_ok L" and "mutateDeployment L w d = Inr d'"
  shows "l_IsControlledBy L (dMeta d') (wlMeta w) \<and>
    key_of (dMeta d') = key_of (dMeta d) \<and> mAnnotations (dMeta d') = mAnnotations (dMeta d) \<and>
    mLabels (dMeta d') = [''app.kubernetes.io/managed-by'' \<mapsto> ''polykube-operator'',
      ''polykube.dev/workload'' \<mapsto> mName (wlMeta w)] \<and>
    dTemplateLabels d' = mLabels (dMeta d') \<and>
    dSelector d' = Some \<lparr>lsMatchLabels = dTemplateLabels d', lsMatchExpressions = []\<rparr> \<and>
    dReplicas d' = wReplicas (wlSpec w) \<and> dServiceAccountName d' = wServiceAccountName (wlSpec w) \<and>
    dImagePullSecrets d' = wImagePullSecrets (wlSpec w) \<and> dConditions d' = dConditions d \<and>
    (\<exists>c. dContainers d' = [c] \<and> cName c = ''app'' \<and> cImage c = wImage (wlSpec w) \<and>
       cPorts c = map (\<lambda>p. \<lparr>cpName = wpName p, cpContainerPort = wpContainerPort p,
         cpProtocol = (if wpProtocol p = '''' then ''TCP'' else wpProtocol p)\<rparr>) (wPorts (wlSpec w)) \<and>
       cEnvFrom c = map (\<lambda>s. \<lparr>efConfigMapRef = wefConfigMapRef s, efSecretRef = wefSecretRef s\<rparr>)
         (wEnvFrom (wlSpec w)) \<and>
       env_map (cEnv c) =
         env_map (map (\<lambda>v. \<lparr>eName = weName v, eValue = weValue v, eValueFrom = None\<rparr>) (wEnv (wlSpec w))) ++
         (env_map (container_env d) |` datastoreManagedEnvVars d) \<and>
       filter (\<lambda>v. eName v \<notin> datastoreManagedEnvVars d) (cEnv c) =
         filter (\<lambda>v. eName v \<notin> datastoreManagedEnvVars d)
           (map (\<lambda>v. \<lparr>eName = weName v, eValue = weValue v, eValueFrom = None\<rparr>) (wEnv (wlSpec w))))"
proof -
  from assms obtain meta where ctl: "l_IsControlledBy L meta (wlMeta w)"
    and meta: "meta = (dMeta d)\<lparr>mOwnerReferences := mOwnerReferences meta\<rparr>"
    and d': "d' = \<lparr>dMeta = meta\<lparr>mLabels := workloadLabels w\<rparr>,
       dReplicas = wReplicas (wlSpec w),
       dSelector = metav1LabelSelector (workloadLabels w),
       dTemplateLabels = workloadLabels w,
       dServiceAccountName = wServiceAccountName (wlSpec w),
       dImagePullSecrets = wImagePullSecrets (wlSpec w),
       dContainers = [\<lparr>cName = ''app'', cImage = wImage (wlSpec w),
         cPorts = containerPorts (wPorts (wlSpec w)), cEnv = rendered_env w d,
         cEnvFrom = envFromSources (wEnvFrom (wlSpec w))\<rparr>],
       dConditions = dConditions d\<rparr>"
    by (elim mutateDeployment_cases)
  have "\<And>m m'. mOwnerReferences m = mOwnerReferences m' \<Longrightarrow>
      l_IsControlledBy L m (wlMeta w) = l_IsControlledBy L m' (wlMeta w)"
    using assms(1) unfolding owners_ok_def by blast
  from this [of "meta\<lparr>mLabels := workloadLabels w\<rparr>" meta] ctl
  have "l_IsControlledBy L (meta\<lparr>mLabels := workloadLabels w\<rparr>) (wlMeta w)" by simp
  moreover have "key_of meta = key_of (dMeta d) \<and> mAnnotations meta = mAnnotations (dMeta d)"
    by (subst (1 2 3) meta) simp
  moreover have "workloadLabels w = [''app.kubernetes.io/managed-by'' \<mapsto> ''polykube-operator'',
      ''polykube.dev/workload'' \<mapsto> mName (wlMeta w)]"
    unfolding workloadLabels_def workloadNameLabel_def ..
  ultimately show ?thesis
    unfolding envVars_map [symmetric]
    by (simp add: d' env_map_rendered rendered_env_others containerPorts_map protocol_def
        envFromSources_map metav1LabelSelector_def del: fun_upd_apply)
qed

theorem workload_render_witness:
  "\<exists>d'. mutateDeployment ref_lib sample_workload sample_deployment = Inr d' \<and>
     l_IsControlledBy ref_lib (dMeta d') (wlMeta sample_workload) \<and>
     key_of (dMeta d') = echo_key"
proof -
  have "ref_SetControllerReference (wlMeta sample_workload) (dMeta sample_deployment) =
      Inr (dMeta sample_deployment)"
    by (simp add: ref_SetControllerReference_def ref_controller_def sample_workload_def
        sample_deployment_def sample_owned_def sample_meta_def)
  then obtain d' where d': "mutateDeployment ref_lib sample_workload sample_deployment = Inr d'"
    by (simp add: mutateDeployment_def Let_def)
  from workload_render [OF _ this] have "l_IsControlledBy ref_lib (dMeta d') (wlMeta sample_workload)"
    "key_of (dMeta d') = key_of (dMeta sample_deployment)" by simp_all
  with d' show ?thesis
    by (simp add: sample_deployment_def sample_owned_def sample_meta_def)
qed

text \<open>Rendering is stable. What the controller renders over a Deployment it rendered before
  is that same Deployment, so a reconciliation without a change applies nothing new.\<close>

lemma workload_render_stable:
  assumes "owners_ok L" and "mutateDeployment L w d = Inr d'"
  shows "mutateDeployment L w d' = Inr d'"
  using assms by (rule mutateDeployment_twice)

text \<open>C32: a Service that the controller renders is controlled by the Workload, keeps its name,
  namespace and annotations, selects the pods of the rendered Deployment, and forwards each
  port of the spec to the same port of the container, with TCP for a protocol left open.\<close>

theorem workload_service_render:
  assumes "owners_ok L" and "mutateService L w s = Inr s'" and "mutateDeployment L w d = Inr d'"
  shows "l_IsControlledBy L (svcMeta s') (wlMeta w) \<and> key_of (svcMeta s') = key_of (svcMeta s) \<and>
    mAnnotations (svcMeta s') = mAnnotations (svcMeta s) \<and> svcSelector s' = dTemplateLabels d' \<and>
    svcPorts s' = map (\<lambda>p. \<lparr>spName = wpName p, spPort = wpContainerPort p,
      spTargetPort = FromInt32 (wpContainerPort p),
      spProtocol = (if wpProtocol p = '''' then ''TCP'' else wpProtocol p)\<rparr>) (wPorts (wlSpec w))"
proof -
  have "dTemplateLabels d' = workloadLabels w"
    by (rule mutateDeployment_cases [OF assms(1,3)]) simp
  then show ?thesis
    using mutateService_spec [OF assms(1,2)] by (simp add: servicePorts_map protocol_def)
qed

theorem workload_service_render_witness:
  "\<exists>s'. mutateService ref_lib sample_workload (named_service sample_workload) = Inr s' \<and>
     svcPorts s' = [\<lparr>spName = ''http'', spPort = 8080, spTargetPort = FromInt32 8080, spProtocol = ''TCP''\<rparr>]"
proof -
  obtain s' where s': "mutateService ref_lib sample_workload (named_service sample_workload) = Inr s'"
    by (simp add: mutateService_def ref_SetControllerReference_def ref_controller_def
        named_service_def empty_meta_def)
  obtain d' where d': "mutateDeployment ref_lib sample_workload (named_deployment sample_workload) = Inr d'"
    by (simp add: mutateDeployment_def Let_def ref_SetControllerReference_def ref_controller_def
        named_deployment_def empty_meta_def)
  from workload_service_render [OF _ s' d'] s' show ?thesis by (simp add: sample_workload_def)
qed

end
