(* ===== verification/ServiceEndpoint_Controller.thy ===== *)
theory ServiceEndpoint_Controller
  imports Status_Contract Federation_Controller
begin

text \<open>
  \<open>serviceendpoint_controller.go\<close>: the routing annotations of a Workload's Service, the
  finalizer that removes them, and the status of a ServiceEndpoint.
\<close>

section \<open>The controller\<close>

definition ciliumGlobalAnnotation :: string where
  "ciliumGlobalAnnotation = ''service.cilium.io/global''"
definition ciliumSharedAnnotation :: string where
  "ciliumSharedAnnotation = ''service.cilium.io/shared''"
definition serviceEndpointFinalizer :: string where
  "serviceEndpointFinalizer = ''serviceendpoint.routing.polykube.dev/finalizer''"

definition ServiceEndpoint_resolveWorkload ::
  "'w kube \<Rightarrow> ServiceEndpoint \<Rightarrow> ('w, error + Workload option) io" where
  "ServiceEndpoint_resolveWorkload K se =
     (let workloadNS = nrNamespace (seWorkloadRef (seSpec se));
          workloadNS = (if workloadNS = '''' then mNamespace (seMeta se) else workloadNS)
      in do {
        r \<leftarrow> get_Workload K (object_key workloadNS (nrName (seWorkloadRef (seSpec se))));
        State_Monad.return
          (case r of
             Inl err \<Rightarrow> if is_not_found err then Inr None else Inl err
           | Inr workload \<Rightarrow> Inr (Some workload))
      })"

definition resolveService :: "'w kube \<Rightarrow> Workload \<Rightarrow> ('w, error + Service option) io" where
  "resolveService K workload =
     do {
       r \<leftarrow> get_Service K (object_key (mNamespace (wlMeta workload)) (mName (wlMeta workload)));
       State_Monad.return
         (case r of
            Inl err \<Rightarrow> if is_not_found err then Inr None else Inl err
          | Inr svc \<Rightarrow> Inr (Some svc))
     }"

text \<open>The reason and the message; both are empty for a valid primary.\<close>

definition validatePrimaryMember ::
  "lib \<Rightarrow> 'w kube \<Rightarrow> ServiceEndpoint \<Rightarrow> Workload \<Rightarrow> ('w, error + string \<times> string) io" where
  "validatePrimaryMember L K se workload =
     do {
       r \<leftarrow> get_ClusterMember K (cluster_key (sePrimaryMemberRef (seSpec se)));
       case r of
         Inl err \<Rightarrow>
           State_Monad.return
             (if is_not_found err
              then Inr (''PrimaryMemberNotFound'',
                ''ClusterMember '' @ go_quote (sePrimaryMemberRef (seSpec se)) @
                '' referenced by spec.primaryMemberRef was not found.'')
              else Inl err)
       | Inr member \<Rightarrow>
           (let federationName = rrName (wFederationRef (wlSpec workload)) in
            if federationName = '''' then
              State_Monad.return (Inr (''PrimaryMemberNotInFederation'',
                ''Workload '' @ go_quote (mName (wlMeta workload)) @
                '' does not reference a Federation; cannot use ClusterMember '' @
                go_quote (member_name member) @ '' as an active/passive primary.''))
            else do {
              r \<leftarrow> get_Federation K (cluster_key federationName);
              case r of
                Inl err \<Rightarrow>
                  State_Monad.return
                    (if is_not_found err
                     then Inr (''FederationNotFound'',
                       ''Federation '' @ go_quote federationName @ '' referenced by Workload '' @
                       go_quote (mName (wlMeta workload)) @ '' was not found.'')
                     else Inl err)
              | Inr federation \<Rightarrow>
                  (let notInFederation =
                         (''PrimaryMemberNotInFederation'',
                          ''ClusterMember '' @ go_quote (member_name member) @
                          '' is not a member of Federation '' @ go_quote federationName @
                          '' referenced by Workload '' @ go_quote (mName (wlMeta workload)) @ ''.'')
                   in if list_ex (\<lambda>ref. fmrName ref = member_name member) (fMembers (fedSpec federation))
                      then State_Monad.return (Inr ('''', ''''))
                      else (case fMemberSelector (fedSpec federation) of
                          None \<Rightarrow> State_Monad.return (Inr notInFederation)
                        | Some labelSelector \<Rightarrow>
                            (case l_LabelSelectorAsSelector L labelSelector of
                               Inl err \<Rightarrow>
                                 State_Monad.return (Inr (''InvalidFederationSelector'',
                                   ''Federation '' @ go_quote federationName @
                                   '' has an invalid memberSelector: '' @ err @ ''.''))
                             | Inr selector \<Rightarrow>
                                 State_Monad.return (Inr
                                   (if selector (mLabels (cmMeta member)) then ('''', '''')
                                    else notInFederation)))))
            })
     }"

text \<open>The annotations of the Service after the switch on the routing mode.\<close>

definition routed_annotations ::
  "string \<Rightarrow> ServiceEndpointSpec \<Rightarrow> strmap option \<Rightarrow> strmap option" where
  "routed_annotations clusterMemberName spec annotations =
     (let m = (case annotations of None \<Rightarrow> Map.empty | Some m \<Rightarrow> m)
      in Some
        (if seRoutingMode spec = RoutingModeActiveActive then
           m(ciliumGlobalAnnotation \<mapsto> ''true'', ciliumSharedAnnotation \<mapsto> ''true'')
         else if seRoutingMode spec = RoutingModeActivePassive then
           (if clusterMemberName = sePrimaryMemberRef spec
            then m(ciliumGlobalAnnotation \<mapsto> ''true'', ciliumSharedAnnotation \<mapsto> ''true'')
            else m(ciliumGlobalAnnotation \<mapsto> ''true'', ciliumSharedAnnotation \<mapsto> ''false''))
         else m))"

abbreviation annotate_service :: "(strmap option \<Rightarrow> strmap option) \<Rightarrow> Service \<Rightarrow> Service" where
  "annotate_service f svc \<equiv>
     svc\<lparr>svcMeta := (svcMeta svc)\<lparr>mAnnotations := f (mAnnotations (svcMeta svc))\<rparr>\<rparr>"

definition applyAnnotations ::
  "'w kube \<Rightarrow> string \<Rightarrow> ServiceEndpoint \<Rightarrow> Service \<Rightarrow> ('w, error + unit) io" where
  "applyAnnotations K clusterMemberName se svc =
     patch_Service K svc (annotate_service (routed_annotations clusterMemberName (seSpec se)) svc)"

text \<open>\<open>delete\<close> on a nil map does nothing.\<close>

definition unrouted_annotations :: "strmap option \<Rightarrow> strmap option" where
  "unrouted_annotations annotations =
     map_option (\<lambda>m. m(ciliumGlobalAnnotation := None, ciliumSharedAnnotation := None)) annotations"

text \<open>The part of \<open>reconcileDelete\<close> that cleans the Service of a Workload, if there is one.\<close>

definition clear_annotations ::
  "lib \<Rightarrow> 'w kube \<Rightarrow> Workload option \<Rightarrow> ('w, error + unit) io" where
  "clear_annotations L K workload =
     (case workload of
        None \<Rightarrow> State_Monad.return (Inr ())
      | Some workload \<Rightarrow>
          checked (resolveService K workload) (\<lambda>svc.
            case svc of
              None \<Rightarrow> State_Monad.return (Inr ())
            | Some svc \<Rightarrow>
                if l_IsControlledBy L (svcMeta svc) (wlMeta workload)
                then do {
                  r \<leftarrow> patch_Service K svc (annotate_service unrouted_annotations svc);
                  State_Monad.return
                    (case r of
                       Inl err \<Rightarrow> if \<not> is_not_found err then Inl err else Inr ()
                     | Inr _ \<Rightarrow> Inr ())
                }
                else State_Monad.return (Inr ())))"

definition ServiceEndpoint_reconcileDelete ::
  "lib \<Rightarrow> 'w kube \<Rightarrow> ServiceEndpoint \<Rightarrow> ('w, error + unit) io" where
  "ServiceEndpoint_reconcileDelete L K se =
     (if \<not> l_ContainsFinalizer L (mFinalizers (seMeta se)) serviceEndpointFinalizer
      then State_Monad.return (Inr ())
      else
        checked (ServiceEndpoint_resolveWorkload K se) (\<lambda>workload.
        checked (clear_annotations L K workload) (\<lambda>_.
        checked
          (update_ServiceEndpoint K
            (se\<lparr>seMeta := (seMeta se)\<lparr>mFinalizers :=
               l_RemoveFinalizer L (mFinalizers (seMeta se)) serviceEndpointFinalizer\<rparr>\<rparr>))
          (\<lambda>_. State_Monad.return (Inr ())))))"

definition serviceEndpointTransitionTime ::
  "lib \<Rightarrow> time \<Rightarrow> ServiceEndpoint \<Rightarrow> string \<Rightarrow> string \<Rightarrow> time option" where
  "serviceEndpointTransitionTime L now se status reason =
     (case l_FindStatusCondition L (sesConditions (seStatus se)) ''Ready'' of
        None \<Rightarrow> Some now
      | Some ready \<Rightarrow>
          if cnStatus ready = status \<and> cnReason ready = reason \<and>
             sesLastTransitionTime (seStatus se) \<noteq> None
          then sesLastTransitionTime (seStatus se) else Some now)"

definition ServiceEndpoint_reconcileStatus ::
  "lib \<Rightarrow> 'w kube \<Rightarrow> ServiceEndpoint \<Rightarrow> ('w, error + unit) io" where
  "ServiceEndpoint_reconcileStatus L K se =
     do {
       t0 \<leftarrow> clock K;
       t1 \<leftarrow> clock K;
       t2 \<leftarrow> clock K;
       let status = seStatus se;
           generation = mGeneration (seMeta se);
           v = alias_view L (sesConditions status);
           v = RemoveStatusCondition L ''Degraded'' v;
           v = SetStatusCondition L t1
                 (mk_condition ''Ready'' ConditionTrue generation ''Reconciled''
                   ''Cilium annotations applied to the Service.'') v;
           v = setFieldsNotEnforcedCondition L t2 generation
                 (serviceEndpointFieldsNotEnforced (seSpec se)) v;
           nextStatus = status\<lparr>sesObservedGeneration := generation,
             sesLastTransitionTime := serviceEndpointTransitionTime L t0 se ConditionTrue ''Reconciled'',
             sesActiveMemberRef :=
               (if seRoutingMode (seSpec se) = RoutingModeActivePassive
                then sePrimaryMemberRef (seSpec se) else ''''),
             sesResolvedHostnames := seHostnames (seSpec se),
             sesConditions := cur v\<rparr>
       in if l_DeepEqualServiceEndpointStatus L (status\<lparr>sesConditions := orig v\<rparr>) nextStatus
          then State_Monad.return (Inr ())
          else status_update_ServiceEndpoint K (se\<lparr>seStatus := nextStatus\<rparr>)
     }"

text \<open>The status of \<open>reconcileDegraded\<close>; no condition is removed before conditions are set.\<close>

definition writeDegradedStatus ::
  "lib \<Rightarrow> 'w kube \<Rightarrow> ServiceEndpoint \<Rightarrow> string \<Rightarrow> string \<Rightarrow> ('w, error + unit) io" where
  "writeDegradedStatus L K se reason message =
     do {
       t0 \<leftarrow> clock K;
       t1 \<leftarrow> clock K;
       t2 \<leftarrow> clock K;
       t3 \<leftarrow> clock K;
       let status = seStatus se;
           generation = mGeneration (seMeta se);
           v = alias_view L (sesConditions status);
           v = SetStatusCondition L t1
                 (mk_condition ''Degraded'' ConditionTrue generation reason message) v;
           v = SetStatusCondition L t2
                 (mk_condition ''Ready'' ConditionFalse generation reason message) v;
           v = setFieldsNotEnforcedCondition L t3 generation
                 (serviceEndpointFieldsNotEnforced (seSpec se)) v;
           nextStatus = status\<lparr>sesObservedGeneration := generation,
             sesActiveMemberRef := '''', sesResolvedHostnames := [],
             sesLastTransitionTime := serviceEndpointTransitionTime L t0 se ConditionFalse reason,
             sesConditions := cur v\<rparr>
       in if \<not> l_DeepEqualServiceEndpointStatus L (status\<lparr>sesConditions := orig v\<rparr>) nextStatus
          then status_update_ServiceEndpoint K (se\<lparr>seStatus := nextStatus\<rparr>)
          else State_Monad.return (Inr ())
     }"

definition ServiceEndpoint_reconcileDegraded ::
  "lib \<Rightarrow> 'w kube \<Rightarrow> ServiceEndpoint \<Rightarrow> string \<Rightarrow> string \<Rightarrow> ('w, error + Result) io" where
  "ServiceEndpoint_reconcileDegraded L K se reason message =
     checked (writeDegradedStatus L K se reason message)
       (\<lambda>_. State_Monad.return (Inr (requeue_after_seconds 5)))"

text \<open>From the resolution of the Service on.\<close>

definition route_service ::
  "lib \<Rightarrow> 'w kube \<Rightarrow> string \<Rightarrow> ServiceEndpoint \<Rightarrow> Workload \<Rightarrow> ('w, error + Result) io" where
  "route_service L K clusterMemberName se workload =
     checked (resolveService K workload) (\<lambda>svc.
       case svc of
         None \<Rightarrow>
           ServiceEndpoint_reconcileDegraded L K se ''ServiceNotFound''
             (''Service '' @ go_quote (mName (wlMeta workload)) @ '' was not found in namespace '' @
              go_quote (mNamespace (wlMeta workload)) @
              ''. Wait for the Workload to create it or declare a Workload port.'')
       | Some svc \<Rightarrow>
           if \<not> l_IsControlledBy L (svcMeta svc) (wlMeta workload) then
             ServiceEndpoint_reconcileDegraded L K se ''ServiceOwnershipConflict''
               (''Service '' @ go_quote (mName (svcMeta svc)) @ '' in namespace '' @
                go_quote (mNamespace (svcMeta svc)) @ '' is not controlled by Workload '' @
                go_quote (mName (wlMeta workload)) @
                ''. Refusing to modify its routing annotations.'')
           else
             checked (applyAnnotations K clusterMemberName se svc) (\<lambda>_.
             checked (ServiceEndpoint_reconcileStatus L K se) (\<lambda>_.
             State_Monad.return (Inr no_requeue))))"

text \<open>From the resolution of the Workload on.\<close>

definition route_workload ::
  "lib \<Rightarrow> 'w kube \<Rightarrow> string \<Rightarrow> ServiceEndpoint \<Rightarrow> ('w, error + Result) io" where
  "route_workload L K clusterMemberName se =
     checked (ServiceEndpoint_resolveWorkload K se) (\<lambda>workload.
       case workload of
         None \<Rightarrow>
           ServiceEndpoint_reconcileDegraded L K se ''WorkloadNotFound''
             (''Workload '' @ go_quote (nrName (seWorkloadRef (seSpec se))) @
              '' was not found. Create the Workload or update spec.workloadRef.'')
       | Some workload \<Rightarrow>
           if seRoutingMode (seSpec se) = RoutingModeActivePassive then
             checked (validatePrimaryMember L K se workload) (\<lambda>(reason, message).
               if reason \<noteq> '''' then ServiceEndpoint_reconcileDegraded L K se reason message
               else route_service L K clusterMemberName se workload)
           else route_service L K clusterMemberName se workload)"

definition ServiceEndpoint_Reconcile ::
  "lib \<Rightarrow> 'w kube \<Rightarrow> string \<Rightarrow> ObjectKey \<Rightarrow> ('w, error + Result) io" where
  "ServiceEndpoint_Reconcile L K clusterMemberName req =
     do {
       r \<leftarrow> get_ServiceEndpoint K req;
       case r of
         Inl err \<Rightarrow> State_Monad.return (if is_not_found err then Inr no_requeue else Inl err)
       | Inr se \<Rightarrow>
           if \<not> l_IsZero L (mDeletionTimestamp (seMeta se)) then
             checked (ServiceEndpoint_reconcileDelete L K se)
               (\<lambda>_. State_Monad.return (Inr no_requeue))
           else
             (let (added, finalizers) =
                    l_AddFinalizer L (mFinalizers (seMeta se)) serviceEndpointFinalizer;
                  se = se\<lparr>seMeta := (seMeta se)\<lparr>mFinalizers := finalizers\<rparr>\<rparr>
              in checked (if added then update_ServiceEndpoint K se else State_Monad.return (Inr se))
                   (\<lambda>se. route_workload L K clusterMemberName se))
     }"

end
