(* ===== verification/ServiceEndpoint_Facts.thy ===== *)
theory ServiceEndpoint_Facts
  imports ServiceEndpoint_Controller
begin

text \<open>
  What the controller of ServiceEndpoints does: the status it writes, the events it may cause on
  any server, and what it decides on a snapshot.
\<close>

section \<open>The status wanted\<close>

definition ready_condition :: "ServiceEndpoint \<Rightarrow> Condition" where
  "ready_condition se =
     mk_condition ''Ready'' ConditionTrue (mGeneration (seMeta se)) ''Reconciled''
       ''Cilium annotations applied to the Service.''"

definition active_member :: "ServiceEndpointSpec \<Rightarrow> string" where
  "active_member spec =
     (if seRoutingMode spec = RoutingModeActivePassive then sePrimaryMemberRef spec else '''')"

definition ready_endpoint :: "lib \<Rightarrow> ServiceEndpoint \<Rightarrow> time list \<Rightarrow> ServiceEndpoint" where
  "ready_endpoint L se ts =
     se\<lparr>seStatus :=
       \<lparr>sesConditions = settle_conditions [''Degraded''] [ready_condition se] (mGeneration (seMeta se))
          (serviceEndpointFieldsNotEnforced (seSpec se)) (tl ts) (sesConditions (seStatus se)),
        sesActiveMemberRef = active_member (seSpec se),
        sesResolvedHostnames = seHostnames (seSpec se),
        sesLastTransitionTime =
          serviceEndpointTransitionTime L (hd ts) se ConditionTrue ''Reconciled'',
        sesObservedGeneration = mGeneration (seMeta se)\<rparr>\<rparr>"

definition degraded_conditions ::
  "ServiceEndpoint \<Rightarrow> string \<Rightarrow> string \<Rightarrow> Condition list" where
  "degraded_conditions se reason message =
     [mk_condition ''Degraded'' ConditionTrue (mGeneration (seMeta se)) reason message,
      mk_condition ''Ready'' ConditionFalse (mGeneration (seMeta se)) reason message]"

definition degraded_endpoint ::
  "lib \<Rightarrow> ServiceEndpoint \<Rightarrow> string \<Rightarrow> string \<Rightarrow> time list \<Rightarrow> ServiceEndpoint" where
  "degraded_endpoint L se reason message ts =
     se\<lparr>seStatus :=
       \<lparr>sesConditions = settle_conditions [] (degraded_conditions se reason message)
          (mGeneration (seMeta se)) (serviceEndpointFieldsNotEnforced (seSpec se)) (tl ts)
          (sesConditions (seStatus se)),
        sesActiveMemberRef = '''', sesResolvedHostnames = [],
        sesLastTransitionTime = serviceEndpointTransitionTime L (hd ts) se ConditionFalse reason,
        sesObservedGeneration = mGeneration (seMeta se)\<rparr>\<rparr>"

text \<open>What an endpoint that is left alone as degraded shows at least.\<close>

definition shows_unrouted :: "ServiceEndpoint \<Rightarrow> bool" where
  "shows_unrouted se \<longleftrightarrow>
     sesObservedGeneration (seStatus se) = mGeneration (seMeta se) \<and>
     sesActiveMemberRef (seStatus se) = '''' \<and> sesResolvedHostnames (seStatus se) = []"

lemma ready_types: "settle_types [''Degraded''] [ready_condition se]"
  by (simp add: settle_types_def ready_condition_def fieldsNotEnforcedCondition_def)

lemma degraded_types: "settle_types [] (degraded_conditions se reason message)"
  by (simp add: settle_types_def degraded_conditions_def fieldsNotEnforcedCondition_def)

lemma wp_ready_status:
  assumes "conditions_ok L" and "equality_ok L"
    and "\<And>ts. ready_endpoint L se ts = se \<Longrightarrow> Q (Inr ()) h"
    and "\<And>ts r. ready_endpoint L se ts \<noteq> se \<Longrightarrow>
      Q r (h @ [StatusServiceEndpoint (ready_endpoint L se ts) r])"
  shows "wp (ServiceEndpoint_reconcileStatus L K se) Q h"
  unfolding ServiceEndpoint_reconcileStatus_def status_update_ServiceEndpoint_def
proof (intro wp_bind wp_clock, goal_cases)
  case (1 t0 t1 t2)
  let ?v = "settle_view L [''Degraded''] [ready_condition se] (mGeneration (seMeta se))
    (serviceEndpointFieldsNotEnforced (seSpec se)) [t1, t2]
    (alias_view L (sesConditions (seStatus se)))"
  let ?next = "(seStatus se)\<lparr>sesObservedGeneration := mGeneration (seMeta se),
      sesLastTransitionTime := serviceEndpointTransitionTime L t0 se ConditionTrue ''Reconciled'',
      sesActiveMemberRef := active_member (seSpec se),
      sesResolvedHostnames := seHostnames (seSpec se), sesConditions := cur ?v\<rparr>"
  have orig: "(seStatus se)\<lparr>sesConditions := orig ?v\<rparr> = seStatus se"
    using assms(1) by (simp add: orig_settle)
  have wanted: "se\<lparr>seStatus := ?next\<rparr> = ready_endpoint L se [t0, t1, t2]"
    using assms(1) by (simp add: ready_endpoint_def cur_settle)
  have same: "seStatus se = ?next \<longleftrightarrow> ready_endpoint L se [t0, t1, t2] = se"
    unfolding wanted [symmetric] by (cases se) auto
  have "wp (if l_DeepEqualServiceEndpointStatus L ((seStatus se)\<lparr>sesConditions := orig ?v\<rparr>) ?next
      then State_Monad.return (Inr ())
      else call (k_StatusServiceEndpoint K (se\<lparr>seStatus := ?next\<rparr>)) (StatusServiceEndpoint (se\<lparr>seStatus := ?next\<rparr>)))
      Q h"
    unfolding orig wanted
    by (intro wp_intros) (use assms(2-4) same in \<open>auto simp: equality_ok_def\<close>)
  then show ?case
    by (simp add: settle_view_def ready_condition_def active_member_def Let_def
        split del: if_split cong: if_cong)
qed

lemma wp_degraded_status:
  assumes "conditions_ok L" and "equality_ok L"
    and quiet: "shows_unrouted se \<Longrightarrow> Q (Inr ()) h"
    and stores: "\<And>ts r. Q r (h @ [StatusServiceEndpoint (degraded_endpoint L se reason message ts) r])"
  shows "wp (writeDegradedStatus L K se reason message) Q h"
  unfolding writeDegradedStatus_def status_update_ServiceEndpoint_def
proof (intro wp_bind wp_clock, goal_cases)
  case (1 t0 t1 t2 t3)
  let ?v = "settle_view L [] (degraded_conditions se reason message) (mGeneration (seMeta se))
    (serviceEndpointFieldsNotEnforced (seSpec se)) [t1, t2, t3]
    (alias_view L (sesConditions (seStatus se)))"
  let ?next = "(seStatus se)\<lparr>sesObservedGeneration := mGeneration (seMeta se),
      sesActiveMemberRef := '''', sesResolvedHostnames := [],
      sesLastTransitionTime := serviceEndpointTransitionTime L t0 se ConditionFalse reason,
      sesConditions := cur ?v\<rparr>"
  have wanted: "se\<lparr>seStatus := ?next\<rparr> = degraded_endpoint L se reason message [t0, t1, t2, t3]"
    using assms(1) by (simp add: degraded_endpoint_def cur_settle)
  have seen: "shows_unrouted se" if "(seStatus se)\<lparr>sesConditions := orig ?v\<rparr> = ?next"
    using arg_cong [OF that, of sesObservedGeneration] arg_cong [OF that, of sesActiveMemberRef]
      arg_cong [OF that, of sesResolvedHostnames]
    by (simp add: shows_unrouted_def)
  have "wp (if \<not> l_DeepEqualServiceEndpointStatus L ((seStatus se)\<lparr>sesConditions := orig ?v\<rparr>) ?next
      then call (k_StatusServiceEndpoint K (se\<lparr>seStatus := ?next\<rparr>)) (StatusServiceEndpoint (se\<lparr>seStatus := ?next\<rparr>))
      else State_Monad.return (Inr ())) Q h"
    unfolding wanted
    by (intro wp_intros) (use assms(2) seen quiet stores in \<open>auto simp: equality_ok_def\<close>)
  then show ?case
    by (simp add: settle_view_def degraded_conditions_def Let_def split del: if_split cong: if_cong)
qed

lemma ready_any_time:
  assumes ok: "conditions_ok L" and same: "ready_endpoint L se ts = se"
  shows "ready_endpoint L se ts' = se"
proof -
  have st: "seStatus (ready_endpoint L se ts) = seStatus se" using same by simp
  have conds: "settle_conditions [''Degraded''] [ready_condition se] (mGeneration (seMeta se))
      (serviceEndpointFieldsNotEnforced (seSpec se)) (tl ts) (sesConditions (seStatus se)) =
      sesConditions (seStatus se)"
    using arg_cong [OF st, of sesConditions] by (simp add: ready_endpoint_def)
  have time: "serviceEndpointTransitionTime L (hd ts) se ConditionTrue ''Reconciled'' =
      sesLastTransitionTime (seStatus se)"
    using arg_cong [OF st, of sesLastTransitionTime] by (simp add: ready_endpoint_def)
  have "shows_condition (ready_condition se) (sesConditions (seStatus se))"
    using settle_shows [OF ready_types, of "ready_condition se" se] conds by (metis list.set_intros(1))
  then obtain c where c: "find_condition ''Ready'' (sesConditions (seStatus se)) = Some c"
      "cnStatus c = ConditionTrue" "cnReason c = ''Reconciled''"
    by (auto simp: shows_condition_def ready_condition_def split: option.splits)
  have find: "l_FindStatusCondition L (sesConditions (seStatus se)) ''Ready'' = Some c"
    using ok c(1) by (simp add: conditions_ok_def)
  have "sesLastTransitionTime (seStatus se) \<noteq> None"
    using time find c by (cases "sesLastTransitionTime (seStatus se)")
      (simp_all add: serviceEndpointTransitionTime_def)
  then have time': "serviceEndpointTransitionTime L (hd ts') se ConditionTrue ''Reconciled'' =
      sesLastTransitionTime (seStatus se)"
    using find c by (simp add: serviceEndpointTransitionTime_def)
  have "ready_endpoint L se ts' = ready_endpoint L se ts"
    unfolding ready_endpoint_def conds settle_any_time [OF ready_types conds, of "tl ts'"] time time' ..
  with same show ?thesis by simp
qed

interpretation routed: quiet_status_writer
  ServiceEndpoint_reconcileStatus StatusServiceEndpoint
  ready_endpoint "\<lambda>L se. ready_endpoint L se (replicate 8 0) = se"
  by unfold_locales (auto intro!: wp_ready_status dest: ready_any_time)

interpretation unrouted: status_writer
  "\<lambda>L K (se, reason, message). writeDegradedStatus L K se reason message" StatusServiceEndpoint
  "\<lambda>L (se, reason, message) ts. degraded_endpoint L se reason message ts"
  "\<lambda>L (se, reason, message). shows_unrouted se"
  by unfold_locales (auto intro!: wp_degraded_status)

section \<open>Events on any server\<close>

abbreviation is_deleting :: "lib \<Rightarrow> ServiceEndpoint \<Rightarrow> bool" where
  "is_deleting L se \<equiv> \<not> l_IsZero L (mDeletionTimestamp (seMeta se))"

abbreviation with_finalizers :: "string list \<Rightarrow> ServiceEndpoint \<Rightarrow> ServiceEndpoint" where
  "with_finalizers fs se \<equiv> se\<lparr>seMeta := (seMeta se)\<lparr>mFinalizers := fs\<rparr>\<rparr>"

definition endpoint_workload_key :: "ServiceEndpoint \<Rightarrow> ObjectKey" where
  "endpoint_workload_key se =
     object_key
       (if nrNamespace (seWorkloadRef (seSpec se)) = '''' then mNamespace (seMeta se)
        else nrNamespace (seWorkloadRef (seSpec se)))
       (nrName (seWorkloadRef (seSpec se)))"

text \<open>The endpoint the handler works with: as read with the finalizer, or as stored with it.\<close>

definition working_on :: "lib \<Rightarrow> ObjectKey \<Rightarrow> ServiceEndpoint \<Rightarrow> event list \<Rightarrow> bool" where
  "working_on L req se before \<longleftrightarrow>
     (\<exists>se0. GotServiceEndpoint req (Inr se0) \<in> set before \<and> \<not> is_deleting L se0 \<and>
        (se = se0 \<and> serviceEndpointFinalizer \<in> set (mFinalizers (seMeta se0)) \<or>
         UpdatedServiceEndpoint
           (with_finalizers (mFinalizers (seMeta se0) @ [serviceEndpointFinalizer]) se0) (Inr se)
           \<in> set before))"

definition deleting :: "lib \<Rightarrow> ObjectKey \<Rightarrow> ServiceEndpoint \<Rightarrow> event list \<Rightarrow> bool" where
  "deleting L req se before \<longleftrightarrow> GotServiceEndpoint req (Inr se) \<in> set before \<and> is_deleting L se"

text \<open>A Service that was read as the one of the endpoint's Workload, and is controlled by it.\<close>

definition own_service :: "lib \<Rightarrow> ServiceEndpoint \<Rightarrow> Service \<Rightarrow> event list \<Rightarrow> bool" where
  "own_service L se svc before \<longleftrightarrow>
     (\<exists>w. GotWorkload (endpoint_workload_key se) (Inr w) \<in> set before \<and>
        GotService (key_of (wlMeta w)) (Inr svc) \<in> set before \<and>
        l_IsControlledBy L (svcMeta svc) (wlMeta w))"

text \<open>
  Nothing is left to clean up: the Workload or its Service is gone, the Service is not the
  Workload's, or the annotations were removed.
\<close>

definition cleaned_up :: "lib \<Rightarrow> ServiceEndpoint \<Rightarrow> event list \<Rightarrow> bool" where
  "cleaned_up L se before \<longleftrightarrow>
     (\<exists>e. GotWorkload (endpoint_workload_key se) (Inl e) \<in> set before \<and> is_not_found e) \<or>
     (\<exists>w. GotWorkload (endpoint_workload_key se) (Inr w) \<in> set before \<and>
        ((\<exists>e. GotService (key_of (wlMeta w)) (Inl e) \<in> set before \<and> is_not_found e) \<or>
         (\<exists>svc. GotService (key_of (wlMeta w)) (Inr svc) \<in> set before \<and>
            (\<not> l_IsControlledBy L (svcMeta svc) (wlMeta w) \<or>
             (\<exists>r. PatchedService svc (annotate_service unrouted_annotations svc) r \<in> set before \<and>
                (case r of Inl e \<Rightarrow> is_not_found e | Inr _ \<Rightarrow> True))))))"

text \<open>
  The writes of the controller: the finalizer before anything else; annotations of the own
  Service only; the status of the endpoint as it was stored, and \<open>Ready\<close> only after the
  annotations were stored; the finalizer is taken away only when nothing is left to clean up.
\<close>

primrec endpoint_write_ok :: "lib \<Rightarrow> string \<Rightarrow> ObjectKey \<Rightarrow> event list \<Rightarrow> event \<Rightarrow> bool" where
  "endpoint_write_ok L n req before (UpdatedServiceEndpoint x r) \<longleftrightarrow>
     (\<exists>se. GotServiceEndpoint req (Inr se) \<in> set before \<and>
        (\<not> is_deleting L se \<and> serviceEndpointFinalizer \<notin> set (mFinalizers (seMeta se)) \<and>
           x = with_finalizers (mFinalizers (seMeta se) @ [serviceEndpointFinalizer]) se \<and>
           writes before = [] \<or>
         is_deleting L se \<and> cleaned_up L se before \<and>
           x = with_finalizers
             (filter (\<lambda>f. f \<noteq> serviceEndpointFinalizer) (mFinalizers (seMeta se))) se))"
| "endpoint_write_ok L n req before (PatchedService old new r) \<longleftrightarrow>
     (\<exists>se. own_service L se old before \<and>
        (working_on L req se before \<and>
           new = annotate_service (routed_annotations n (seSpec se)) old \<or>
         deleting L req se before \<and> new = annotate_service unrouted_annotations old))"
| "endpoint_write_ok L n req before (StatusServiceEndpoint x r) \<longleftrightarrow>
     (\<exists>se. working_on L req se before \<and>
        ((\<exists>reason message ts. x = degraded_endpoint L se reason message ts) \<or>
         (\<exists>svc ts. x = ready_endpoint L se ts \<and>
            PatchedService svc (annotate_service (routed_annotations n (seSpec se)) svc) (Inr ())
              \<in> set before)))"
| "endpoint_write_ok L n req before (UpdatedDatastoreBinding x r) \<longleftrightarrow> False"
| "endpoint_write_ok L n req before (StatusClusterMember x r) \<longleftrightarrow> False"
| "endpoint_write_ok L n req before (StatusFederation x r) \<longleftrightarrow> False"
| "endpoint_write_ok L n req before (StatusWorkload x r) \<longleftrightarrow> False"
| "endpoint_write_ok L n req before (StatusDatastoreBinding x r) \<longleftrightarrow> False"
| "endpoint_write_ok L n req before (AppliedDeployment d f r) \<longleftrightarrow> False"
| "endpoint_write_ok L n req before (AppliedService s f r) \<longleftrightarrow> False"
| "endpoint_write_ok L n req before (DeletedService s r) \<longleftrightarrow> False"
| "endpoint_write_ok L n req before (GotClusterMember k r) \<longleftrightarrow> True"
| "endpoint_write_ok L n req before (GotFederation k r) \<longleftrightarrow> True"
| "endpoint_write_ok L n req before (GotWorkload k r) \<longleftrightarrow> True"
| "endpoint_write_ok L n req before (GotServiceEndpoint k r) \<longleftrightarrow> True"
| "endpoint_write_ok L n req before (GotDatastoreBinding k r) \<longleftrightarrow> True"
| "endpoint_write_ok L n req before (GotDeployment k r) \<longleftrightarrow> True"
| "endpoint_write_ok L n req before (GotService k r) \<longleftrightarrow> True"
| "endpoint_write_ok L n req before (GotSecret k r) \<longleftrightarrow> True"
| "endpoint_write_ok L n req before (GotConfigMap k r) \<longleftrightarrow> True"
| "endpoint_write_ok L n req before (ListedClusterMembers sel r) \<longleftrightarrow> True"
| "endpoint_write_ok L n req before (ListedFederations r) \<longleftrightarrow> True"

lemma endpoint_read_ok: "is_read e \<Longrightarrow> endpoint_write_ok L n req before e"
  by (cases e) simp_all

text \<open>What the parts that read leave in the trace.\<close>

lemma resolveWorkload_reads:
  "reads_then (ServiceEndpoint_resolveWorkload K se) (\<lambda>r h.
     (\<forall>w. r = Inr (Some w) \<longrightarrow> GotWorkload (endpoint_workload_key se) (Inr w) \<in> set h) \<and>
     (r = Inr None \<longrightarrow> (\<exists>e. GotWorkload (endpoint_workload_key se) (Inl e) \<in> set h \<and> is_not_found e)))"
  unfolding ServiceEndpoint_resolveWorkload_def Let_def client_defs endpoint_workload_key_def
  by (rule reads_thenI, intro wp_intros) (auto split: sum.splits if_splits)

lemma resolveService_reads:
  "reads_then (resolveService K w) (\<lambda>r h.
     (\<forall>svc. r = Inr (Some svc) \<longrightarrow> GotService (key_of (wlMeta w)) (Inr svc) \<in> set h) \<and>
     (r = Inr None \<longrightarrow> (\<exists>e. GotService (key_of (wlMeta w)) (Inl e) \<in> set h \<and> is_not_found e)))"
  unfolding resolveService_def client_defs
  by (rule reads_thenI, intro wp_intros) (auto split: sum.splits if_splits)

lemma validatePrimaryMember_reads: "reads_then (validatePrimaryMember L K se w) (\<lambda>_ _. True)"
  unfolding validatePrimaryMember_def Let_def client_defs
  by (rule reads_thenI, intro wp_intros) auto

text \<open>The state of a trace in which the endpoint may be routed.\<close>

definition routing :: "lib \<Rightarrow> string \<Rightarrow> ObjectKey \<Rightarrow> ServiceEndpoint \<Rightarrow> event list \<Rightarrow> bool" where
  "routing L n req se h \<longleftrightarrow> working_on L req se h \<and> admissible (endpoint_write_ok L n req) [] h"

lemma routing_step:
  "routing L n req se h \<Longrightarrow> endpoint_write_ok L n req h e \<Longrightarrow> routing L n req se (h @ [e])"
  by (auto simp: routing_def working_on_def)

lemma routing_reads: "routing L n req se h \<Longrightarrow> reads_after h h' \<Longrightarrow> routing L n req se h'"
  unfolding routing_def working_on_def
  using reads_after_set reads_after_admissible endpoint_read_ok by blast

lemma wp_route_degraded:
  assumes "conditions_ok L" and "equality_ok L" and h: "routing L n req se h"
  shows "wp (ServiceEndpoint_reconcileDegraded L K se reason message) (\<lambda>_. routing L n req se) h"
  unfolding ServiceEndpoint_reconcileDegraded_def
proof (rule wp_checked, rule wp_degraded_status [OF assms(1,2)], intro conjI allI impI wp_return h)
  fix ts r
  have "endpoint_write_ok L n req h (StatusServiceEndpoint (degraded_endpoint L se reason message ts) r)"
    using h unfolding routing_def endpoint_write_ok.simps by blast
  from routing_step [OF h this]
  show "(\<forall>e. r = Inl e \<longrightarrow> routing L n req se
        (h @ [StatusServiceEndpoint (degraded_endpoint L se reason message ts) r])) \<and>
      (\<forall>x. r = Inr x \<longrightarrow> wp (State_Monad.return (Inr (requeue_after_seconds 5))) (\<lambda>_. routing L n req se)
        (h @ [StatusServiceEndpoint (degraded_endpoint L se reason message ts) r]))"
    by (auto intro: wp_return)
qed

lemma wp_route_ready:
  assumes "conditions_ok L" and "equality_ok L" and h: "routing L n req se h"
    and patched: "PatchedService svc (annotate_service (routed_annotations n (seSpec se)) svc) (Inr ()) \<in> set h"
  shows "wp (ServiceEndpoint_reconcileStatus L K se) (\<lambda>_. routing L n req se) h"
proof (rule wp_ready_status [OF assms(1,2)])
  fix ts r
  have "endpoint_write_ok L n req h (StatusServiceEndpoint (ready_endpoint L se ts) r)"
    using h patched by (auto simp: routing_def)
  then show "routing L n req se (h @ [StatusServiceEndpoint (ready_endpoint L se ts) r])"
    by (rule routing_step [OF h])
qed (rule h)

lemma wp_route_service:
  assumes ok: "conditions_ok L" "equality_ok L" and h: "routing L n req se h"
    and w: "GotWorkload (endpoint_workload_key se) (Inr w) \<in> set h"
  shows "wp (route_service L K n se w) (\<lambda>_. routing L n req se) h"
  unfolding route_service_def
proof (rule wp_checked, rule wp_reads [OF resolveService_reads], intro conjI allI impI wp_option wp_if)
  fix h' e assume "reads_after h h'"
  then show "routing L n req se h'" by (rule routing_reads [OF h])
next
  fix h' reason message assume "reads_after h h'"
  then show "wp (ServiceEndpoint_reconcileDegraded L K se reason message) (\<lambda>_. routing L n req se) h'"
    by (intro wp_route_degraded ok routing_reads [OF h])
  then show "wp (ServiceEndpoint_reconcileDegraded L K se reason message) (\<lambda>_. routing L n req se) h'" .
next
  fix r x h' svc
  assume h': "reads_after h h'"
    and got: "(\<forall>svc. r = Inr (Some svc) \<longrightarrow> GotService (key_of (wlMeta w)) (Inr svc) \<in> set h') \<and>
      (r = Inr None \<longrightarrow> (\<exists>e. GotService (key_of (wlMeta w)) (Inl e) \<in> set h' \<and> is_not_found e))"
    and r: "r = Inr x" "x = Some svc" and ctl: "\<not> \<not> l_IsControlledBy L (svcMeta svc) (wlMeta w)"
  have own: "own_service L se svc h'"
    using got r ctl w reads_after_set [OF h'] by (auto simp: own_service_def)
  have route: "routing L n req se h'" by (rule routing_reads [OF h h'])
  let ?new = "annotate_service (routed_annotations n (seSpec se)) svc"
  show "wp (checked (applyAnnotations K n se svc) (\<lambda>_. checked (ServiceEndpoint_reconcileStatus L K se)
      (\<lambda>_. State_Monad.return (Inr no_requeue)))) (\<lambda>_. routing L n req se) h'"
    unfolding applyAnnotations_def patch_Service_def
  proof (rule wp_checked, rule wp_call, intro conjI allI impI)
    fix a :: "error + unit"
    have "endpoint_write_ok L n req h' (PatchedService svc ?new a)"
      using route own by (auto simp: routing_def)
    from routing_step [OF route this] have patch: "routing L n req se (h' @ [PatchedService svc ?new a])" .
    then show "routing L n req se (h' @ [PatchedService svc ?new a])" .
    fix y assume "a = Inr y"
    then have "PatchedService svc ?new (Inr ()) \<in> set (h' @ [PatchedService svc ?new a])" by simp
    note stored = this
    show "wp (checked (ServiceEndpoint_reconcileStatus L K se) (\<lambda>_. State_Monad.return (Inr no_requeue)))
        (\<lambda>_. routing L n req se) (h' @ [PatchedService svc ?new a])"
      by (rule wp_checked, rule wp_mono [OF wp_route_ready [OF ok patch stored]]) (auto intro: wp_return)
  qed
qed

lemma wp_route_workload:
  assumes ok: "conditions_ok L" "equality_ok L" and h: "routing L n req se h"
  shows "wp (route_workload L K n se) (\<lambda>_. routing L n req se) h"
  unfolding route_workload_def
proof (rule wp_checked, rule wp_reads [OF resolveWorkload_reads], intro conjI allI impI wp_option wp_if)
  fix h' e assume "reads_after h h'"
  then show "routing L n req se h'" by (rule routing_reads [OF h])
next
  fix h' reason message assume "reads_after h h'"
  then show "wp (ServiceEndpoint_reconcileDegraded L K se reason message) (\<lambda>_. routing L n req se) h'"
    by (intro wp_route_degraded ok routing_reads [OF h])
next
  fix r x h' w
  assume h': "reads_after h h'"
    and got: "(\<forall>w. r = Inr (Some w) \<longrightarrow> GotWorkload (endpoint_workload_key se) (Inr w) \<in> set h') \<and>
      (r = Inr None \<longrightarrow> (\<exists>e. GotWorkload (endpoint_workload_key se) (Inl e) \<in> set h' \<and> is_not_found e))"
    and r: "r = Inr x" "x = Some w"
  have route: "routing L n req se h'" by (rule routing_reads [OF h h'])
  have w: "GotWorkload (endpoint_workload_key se) (Inr w) \<in> set h'" using got r by auto
  show "wp (route_service L K n se w) (\<lambda>_. routing L n req se) h'"
    by (rule wp_route_service [OF ok route w])
  show "wp (checked (validatePrimaryMember L K se w) (\<lambda>(reason, message).
      if reason \<noteq> '''' then ServiceEndpoint_reconcileDegraded L K se reason message
      else route_service L K n se w)) (\<lambda>_. routing L n req se) h'"
  proof (rule wp_checked, rule wp_reads [OF validatePrimaryMember_reads], intro conjI allI impI wp_prod wp_if)
    fix h2 assume h2: "reads_after h' h2"
    then have route2: "routing L n req se h2" by (rule routing_reads [OF route])
    then show "routing L n req se h2" .
    show "wp (ServiceEndpoint_reconcileDegraded L K se reason message) (\<lambda>_. routing L n req se) h2"
      for reason message by (rule wp_route_degraded [OF ok route2])
    show "wp (route_service L K n se w) (\<lambda>_. routing L n req se) h2"
      using w reads_after_set [OF h2] by (intro wp_route_service ok route2) auto
  qed
qed

text \<open>The deletion: the annotations first, the finalizer last.\<close>

definition leaving :: "lib \<Rightarrow> string \<Rightarrow> ObjectKey \<Rightarrow> ServiceEndpoint \<Rightarrow> event list \<Rightarrow> bool" where
  "leaving L n req se h \<longleftrightarrow> deleting L req se h \<and> admissible (endpoint_write_ok L n req) [] h"

lemma leaving_step:
  "leaving L n req se h \<Longrightarrow> endpoint_write_ok L n req h e \<Longrightarrow> leaving L n req se (h @ [e])"
  by (auto simp: leaving_def deleting_def)

lemma leaving_reads: "leaving L n req se h \<Longrightarrow> reads_after h h' \<Longrightarrow> leaving L n req se h'"
  unfolding leaving_def deleting_def
  using reads_after_set reads_after_admissible endpoint_read_ok by blast

lemma wp_leave:
  assumes fin: "finalizers_ok L" and h: "leaving L n req se h" and clean: "cleaned_up L se h"
  shows "wp (checked (update_ServiceEndpoint K (with_finalizers
      (l_RemoveFinalizer L (mFinalizers (seMeta se)) serviceEndpointFinalizer) se))
    (\<lambda>_. State_Monad.return (Inr ()))) (\<lambda>_. leaving L n req se) h"
  unfolding update_ServiceEndpoint_def
proof (intro wp_intros conjI allI impI)
  fix r
  have "l_RemoveFinalizer L (mFinalizers (seMeta se)) serviceEndpointFinalizer =
      filter (\<lambda>f. f \<noteq> serviceEndpointFinalizer) (mFinalizers (seMeta se))"
    using fin by (simp add: finalizers_ok_def)
  then have "endpoint_write_ok L n req h (UpdatedServiceEndpoint (with_finalizers
      (l_RemoveFinalizer L (mFinalizers (seMeta se)) serviceEndpointFinalizer) se) r)"
    using h clean unfolding leaving_def deleting_def by auto
  from leaving_step [OF h this]
  show "leaving L n req se (h @ [UpdatedServiceEndpoint (with_finalizers
      (l_RemoveFinalizer L (mFinalizers (seMeta se)) serviceEndpointFinalizer) se) r])"
    "leaving L n req se (h @ [UpdatedServiceEndpoint (with_finalizers
      (l_RemoveFinalizer L (mFinalizers (seMeta se)) serviceEndpointFinalizer) se) r])"
    by -
qed

text \<open>What \<open>resolveWorkload\<close> left in the trace about its answer.\<close>

definition workload_got :: "ServiceEndpoint \<Rightarrow> Workload option \<Rightarrow> event list \<Rightarrow> bool" where
  "workload_got se workload h \<longleftrightarrow>
     (case workload of
        None \<Rightarrow> \<exists>e. GotWorkload (endpoint_workload_key se) (Inl e) \<in> set h \<and> is_not_found e
      | Some w \<Rightarrow> GotWorkload (endpoint_workload_key se) (Inr w) \<in> set h)"

lemma wp_clear:
  assumes h: "leaving L n req se h" and w: "workload_got se workload h"
  shows "wp (clear_annotations L K workload)
    (\<lambda>r h. leaving L n req se h \<and> (r = Inr () \<longrightarrow> cleaned_up L se h)) h"
  unfolding clear_annotations_def
proof (intro wp_option)
  assume "workload = None"
  then show "wp (State_Monad.return (Inr ()))
      (\<lambda>r h. leaving L n req se h \<and> (r = Inr () \<longrightarrow> cleaned_up L se h)) h"
    using h w by (intro wp_return) (auto simp: cleaned_up_def workload_got_def)
next
  fix w assume "workload = Some w"
  then have w: "GotWorkload (endpoint_workload_key se) (Inr w) \<in> set h"
    using w by (simp add: workload_got_def)
  show "wp (checked (resolveService K w) (\<lambda>svc. case svc of
       None \<Rightarrow> State_Monad.return (Inr ())
     | Some svc \<Rightarrow>
         if l_IsControlledBy L (svcMeta svc) (wlMeta w)
         then do {
           r \<leftarrow> patch_Service K svc (annotate_service unrouted_annotations svc);
           State_Monad.return
             (case r of Inl err \<Rightarrow> if \<not> is_not_found err then Inl err else Inr () | Inr _ \<Rightarrow> Inr ())
         }
         else State_Monad.return (Inr ())))
    (\<lambda>r h. leaving L n req se h \<and> (r = Inr () \<longrightarrow> cleaned_up L se h)) h"
  proof (rule wp_checked, rule wp_reads [OF resolveService_reads], intro conjI allI impI wp_option wp_if)
    fix r x h'
    assume h': "reads_after h h'"
      and got: "(\<forall>svc. r = Inr (Some svc) \<longrightarrow> GotService (key_of (wlMeta w)) (Inr svc) \<in> set h') \<and>
        (r = Inr None \<longrightarrow> (\<exists>e. GotService (key_of (wlMeta w)) (Inl e) \<in> set h' \<and> is_not_found e))"
    have leave: "leaving L n req se h'" by (rule leaving_reads [OF h h'])
    have w': "GotWorkload (endpoint_workload_key se) (Inr w) \<in> set h'"
      using w reads_after_set [OF h'] by auto
    show "leaving L n req se h'" by (rule leave)
    show "cleaned_up L se h'" if "(Inl e :: error + unit) = Inr ()" for e
      using that by simp
    show "wp (State_Monad.return (Inr ())) (\<lambda>r h. leaving L n req se h \<and> (r = Inr () \<longrightarrow> cleaned_up L se h)) h'"
      if "r = Inr x" "x = None"
      using got that leave w' by (intro wp_return) (auto simp: cleaned_up_def)
    fix svc assume svc: "r = Inr x" "x = Some svc"
    then have svc': "GotService (key_of (wlMeta w)) (Inr svc) \<in> set h'" using got by auto
    show "wp (State_Monad.return (Inr ())) (\<lambda>r h. leaving L n req se h \<and> (r = Inr () \<longrightarrow> cleaned_up L se h)) h'"
      if "\<not> l_IsControlledBy L (svcMeta svc) (wlMeta w)"
      using that leave w' svc' by (intro wp_return) (auto simp: cleaned_up_def)
    let ?new = "annotate_service unrouted_annotations svc"
    assume ctl: "l_IsControlledBy L (svcMeta svc) (wlMeta w)"
    show "wp (do {
             r \<leftarrow> patch_Service K svc ?new;
             State_Monad.return
               (case r of Inl err \<Rightarrow> if \<not> is_not_found err then Inl err else Inr () | Inr _ \<Rightarrow> Inr ())
           }) (\<lambda>r h. leaving L n req se h \<and> (r = Inr () \<longrightarrow> cleaned_up L se h)) h'"
      unfolding patch_Service_def
    proof (intro wp_bind wp_call wp_return conjI impI)
      fix a :: "error + unit"
      have "endpoint_write_ok L n req h' (PatchedService svc ?new a)"
        using leave w' svc' ctl by (auto simp: leaving_def own_service_def)
      then show "leaving L n req se (h' @ [PatchedService svc ?new a])"
        by (rule leaving_step [OF leave])
      assume "(case a of Inl err \<Rightarrow> if \<not> is_not_found err then Inl err else Inr () | Inr _ \<Rightarrow> Inr ()) = Inr ()"
      then have "case a of Inl e \<Rightarrow> is_not_found e | Inr _ \<Rightarrow> True"
        by (auto split: sum.splits if_splits)
      then show "cleaned_up L se (h' @ [PatchedService svc ?new a])"
        using w' svc' unfolding cleaned_up_def by (auto intro!: exI [of _ w] exI [of _ svc])
    qed
  qed
qed

lemma wp_delete_endpoint:
  assumes fin: "finalizers_ok L" and h: "leaving L n req se h"
  shows "wp (ServiceEndpoint_reconcileDelete L K se) (\<lambda>_. leaving L n req se) h"
  unfolding ServiceEndpoint_reconcileDelete_def
proof (intro wp_if wp_return h, rule wp_checked, rule wp_reads [OF resolveWorkload_reads],
    intro conjI allI impI)
  fix h' e assume "reads_after h h'"
  then show "leaving L n req se h'" by (rule leaving_reads [OF h])
next
  fix r x h'
  assume h': "reads_after h h'"
    and "(\<forall>w. r = Inr (Some w) \<longrightarrow> GotWorkload (endpoint_workload_key se) (Inr w) \<in> set h') \<and>
      (r = Inr None \<longrightarrow> (\<exists>e. GotWorkload (endpoint_workload_key se) (Inl e) \<in> set h' \<and> is_not_found e))"
    and "r = Inr x"
  then have got: "workload_got se x h'" by (auto simp: workload_got_def split: option.split)
  have leave: "leaving L n req se h'" by (rule leaving_reads [OF h h'])
  show "wp (checked (clear_annotations L K x) (\<lambda>_. checked (update_ServiceEndpoint K (with_finalizers
          (l_RemoveFinalizer L (mFinalizers (seMeta se)) serviceEndpointFinalizer) se))
        (\<lambda>_. State_Monad.return (Inr ())))) (\<lambda>_. leaving L n req se) h'"
    by (rule wp_checked, rule wp_mono [OF wp_clear [OF leave got]]) (auto intro!: wp_leave [OF fin])
qed

lemma wp_endpoint_writes:
  assumes ok: "conditions_ok L" "equality_ok L" and fin: "finalizers_ok L"
  shows "wp (ServiceEndpoint_Reconcile L K n req) (\<lambda>r h. admissible (endpoint_write_ok L n req) [] h) []"
  unfolding ServiceEndpoint_Reconcile_def get_ServiceEndpoint_def
proof (intro wp_bind wp_call wp_sum wp_if wp_return)
  fix r :: "error + ServiceEndpoint"
  show "admissible (endpoint_write_ok L n req) [] ([] @ [GotServiceEndpoint req r])" by simp
  fix se assume r: "r = Inr se"
  let ?h = "[] @ [GotServiceEndpoint req r]"
  show "wp (checked (ServiceEndpoint_reconcileDelete L K se) (\<lambda>_. State_Monad.return (Inr no_requeue)))
      (\<lambda>r h. admissible (endpoint_write_ok L n req) [] h) ?h" if "is_deleting L se"
  proof -
    have "leaving L n req se ?h" using that r by (simp add: leaving_def deleting_def)
    from wp_mono [OF wp_delete_endpoint [OF fin this]] show ?thesis
      by (rule wp_checked) (auto intro!: wp_return simp: leaving_def)
  qed
  show "wp (let (added, finalizers) = l_AddFinalizer L (mFinalizers (seMeta se)) serviceEndpointFinalizer;
                se = with_finalizers finalizers se
            in checked (if added then update_ServiceEndpoint K se else State_Monad.return (Inr se))
                 (\<lambda>se. route_workload L K n se))
      (\<lambda>r h. admissible (endpoint_write_ok L n req) [] h) ?h" if alive: "\<not> is_deleting L se"
  proof (cases "serviceEndpointFinalizer \<in> set (mFinalizers (seMeta se))")
    case True
    then have "l_AddFinalizer L (mFinalizers (seMeta se)) serviceEndpointFinalizer =
        (False, mFinalizers (seMeta se))"
      using fin by (simp add: finalizers_ok_def)
    moreover have "routing L n req se ?h"
      using True alive r by (simp add: routing_def working_on_def)
    ultimately show ?thesis
      using wp_route_workload [OF ok, of n req se ?h K]
      by (auto simp: checked_def routing_def elim: wp_mono)
  next
    case False
    let ?x = "with_finalizers (mFinalizers (seMeta se) @ [serviceEndpointFinalizer]) se"
    from False have add: "l_AddFinalizer L (mFinalizers (seMeta se)) serviceEndpointFinalizer =
        (True, mFinalizers (seMeta se) @ [serviceEndpointFinalizer])"
      using fin by (simp add: finalizers_ok_def)
    have first: "endpoint_write_ok L n req ?h (UpdatedServiceEndpoint ?x a)" for a
      using False alive r by simp
    have "wp (route_workload L K n se') (\<lambda>r h. admissible (endpoint_write_ok L n req) [] h)
        (?h @ [UpdatedServiceEndpoint ?x (Inr se')])" for se'
    proof -
      have "routing L n req se' (?h @ [UpdatedServiceEndpoint ?x (Inr se')])"
        using alive r first [of "Inr se'"] by (auto simp: routing_def working_on_def)
      from wp_route_workload [OF ok this] show ?thesis
        by (rule wp_mono) (simp add: routing_def)
    qed
    then have "wp (checked (call (k_UpdateServiceEndpoint K ?x) (UpdatedServiceEndpoint ?x))
        (\<lambda>se. route_workload L K n se)) (\<lambda>r h. admissible (endpoint_write_ok L n req) [] h) ?h"
      using first by (intro wp_checked wp_call) simp
    then show ?thesis
      unfolding add update_ServiceEndpoint_def prod.case Let_def if_True .
  qed
qed

section \<open>What it decides\<close>

text \<open>The primary of an active/passive endpoint is a member of the Workload's Federation.\<close>

definition primary_ok :: "lib \<Rightarrow> snapshot \<Rightarrow> ServiceEndpoint \<Rightarrow> Workload \<Rightarrow> bool" where
  "primary_ok L V se w \<longleftrightarrow>
     s_ClusterMember V (sePrimaryMemberRef (seSpec se)) \<noteq> None \<and>
     rrName (wFederationRef (wlSpec w)) \<noteq> '''' \<and>
     (\<exists>f. s_Federation V (rrName (wFederationRef (wlSpec w))) = Some f \<and>
        cluster_in_federation L V (sePrimaryMemberRef (seSpec se)) f)"

definition routable :: "lib \<Rightarrow> snapshot \<Rightarrow> ServiceEndpoint \<Rightarrow> Service \<Rightarrow> bool" where
  "routable L V se svc \<longleftrightarrow>
     (\<exists>w. s_Workload V (endpoint_workload_key se) = Some w \<and>
        (seRoutingMode (seSpec se) = RoutingModeActivePassive \<longrightarrow> primary_ok L V se w) \<and>
        s_Service V (key_of (wlMeta w)) = Some svc \<and>
        l_IsControlledBy L (svcMeta svc) (wlMeta w))"

text \<open>What each reason says of the cluster.\<close>

definition endpoint_explains :: "lib \<Rightarrow> snapshot \<Rightarrow> ServiceEndpoint \<Rightarrow> string \<Rightarrow> bool" where
  "endpoint_explains L V se reason \<longleftrightarrow>
     (case s_Workload V (endpoint_workload_key se) of
        None \<Rightarrow> reason = ''WorkloadNotFound''
      | Some w \<Rightarrow>
          (let primary = sePrimaryMemberRef (seSpec se);
               name = rrName (wFederationRef (wlSpec w));
               service = s_Service V (key_of (wlMeta w))
           in reason = ''PrimaryMemberNotFound'' \<and> s_ClusterMember V primary = None \<or>
              reason = ''FederationNotFound'' \<and> s_Federation V name = None \<or>
              reason = ''InvalidFederationSelector'' \<and>
                (\<exists>f. s_Federation V name = Some f \<and> \<not> selector_valid L (fMemberSelector (fedSpec f))) \<or>
              reason = ''PrimaryMemberNotInFederation'' \<and>
                (name = '''' \<or>
                 (\<exists>f. s_Federation V name = Some f \<and> \<not> cluster_in_federation L V primary f)) \<or>
              reason = ''ServiceNotFound'' \<and> service = None \<or>
              reason = ''ServiceOwnershipConflict'' \<and>
                (\<exists>s. service = Some s \<and> \<not> l_IsControlledBy L (svcMeta s) (wlMeta w))))"

lemma resolveWorkload_answers:
  assumes K: "answers_from K view"
  shows "answers_so view (ServiceEndpoint_resolveWorkload K se) V
    (\<lambda>w. w = s_Workload V (endpoint_workload_key se))"
  unfolding ServiceEndpoint_resolveWorkload_def Let_def endpoint_workload_key_def
  by (rule answers_soI, intro wpv_intros K) auto

lemma resolveService_answers:
  assumes K: "answers_from K view"
  shows "answers_so view (resolveService K w) V (\<lambda>svc. svc = s_Service V (key_of (wlMeta w)))"
  unfolding resolveService_def
  by (rule answers_soI, intro wpv_intros K) auto

lemma validatePrimaryMember_answers:
  assumes K: "answers_from K view" and V: "stored_by_name V"
    and w: "s_Workload V (endpoint_workload_key se) = Some w"
  shows "answers_so view (validatePrimaryMember L K se w) V
    (\<lambda>(reason, message). if primary_ok L V se w then reason = []
       else reason \<noteq> [] \<and> endpoint_explains L V se reason)"
proof -
  have name: "\<And>m. s_ClusterMember V (sePrimaryMemberRef (seSpec se)) = Some m \<Longrightarrow>
      member_name m = sePrimaryMemberRef (seSpec se)"
    using V by (simp add: stored_by_name_def)
  have named: "list_ex (\<lambda>ref. fmrName ref = x) (fMembers (fedSpec f)) \<longleftrightarrow> x \<in> named_in f" for x f
    by (auto simp: list_ex_iff)
  show ?thesis
    unfolding validatePrimaryMember_def Let_def named
    by (rule answers_soI, intro wpv_intros K)
       (auto simp: primary_ok_def endpoint_explains_def w cluster_in_federation_def selected_by_def
          selector_valid_def name split: option.splits)
qed

definition endpoint_held ::
  "lib \<Rightarrow> snapshot \<Rightarrow> ServiceEndpoint \<Rightarrow> error + Result \<Rightarrow> event list \<Rightarrow> bool" where
  "endpoint_held L V se r h \<longleftrightarrow>
     (\<exists>reason message. endpoint_explains L V se reason \<and>
        (writes h = [] \<and> shows_unrouted se \<and> r = Inr (requeue_after_seconds 5) \<or>
         (\<exists>ts s. writes h = [StatusServiceEndpoint (degraded_endpoint L se reason message ts) s] \<and>
            r = (case s of Inl e \<Rightarrow> Inl e | Inr _ \<Rightarrow> Inr (requeue_after_seconds 5)))))"

definition endpoint_routed ::
  "lib \<Rightarrow> string \<Rightarrow> ServiceEndpoint \<Rightarrow> Service \<Rightarrow> error + Result \<Rightarrow> event list \<Rightarrow> bool" where
  "endpoint_routed L n se svc r h \<longleftrightarrow>
     (\<exists>s es. writes h =
        PatchedService svc (annotate_service (routed_annotations n (seSpec se)) svc) s # es \<and>
        (case s of Inl e \<Rightarrow> es = [] \<and> r = Inl e
         | Inr _ \<Rightarrow>
             es = [] \<and> r = Inr no_requeue \<and> ready_endpoint L se (replicate 8 0) = se \<or>
             (\<exists>ts t. es = [StatusServiceEndpoint (ready_endpoint L se ts) t] \<and>
                r = (case t of Inl e \<Rightarrow> Inl e | Inr _ \<Rightarrow> Inr no_requeue))))"

definition endpoint_decided ::
  "lib \<Rightarrow> snapshot \<Rightarrow> string \<Rightarrow> ServiceEndpoint \<Rightarrow> error + Result \<Rightarrow> event list \<Rightarrow> bool" where
  "endpoint_decided L V n se r h \<longleftrightarrow>
     (if \<exists>svc. routable L V se svc
      then \<exists>svc. routable L V se svc \<and> endpoint_routed L n se svc r h
      else endpoint_held L V se r h)"

lemma wpv_endpoint_held:
  assumes "conditions_ok L" and "equality_ok L" and h: "writes h = []"
    and ex: "endpoint_explains L V se reason"
    and Q: "\<And>r V' h'. endpoint_held L V se r h' \<Longrightarrow> Q r V' h'"
  shows "wpv view (ServiceEndpoint_reconcileDegraded L K se reason message) Q V h"
  unfolding ServiceEndpoint_reconcileDegraded_def
proof (rule wpv_wp, rule wp_checked, rule wp_degraded_status [OF assms(1,2)])
  show "(\<forall>e. (Inr () :: error + unit) = Inl e \<longrightarrow> (\<forall>V'. Q (Inl e) V' h)) \<and>
      (\<forall>x. (Inr () :: error + unit) = Inr x \<longrightarrow>
        wp (State_Monad.return (Inr (requeue_after_seconds 5))) (\<lambda>a h'. \<forall>V'. Q a V' h') h)"
    if "shows_unrouted se"
    using that h ex by (auto intro!: wp_return Q simp: endpoint_held_def)
next
  fix ts r
  show "(\<forall>e. r = Inl e \<longrightarrow> (\<forall>V'. Q (Inl e) V' (h @ [StatusServiceEndpoint (degraded_endpoint L se reason message ts) r]))) \<and>
      (\<forall>x. r = Inr x \<longrightarrow> wp (State_Monad.return (Inr (requeue_after_seconds 5))) (\<lambda>a h'. \<forall>V'. Q a V' h')
        (h @ [StatusServiceEndpoint (degraded_endpoint L se reason message ts) r]))"
    using h ex by (auto intro!: wp_return Q simp: endpoint_held_def) blast+
qed

lemma wpv_endpoint_routed:
  assumes ok: "conditions_ok L" "equality_ok L" and h: "writes h = []"
    and Q: "\<And>r V' h'. endpoint_routed L n se svc r h' \<Longrightarrow> Q r V' h'"
  shows "wpv view (checked (applyAnnotations K n se svc) (\<lambda>_.
      checked (ServiceEndpoint_reconcileStatus L K se) (\<lambda>_. State_Monad.return (Inr no_requeue)))) Q V h"
  unfolding applyAnnotations_def patch_Service_def
proof (rule wpv_wp, rule wp_checked, rule wp_call, intro conjI allI impI)
  fix s :: "error + unit" and x V'
  let ?p = "PatchedService svc (annotate_service (routed_annotations n (seSpec se)) svc) s"
  show "Q (Inl e) V' (h @ [?p])" if "s = Inl e" for e
    using that h by (intro Q) (auto simp: endpoint_routed_def)
  assume s: "s = Inr x"
  show "wp (checked (ServiceEndpoint_reconcileStatus L K se) (\<lambda>_. State_Monad.return (Inr no_requeue)))
      (\<lambda>a h'. \<forall>V'. Q a V' h') (h @ [?p])"
  proof (rule wp_checked, rule wp_ready_status [OF ok])
    fix ts assume "ready_endpoint L se ts = se"
    then have "ready_endpoint L se (replicate 8 0) = se" by (rule ready_any_time [OF ok(1)])
    then show "(\<forall>e. (Inr () :: error + unit) = Inl e \<longrightarrow> (\<forall>V'. Q (Inl e) V' (h @ [?p]))) \<and>
        (\<forall>x. (Inr () :: error + unit) = Inr x \<longrightarrow>
          wp (State_Monad.return (Inr no_requeue)) (\<lambda>a h'. \<forall>V'. Q a V' h') (h @ [?p]))"
      using h s by (auto intro!: wp_return Q simp: endpoint_routed_def)
  next
    fix ts t
    let ?h = "(h @ [?p]) @ [StatusServiceEndpoint (ready_endpoint L se ts) t]"
    show "(\<forall>e. t = Inl e \<longrightarrow> (\<forall>V'. Q (Inl e) V' ?h)) \<and>
        (\<forall>x. t = Inr x \<longrightarrow> wp (State_Monad.return (Inr no_requeue)) (\<lambda>a h'. \<forall>V'. Q a V' h') ?h)"
      using h s by (auto intro!: wp_return Q simp: endpoint_routed_def)
  qed
qed

lemma wpv_route_service:
  assumes ok: "conditions_ok L" "equality_ok L" and K: "answers_from K view"
    and w: "s_Workload V (endpoint_workload_key se) = Some w"
    and primary: "seRoutingMode (seSpec se) = RoutingModeActivePassive \<longrightarrow> primary_ok L V se w"
    and h: "writes h = []"
    and Q: "\<And>r V' h'. endpoint_decided L V n se r h' \<Longrightarrow> Q r V' h'"
  shows "wpv view (route_service L K n se w) Q V h"
  unfolding route_service_def
proof (rule wpv_checked, rule wpv_answers [OF resolveService_answers [OF K]],
    intro conjI allI impI wpv_option wpv_if)
  fix h' a x
  assume h': "reads_after h h'" and a: "a = s_Service V (key_of (wlMeta w))"
    and x: "(Inr a :: error + Service option) = Inr x"
  have h'': "writes h' = []" using h' h by (simp add: reads_after_writes)
  have held: "wpv view (ServiceEndpoint_reconcileDegraded L K se reason message) Q V h'"
    if "\<not> (\<exists>svc. routable L V se svc)" "endpoint_explains L V se reason" for reason message
    using that by (intro wpv_endpoint_held ok h'' Q) (simp_all add: endpoint_decided_def)
  show "wpv view (ServiceEndpoint_reconcileDegraded L K se ''ServiceNotFound'' message) Q V h'"
    if "x = None" for message
    using that a x w by (intro held) (auto simp: routable_def endpoint_explains_def)
  fix svc assume svc: "x = Some svc"
  show "wpv view (ServiceEndpoint_reconcileDegraded L K se ''ServiceOwnershipConflict'' message) Q V h'"
    if "\<not> l_IsControlledBy L (svcMeta svc) (wlMeta w)" for message
    using that svc a x w by (intro held) (auto simp: routable_def endpoint_explains_def)
  assume "\<not> \<not> l_IsControlledBy L (svcMeta svc) (wlMeta w)"
  then have "routable L V se svc"
    using svc a x w primary by (auto simp: routable_def)
  then show "wpv view (checked (applyAnnotations K n se svc) (\<lambda>_.
      checked (ServiceEndpoint_reconcileStatus L K se) (\<lambda>_. State_Monad.return (Inr no_requeue)))) Q V h'"
    by (intro wpv_endpoint_routed ok h'' Q) (auto simp: endpoint_decided_def)
qed auto

lemma wpv_route_workload:
  assumes ok: "conditions_ok L" "equality_ok L" and K: "answers_from K view" and V: "stored_by_name V"
    and h: "writes h = []"
    and Q: "\<And>r V' h'. endpoint_decided L V n se r h' \<Longrightarrow> Q r V' h'"
  shows "wpv view (route_workload L K n se) Q V h"
  unfolding route_workload_def
proof (rule wpv_checked, rule wpv_answers [OF resolveWorkload_answers [OF K]],
    intro conjI allI impI wpv_option wpv_if)
  fix h' a x
  assume h': "reads_after h h'" and a: "a = s_Workload V (endpoint_workload_key se)"
    and x: "(Inr a :: error + Workload option) = Inr x"
  have h'': "writes h' = []" using h' h by (simp add: reads_after_writes)
  show "wpv view (ServiceEndpoint_reconcileDegraded L K se ''WorkloadNotFound'' message) Q V h'"
    if "x = None" for message
    using that a x
    by (intro wpv_endpoint_held ok h'' Q) (auto simp: endpoint_decided_def routable_def endpoint_explains_def)
  fix w assume "x = Some w"
  then have w: "s_Workload V (endpoint_workload_key se) = Some w" using a x by simp
  show "wpv view (route_service L K n se w) Q V h'"
    if "seRoutingMode (seSpec se) \<noteq> RoutingModeActivePassive"
    using that by (intro wpv_route_service ok K w h'' Q) simp
  assume ap: "seRoutingMode (seSpec se) = RoutingModeActivePassive"
  show "wpv view (checked (validatePrimaryMember L K se w) (\<lambda>(reason, message).
      if reason \<noteq> '''' then ServiceEndpoint_reconcileDegraded L K se reason message
      else route_service L K n se w)) Q V h'"
  proof (rule wpv_checked, rule wpv_answers [OF validatePrimaryMember_answers [OF K V w]],
      intro conjI allI impI wpv_prod wpv_if)
    fix h2 b y reason message
    assume h2: "reads_after h' h2"
      and b: "case b of (reason, message) \<Rightarrow> if primary_ok L V se w then reason = []
        else reason \<noteq> [] \<and> endpoint_explains L V se reason"
      and y: "(Inr b :: error + string \<times> string) = Inr y" "y = (reason, message)"
    have h3: "writes h2 = []" using h2 h'' by (simp add: reads_after_writes)
    show "wpv view (ServiceEndpoint_reconcileDegraded L K se reason message) Q V h2"
      if "reason \<noteq> ''''"
      using that b y w ap
      by (intro wpv_endpoint_held ok h3 Q) (auto simp: endpoint_decided_def routable_def split: if_splits)
    show "wpv view (route_service L K n se w) Q V h2" if "\<not> reason \<noteq> ''''"
      using that b y by (intro wpv_route_service ok K w h3 Q) (auto split: if_splits)
  qed auto
qed auto

lemma wpv_endpoint_decides:
  assumes ok: "conditions_ok L" "equality_ok L" and fin: "finalizers_ok L"
    and K: "answers_from K view" and V: "stored_by_name V"
    and se: "s_ServiceEndpoint V req = Some se" and alive: "\<not> is_deleting L se"
    and held: "serviceEndpointFinalizer \<in> set (mFinalizers (seMeta se))"
  shows "wpv view (ServiceEndpoint_Reconcile L K n req) (\<lambda>r V' h. endpoint_decided L V n se r h) V []"
proof -
  have add: "l_AddFinalizer L (mFinalizers (seMeta se)) serviceEndpointFinalizer =
      (False, mFinalizers (seMeta se))"
    using fin held by (simp add: finalizers_ok_def)
  have route: "wpv view (route_workload L K n se) (\<lambda>r V' h. endpoint_decided L V n se r h) V
      [GotServiceEndpoint req (Inr se)]"
    by (intro wpv_route_workload ok K V) simp_all
  show ?thesis
    unfolding ServiceEndpoint_Reconcile_def
    by (rule wpv_bind, rule wpv_get_ServiceEndpoint [OF K])
       (use se alive add route in \<open>auto simp: checked_def\<close>)
qed

section \<open>Deletion\<close>

text \<open>The Service that the deletion of an endpoint cleans.\<close>

definition service_to_clean :: "lib \<Rightarrow> snapshot \<Rightarrow> ServiceEndpoint \<Rightarrow> Service option" where
  "service_to_clean L V se =
     (case s_Workload V (endpoint_workload_key se) of
        None \<Rightarrow> None
      | Some w \<Rightarrow>
          (case s_Service V (key_of (wlMeta w)) of
             None \<Rightarrow> None
           | Some svc \<Rightarrow> if l_IsControlledBy L (svcMeta svc) (wlMeta w) then Some svc else None))"

text \<open>The finalizer is taken away and the result is the one of that update.\<close>

definition released :: "ServiceEndpoint \<Rightarrow> error + unit \<Rightarrow> event list \<Rightarrow> bool" where
  "released se r es \<longleftrightarrow>
     (\<exists>u. es = [UpdatedServiceEndpoint (with_finalizers
          (filter (\<lambda>f. f \<noteq> serviceEndpointFinalizer) (mFinalizers (seMeta se))) se) u] \<and>
        r = (case u of Inl e \<Rightarrow> Inl e | Inr _ \<Rightarrow> Inr ()))"

definition endpoint_left ::
  "lib \<Rightarrow> snapshot \<Rightarrow> ServiceEndpoint \<Rightarrow> error + unit \<Rightarrow> event list \<Rightarrow> bool" where
  "endpoint_left L V se r es \<longleftrightarrow>
     (if serviceEndpointFinalizer \<notin> set (mFinalizers (seMeta se)) then es = [] \<and> r = Inr ()
      else case service_to_clean L V se of
        None \<Rightarrow> released se r es
      | Some svc \<Rightarrow>
          (\<exists>p rest. es = PatchedService svc (annotate_service unrouted_annotations svc) p # rest \<and>
             (case p of
                Inl e \<Rightarrow> if is_not_found e then released se r rest else rest = [] \<and> r = Inl e
              | Inr _ \<Rightarrow> released se r rest)))"

text \<open>What clearing the annotations may come back with: a success after which the endpoint is
  released, or an error that ends the deletion.\<close>

definition cleared :: "lib \<Rightarrow> snapshot \<Rightarrow> ServiceEndpoint \<Rightarrow> error + unit \<Rightarrow> event list \<Rightarrow> bool" where
  "cleared L V se r es \<longleftrightarrow>
     (case service_to_clean L V se of
        None \<Rightarrow> r = Inr () \<and> es = []
      | Some svc \<Rightarrow>
          (\<exists>p. es = [PatchedService svc (annotate_service unrouted_annotations svc) p] \<and>
             r = (case p of Inl e \<Rightarrow> if is_not_found e then Inr () else Inl e | Inr _ \<Rightarrow> Inr ())))"

lemma left_released:
  assumes "cleared L V se (Inr ()) es" and "released se r rest"
    and "serviceEndpointFinalizer \<in> set (mFinalizers (seMeta se))"
  shows "endpoint_left L V se r (es @ rest)"
proof (cases "service_to_clean L V se")
  case None
  then show ?thesis using assms by (simp add: endpoint_left_def cleared_def)
next
  case (Some svc)
  with assms(1) have "\<exists>p. es = [PatchedService svc (annotate_service unrouted_annotations svc) p] \<and>
      Inr () = (case p of Inl e \<Rightarrow> if is_not_found e then Inr () else Inl e | Inr _ \<Rightarrow> Inr ())"
    by (simp add: cleared_def)
  then obtain p where p: "es = [PatchedService svc (annotate_service unrouted_annotations svc) p]"
      "case p of Inl e \<Rightarrow> is_not_found e | Inr _ \<Rightarrow> True"
    by (elim exE conjE) (rename_tac p, case_tac p, auto split: if_splits)
  then have "case p of Inl e \<Rightarrow> if is_not_found e then released se r rest else rest = [] \<and> r = Inl e
      | Inr _ \<Rightarrow> released se r rest"
    using assms(2) by (simp split: sum.splits)
  with p(1) Some assms(3) show ?thesis by (auto simp: endpoint_left_def)
qed

lemma left_failed:
  "cleared L V se (Inl e) es \<Longrightarrow> serviceEndpointFinalizer \<in> set (mFinalizers (seMeta se)) \<Longrightarrow>
     endpoint_left L V se (Inl e) es"
  by (auto simp: endpoint_left_def cleared_def split: option.splits sum.splits if_splits)

lemma wpv_clear:
  assumes K: "answers_from K view" and h: "writes h = []"
    and Q: "\<And>r V' h'. cleared L V se r (writes h') \<Longrightarrow> Q r V' h'"
  shows "wpv view (clear_annotations L K (s_Workload V (endpoint_workload_key se))) Q V h"
  unfolding clear_annotations_def
proof (intro wpv_option)
  assume "s_Workload V (endpoint_workload_key se) = None"
  then show "wpv view (State_Monad.return (Inr ())) Q V h"
    using h by (intro wpv_return Q) (simp add: cleared_def service_to_clean_def)
next
  fix w assume w: "s_Workload V (endpoint_workload_key se) = Some w"
  show "wpv view (checked (resolveService K w) (\<lambda>svc. case svc of
       None \<Rightarrow> State_Monad.return (Inr ())
     | Some svc \<Rightarrow>
         if l_IsControlledBy L (svcMeta svc) (wlMeta w)
         then do {
           r \<leftarrow> patch_Service K svc (annotate_service unrouted_annotations svc);
           State_Monad.return
             (case r of Inl err \<Rightarrow> if \<not> is_not_found err then Inl err else Inr () | Inr _ \<Rightarrow> Inr ())
         }
         else State_Monad.return (Inr ()))) Q V h"
  proof (rule wpv_checked, rule wpv_answers [OF resolveService_answers [OF K]],
      intro conjI allI impI wpv_option wpv_if)
    fix h' a x
    assume h': "reads_after h h'" and a: "a = s_Service V (key_of (wlMeta w))"
      and x: "(Inr a :: error + Service option) = Inr x"
    have h'': "writes h' = []" using h' h by (simp add: reads_after_writes)
    show "wpv view (State_Monad.return (Inr ())) Q V h'" if "x = None"
      using that a x w h'' by (intro wpv_return Q) (simp add: cleared_def service_to_clean_def)
    fix svc assume svc: "x = Some svc"
    show "wpv view (State_Monad.return (Inr ())) Q V h'"
      if "\<not> l_IsControlledBy L (svcMeta svc) (wlMeta w)"
      using that svc a x w h'' by (intro wpv_return Q) (simp add: cleared_def service_to_clean_def)
    assume ctl: "l_IsControlledBy L (svcMeta svc) (wlMeta w)"
    show "wpv view (do {
           r \<leftarrow> patch_Service K svc (annotate_service unrouted_annotations svc);
           State_Monad.return
             (case r of Inl err \<Rightarrow> if \<not> is_not_found err then Inl err else Inr () | Inr _ \<Rightarrow> Inr ())
         }) Q V h'"
      unfolding patch_Service_def
      by (rule wpv_wp, intro wp_bind wp_call wp_return allI Q)
         (use ctl svc a x w h'' in \<open>auto simp: cleared_def service_to_clean_def split: sum.split\<close>)
  qed auto
qed

lemma wpv_endpoint_left:
  assumes fin: "finalizers_ok L" and K: "answers_from K view" and h: "writes h = []"
    and Q: "\<And>r V' h'. endpoint_left L V se r (writes h') \<Longrightarrow> Q r V' h'"
  shows "wpv view (ServiceEndpoint_reconcileDelete L K se) Q V h"
  unfolding ServiceEndpoint_reconcileDelete_def
proof (intro wpv_if)
  assume "\<not> l_ContainsFinalizer L (mFinalizers (seMeta se)) serviceEndpointFinalizer"
  then show "wpv view (State_Monad.return (Inr ())) Q V h"
    using fin h by (intro wpv_return Q) (simp add: endpoint_left_def finalizers_ok_def)
next
  assume "\<not> \<not> l_ContainsFinalizer L (mFinalizers (seMeta se)) serviceEndpointFinalizer"
  then have has: "serviceEndpointFinalizer \<in> set (mFinalizers (seMeta se))"
    using fin by (simp add: finalizers_ok_def)
  have fs: "l_RemoveFinalizer L (mFinalizers (seMeta se)) serviceEndpointFinalizer =
      filter (\<lambda>f. f \<noteq> serviceEndpointFinalizer) (mFinalizers (seMeta se))"
    using fin by (simp add: finalizers_ok_def)
  have release: "wpv view (checked (update_ServiceEndpoint K (with_finalizers
          (l_RemoveFinalizer L (mFinalizers (seMeta se)) serviceEndpointFinalizer) se))
        (\<lambda>_. State_Monad.return (Inr ()))) Q V' h'"
    if "cleared L V se (Inr ()) (writes h')" for V' h'
    unfolding update_ServiceEndpoint_def
  proof (rule wpv_wp, intro wp_intros allI conjI impI Q)
    fix u :: "error + ServiceEndpoint" and r :: "error + unit"
    let ?x = "with_finalizers
      (l_RemoveFinalizer L (mFinalizers (seMeta se)) serviceEndpointFinalizer) se"
    have rel: "released se (case u of Inl e \<Rightarrow> Inl e | Inr _ \<Rightarrow> Inr ()) [UpdatedServiceEndpoint ?x u]"
      unfolding released_def fs by auto
    have "endpoint_left L V se (case u of Inl e \<Rightarrow> Inl e | Inr _ \<Rightarrow> Inr ())
        (writes (h' @ [UpdatedServiceEndpoint ?x u]))"
      using left_released [OF that rel has] by simp
    then show "endpoint_left L V se (Inl e) (writes (h' @ [UpdatedServiceEndpoint ?x u]))" if "u = Inl e" for e
      using that by simp
    show "endpoint_left L V se (Inr ()) (writes (h' @ [UpdatedServiceEndpoint ?x u]))" if "u = Inr x" for x
      using that \<open>endpoint_left L V se (case u of Inl e \<Rightarrow> Inl e | Inr _ \<Rightarrow> Inr ())
        (writes (h' @ [UpdatedServiceEndpoint ?x u]))\<close> by simp
  qed
  have failed: "Q (Inl e) V' h'" if "cleared L V se (Inl e) (writes h')" for e V' h'
    using that has by (intro Q left_failed)
  show "wpv view (checked (ServiceEndpoint_resolveWorkload K se) (\<lambda>workload.
      checked (clear_annotations L K workload) (\<lambda>_. checked (update_ServiceEndpoint K (with_finalizers
          (l_RemoveFinalizer L (mFinalizers (seMeta se)) serviceEndpointFinalizer) se))
        (\<lambda>_. State_Monad.return (Inr ()))))) Q V h"
  proof (rule wpv_checked, rule wpv_answers [OF resolveWorkload_answers [OF K]], intro conjI allI impI)
    fix h' a x
    assume h': "reads_after h h'" and a: "a = s_Workload V (endpoint_workload_key se)"
      and x: "(Inr a :: error + Workload option) = Inr x"
    have h'': "writes h' = []" using h' h by (simp add: reads_after_writes)
    have x: "x = s_Workload V (endpoint_workload_key se)" using a x by simp
    show "wpv view (checked (clear_annotations L K x) (\<lambda>_. checked (update_ServiceEndpoint K (with_finalizers
          (l_RemoveFinalizer L (mFinalizers (seMeta se)) serviceEndpointFinalizer) se))
        (\<lambda>_. State_Monad.return (Inr ())))) Q V h'"
      unfolding x by (rule wpv_checked, rule wpv_clear [OF K h'']) (auto intro: release failed)
  qed auto
qed

lemma wpv_endpoint_deletes:
  assumes fin: "finalizers_ok L" and K: "answers_from K view"
    and se: "s_ServiceEndpoint V req = Some se" and gone: "is_deleting L se"
  shows "wpv view (ServiceEndpoint_Reconcile L K n req)
    (\<lambda>r V' h. \<exists>r'. endpoint_left L V se r' (writes h) \<and>
       r = (case r' of Inl e \<Rightarrow> Inl e | Inr _ \<Rightarrow> Inr no_requeue)) V []"
proof -
  have left: "wpv view (checked (ServiceEndpoint_reconcileDelete L K se)
      (\<lambda>_. State_Monad.return (Inr no_requeue)))
    (\<lambda>r V' h. \<exists>r'. endpoint_left L V se r' (writes h) \<and>
       r = (case r' of Inl e \<Rightarrow> Inl e | Inr _ \<Rightarrow> Inr no_requeue)) V
    [GotServiceEndpoint req (Inr se)]"
  proof (rule wpv_checked, rule wpv_endpoint_left [OF fin K], simp, intro conjI allI impI wpv_return)
    fix r :: "error + unit" and h' assume "endpoint_left L V se r (writes h')"
    then show "\<exists>r'. endpoint_left L V se r' (writes h') \<and>
        Inl e = (case r' of Inl e \<Rightarrow> Inl e | Inr _ \<Rightarrow> Inr no_requeue)" if "r = Inl e" for e
      using that by (intro exI [of _ r]) simp
    assume "endpoint_left L V se r (writes h')"
    then show "\<exists>r'. endpoint_left L V se r' (writes h') \<and>
        Inr no_requeue = (case r' of Inl e \<Rightarrow> Inl e | Inr _ \<Rightarrow> Inr no_requeue)" if "r = Inr x" for x
      using that by (intro exI [of _ r]) simp
  qed
  show ?thesis
    unfolding ServiceEndpoint_Reconcile_def
    by (rule wpv_bind, rule wpv_get_ServiceEndpoint [OF K]) (use se gone left in auto)
qed

section \<open>The annotations\<close>

lemma cilium_keys [simp]:
  "ciliumSharedAnnotation \<noteq> ciliumGlobalAnnotation" "ciliumGlobalAnnotation \<noteq> ciliumSharedAnnotation"
  by (simp_all add: ciliumGlobalAnnotation_def ciliumSharedAnnotation_def)

lemma routing_modes [simp]:
  "RoutingModeActiveActive \<noteq> RoutingModeActivePassive" "RoutingModeActivePassive \<noteq> RoutingModeActiveActive"
  by (simp_all add: routing_mode_defs)

lemma unrouted_routed:
  "unrouted_annotations (routed_annotations n spec (Some m)) = unrouted_annotations (Some m)"
  by (simp add: routed_annotations_def unrouted_annotations_def fun_eq_iff)

lemma routed_is_Some: "\<exists>m. routed_annotations n spec annotations = Some m"
  by (simp add: routed_annotations_def Let_def)

lemma unrouted_fold:
  "unrouted_annotations (fold (\<lambda>(n, spec). routed_annotations n spec) steps (Some m)) =
     unrouted_annotations (Some m)"
proof (induction steps arbitrary: m)
  case (Cons step steps)
  obtain n spec where step: "step = (n, spec)" by (cases step)
  obtain m1 where m1: "routed_annotations n spec (Some m) = Some m1"
    using routed_is_Some by blast
  have "unrouted_annotations (Some m1) = unrouted_annotations (Some m)"
    using unrouted_routed [of n spec m] m1 by simp
  then show ?case using Cons [of m1] by (simp add: step m1)
qed simp

lemma routed_again:
  "seRoutingMode spec = RoutingModeActiveActive \<or> seRoutingMode spec = RoutingModeActivePassive \<Longrightarrow>
     routed_annotations n spec (routed_annotations n' spec' annotations) =
     routed_annotations n spec annotations"
  by (auto simp: routed_annotations_def Let_def fun_eq_iff)

section \<open>What the status says\<close>

definition coherent_endpoint :: "ServiceEndpoint \<Rightarrow> bool" where
  "coherent_endpoint se \<longleftrightarrow>
     (let status = seStatus se; cs = sesConditions status
      in sesObservedGeneration status = mGeneration (seMeta se) \<and>
         (case find_condition ''Ready'' cs of
            None \<Rightarrow> False
          | Some ready \<Rightarrow>
              cnStatus ready = ConditionTrue \<and> find_condition ''Degraded'' cs = None \<and>
                sesResolvedHostnames status = seHostnames (seSpec se) \<and>
                sesActiveMemberRef status = active_member (seSpec se) \<or>
              cnStatus ready = ConditionFalse \<and> sesResolvedHostnames status = [] \<and>
                sesActiveMemberRef status = '''' \<and>
                (\<exists>d. find_condition ''Degraded'' cs = Some d \<and> cnStatus d = ConditionTrue \<and>
                   cnReason d = cnReason ready \<and> cnMessage d = cnMessage ready)))"

lemma ready_coherent: "coherent_endpoint (ready_endpoint L se ts)"
proof -
  let ?cs = "settle_conditions [''Degraded''] [ready_condition se] (mGeneration (seMeta se))
      (serviceEndpointFieldsNotEnforced (seSpec se)) (tl ts) (sesConditions (seStatus se))"
  have "shows_condition (ready_condition se) ?cs"
    using settle_shows [OF ready_types] by simp
  moreover have "find_condition ''Degraded'' ?cs = None"
    by (subst settle_find_other) (simp_all add: fieldsNotEnforcedCondition_def ready_condition_def)
  ultimately show ?thesis
    by (auto simp: coherent_endpoint_def ready_endpoint_def shows_condition_def ready_condition_def
        split: option.splits)
qed

lemma degraded_coherent: "coherent_endpoint (degraded_endpoint L se reason message ts)"
proof -
  let ?cs = "settle_conditions [] (degraded_conditions se reason message) (mGeneration (seMeta se))
      (serviceEndpointFieldsNotEnforced (seSpec se)) (tl ts) (sesConditions (seStatus se))"
  have "\<forall>c \<in> set (degraded_conditions se reason message). shows_condition c ?cs"
    using settle_shows [OF degraded_types] by blast
  then show ?thesis
    by (auto simp: coherent_endpoint_def degraded_endpoint_def shows_condition_def
        degraded_conditions_def split: option.splits)
qed

lemma ready_again:
  assumes "conditions_ok L"
  shows "ready_endpoint L (ready_endpoint L se ts) ts' = ready_endpoint L se ts"
proof -
  let ?x = "ready_endpoint L se ts"
  have same: "ready_condition ?x = ready_condition se" "seMeta ?x = seMeta se" "seSpec ?x = seSpec se"
    by (simp_all add: ready_endpoint_def ready_condition_def)
  have conds: "settle_conditions [''Degraded''] [ready_condition se] (mGeneration (seMeta se))
      (serviceEndpointFieldsNotEnforced (seSpec se)) (tl ts') (sesConditions (seStatus ?x)) =
      sesConditions (seStatus ?x)"
    using settle_again [OF ready_types] by (simp add: ready_endpoint_def)
  have "shows_condition (ready_condition se) (sesConditions (seStatus ?x))"
    by (simp add: ready_endpoint_def settle_shows [OF ready_types])
  then have "\<exists>c. find_condition (cnType (ready_condition se)) (sesConditions (seStatus ?x)) = Some c \<and>
      cnStatus c = cnStatus (ready_condition se) \<and> cnReason c = cnReason (ready_condition se)"
    by (auto simp: shows_condition_def split: option.splits)
  then have "\<exists>c. find_condition ''Ready'' (sesConditions (seStatus ?x)) = Some c \<and>
      cnStatus c = ConditionTrue \<and> cnReason c = ''Reconciled''"
    by (simp add: ready_condition_def)
  moreover have "sesLastTransitionTime (seStatus ?x) \<noteq> None"
    by (simp add: ready_endpoint_def serviceEndpointTransitionTime_def split: option.splits)
  ultimately have "serviceEndpointTransitionTime L (hd ts') ?x ConditionTrue ''Reconciled'' =
      sesLastTransitionTime (seStatus ?x)"
    using assms by (auto simp: serviceEndpointTransitionTime_def conditions_ok_def)
  then have "ready_endpoint L ?x ts' = ?x\<lparr>seStatus :=
      \<lparr>sesConditions = sesConditions (seStatus ?x), sesActiveMemberRef = active_member (seSpec se),
       sesResolvedHostnames = seHostnames (seSpec se),
       sesLastTransitionTime = sesLastTransitionTime (seStatus ?x),
       sesObservedGeneration = mGeneration (seMeta se)\<rparr>\<rparr>"
    unfolding ready_endpoint_def [of L ?x] same conds by simp
  then show ?thesis by (simp add: ready_endpoint_def)
qed

text \<open>A degraded status is not written when only the message changes.\<close>

lemma wp_degraded_kept:
  assumes ok: "conditions_ok L" and "equality_ok L"
    and degraded: "find_condition ''Degraded'' (sesConditions (seStatus se)) \<noteq> None"
    and ready: "find_condition ''Ready'' (sesConditions (seStatus se)) = Some c"
      "cnStatus c = ConditionFalse" "cnReason c = reason"
    and extra: "find_condition fieldsNotEnforcedCondition (sesConditions (seStatus se)) \<noteq> None \<longleftrightarrow>
      serviceEndpointFieldsNotEnforced (seSpec se) \<noteq> []"
    and quiet: "shows_unrouted se" and time: "sesLastTransitionTime (seStatus se) \<noteq> None"
    and Q: "Q (Inr ()) h"
  shows "wp (writeDegradedStatus L K se reason message) Q h"
  unfolding writeDegradedStatus_def status_update_ServiceEndpoint_def
proof (intro wp_bind wp_clock, goal_cases)
  case (1 t0 t1 t2 t3)
  let ?v = "settle_view L [] (degraded_conditions se reason message) (mGeneration (seMeta se))
    (serviceEndpointFieldsNotEnforced (seSpec se)) [t1, t2, t3]
    (alias_view L (sesConditions (seStatus se)))"
  let ?next = "(seStatus se)\<lparr>sesObservedGeneration := mGeneration (seMeta se),
      sesActiveMemberRef := '''', sesResolvedHostnames := [],
      sesLastTransitionTime := serviceEndpointTransitionTime L t0 se ConditionFalse reason,
      sesConditions := cur ?v\<rparr>"
  have "set (map cnType (degraded_conditions se reason message)) \<subseteq>
      set (map cnType (sesConditions (seStatus se)))"
    using degraded ready(1) has_type [of _ "sesConditions (seStatus se)"]
    by (simp add: degraded_conditions_def) (metis option.distinct(1))
  then have conds: "orig ?v = cur ?v"
    by (rule orig_updated [OF ok]) (use extra in \<open>simp only: has_type\<close>)
  have "serviceEndpointTransitionTime L t0 se ConditionFalse reason = sesLastTransitionTime (seStatus se)"
    using ready time ok by (simp add: serviceEndpointTransitionTime_def conditions_ok_def)
  then have "(seStatus se)\<lparr>sesConditions := orig ?v\<rparr> = ?next"
    unfolding conds using quiet by (cases "seStatus se") (simp add: shows_unrouted_def)
  then have "wp (if \<not> l_DeepEqualServiceEndpointStatus L ((seStatus se)\<lparr>sesConditions := orig ?v\<rparr>) ?next
      then call (k_StatusServiceEndpoint K (se\<lparr>seStatus := ?next\<rparr>)) (StatusServiceEndpoint (se\<lparr>seStatus := ?next\<rparr>))
      else State_Monad.return (Inr ())) Q h"
    by (intro wp_intros) (use assms(2) Q in \<open>auto simp: equality_ok_def\<close>)
  then show ?case
    by (simp add: settle_view_def degraded_conditions_def Let_def split del: if_split cong: if_cong)
qed

end
