(* ===== verification/ServiceEndpoint_Properties.thy ===== *)
theory ServiceEndpoint_Properties
  imports ServiceEndpoint_Facts Reference
begin

text \<open>The properties of the controller of ServiceEndpoints, with their witnesses.\<close>

section \<open>A sample cluster\<close>

text \<open>An active/passive endpoint with its finalizer, whose Workload has a Service.\<close>

definition echo_endpoint :: ServiceEndpoint where
  "echo_endpoint =
     with_finalizers [serviceEndpointFinalizer] (sample_endpoint ''ActivePassive'' ''east'')"

definition routed_store :: store where
  "routed_store = empty_store\<lparr>st_ClusterMembers := [sample_member ''east''],
     st_Federations := [sample_federation [''east'']], st_Workloads := [sample_workload],
     st_ServiceEndpoints := [echo_endpoint], st_Services := [sample_service]\<rparr>"

abbreviation endpoint_key :: ObjectKey where
  "endpoint_key \<equiv> object_key ''demo'' ''echo''"

lemma routed_snapshot:
  "s_ServiceEndpoint (store_snapshot routed_store) endpoint_key = Some echo_endpoint"
  "s_Workload (store_snapshot routed_store) endpoint_key = Some sample_workload"
  "s_Service (store_snapshot routed_store) endpoint_key = Some sample_service"
  "s_ClusterMember (store_snapshot routed_store) ''east'' = Some (sample_member ''east'')"
  "s_Federation (store_snapshot routed_store) ''primary'' = Some (sample_federation [''east''])"
  by (simp_all add: store_snapshot_def routed_store_def empty_store_def lookup_def lookup_name_def
      echo_endpoint_def sample_defs)

lemma echo_keys:
  "endpoint_workload_key echo_endpoint = endpoint_key" "key_of (wlMeta sample_workload) = endpoint_key"
  "\<not> is_deleting ref_lib echo_endpoint"
  "serviceEndpointFinalizer \<in> set (mFinalizers (seMeta echo_endpoint))"
  by (simp_all add: endpoint_workload_key_def echo_endpoint_def sample_defs)

lemma echo_owned: "ref_IsControlledBy (svcMeta sample_service) (wlMeta sample_workload)"
  by (simp add: ref_IsControlledBy_def ref_controller_def sample_defs)

lemma echo_routable:
  "routable ref_lib (store_snapshot routed_store) echo_endpoint svc \<longleftrightarrow> svc = sample_service"
proof -
  have "primary_ok ref_lib (store_snapshot routed_store) echo_endpoint sample_workload"
    by (simp add: primary_ok_def cluster_in_federation_def routed_snapshot echo_endpoint_def
        sample_endpoint_def sample_workload_def)
       (simp add: sample_federation_def)
  then show ?thesis
    by (auto simp: routable_def echo_keys routed_snapshot echo_owned)
qed

section \<open>What the controller writes\<close>

text \<open>C5: whatever the API server answers, the controller of ServiceEndpoints makes only these
  writes: first the finalizer, when it is missing; the routing annotations of a Service that was
  read as the one of the endpoint's Workload and is controlled by it; the status of the endpoint,
  \<open>Ready\<close> only after the annotations were stored. An endpoint that is being deleted loses its
  finalizer only when the Workload or its Service is gone, the Service is not the Workload's, or
  the annotations were removed from it.\<close>

theorem endpoint_writes_safe:
  assumes "conditions_ok L" and "equality_ok L" and "finalizers_ok L"
  shows "in_every_run (ServiceEndpoint_Reconcile L K n req)
    (\<lambda>r es. admissible (endpoint_write_ok L n req) [] es)"
  by (rule in_every_run_wp, rule wp_endpoint_writes [OF assms])

theorem endpoint_writes_safe_witness:
  "in_every_run (ServiceEndpoint_Reconcile ref_lib ref_kube ''east'' endpoint_key)
    (\<lambda>r es. admissible (endpoint_write_ok ref_lib ''east'' endpoint_key) [] es)"
  by (rule endpoint_writes_safe) simp_all

text \<open>C7: on a server that answers from one state of the cluster, an endpoint with its finalizer
  is routed exactly when its Workload exists, the primary of an active/passive endpoint exists
  and is a member of the Workload's Federation (by name or by labels), and the Workload's Service
  exists and is the Workload's. Then the annotations are stored, and after them the \<open>Ready\<close>
  status unless it is there already. Otherwise at most a status that says degraded is written,
  with a reason that is true of the cluster, and the reconciliation is repeated after 5 seconds
  unless that write failed.\<close>

theorem endpoint_decision:
  assumes "conditions_ok L" and "equality_ok L" and "finalizers_ok L" and "answers_from K view"
    and "stored_by_name (view st)" and "s_ServiceEndpoint (view st) req = Some se"
    and "l_IsZero L (mDeletionTimestamp (seMeta se))"
    and "serviceEndpointFinalizer \<in> set (mFinalizers (seMeta se))"
  shows "case run (ServiceEndpoint_Reconcile L K n req) st of (r, es, _) \<Rightarrow>
    if \<exists>svc. routable L (view st) se svc
    then \<exists>svc. routable L (view st) se svc \<and> endpoint_routed L n se svc r es
    else endpoint_held L (view st) se r es"
proof -
  have "\<not> is_deleting L se" using assms(7) by simp
  from wpv_run [OF wpv_endpoint_decides [OF assms(1-6) this assms(8)]]
  show ?thesis unfolding endpoint_decided_def .
qed

theorem endpoint_decision_witness:
  "case run (ServiceEndpoint_Reconcile ref_lib ref_kube ''east'' endpoint_key) routed_store of
     (r, es, _) \<Rightarrow> endpoint_routed ref_lib ''east'' echo_endpoint sample_service r es"
  using endpoint_decision [of ref_lib ref_kube store_snapshot routed_store endpoint_key echo_endpoint "''east''"]
    echo_keys(3,4)
  by (simp add: routed_snapshot echo_routable)

text \<open>C21: on such a server, an endpoint that is being deleted is released: without the finalizer
  nothing is written; otherwise the annotations of the Workload's own Service, if there is one,
  are removed, and then the finalizer, unless the removal of the annotations failed for another
  reason than that the Service is gone.\<close>

theorem endpoint_deletion:
  assumes "finalizers_ok L" and "answers_from K view"
    and "s_ServiceEndpoint (view st) req = Some se"
    and "\<not> l_IsZero L (mDeletionTimestamp (seMeta se))"
  shows "case run (ServiceEndpoint_Reconcile L K n req) st of (r, es, _) \<Rightarrow>
    \<exists>r'. endpoint_left L (view st) se r' (writes es) \<and>
      r = (case r' of Inl e \<Rightarrow> Inl e | Inr _ \<Rightarrow> Inr no_requeue)"
  using wpv_run [OF wpv_endpoint_deletes [OF assms]] .

definition leaving_endpoint :: ServiceEndpoint where
  "leaving_endpoint = echo_endpoint\<lparr>seMeta := (seMeta echo_endpoint)\<lparr>mDeletionTimestamp := Some 900\<rparr>\<rparr>"

definition leaving_store :: store where
  "leaving_store = routed_store\<lparr>st_ServiceEndpoints := [leaving_endpoint]\<rparr>"

theorem endpoint_deletion_witness:
  "case run (ServiceEndpoint_Reconcile ref_lib ref_kube ''east'' endpoint_key) leaving_store of
     (r, es, _) \<Rightarrow> \<exists>r'. endpoint_left ref_lib (store_snapshot leaving_store) leaving_endpoint r' (writes es) \<and>
       r = (case r' of Inl e \<Rightarrow> Inl e | Inr _ \<Rightarrow> Inr no_requeue)"
  by (rule endpoint_deletion [where view = store_snapshot])
     (simp_all, simp_all add: store_snapshot_def leaving_store_def lookup_def leaving_endpoint_def
       echo_endpoint_def sample_defs)

section \<open>The annotations\<close>

text \<open>C18: the annotations written say \<open>global\<close> on every cluster in both modes, and \<open>shared\<close> is true
  on every cluster of an active/active endpoint and on exactly one cluster, the primary, of an
  active/passive one. No other annotation changes, and the result does not depend on the routing
  that was in force before.\<close>

theorem endpoint_annotations:
  assumes "seRoutingMode spec = RoutingModeActiveActive \<or> seRoutingMode spec = RoutingModeActivePassive"
  shows "\<exists>m. routed_annotations n spec annotations = Some m \<and>
    m ciliumGlobalAnnotation = Some ''true'' \<and>
    m ciliumSharedAnnotation = Some
      (if seRoutingMode spec = RoutingModeActiveActive \<or> n = sePrimaryMemberRef spec
       then ''true'' else ''false'') \<and>
    (\<forall>k. k \<noteq> ciliumGlobalAnnotation \<and> k \<noteq> ciliumSharedAnnotation \<longrightarrow>
       m k = (case annotations of None \<Rightarrow> None | Some m0 \<Rightarrow> m0 k)) \<and>
    (\<forall>n' spec'. routed_annotations n spec (routed_annotations n' spec' annotations) = Some m)"
  unfolding routed_again [OF assms] using assms
  by (auto simp: routed_annotations_def Let_def split: option.splits)

theorem endpoint_annotations_witness:
  "\<exists>m. routed_annotations ''west'' (seSpec echo_endpoint) None = Some m \<and>
     m ciliumSharedAnnotation = Some ''false''"
  using endpoint_annotations [of "seSpec echo_endpoint" "''west''" None]
  by (auto simp: echo_endpoint_def sample_endpoint_def routing_mode_defs)

text \<open>What the deletion removes is what the routing added. From a Service without routing
  annotations, routing it any number of times and then removing the annotations gives back the
  annotations it had; a nil map comes back as an empty one.\<close>

lemma endpoint_annotations_roundtrip:
  assumes "ciliumGlobalAnnotation \<notin> dom m" and "ciliumSharedAnnotation \<notin> dom m"
  shows "unrouted_annotations (fold (\<lambda>(n, spec). routed_annotations n spec) steps (Some m)) = Some m"
  unfolding unrouted_fold
  using assms by (auto simp: unrouted_annotations_def fun_eq_iff domIff)

section \<open>The status\<close>

text \<open>C23: every status the controller writes is coherent: the observed generation is that of the
  object; either \<open>Ready\<close> is True, no condition \<open>Degraded\<close> is left, the hostnames are those of the
  spec and the active member is the primary of an active/passive endpoint; or \<open>Ready\<close> is False
  and \<open>Degraded\<close> True with one reason and message, and no hostname and no active member is
  shown.\<close>

theorem endpoint_status_coherent:
  assumes "conditions_ok L" and "equality_ok L" and "finalizers_ok L"
  shows "in_every_run (ServiceEndpoint_Reconcile L K n req)
    (\<lambda>r es. \<forall>x s. StatusServiceEndpoint x s \<in> set es \<longrightarrow> coherent_endpoint x)"
proof (rule in_every_run_wp, rule wp_mono [OF wp_endpoint_writes [OF assms]], intro allI impI)
  fix r es x s
  assume "admissible (endpoint_write_ok L n req) [] es" and "StatusServiceEndpoint x s \<in> set es"
  then obtain before where "endpoint_write_ok L n req before (StatusServiceEndpoint x s)"
    by (auto dest: admissible_mem)
  then show "coherent_endpoint x"
    by (auto simp: ready_coherent degraded_coherent)
qed

theorem endpoint_status_coherent_witness:
  "in_every_run (ServiceEndpoint_Reconcile ref_lib ref_kube ''east'' endpoint_key)
    (\<lambda>r es. \<forall>x s. StatusServiceEndpoint x s \<in> set es \<longrightarrow> coherent_endpoint x)"
  by (rule endpoint_status_coherent) simp_all

text \<open>The controller does not trigger itself by a \<open>Ready\<close> status. Once it is written, writing
  the status of that object again makes no call, at whatever time.\<close>

lemma endpoint_ready_quiet:
  assumes "conditions_ok L" and "equality_ok L"
  shows "in_every_run (ServiceEndpoint_reconcileStatus L K (ready_endpoint L se ts))
    (\<lambda>r es. r = Inr () \<and> es = [])"
  by (rule routed.silent_when_settled [OF assms(1,2)]) (rule ready_again [OF assms(1)])

text \<open>C39: the message of a degraded endpoint is kept while its reason stays and its generation is
  observed. Take an endpoint that shows \<open>Degraded\<close>, and \<open>Ready\<close> False with the reason, that has no
  active member and no hostnames and a transition time, and whose condition on fields that are
  not enforced is there exactly when the spec has such fields. If its generation is observed it is
  left alone whatever the new message is: the conditions are updated in the array that the status
  read shares, and the comparison that follows sees no difference. Only when the generation
  has changed is a status written, with the new message in \<open>Ready\<close>.\<close>

theorem endpoint_message_kept:
  assumes "conditions_ok L" and "equality_ok L"
    and "find_condition ''Degraded'' (sesConditions (seStatus se)) \<noteq> None"
    and "find_condition ''Ready'' (sesConditions (seStatus se)) = Some c"
    and "cnStatus c = ConditionFalse" and "cnReason c = reason"
    and "find_condition fieldsNotEnforcedCondition (sesConditions (seStatus se)) \<noteq> None \<longleftrightarrow>
      serviceEndpointFieldsNotEnforced (seSpec se) \<noteq> []"
    and "sesActiveMemberRef (seStatus se) = ''''" and "sesResolvedHostnames (seStatus se) = []"
    and "sesLastTransitionTime (seStatus se) \<noteq> None"
  shows "in_every_run (writeDegradedStatus L K se reason message) (\<lambda>r es.
    if sesObservedGeneration (seStatus se) = mGeneration (seMeta se) then r = Inr () \<and> es = []
    else \<exists>x s d. es = [StatusServiceEndpoint x s] \<and> r = s \<and>
      find_condition ''Ready'' (sesConditions (seStatus x)) = Some d \<and>
      cnStatus d = ConditionFalse \<and> cnReason d = reason \<and> cnMessage d = message)"
proof (cases "sesObservedGeneration (seStatus se) = mGeneration (seMeta se)")
  case True
  have "in_every_run (writeDegradedStatus L K se reason message) (\<lambda>r es. r = Inr () \<and> es = [])"
    by (rule in_every_run_wp, rule wp_degraded_kept [OF assms(1,2)])
       (use True assms(3-10) in \<open>auto simp: shows_unrouted_def\<close>)
  with True show ?thesis by simp
next
  case False
  have shown: "shows_condition (mk_condition ''Ready'' ConditionFalse (mGeneration (seMeta se)) reason message)
      (sesConditions (seStatus (degraded_endpoint L se reason message ts)))" for ts
    by (simp add: degraded_endpoint_def) (rule settle_shows [OF degraded_types],
      simp add: degraded_conditions_def)
  have "\<exists>d. find_condition ''Ready'' (sesConditions (seStatus (degraded_endpoint L se reason message ts))) =
        Some d \<and> cnStatus d = ConditionFalse \<and> cnReason d = reason \<and> cnMessage d = message" for ts
    using shown [of ts] by (auto simp: shows_condition_def split: option.splits)
  then show ?thesis
    using False by (intro in_every_run_wp wp_degraded_status [OF assms(1,2)])
      (auto simp: shows_unrouted_def)
qed

definition degraded_echo :: ServiceEndpoint where
  "degraded_echo = echo_endpoint\<lparr>seStatus :=
     \<lparr>sesConditions = degraded_conditions echo_endpoint ''ServiceNotFound'' ''an old message'',
      sesActiveMemberRef = '''', sesResolvedHostnames = [], sesLastTransitionTime = Some 5,
      sesObservedGeneration = mGeneration (seMeta echo_endpoint)\<rparr>\<rparr>"

theorem endpoint_message_kept_witness:
  "in_every_run (writeDegradedStatus ref_lib ref_kube degraded_echo ''ServiceNotFound'' ''a new message'')
     (\<lambda>r es. r = Inr () \<and> es = [])"
proof -
  have "sesObservedGeneration (seStatus degraded_echo) = mGeneration (seMeta degraded_echo)"
    by (simp add: degraded_echo_def)
  then show ?thesis
    using endpoint_message_kept [of ref_lib degraded_echo _ "''ServiceNotFound''" ref_kube "''a new message''"]
    by (simp add: degraded_echo_def degraded_conditions_def echo_endpoint_def sample_endpoint_def
        serviceEndpointFieldsNotEnforced_def fieldsNotEnforcedCondition_def)
qed

end
