(* ===== verification/DatastoreBinding_Controller.thy ===== *)
theory DatastoreBinding_Controller
  imports Status_Contract Managed_Env
begin

text \<open>
  \<open>datastorebinding_controller.go\<close>: the injection of a datastore's connection into the
  Deployment of a Workload, its removal under the finalizer, and the status of a
  DatastoreBinding. The environment lists and the record of managed names are those of
  theories \<open>Env_Vars\<close> and \<open>Managed_Env\<close>.
\<close>

section \<open>The controller\<close>

definition datastoreBindingFinalizer :: string where
  "datastoreBindingFinalizer = ''datastorebinding.data.polykube.dev/finalizer''"

definition acceptedEngines :: "string list" where
  "acceptedEngines = [''yugabytedb'', ''postgres_compatible'', ''postgres'']"

primrec engine_among :: "string \<Rightarrow> string list \<Rightarrow> bool" where
  "engine_among engine [] = False"
| "engine_among engine (e # es) = (if e = engine then True else engine_among engine es)"

definition acceptedEngine :: "string \<Rightarrow> bool" where
  "acceptedEngine engine = engine_among engine acceptedEngines"

definition connectionSecretName :: "DatastoreBinding \<Rightarrow> string" where
  "connectionSecretName binding = nrName (dbConnectionRef (dbSpec binding))"

definition connectionSecretKey :: "Secret \<Rightarrow> string" where
  "connectionSecretKey secret =
     (case secData secret ''url'' of Some _ \<Rightarrow> ''url'' | None \<Rightarrow> ''DATABASE_URL'')"

definition DatastoreBinding_resolveWorkload ::
  "'w kube \<Rightarrow> DatastoreBinding \<Rightarrow> ('w, error + Workload option) io" where
  "DatastoreBinding_resolveWorkload K binding =
     (let ns = nrNamespace (dbWorkloadRef (dbSpec binding));
          ns = (if ns = '''' then mNamespace (dbMeta binding) else ns)
      in do {
        r \<leftarrow> get_Workload K (object_key ns (nrName (dbWorkloadRef (dbSpec binding))));
        State_Monad.return
          (case r of
             Inl err \<Rightarrow> if is_not_found err then Inr None else Inl err
           | Inr workload \<Rightarrow> Inr (Some workload))
      })"

definition resolveConnectionSecret ::
  "'w kube \<Rightarrow> DatastoreBinding \<Rightarrow> ('w, error + Secret option) io" where
  "resolveConnectionSecret K binding =
     (let ns = nrNamespace (dbConnectionRef (dbSpec binding));
          ns = (if ns = '''' then mNamespace (dbMeta binding) else ns)
      in do {
        r \<leftarrow> get_Secret K (object_key ns (nrName (dbConnectionRef (dbSpec binding))));
        State_Monad.return
          (case r of
             Inl err \<Rightarrow> if is_not_found err then Inr None else Inl err
           | Inr secret \<Rightarrow> Inr (Some secret))
      })"

definition resolveDeployment :: "'w kube \<Rightarrow> Workload \<Rightarrow> ('w, error + Deployment option) io" where
  "resolveDeployment K workload =
     do {
       r \<leftarrow> get_Deployment K (object_key (mNamespace (wlMeta workload)) (mName (wlMeta workload)));
       State_Monad.return
         (case r of
            Inl err \<Rightarrow> if is_not_found err then Inr None else Inl err
          | Inr deployment \<Rightarrow> Inr (Some deployment))
     }"

text \<open>The variables that \<open>injectEnvVars\<close> injects.\<close>

definition envVarsToInject :: "DatastoreBinding \<Rightarrow> Secret \<Rightarrow> EnvVar list" where
  "envVarsToInject binding secret =
     (let name = mName (dbMeta binding);
          url = Some (SecretKeyRef (mName (secMeta secret)) (connectionSecretKey secret));
          vars =
            [\<lparr>eName = env_prefix name @ ''_URL'', eValue = '''', eValueFrom = url\<rparr>,
             \<lparr>eName = env_prefix name @ ''_REPLICATION_MODE'',
              eValue = dbReplicationMode (dbSpec binding), eValueFrom = None\<rparr>]
      in if name = ''primary''
         then vars @ [\<lparr>eName = ''DATABASE_URL'', eValue = '''', eValueFrom = url\<rparr>]
         else vars)"

text \<open>The loop over the containers: the first one named \<open>app\<close> is changed, then it breaks.\<close>

primrec update_app_env :: "(EnvVar list \<Rightarrow> EnvVar list) \<Rightarrow> Container list \<Rightarrow> Container list" where
  "update_app_env f [] = []"
| "update_app_env f (c # cs) =
     (if cName c = ''app'' then c\<lparr>cEnv := f (cEnv c)\<rparr> # cs else c # update_app_env f cs)"

text \<open>The two mutate functions.\<close>

definition mutateInject :: "DatastoreBinding \<Rightarrow> Secret \<Rightarrow> Deployment \<Rightarrow> error + Deployment" where
  "mutateInject binding secret deployment =
     (let managedEnvNames = datastoreManagedEnvNames binding;
          deployment = deployment\<lparr>dContainers :=
            update_app_env (\<lambda>env. mergeEnvVars env (envVarsToInject binding secret))
              (dContainers deployment)\<rparr>
      in Inr (updateDatastoreManagedEnvVars deployment managedEnvNames []))"

definition mutateRemove :: "DatastoreBinding \<Rightarrow> Deployment \<Rightarrow> error + Deployment" where
  "mutateRemove binding deployment =
     (let managedEnvNames = datastoreManagedEnvNames binding;
          keysToRemove = namesToBoolMap managedEnvNames;
          deployment = deployment\<lparr>dContainers :=
            update_app_env (\<lambda>env. removeEnvVars env keysToRemove) (dContainers deployment)\<rparr>
      in Inr (updateDatastoreManagedEnvVars deployment [] managedEnvNames))"

definition injectEnvVars ::
  "'w kube \<Rightarrow> DatastoreBinding \<Rightarrow> Deployment \<Rightarrow> Secret \<Rightarrow> ('w, error + unit) io" where
  "injectEnvVars K binding deployment secret =
     create_or_update_Deployment K deployment (mutateInject binding secret)"

text \<open>The part of \<open>reconcileBindingDelete\<close> that cleans the Deployment of a Workload.\<close>

definition clear_env ::
  "lib \<Rightarrow> 'w kube \<Rightarrow> DatastoreBinding \<Rightarrow> Workload option \<Rightarrow> ('w, error + unit) io" where
  "clear_env L K binding workload =
     (case workload of
        None \<Rightarrow> State_Monad.return (Inr ())
      | Some workload \<Rightarrow>
          checked (resolveDeployment K workload) (\<lambda>deployment.
            case deployment of
              None \<Rightarrow> State_Monad.return (Inr ())
            | Some deployment \<Rightarrow>
                if l_IsControlledBy L (dMeta deployment) (wlMeta workload)
                then create_or_update_Deployment K deployment (mutateRemove binding)
                else State_Monad.return (Inr ())))"

definition reconcileBindingDelete ::
  "lib \<Rightarrow> 'w kube \<Rightarrow> DatastoreBinding \<Rightarrow> ('w, error + unit) io" where
  "reconcileBindingDelete L K binding =
     (if \<not> l_ContainsFinalizer L (mFinalizers (dbMeta binding)) datastoreBindingFinalizer
      then State_Monad.return (Inr ())
      else
        checked (DatastoreBinding_resolveWorkload K binding) (\<lambda>workload.
        checked (clear_env L K binding workload) (\<lambda>_.
        checked
          (update_DatastoreBinding K
            (binding\<lparr>dbMeta := (dbMeta binding)\<lparr>mFinalizers :=
               l_RemoveFinalizer L (mFinalizers (dbMeta binding)) datastoreBindingFinalizer\<rparr>\<rparr>))
          (\<lambda>_. State_Monad.return (Inr ())))))"

text \<open>No condition is removed before conditions are set.\<close>

definition setDegradedStatus ::
  "lib \<Rightarrow> 'w kube \<Rightarrow> DatastoreBinding \<Rightarrow> string \<Rightarrow> string \<Rightarrow> ('w, error + unit) io" where
  "setDegradedStatus L K binding reason message =
     do {
       t0 \<leftarrow> clock K;
       t1 \<leftarrow> clock K;
       t2 \<leftarrow> clock K;
       let status = dbStatus binding;
           generation = mGeneration (dbMeta binding);
           v = alias_view L (dbsConditions status);
           v = SetStatusCondition L t0
                 (mk_condition ''Degraded'' ConditionTrue generation reason message) v;
           v = SetStatusCondition L t1
                 (mk_condition ''Ready'' ConditionFalse generation reason message) v;
           v = setFieldsNotEnforcedCondition L t2 generation
                 (datastoreBindingFieldsNotEnforced (dbSpec binding)) v;
           nextStatus = status\<lparr>dbsObservedGeneration := generation, dbsMessage := message,
             dbsConditions := cur v\<rparr>
       in if l_DeepEqualDatastoreBindingStatus L (status\<lparr>dbsConditions := orig v\<rparr>) nextStatus
          then State_Monad.return (Inr ())
          else status_update_DatastoreBinding K (binding\<lparr>dbStatus := nextStatus\<rparr>)
     }"

definition DatastoreBinding_reconcileDegraded ::
  "lib \<Rightarrow> 'w kube \<Rightarrow> DatastoreBinding \<Rightarrow> string \<Rightarrow> string \<Rightarrow> ('w, error + Result) io" where
  "DatastoreBinding_reconcileDegraded L K binding reason message =
     checked (setDegradedStatus L K binding reason message)
       (\<lambda>_. State_Monad.return (Inr (requeue_after_seconds 30)))"

definition setReadyStatus :: "lib \<Rightarrow> 'w kube \<Rightarrow> DatastoreBinding \<Rightarrow> ('w, error + unit) io" where
  "setReadyStatus L K binding =
     do {
       t0 \<leftarrow> clock K;
       t1 \<leftarrow> clock K;
       let status = dbStatus binding;
           generation = mGeneration (dbMeta binding);
           v = alias_view L (dbsConditions status);
           v = RemoveStatusCondition L ''Degraded'' v;
           v = SetStatusCondition L t0
                 (mk_condition ''Ready'' ConditionTrue generation ''Reconciled''
                   ''Connection secret resolved and env vars injected.'') v;
           v = setFieldsNotEnforcedCondition L t1 generation
                 (datastoreBindingFieldsNotEnforced (dbSpec binding)) v;
           nextStatus = status\<lparr>dbsObservedGeneration := generation,
             dbsMessage := ''DatastoreBinding is ready and env vars have been injected into the Deployment.'',
             dbsConditions := cur v\<rparr>
       in if l_DeepEqualDatastoreBindingStatus L (status\<lparr>dbsConditions := orig v\<rparr>) nextStatus
          then State_Monad.return (Inr ())
          else status_update_DatastoreBinding K (binding\<lparr>dbStatus := nextStatus\<rparr>)
     }"

text \<open>From the resolution of the Deployment on.\<close>

definition inject_and_settle ::
  "lib \<Rightarrow> 'w kube \<Rightarrow> DatastoreBinding \<Rightarrow> Workload \<Rightarrow> Secret \<Rightarrow> ('w, error + Result) io" where
  "inject_and_settle L K binding workload secret =
     checked (resolveDeployment K workload) (\<lambda>deployment.
       case deployment of
         None \<Rightarrow>
           DatastoreBinding_reconcileDegraded L K binding ''DeploymentNotFound''
             (''Deployment '' @ go_quote (mName (wlMeta workload)) @
              '' was not found in namespace '' @ go_quote (mNamespace (wlMeta workload)) @
              ''. Wait for the Workload to create it before reconciling the DatastoreBinding.'')
       | Some deployment \<Rightarrow>
           if \<not> l_IsControlledBy L (dMeta deployment) (wlMeta workload) then
             DatastoreBinding_reconcileDegraded L K binding ''DeploymentOwnershipConflict''
               (''Deployment '' @ go_quote (mName (dMeta deployment)) @ '' in namespace '' @
                go_quote (mNamespace (dMeta deployment)) @ '' is not controlled by Workload '' @
                go_quote (mName (wlMeta workload)) @
                ''. Refusing to inject datastore environment variables.'')
           else
             checked (injectEnvVars K binding deployment secret) (\<lambda>_.
             checked (setReadyStatus L K binding) (\<lambda>_.
             State_Monad.return (Inr no_requeue))))"

text \<open>From the validation of the engine on.\<close>

definition bind_datastore ::
  "lib \<Rightarrow> 'w kube \<Rightarrow> DatastoreBinding \<Rightarrow> ('w, error + Result) io" where
  "bind_datastore L K binding =
     (if \<not> acceptedEngine (dbEngine (dbSpec binding)) then
        DatastoreBinding_reconcileDegraded L K binding ''UnsupportedEngine''
          (''Engine '' @ go_quote (dbEngine (dbSpec binding)) @
           '' is not supported. Accepted values: '' @ join '', '' acceptedEngines @ ''.'')
      else
        checked (DatastoreBinding_resolveWorkload K binding) (\<lambda>workload.
          case workload of
            None \<Rightarrow>
              DatastoreBinding_reconcileDegraded L K binding ''WorkloadNotFound''
                (''Workload '' @ go_quote (nrName (dbWorkloadRef (dbSpec binding))) @ '' not found.'')
          | Some workload \<Rightarrow>
              checked (resolveConnectionSecret K binding) (\<lambda>secret.
                case secret of
                  None \<Rightarrow>
                    DatastoreBinding_reconcileDegraded L K binding ''ConnectionSecretNotFound''
                      (''Secret '' @ go_quote (connectionSecretName binding) @
                       '' not found. Ensure the secret exists before the DatastoreBinding is reconciled.'' @
                       '' See docs/architecture.md for the recommended secrets provisioning model.'')
                | Some secret \<Rightarrow> inject_and_settle L K binding workload secret)))"

definition DatastoreBinding_Reconcile ::
  "lib \<Rightarrow> 'w kube \<Rightarrow> ObjectKey \<Rightarrow> ('w, error + Result) io" where
  "DatastoreBinding_Reconcile L K req =
     do {
       r \<leftarrow> get_DatastoreBinding K req;
       case r of
         Inl err \<Rightarrow> State_Monad.return (if is_not_found err then Inr no_requeue else Inl err)
       | Inr binding \<Rightarrow>
           if \<not> l_IsZero L (mDeletionTimestamp (dbMeta binding)) then
             checked (reconcileBindingDelete L K binding)
               (\<lambda>_. State_Monad.return (Inr no_requeue))
           else
             (let (added, finalizers) =
                    l_AddFinalizer L (mFinalizers (dbMeta binding)) datastoreBindingFinalizer;
                  binding = binding\<lparr>dbMeta := (dbMeta binding)\<lparr>mFinalizers := finalizers\<rparr>\<rparr>
              in checked
                   (if added then update_DatastoreBinding K binding
                    else State_Monad.return (Inr binding))
                   (\<lambda>binding. bind_datastore L K binding))
     }"

section \<open>The environment that the two mutate functions leave\<close>

lemma engine_among_iff: "engine_among engine es \<longleftrightarrow> engine \<in> set es"
  by (induction es) auto

lemma env_prefix_eq:
  "''DATASTORE_'' @ to_upper (replace_char (CHR ''-'') (CHR ''_'') name) = env_prefix name"
  by (simp add: env_prefix_def)

text \<open>The variables have the names that the binding manages, each its own.\<close>

lemma names_to_inject: "map eName (envVarsToInject b s) = datastoreManagedEnvNames b"
  by (simp add: envVarsToInject_def datastoreManagedEnvNames_def Let_def)

lemma env_names_to_inject: "env_names (envVarsToInject b s) = set (datastoreManagedEnvNames b)"
  by (metis list.set_map names_to_inject)

lemma distinct_to_inject: "distinct (map eName (envVarsToInject b s))"
  unfolding names_to_inject by (rule distinct_managed_names)

text \<open>The environment of the container that the loop changes.\<close>

definition app_env :: "Deployment \<Rightarrow> EnvVar list option" where
  "app_env d = map_option cEnv (find (\<lambda>c. cName c = ''app'') (dContainers d))"

lemma find_update_app:
  "find (\<lambda>c. cName c = ''app'') (update_app_env f cs) =
     map_option (\<lambda>c. c\<lparr>cEnv := f (cEnv c)\<rparr>) (find (\<lambda>c. cName c = ''app'') cs)"
  by (induction cs) auto

lemma update_app_compose:
  "update_app_env f (update_app_env g cs) = update_app_env (\<lambda>e. f (g e)) cs"
  by (induction cs) auto

lemma update_app_cong: "(\<And>e. f e = g e) \<Longrightarrow> update_app_env f cs = update_app_env g cs"
  by (induction cs) auto

text \<open>All but the environment of that container stays.\<close>

lemma update_app_others:
  "map (\<lambda>c. c\<lparr>cEnv := []\<rparr>) (update_app_env f cs) = map (\<lambda>c. c\<lparr>cEnv := []\<rparr>) cs"
  "filter (\<lambda>c. cName c \<noteq> ''app'') (update_app_env f cs) = filter (\<lambda>c. cName c \<noteq> ''app'') cs"
  by (induction cs) auto

end
