(* ===== verification/DatastoreBinding_Facts.thy ===== *)
theory DatastoreBinding_Facts
  imports DatastoreBinding_Controller
begin

text \<open>
  What the controller of DatastoreBindings does: the status it writes, the events it may cause
  on any server, and what it decides on a snapshot.
\<close>

section \<open>The status wanted\<close>

definition bound_condition :: "DatastoreBinding \<Rightarrow> Condition" where
  "bound_condition b =
     mk_condition ''Ready'' ConditionTrue (mGeneration (dbMeta b)) ''Reconciled''
       ''Connection secret resolved and env vars injected.''"

definition bound_message :: string where
  "bound_message = ''DatastoreBinding is ready and env vars have been injected into the Deployment.''"

definition bound_binding :: "DatastoreBinding \<Rightarrow> time list \<Rightarrow> DatastoreBinding" where
  "bound_binding b ts =
     b\<lparr>dbStatus :=
       \<lparr>dbsConditions = settle_conditions [''Degraded''] [bound_condition b] (mGeneration (dbMeta b))
          (datastoreBindingFieldsNotEnforced (dbSpec b)) ts (dbsConditions (dbStatus b)),
        dbsObservedGeneration = mGeneration (dbMeta b), dbsMessage = bound_message\<rparr>\<rparr>"

definition unbound_conditions :: "DatastoreBinding \<Rightarrow> string \<Rightarrow> string \<Rightarrow> Condition list" where
  "unbound_conditions b reason message =
     [mk_condition ''Degraded'' ConditionTrue (mGeneration (dbMeta b)) reason message,
      mk_condition ''Ready'' ConditionFalse (mGeneration (dbMeta b)) reason message]"

definition unbound_binding ::
  "DatastoreBinding \<Rightarrow> string \<Rightarrow> string \<Rightarrow> time list \<Rightarrow> DatastoreBinding" where
  "unbound_binding b reason message ts =
     b\<lparr>dbStatus :=
       \<lparr>dbsConditions = settle_conditions [] (unbound_conditions b reason message)
          (mGeneration (dbMeta b)) (datastoreBindingFieldsNotEnforced (dbSpec b)) ts
          (dbsConditions (dbStatus b)),
        dbsObservedGeneration = mGeneration (dbMeta b), dbsMessage = message\<rparr>\<rparr>"

text \<open>What a binding that is left alone as degraded shows at least.\<close>

definition shows_unbound :: "DatastoreBinding \<Rightarrow> string \<Rightarrow> bool" where
  "shows_unbound b message \<longleftrightarrow>
     dbsObservedGeneration (dbStatus b) = mGeneration (dbMeta b) \<and>
     dbsMessage (dbStatus b) = message"

lemma bound_types: "settle_types [''Degraded''] [bound_condition b]"
  by (simp add: settle_types_def bound_condition_def fieldsNotEnforcedCondition_def)

lemma unbound_types: "settle_types [] (unbound_conditions b reason message)"
  by (simp add: settle_types_def unbound_conditions_def fieldsNotEnforcedCondition_def)

lemma wp_bound_status:
  assumes "conditions_ok L" and "equality_ok L"
    and "\<And>ts. bound_binding b ts = b \<Longrightarrow> Q (Inr ()) h"
    and "\<And>ts r. bound_binding b ts \<noteq> b \<Longrightarrow> Q r (h @ [StatusDatastoreBinding (bound_binding b ts) r])"
  shows "wp (setReadyStatus L K b) Q h"
  unfolding setReadyStatus_def status_update_DatastoreBinding_def
proof (intro wp_bind wp_clock, goal_cases)
  case (1 t0 t1)
  let ?v = "settle_view L [''Degraded''] [bound_condition b] (mGeneration (dbMeta b))
    (datastoreBindingFieldsNotEnforced (dbSpec b)) [t0, t1]
    (alias_view L (dbsConditions (dbStatus b)))"
  let ?next = "(dbStatus b)\<lparr>dbsObservedGeneration := mGeneration (dbMeta b),
      dbsMessage := bound_message, dbsConditions := cur ?v\<rparr>"
  have orig: "(dbStatus b)\<lparr>dbsConditions := orig ?v\<rparr> = dbStatus b"
    using assms(1) by (simp add: orig_settle)
  have wanted: "b\<lparr>dbStatus := ?next\<rparr> = bound_binding b [t0, t1]"
    using assms(1) by (simp add: bound_binding_def cur_settle)
  have same: "dbStatus b = ?next \<longleftrightarrow> bound_binding b [t0, t1] = b"
    unfolding wanted [symmetric] by (cases b) auto
  have "wp (if l_DeepEqualDatastoreBindingStatus L ((dbStatus b)\<lparr>dbsConditions := orig ?v\<rparr>) ?next
      then State_Monad.return (Inr ())
      else call (k_StatusDatastoreBinding K (b\<lparr>dbStatus := ?next\<rparr>)) (StatusDatastoreBinding (b\<lparr>dbStatus := ?next\<rparr>)))
      Q h"
    unfolding orig wanted
    by (intro wp_intros) (use assms(2-4) same in \<open>auto simp: equality_ok_def\<close>)
  then show ?case
    by (simp add: settle_view_def bound_condition_def bound_message_def Let_def
        split del: if_split cong: if_cong)
qed

lemma wp_unbound_status:
  assumes "conditions_ok L" and "equality_ok L"
    and quiet: "shows_unbound b message \<Longrightarrow> Q (Inr ()) h"
    and stores: "\<And>ts r. Q r (h @ [StatusDatastoreBinding (unbound_binding b reason message ts) r])"
  shows "wp (setDegradedStatus L K b reason message) Q h"
  unfolding setDegradedStatus_def status_update_DatastoreBinding_def
proof (intro wp_bind wp_clock, goal_cases)
  case (1 t0 t1 t2)
  let ?v = "settle_view L [] (unbound_conditions b reason message) (mGeneration (dbMeta b))
    (datastoreBindingFieldsNotEnforced (dbSpec b)) [t0, t1, t2]
    (alias_view L (dbsConditions (dbStatus b)))"
  let ?next = "(dbStatus b)\<lparr>dbsObservedGeneration := mGeneration (dbMeta b),
      dbsMessage := message, dbsConditions := cur ?v\<rparr>"
  have wanted: "b\<lparr>dbStatus := ?next\<rparr> = unbound_binding b reason message [t0, t1, t2]"
    using assms(1) by (simp add: unbound_binding_def cur_settle)
  have seen: "shows_unbound b message" if "(dbStatus b)\<lparr>dbsConditions := orig ?v\<rparr> = ?next"
    using arg_cong [OF that, of dbsObservedGeneration] arg_cong [OF that, of dbsMessage]
    by (simp add: shows_unbound_def)
  have "wp (if l_DeepEqualDatastoreBindingStatus L ((dbStatus b)\<lparr>dbsConditions := orig ?v\<rparr>) ?next
      then State_Monad.return (Inr ())
      else call (k_StatusDatastoreBinding K (b\<lparr>dbStatus := ?next\<rparr>)) (StatusDatastoreBinding (b\<lparr>dbStatus := ?next\<rparr>)))
      Q h"
    unfolding wanted
    by (intro wp_intros) (use assms(2) seen quiet stores in \<open>auto simp: equality_ok_def\<close>)
  then show ?case
    by (simp add: settle_view_def unbound_conditions_def Let_def split del: if_split cong: if_cong)
qed

lemma bound_any_time:
  assumes same: "bound_binding b ts = b"
  shows "bound_binding b ts' = b"
proof -
  have st: "dbStatus (bound_binding b ts) = dbStatus b" using same by simp
  have conds: "settle_conditions [''Degraded''] [bound_condition b] (mGeneration (dbMeta b))
      (datastoreBindingFieldsNotEnforced (dbSpec b)) ts (dbsConditions (dbStatus b)) =
      dbsConditions (dbStatus b)"
    using arg_cong [OF st, of dbsConditions] by (simp add: bound_binding_def)
  have "bound_binding b ts' = bound_binding b ts"
    unfolding bound_binding_def conds settle_any_time [OF bound_types conds, of ts'] ..
  with same show ?thesis by simp
qed

lemma bound_again: "bound_binding (bound_binding b ts) ts' = bound_binding b ts"
  using settle_again [OF bound_types, of b]
  by (simp add: bound_binding_def bound_condition_def)

interpretation bound: quiet_status_writer
  setReadyStatus StatusDatastoreBinding "\<lambda>L. bound_binding" "\<lambda>L b. bound_binding b [] = b"
  by unfold_locales (auto intro!: wp_bound_status dest: bound_any_time)

interpretation unbound: status_writer
  "\<lambda>L K (b, reason, message). setDegradedStatus L K b reason message" StatusDatastoreBinding
  "\<lambda>L (b, reason, message) ts. unbound_binding b reason message ts"
  "\<lambda>L (b, reason, message). shows_unbound b message"
  by unfold_locales (auto intro!: wp_unbound_status)

section \<open>Events on any server\<close>

abbreviation binding_deleting :: "lib \<Rightarrow> DatastoreBinding \<Rightarrow> bool" where
  "binding_deleting L b \<equiv> \<not> l_IsZero L (mDeletionTimestamp (dbMeta b))"

abbreviation binding_finalizers :: "string list \<Rightarrow> DatastoreBinding \<Rightarrow> DatastoreBinding" where
  "binding_finalizers fs b \<equiv> b\<lparr>dbMeta := (dbMeta b)\<lparr>mFinalizers := fs\<rparr>\<rparr>"

definition binding_workload_key :: "DatastoreBinding \<Rightarrow> ObjectKey" where
  "binding_workload_key b =
     object_key
       (if nrNamespace (dbWorkloadRef (dbSpec b)) = '''' then mNamespace (dbMeta b)
        else nrNamespace (dbWorkloadRef (dbSpec b)))
       (nrName (dbWorkloadRef (dbSpec b)))"

definition binding_secret_key :: "DatastoreBinding \<Rightarrow> ObjectKey" where
  "binding_secret_key b =
     object_key
       (if nrNamespace (dbConnectionRef (dbSpec b)) = '''' then mNamespace (dbMeta b)
        else nrNamespace (dbConnectionRef (dbSpec b)))
       (nrName (dbConnectionRef (dbSpec b)))"

text \<open>The binding the handler works with: as read with the finalizer, or as stored with it.\<close>

definition binding_held :: "lib \<Rightarrow> ObjectKey \<Rightarrow> DatastoreBinding \<Rightarrow> event list \<Rightarrow> bool" where
  "binding_held L req b before \<longleftrightarrow>
     (\<exists>b0. GotDatastoreBinding req (Inr b0) \<in> set before \<and> \<not> binding_deleting L b0 \<and>
        (b = b0 \<and> datastoreBindingFinalizer \<in> set (mFinalizers (dbMeta b0)) \<or>
         UpdatedDatastoreBinding
           (binding_finalizers (mFinalizers (dbMeta b0) @ [datastoreBindingFinalizer]) b0) (Inr b)
           \<in> set before))"

definition binding_leaving :: "lib \<Rightarrow> ObjectKey \<Rightarrow> DatastoreBinding \<Rightarrow> event list \<Rightarrow> bool" where
  "binding_leaving L req b before \<longleftrightarrow>
     GotDatastoreBinding req (Inr b) \<in> set before \<and> binding_deleting L b"

text \<open>A Deployment that was read as the one of the binding's Workload, and is controlled by it.\<close>

definition own_deployment :: "lib \<Rightarrow> DatastoreBinding \<Rightarrow> Deployment \<Rightarrow> event list \<Rightarrow> bool" where
  "own_deployment L b d before \<longleftrightarrow>
     (\<exists>w. GotWorkload (binding_workload_key b) (Inr w) \<in> set before \<and>
        GotDeployment (key_of (wlMeta w)) (Inr d) \<in> set before \<and>
        l_IsControlledBy L (dMeta d) (wlMeta w))"

text \<open>
  Nothing is left to clean up: the Workload or its Deployment is gone, the Deployment is not
  the Workload's, or the variables were removed from it.
\<close>

definition env_cleared :: "lib \<Rightarrow> DatastoreBinding \<Rightarrow> event list \<Rightarrow> bool" where
  "env_cleared L b before \<longleftrightarrow>
     (\<exists>e. GotWorkload (binding_workload_key b) (Inl e) \<in> set before \<and> is_not_found e) \<or>
     (\<exists>w. GotWorkload (binding_workload_key b) (Inr w) \<in> set before \<and>
        ((\<exists>e. GotDeployment (key_of (wlMeta w)) (Inl e) \<in> set before \<and> is_not_found e) \<or>
         (\<exists>d. GotDeployment (key_of (wlMeta w)) (Inr d) \<in> set before \<and>
            (\<not> l_IsControlledBy L (dMeta d) (wlMeta w) \<or>
             AppliedDeployment d (mutateRemove b) (Inr ()) \<in> set before))))"

lemma lasting_binding_held: "lasting (binding_held L req b)"
  unfolding lasting_def binding_held_def by blast

lemma lasting_binding_leaving: "lasting (binding_leaving L req b)"
  unfolding lasting_def binding_leaving_def by blast

text \<open>
  The writes of the controller: the finalizer before anything else; the environment of the own
  Deployment only, injected for an accepted engine and from a Secret that was found; the status
  of the binding as it was stored, and \<open>Ready\<close> only after the injection was stored; the
  finalizer is taken away only when nothing is left to clean up.
\<close>

primrec binding_write_ok :: "lib \<Rightarrow> ObjectKey \<Rightarrow> event list \<Rightarrow> event \<Rightarrow> bool" where
  "binding_write_ok L req before (UpdatedDatastoreBinding x r) \<longleftrightarrow>
     (\<exists>b. GotDatastoreBinding req (Inr b) \<in> set before \<and>
        (\<not> binding_deleting L b \<and> datastoreBindingFinalizer \<notin> set (mFinalizers (dbMeta b)) \<and>
           x = binding_finalizers (mFinalizers (dbMeta b) @ [datastoreBindingFinalizer]) b \<and>
           writes before = [] \<or>
         binding_deleting L b \<and> env_cleared L b before \<and>
           x = binding_finalizers
             (filter (\<lambda>f. f \<noteq> datastoreBindingFinalizer) (mFinalizers (dbMeta b))) b))"
| "binding_write_ok L req before (AppliedDeployment d f r) \<longleftrightarrow>
     (\<exists>b. own_deployment L b d before \<and>
        (binding_held L req b before \<and> acceptedEngine (dbEngine (dbSpec b)) \<and>
           (\<exists>s. GotSecret (binding_secret_key b) (Inr s) \<in> set before \<and> f = mutateInject b s) \<or>
         binding_leaving L req b before \<and> f = mutateRemove b))"
| "binding_write_ok L req before (StatusDatastoreBinding x r) \<longleftrightarrow>
     (\<exists>b. binding_held L req b before \<and>
        ((\<exists>reason message ts. x = unbound_binding b reason message ts) \<or>
         (\<exists>d s ts. x = bound_binding b ts \<and>
            AppliedDeployment d (mutateInject b s) (Inr ()) \<in> set before)))"
| "binding_write_ok L req before (UpdatedServiceEndpoint x r) \<longleftrightarrow> False"
| "binding_write_ok L req before (StatusClusterMember x r) \<longleftrightarrow> False"
| "binding_write_ok L req before (StatusFederation x r) \<longleftrightarrow> False"
| "binding_write_ok L req before (StatusWorkload x r) \<longleftrightarrow> False"
| "binding_write_ok L req before (StatusServiceEndpoint x r) \<longleftrightarrow> False"
| "binding_write_ok L req before (PatchedService x y r) \<longleftrightarrow> False"
| "binding_write_ok L req before (AppliedService s f r) \<longleftrightarrow> False"
| "binding_write_ok L req before (DeletedService s r) \<longleftrightarrow> False"
| "binding_write_ok L req before (GotClusterMember k r) \<longleftrightarrow> True"
| "binding_write_ok L req before (GotFederation k r) \<longleftrightarrow> True"
| "binding_write_ok L req before (GotWorkload k r) \<longleftrightarrow> True"
| "binding_write_ok L req before (GotServiceEndpoint k r) \<longleftrightarrow> True"
| "binding_write_ok L req before (GotDatastoreBinding k r) \<longleftrightarrow> True"
| "binding_write_ok L req before (GotDeployment k r) \<longleftrightarrow> True"
| "binding_write_ok L req before (GotService k r) \<longleftrightarrow> True"
| "binding_write_ok L req before (GotSecret k r) \<longleftrightarrow> True"
| "binding_write_ok L req before (GotConfigMap k r) \<longleftrightarrow> True"
| "binding_write_ok L req before (ListedClusterMembers sel r) \<longleftrightarrow> True"
| "binding_write_ok L req before (ListedFederations r) \<longleftrightarrow> True"

lemma binding_read_ok: "is_read e \<Longrightarrow> binding_write_ok L req before e"
  by (cases e) simp_all

text \<open>What the parts that read leave in the trace.\<close>

definition found_or_gone :: "(error + 'a \<Rightarrow> event) \<Rightarrow> error + 'a option \<Rightarrow> event list \<Rightarrow> bool" where
  "found_or_gone ev r h \<longleftrightarrow>
     (\<forall>x. r = Inr (Some x) \<longrightarrow> ev (Inr x) \<in> set h) \<and>
     (r = Inr None \<longrightarrow> (\<exists>e. ev (Inl e) \<in> set h \<and> is_not_found e))"

lemma binding_workload_reads:
  "reads_then (DatastoreBinding_resolveWorkload K b) (found_or_gone (GotWorkload (binding_workload_key b)))"
  unfolding DatastoreBinding_resolveWorkload_def Let_def client_defs binding_workload_key_def
    found_or_gone_def
  by (rule reads_thenI, intro wp_intros) (auto split: sum.splits if_splits)

lemma binding_secret_reads:
  "reads_then (resolveConnectionSecret K b) (found_or_gone (GotSecret (binding_secret_key b)))"
  unfolding resolveConnectionSecret_def Let_def client_defs binding_secret_key_def found_or_gone_def
  by (rule reads_thenI, intro wp_intros) (auto split: sum.splits if_splits)

lemma binding_deployment_reads:
  "reads_then (resolveDeployment K w) (found_or_gone (GotDeployment (key_of (wlMeta w))))"
  unfolding resolveDeployment_def Let_def client_defs found_or_gone_def
  by (rule reads_thenI, intro wp_intros) (auto split: sum.splits if_splits)

text \<open>A state of the trace: a lasting fact about it, and every write admissible so far.\<close>

definition in_state :: "lib \<Rightarrow> ObjectKey \<Rightarrow> (event list \<Rightarrow> bool) \<Rightarrow> event list \<Rightarrow> bool" where
  "in_state L req A h \<longleftrightarrow> A h \<and> admissible (binding_write_ok L req) [] h"

lemma in_state_step:
  "lasting A \<Longrightarrow> in_state L req A h \<Longrightarrow> binding_write_ok L req h e \<Longrightarrow> in_state L req A (h @ [e])"
  unfolding in_state_def lasting_def by (metis admissible.simps admissible_append append_Nil
      set_append sup_ge1)

lemma in_state_reads:
  "lasting A \<Longrightarrow> in_state L req A h \<Longrightarrow> reads_after h h' \<Longrightarrow> in_state L req A h'"
  unfolding in_state_def
  using lasting_after reads_after_admissible binding_read_ok by blast

text \<open>Reading to find an object or not, in such a state.\<close>

lemma wp_find:
  assumes find: "reads_then m (found_or_gone ev)" and A: "lasting A" and h: "in_state L req A h"
    and err: "\<And>e h'. in_state L req A h' \<Longrightarrow> Q (Inl e) h'"
    and gone: "\<And>e h'. in_state L req A h' \<Longrightarrow> set h \<subseteq> set h' \<Longrightarrow> ev (Inl e) \<in> set h' \<Longrightarrow>
      is_not_found e \<Longrightarrow> wp (f None) Q h'"
    and found: "\<And>x h'. in_state L req A h' \<Longrightarrow> set h \<subseteq> set h' \<Longrightarrow> ev (Inr x) \<in> set h' \<Longrightarrow>
      wp (f (Some x)) Q h'"
  shows "wp (checked m f) Q h"
proof (rule wp_checked, rule wp_reads [OF find], intro conjI allI impI)
  fix r h' e assume "reads_after h h'"
  then show "Q (Inl e) h'" by (intro err in_state_reads [OF A h])
next
  fix r h' x
  assume h': "reads_after h h'" and got: "found_or_gone ev r h'" and r: "r = Inr x"
  have st: "in_state L req A h'" "set h \<subseteq> set h'"
    using in_state_reads [OF A h h'] reads_after_set [OF h'] by auto
  show "wp (f x) Q h'"
  proof (cases x)
    case None
    then obtain e where "ev (Inl e) \<in> set h'" "is_not_found e"
      using got r by (auto simp: found_or_gone_def)
    then show ?thesis unfolding None by (rule gone [OF st])
  next
    case (Some y)
    then have "ev (Inr y) \<in> set h'" using got r by (auto simp: found_or_gone_def)
    then show ?thesis unfolding Some by (rule found [OF st])
  qed
qed

abbreviation held_state :: "lib \<Rightarrow> ObjectKey \<Rightarrow> DatastoreBinding \<Rightarrow> event list \<Rightarrow> bool" where
  "held_state L req b \<equiv> in_state L req (binding_held L req b)"

abbreviation leaving_state :: "lib \<Rightarrow> ObjectKey \<Rightarrow> DatastoreBinding \<Rightarrow> event list \<Rightarrow> bool" where
  "leaving_state L req b \<equiv> in_state L req (binding_leaving L req b)"

lemmas held_state_step = in_state_step [OF lasting_binding_held]
lemmas leaving_state_step = in_state_step [OF lasting_binding_leaving]

lemma wp_held_unbound:
  assumes "conditions_ok L" and "equality_ok L" and h: "held_state L req b h"
  shows "wp (DatastoreBinding_reconcileDegraded L K b reason message) (\<lambda>_. held_state L req b) h"
  unfolding DatastoreBinding_reconcileDegraded_def
proof (rule wp_checked, rule wp_unbound_status [OF assms(1,2)], intro conjI allI impI wp_return h)
  fix ts r
  have "binding_write_ok L req h (StatusDatastoreBinding (unbound_binding b reason message ts) r)"
    using h unfolding in_state_def binding_write_ok.simps by blast
  from held_state_step [OF h this]
  show "(\<forall>e. r = Inl e \<longrightarrow> held_state L req b
        (h @ [StatusDatastoreBinding (unbound_binding b reason message ts) r])) \<and>
      (\<forall>x. r = Inr x \<longrightarrow> wp (State_Monad.return (Inr (requeue_after_seconds 30))) (\<lambda>_. held_state L req b)
        (h @ [StatusDatastoreBinding (unbound_binding b reason message ts) r]))"
    by (auto intro: wp_return)
qed

lemma wp_held_bound:
  assumes "conditions_ok L" and "equality_ok L" and h: "held_state L req b h"
    and applied: "AppliedDeployment d (mutateInject b s) (Inr ()) \<in> set h"
  shows "wp (setReadyStatus L K b) (\<lambda>_. held_state L req b) h"
proof (rule wp_bound_status [OF assms(1,2)])
  fix ts r
  have "binding_write_ok L req h (StatusDatastoreBinding (bound_binding b ts) r)"
    using h applied by (auto simp: in_state_def)
  then show "held_state L req b (h @ [StatusDatastoreBinding (bound_binding b ts) r])"
    by (rule held_state_step [OF h])
qed (rule h)

lemma wp_held_inject:
  assumes ok: "conditions_ok L" "equality_ok L" and h: "held_state L req b h"
    and engine: "acceptedEngine (dbEngine (dbSpec b))"
    and w: "GotWorkload (binding_workload_key b) (Inr w) \<in> set h"
    and s: "GotSecret (binding_secret_key b) (Inr s) \<in> set h"
  shows "wp (inject_and_settle L K b w s) (\<lambda>_. held_state L req b) h"
  unfolding inject_and_settle_def
proof (rule wp_find [OF binding_deployment_reads lasting_binding_held h])
  fix d h'
  assume h': "held_state L req b h'" and sub: "set h \<subseteq> set h'"
    and d: "GotDeployment (key_of (wlMeta w)) (Inr d) \<in> set h'"
  have "wp (checked (injectEnvVars K b d s) (\<lambda>_. checked (setReadyStatus L K b)
      (\<lambda>_. State_Monad.return (Inr no_requeue)))) (\<lambda>_. held_state L req b) h'"
    if ctl: "l_IsControlledBy L (dMeta d) (wlMeta w)"
    unfolding injectEnvVars_def create_or_update_Deployment_def
  proof (rule wp_checked, rule wp_call, intro conjI allI impI)
    fix a :: "error + unit"
    let ?h = "h' @ [AppliedDeployment d (mutateInject b s) a]"
    have "own_deployment L b d h'"
      using d ctl w sub by (auto simp: own_deployment_def)
    then have "binding_write_ok L req h' (AppliedDeployment d (mutateInject b s) a)"
      using h' engine s sub by (auto simp: in_state_def)
    from held_state_step [OF h' this] have applied: "held_state L req b ?h" .
    then show "held_state L req b ?h" .
    fix y assume "a = Inr y"
    then have stored: "AppliedDeployment d (mutateInject b s) (Inr ()) \<in> set ?h" by simp
    show "wp (checked (setReadyStatus L K b) (\<lambda>_. State_Monad.return (Inr no_requeue)))
        (\<lambda>_. held_state L req b) ?h"
      by (rule wp_checked, rule wp_mono [OF wp_held_bound [OF ok applied stored]]) (auto intro: wp_return)
  qed
  then show "wp (case Some d of
       None \<Rightarrow> DatastoreBinding_reconcileDegraded L K b ''DeploymentNotFound''
         (''Deployment '' @ go_quote (mName (wlMeta w)) @
          '' was not found in namespace '' @ go_quote (mNamespace (wlMeta w)) @
          ''. Wait for the Workload to create it before reconciling the DatastoreBinding.'')
     | Some deployment \<Rightarrow>
         if \<not> l_IsControlledBy L (dMeta deployment) (wlMeta w) then
           DatastoreBinding_reconcileDegraded L K b ''DeploymentOwnershipConflict''
             (''Deployment '' @ go_quote (mName (dMeta deployment)) @ '' in namespace '' @
              go_quote (mNamespace (dMeta deployment)) @ '' is not controlled by Workload '' @
              go_quote (mName (wlMeta w)) @
              ''. Refusing to inject datastore environment variables.'')
         else
           checked (injectEnvVars K b deployment s) (\<lambda>_.
           checked (setReadyStatus L K b) (\<lambda>_.
           State_Monad.return (Inr no_requeue)))) (\<lambda>_. held_state L req b) h'"
    unfolding option.case by (intro wp_if wp_held_unbound [OF ok h']) simp
qed (auto intro: wp_held_unbound [OF ok])

lemma wp_held_bind:
  assumes ok: "conditions_ok L" "equality_ok L" and h: "held_state L req b h"
  shows "wp (bind_datastore L K b) (\<lambda>_. held_state L req b) h"
  unfolding bind_datastore_def
proof (intro wp_if)
  show "wp (DatastoreBinding_reconcileDegraded L K b reason message) (\<lambda>_. held_state L req b) h"
    for reason message by (rule wp_held_unbound [OF ok h])
  assume "\<not> \<not> acceptedEngine (dbEngine (dbSpec b))"
  then have engine: "acceptedEngine (dbEngine (dbSpec b))" by simp
  show "wp (checked (DatastoreBinding_resolveWorkload K b) (\<lambda>workload.
      case workload of
        None \<Rightarrow>
          DatastoreBinding_reconcileDegraded L K b ''WorkloadNotFound''
            (''Workload '' @ go_quote (nrName (dbWorkloadRef (dbSpec b))) @ '' not found.'')
      | Some workload \<Rightarrow>
          checked (resolveConnectionSecret K b) (\<lambda>secret.
            case secret of
              None \<Rightarrow>
                DatastoreBinding_reconcileDegraded L K b ''ConnectionSecretNotFound''
                  (''Secret '' @ go_quote (connectionSecretName b) @
                   '' not found. Ensure the secret exists before the DatastoreBinding is reconciled.'' @
                   '' See docs/architecture.md for the recommended secrets provisioning model.'')
            | Some secret \<Rightarrow> inject_and_settle L K b workload secret)))
      (\<lambda>_. held_state L req b) h"
    apply (rule wp_find [OF binding_workload_reads lasting_binding_held h])
      apply assumption
     apply (simp only: option.case, rule wp_held_unbound [OF ok], assumption)
    apply (simp only: option.case)
    apply (rule wp_find [OF binding_secret_reads lasting_binding_held])
       apply assumption
      apply assumption
     apply (simp only: option.case, rule wp_held_unbound [OF ok], assumption)
    using engine by (auto intro!: wp_held_inject [OF ok])
qed

text \<open>The deletion: the variables first, the finalizer last.\<close>

lemma wp_binding_release:
  assumes fin: "finalizers_ok L" and h: "leaving_state L req b h" and clean: "env_cleared L b h"
  shows "wp (checked (update_DatastoreBinding K (binding_finalizers
      (l_RemoveFinalizer L (mFinalizers (dbMeta b)) datastoreBindingFinalizer) b))
    (\<lambda>_. State_Monad.return (Inr ()))) (\<lambda>_. leaving_state L req b) h"
  unfolding update_DatastoreBinding_def
proof (intro wp_intros conjI allI impI)
  fix r
  have "l_RemoveFinalizer L (mFinalizers (dbMeta b)) datastoreBindingFinalizer =
      filter (\<lambda>f. f \<noteq> datastoreBindingFinalizer) (mFinalizers (dbMeta b))"
    using fin by (simp add: finalizers_ok_def)
  then have "binding_write_ok L req h (UpdatedDatastoreBinding (binding_finalizers
      (l_RemoveFinalizer L (mFinalizers (dbMeta b)) datastoreBindingFinalizer) b) r)"
    using h clean unfolding in_state_def binding_leaving_def by auto
  from leaving_state_step [OF h this]
  show "leaving_state L req b (h @ [UpdatedDatastoreBinding (binding_finalizers
      (l_RemoveFinalizer L (mFinalizers (dbMeta b)) datastoreBindingFinalizer) b) r])"
    "leaving_state L req b (h @ [UpdatedDatastoreBinding (binding_finalizers
      (l_RemoveFinalizer L (mFinalizers (dbMeta b)) datastoreBindingFinalizer) b) r])"
    by -
qed

lemma wp_clear_env:
  assumes h: "leaving_state L req b h" and w: "GotWorkload (binding_workload_key b) (Inr w) \<in> set h"
  shows "wp (clear_env L K b (Some w))
    (\<lambda>r h. leaving_state L req b h \<and> (r = Inr () \<longrightarrow> env_cleared L b h)) h"
  unfolding clear_env_def option.case
proof (rule wp_find [OF binding_deployment_reads lasting_binding_leaving h])
  fix h' e
  assume "leaving_state L req b h'" and "set h \<subseteq> set h'" and "is_not_found e"
    and "GotDeployment (key_of (wlMeta w)) (Inl e) \<in> set h'"
  then show "wp (case None of None \<Rightarrow> State_Monad.return (Inr ()) | Some deployment \<Rightarrow>
        if l_IsControlledBy L (dMeta deployment) (wlMeta w)
        then create_or_update_Deployment K deployment (mutateRemove b)
        else State_Monad.return (Inr ()))
      (\<lambda>r h. leaving_state L req b h \<and> (r = Inr () \<longrightarrow> env_cleared L b h)) h'"
    using w by (auto intro!: wp_return simp: env_cleared_def)
next
  fix d h'
  assume h': "leaving_state L req b h'" and sub: "set h \<subseteq> set h'"
    and d: "GotDeployment (key_of (wlMeta w)) (Inr d) \<in> set h'"
  have w': "GotWorkload (binding_workload_key b) (Inr w) \<in> set h'" using w sub by auto
  have "wp (create_or_update_Deployment K d (mutateRemove b))
      (\<lambda>r h. leaving_state L req b h \<and> (r = Inr () \<longrightarrow> env_cleared L b h)) h'"
    if ctl: "l_IsControlledBy L (dMeta d) (wlMeta w)"
    unfolding create_or_update_Deployment_def
  proof (rule wp_call, intro conjI impI)
    fix a :: "error + unit"
    have "binding_write_ok L req h' (AppliedDeployment d (mutateRemove b) a)"
      using h' d ctl w' by (auto simp: in_state_def own_deployment_def)
    then show "leaving_state L req b (h' @ [AppliedDeployment d (mutateRemove b) a])"
      by (rule leaving_state_step [OF h'])
    assume "a = Inr ()"
    then show "env_cleared L b (h' @ [AppliedDeployment d (mutateRemove b) a])"
      using w' d unfolding env_cleared_def by auto
  qed
  moreover have "env_cleared L b h'" if "\<not> l_IsControlledBy L (dMeta d) (wlMeta w)"
    using that w' d unfolding env_cleared_def by auto
  ultimately show "wp (case Some d of None \<Rightarrow> State_Monad.return (Inr ()) | Some deployment \<Rightarrow>
        if l_IsControlledBy L (dMeta deployment) (wlMeta w)
        then create_or_update_Deployment K deployment (mutateRemove b)
        else State_Monad.return (Inr ()))
      (\<lambda>r h. leaving_state L req b h \<and> (r = Inr () \<longrightarrow> env_cleared L b h)) h'"
    using h' by (auto intro!: wp_return)
qed simp

lemma wp_binding_delete:
  assumes fin: "finalizers_ok L" and h: "leaving_state L req b h"
  shows "wp (reconcileBindingDelete L K b) (\<lambda>_. leaving_state L req b) h"
  unfolding reconcileBindingDelete_def
proof (intro wp_if wp_return h, rule wp_find [OF binding_workload_reads lasting_binding_leaving h])
  fix e h'
  assume h': "leaving_state L req b h'" and "GotWorkload (binding_workload_key b) (Inl e) \<in> set h'"
    and "is_not_found e"
  then have clean: "env_cleared L b h'" by (auto simp: env_cleared_def)
  show "wp (checked (clear_env L K b None) (\<lambda>_. checked (update_DatastoreBinding K
      (binding_finalizers (l_RemoveFinalizer L (mFinalizers (dbMeta b)) datastoreBindingFinalizer) b))
      (\<lambda>_. State_Monad.return (Inr ())))) (\<lambda>_. leaving_state L req b) h'"
    unfolding clear_env_def option.case
    by (rule wp_checked, intro wp_return conjI allI impI)
       (auto intro!: wp_binding_release [OF fin h' clean])
next
  fix w h'
  assume h': "leaving_state L req b h'" and w: "GotWorkload (binding_workload_key b) (Inr w) \<in> set h'"
  show "wp (checked (clear_env L K b (Some w)) (\<lambda>_. checked (update_DatastoreBinding K
      (binding_finalizers (l_RemoveFinalizer L (mFinalizers (dbMeta b)) datastoreBindingFinalizer) b))
      (\<lambda>_. State_Monad.return (Inr ())))) (\<lambda>_. leaving_state L req b) h'"
    by (rule wp_checked, rule wp_mono [OF wp_clear_env [OF h' w]]) (auto intro!: wp_binding_release [OF fin])
qed

lemma wp_binding_writes:
  assumes ok: "conditions_ok L" "equality_ok L" and fin: "finalizers_ok L"
  shows "wp (DatastoreBinding_Reconcile L K req) (\<lambda>r h. admissible (binding_write_ok L req) [] h) []"
  unfolding DatastoreBinding_Reconcile_def get_DatastoreBinding_def
proof (intro wp_bind wp_call wp_sum wp_if wp_return)
  fix r :: "error + DatastoreBinding"
  show "admissible (binding_write_ok L req) [] ([] @ [GotDatastoreBinding req r])" by simp
  fix b assume r: "r = Inr b"
  let ?h = "[] @ [GotDatastoreBinding req r]"
  show "wp (checked (reconcileBindingDelete L K b) (\<lambda>_. State_Monad.return (Inr no_requeue)))
      (\<lambda>r h. admissible (binding_write_ok L req) [] h) ?h" if "binding_deleting L b"
  proof -
    have "leaving_state L req b ?h" using that r by (simp add: in_state_def binding_leaving_def)
    from wp_mono [OF wp_binding_delete [OF fin this]] show ?thesis
      by (rule wp_checked) (auto intro!: wp_return simp: in_state_def)
  qed
  show "wp (let (added, finalizers) = l_AddFinalizer L (mFinalizers (dbMeta b)) datastoreBindingFinalizer;
                b = binding_finalizers finalizers b
            in checked (if added then update_DatastoreBinding K b else State_Monad.return (Inr b))
                 (\<lambda>b. bind_datastore L K b))
      (\<lambda>r h. admissible (binding_write_ok L req) [] h) ?h" if alive: "\<not> binding_deleting L b"
  proof (cases "datastoreBindingFinalizer \<in> set (mFinalizers (dbMeta b))")
    case True
    then have "l_AddFinalizer L (mFinalizers (dbMeta b)) datastoreBindingFinalizer =
        (False, mFinalizers (dbMeta b))"
      using fin by (simp add: finalizers_ok_def)
    moreover have "held_state L req b ?h"
      using True alive r by (simp add: in_state_def binding_held_def)
    ultimately show ?thesis
      using wp_held_bind [OF ok, of req b ?h K]
      by (auto simp: checked_def in_state_def elim: wp_mono)
  next
    case False
    let ?x = "binding_finalizers (mFinalizers (dbMeta b) @ [datastoreBindingFinalizer]) b"
    from False have add: "l_AddFinalizer L (mFinalizers (dbMeta b)) datastoreBindingFinalizer =
        (True, mFinalizers (dbMeta b) @ [datastoreBindingFinalizer])"
      using fin by (simp add: finalizers_ok_def)
    have first: "binding_write_ok L req ?h (UpdatedDatastoreBinding ?x a)" for a
      using False alive r by simp
    have "wp (bind_datastore L K b') (\<lambda>r h. admissible (binding_write_ok L req) [] h)
        (?h @ [UpdatedDatastoreBinding ?x (Inr b')])" for b'
    proof -
      have "held_state L req b' (?h @ [UpdatedDatastoreBinding ?x (Inr b')])"
        using alive r first [of "Inr b'"] by (auto simp: in_state_def binding_held_def)
      from wp_held_bind [OF ok this] show ?thesis
        by (rule wp_mono) (simp add: in_state_def)
    qed
    then have "wp (checked (call (k_UpdateDatastoreBinding K ?x) (UpdatedDatastoreBinding ?x))
        (\<lambda>b. bind_datastore L K b)) (\<lambda>r h. admissible (binding_write_ok L req) [] h) ?h"
      using first by (intro wp_checked wp_call) simp
    then show ?thesis
      unfolding add update_DatastoreBinding_def prod.case Let_def if_True .
  qed
qed

section \<open>What it decides\<close>

definition bindable ::
  "lib \<Rightarrow> snapshot \<Rightarrow> DatastoreBinding \<Rightarrow> Secret \<Rightarrow> Deployment \<Rightarrow> bool" where
  "bindable L V b s d \<longleftrightarrow>
     dbEngine (dbSpec b) \<in> set acceptedEngines \<and>
     s_Secret V (binding_secret_key b) = Some s \<and>
     (\<exists>w. s_Workload V (binding_workload_key b) = Some w \<and>
        s_Deployment V (key_of (wlMeta w)) = Some d \<and>
        l_IsControlledBy L (dMeta d) (wlMeta w))"

text \<open>What each reason says of the binding and the cluster.\<close>

definition binding_explains :: "lib \<Rightarrow> snapshot \<Rightarrow> DatastoreBinding \<Rightarrow> string \<Rightarrow> bool" where
  "binding_explains L V b reason \<longleftrightarrow>
     (let workload = s_Workload V (binding_workload_key b)
      in reason = ''UnsupportedEngine'' \<and> dbEngine (dbSpec b) \<notin> set acceptedEngines \<or>
         reason = ''WorkloadNotFound'' \<and> workload = None \<or>
         reason = ''ConnectionSecretNotFound'' \<and> s_Secret V (binding_secret_key b) = None \<or>
         reason = ''DeploymentNotFound'' \<and>
           (\<exists>w. workload = Some w \<and> s_Deployment V (key_of (wlMeta w)) = None) \<or>
         reason = ''DeploymentOwnershipConflict'' \<and>
           (\<exists>w d. workload = Some w \<and> s_Deployment V (key_of (wlMeta w)) = Some d \<and>
              \<not> l_IsControlledBy L (dMeta d) (wlMeta w)))"

lemma binding_workload_answers:
  assumes K: "answers_from K view"
  shows "answers_so view (DatastoreBinding_resolveWorkload K b) V
    (\<lambda>w. w = s_Workload V (binding_workload_key b))"
  unfolding DatastoreBinding_resolveWorkload_def Let_def binding_workload_key_def
  by (rule answers_soI, intro wpv_intros K) auto

lemma binding_secret_answers:
  assumes K: "answers_from K view"
  shows "answers_so view (resolveConnectionSecret K b) V (\<lambda>s. s = s_Secret V (binding_secret_key b))"
  unfolding resolveConnectionSecret_def Let_def binding_secret_key_def
  by (rule answers_soI, intro wpv_intros K) auto

lemma binding_deployment_answers:
  assumes K: "answers_from K view"
  shows "answers_so view (resolveDeployment K w) V (\<lambda>d. d = s_Deployment V (key_of (wlMeta w)))"
  unfolding resolveDeployment_def
  by (rule answers_soI, intro wpv_intros K) auto

definition binding_waits ::
  "lib \<Rightarrow> snapshot \<Rightarrow> DatastoreBinding \<Rightarrow> error + Result \<Rightarrow> event list \<Rightarrow> bool" where
  "binding_waits L V b r h \<longleftrightarrow>
     (\<exists>reason message. binding_explains L V b reason \<and>
        (writes h = [] \<and> shows_unbound b message \<and> r = Inr (requeue_after_seconds 30) \<or>
         (\<exists>ts s. writes h = [StatusDatastoreBinding (unbound_binding b reason message ts) s] \<and>
            r = (case s of Inl e \<Rightarrow> Inl e | Inr _ \<Rightarrow> Inr (requeue_after_seconds 30)))))"

definition binding_injects ::
  "DatastoreBinding \<Rightarrow> Secret \<Rightarrow> Deployment \<Rightarrow> error + Result \<Rightarrow> event list \<Rightarrow> bool" where
  "binding_injects b secret d r h \<longleftrightarrow>
     (\<exists>s es. writes h = AppliedDeployment d (mutateInject b secret) s # es \<and>
        (case s of Inl e \<Rightarrow> es = [] \<and> r = Inl e
         | Inr _ \<Rightarrow>
             es = [] \<and> r = Inr no_requeue \<and> bound_binding b [] = b \<or>
             (\<exists>ts t. es = [StatusDatastoreBinding (bound_binding b ts) t] \<and>
                r = (case t of Inl e \<Rightarrow> Inl e | Inr _ \<Rightarrow> Inr no_requeue))))"

definition binding_decided ::
  "lib \<Rightarrow> snapshot \<Rightarrow> DatastoreBinding \<Rightarrow> error + Result \<Rightarrow> event list \<Rightarrow> bool" where
  "binding_decided L V b r h \<longleftrightarrow>
     (if \<exists>s d. bindable L V b s d
      then \<exists>s d. bindable L V b s d \<and> binding_injects b s d r h
      else binding_waits L V b r h)"

lemma wpv_binding_waits:
  assumes "conditions_ok L" and "equality_ok L" and h: "writes h = []"
    and not: "\<not> (\<exists>s d. bindable L V b s d)" and ex: "binding_explains L V b reason"
    and Q: "\<And>r V' h'. binding_decided L V b r h' \<Longrightarrow> Q r V' h'"
  shows "wpv view (DatastoreBinding_reconcileDegraded L K b reason message) Q V h"
proof -
  have Q': "Q r V' h'" if "binding_waits L V b r h'" for r V' h'
    using that not by (intro Q) (simp add: binding_decided_def)
  show ?thesis
    unfolding DatastoreBinding_reconcileDegraded_def
  proof (rule wpv_wp, rule wp_checked, rule wp_unbound_status [OF assms(1,2)])
    show "(\<forall>e. (Inr () :: error + unit) = Inl e \<longrightarrow> (\<forall>V'. Q (Inl e) V' h)) \<and>
        (\<forall>x. (Inr () :: error + unit) = Inr x \<longrightarrow>
          wp (State_Monad.return (Inr (requeue_after_seconds 30))) (\<lambda>a h'. \<forall>V'. Q a V' h') h)"
      if "shows_unbound b message"
      using that h ex by (auto intro!: wp_return Q' simp: binding_waits_def)
  next
    fix ts r
    show "(\<forall>e. r = Inl e \<longrightarrow> (\<forall>V'. Q (Inl e) V' (h @ [StatusDatastoreBinding (unbound_binding b reason message ts) r]))) \<and>
        (\<forall>x. r = Inr x \<longrightarrow> wp (State_Monad.return (Inr (requeue_after_seconds 30))) (\<lambda>a h'. \<forall>V'. Q a V' h')
          (h @ [StatusDatastoreBinding (unbound_binding b reason message ts) r]))"
      using h ex by (auto intro!: wp_return Q' simp: binding_waits_def) blast+
  qed
qed

lemma wpv_binding_injects:
  assumes ok: "conditions_ok L" "equality_ok L" and h: "writes h = []"
    and Q: "\<And>r V' h'. binding_injects b secret d r h' \<Longrightarrow> Q r V' h'"
  shows "wpv view (checked (injectEnvVars K b d secret) (\<lambda>_.
      checked (setReadyStatus L K b) (\<lambda>_. State_Monad.return (Inr no_requeue)))) Q V h"
  unfolding injectEnvVars_def create_or_update_Deployment_def
proof (rule wpv_wp, rule wp_checked, rule wp_call, intro conjI allI impI)
  fix s :: "error + unit" and x V'
  let ?p = "AppliedDeployment d (mutateInject b secret) s"
  show "Q (Inl e) V' (h @ [?p])" if "s = Inl e" for e
    using that h by (intro Q) (auto simp: binding_injects_def)
  assume s: "s = Inr x"
  show "wp (checked (setReadyStatus L K b) (\<lambda>_. State_Monad.return (Inr no_requeue)))
      (\<lambda>a h'. \<forall>V'. Q a V' h') (h @ [?p])"
  proof (rule wp_checked, rule wp_bound_status [OF ok])
    fix ts assume "bound_binding b ts = b"
    then have "bound_binding b [] = b" by (rule bound_any_time)
    then show "(\<forall>e. (Inr () :: error + unit) = Inl e \<longrightarrow> (\<forall>V'. Q (Inl e) V' (h @ [?p]))) \<and>
        (\<forall>x. (Inr () :: error + unit) = Inr x \<longrightarrow>
          wp (State_Monad.return (Inr no_requeue)) (\<lambda>a h'. \<forall>V'. Q a V' h') (h @ [?p]))"
      using h s by (auto intro!: wp_return Q simp: binding_injects_def)
  next
    fix ts t
    let ?h = "(h @ [?p]) @ [StatusDatastoreBinding (bound_binding b ts) t]"
    show "(\<forall>e. t = Inl e \<longrightarrow> (\<forall>V'. Q (Inl e) V' ?h)) \<and>
        (\<forall>x. t = Inr x \<longrightarrow> wp (State_Monad.return (Inr no_requeue)) (\<lambda>a h'. \<forall>V'. Q a V' h') ?h)"
      using h s by (auto intro!: wp_return Q simp: binding_injects_def)
  qed
qed

text \<open>A part that answers what the snapshot has, found or not.\<close>

lemma wpv_find:
  assumes m: "answers_so view m V (\<lambda>x. x = stored)" and h: "writes h = []"
    and gone: "\<And>h'. writes h' = [] \<Longrightarrow> stored = None \<Longrightarrow> wpv view (f None) Q V h'"
    and found: "\<And>x h'. writes h' = [] \<Longrightarrow> stored = Some x \<Longrightarrow> wpv view (f (Some x)) Q V h'"
  shows "wpv view (checked m f) Q V h"
proof (rule wpv_checked, rule wpv_answers [OF m], intro conjI allI impI)
  fix a h' x
  assume "reads_after h h'" and "a = stored" and "(Inr a :: error + 'c option) = Inr x"
  then show "wpv view (f x) Q V h'"
    using gone [of h'] found [of h'] h by (cases x) (auto simp: reads_after_writes)
qed auto

lemma wpv_inject_and_settle:
  assumes ok: "conditions_ok L" "equality_ok L" and K: "answers_from K view"
    and engine: "dbEngine (dbSpec b) \<in> set acceptedEngines"
    and w: "s_Workload V (binding_workload_key b) = Some w"
    and s: "s_Secret V (binding_secret_key b) = Some s" and h: "writes h = []"
    and Q: "\<And>r V' h'. binding_decided L V b r h' \<Longrightarrow> Q r V' h'"
  shows "wpv view (inject_and_settle L K b w s) Q V h"
proof -
  have held: "wpv view (DatastoreBinding_reconcileDegraded L K b reason message) Q V h'"
    if "writes h' = []" "\<not> (\<exists>s d. bindable L V b s d)" "binding_explains L V b reason"
    for h' reason message
    using that by (intro wpv_binding_waits [OF ok] Q) simp_all
  show ?thesis
    unfolding inject_and_settle_def
  proof (rule wpv_find [OF binding_deployment_answers [OF K] h], simp_all only: option.case)
    fix h' message
    assume "writes h' = []" and "s_Deployment V (key_of (wlMeta w)) = None"
    then show "wpv view (DatastoreBinding_reconcileDegraded L K b ''DeploymentNotFound'' message) Q V h'"
      using w by (intro held) (auto simp: bindable_def binding_explains_def)
  next
    fix d h' message
    assume h': "writes h' = []" and d: "s_Deployment V (key_of (wlMeta w)) = Some d"
    have inject: "wpv view (checked (injectEnvVars K b d s) (\<lambda>_.
        checked (setReadyStatus L K b) (\<lambda>_. State_Monad.return (Inr no_requeue)))) Q V h'"
      if "l_IsControlledBy L (dMeta d) (wlMeta w)"
    proof (rule wpv_binding_injects [OF ok h'])
      have "bindable L V b s d" using that d w s engine by (auto simp: bindable_def)
      then show "Q r V' h'" if "binding_injects b s d r h'" for r V' h'
        using that by (intro Q) (auto simp: binding_decided_def)
    qed
    show "wpv view
       (if \<not> l_IsControlledBy L (dMeta d) (wlMeta w)
        then DatastoreBinding_reconcileDegraded L K b ''DeploymentOwnershipConflict'' message
        else checked (injectEnvVars K b d s) (\<lambda>_. checked (setReadyStatus L K b)
            (\<lambda>_. State_Monad.return (Inr no_requeue)))) Q V h'"
      using d w h' inject by (intro wpv_if held) (auto simp: bindable_def binding_explains_def)
  qed
qed

lemma wpv_bind_datastore:
  assumes ok: "conditions_ok L" "equality_ok L" and K: "answers_from K view" and h: "writes h = []"
    and Q: "\<And>r V' h'. binding_decided L V b r h' \<Longrightarrow> Q r V' h'"
  shows "wpv view (bind_datastore L K b) Q V h"
proof -
  have held: "wpv view (DatastoreBinding_reconcileDegraded L K b reason message) Q V h'"
    if "writes h' = []" "\<not> (\<exists>s d. bindable L V b s d)" "binding_explains L V b reason"
    for h' reason message
    using that by (intro wpv_binding_waits [OF ok] Q) simp_all
  show ?thesis
  proof (cases "dbEngine (dbSpec b) \<in> set acceptedEngines")
    case False
    then have "acceptedEngine (dbEngine (dbSpec b)) = False"
      by (simp add: acceptedEngine_def engine_among_iff)
    then show ?thesis
      unfolding bind_datastore_def
      using False h held [of h "''UnsupportedEngine''"]
      by (simp add: bindable_def binding_explains_def del: append.simps append_assoc)
  next
    case True
    then have engine: "acceptedEngine (dbEngine (dbSpec b)) = True"
      by (simp add: acceptedEngine_def engine_among_iff)
    show ?thesis
      unfolding bind_datastore_def engine not_True_eq_False if_False
    proof (rule wpv_find [OF binding_workload_answers [OF K] h], simp_all only: option.case)
      fix h' message
      assume "writes h' = []" and "s_Workload V (binding_workload_key b) = None"
      then show "wpv view (DatastoreBinding_reconcileDegraded L K b ''WorkloadNotFound'' message) Q V h'"
        by (intro held) (auto simp: bindable_def binding_explains_def)
    next
      fix w h' message
      assume h': "writes h' = []" and w: "s_Workload V (binding_workload_key b) = Some w"
      show "wpv view (checked (resolveConnectionSecret K b) (\<lambda>secret. case secret of
           None \<Rightarrow> DatastoreBinding_reconcileDegraded L K b ''ConnectionSecretNotFound'' message
         | Some secret \<Rightarrow> inject_and_settle L K b w secret)) Q V h'"
      proof (rule wpv_find [OF binding_secret_answers [OF K] h'], simp_all only: option.case)
        fix h'' assume "writes h'' = []" and "s_Secret V (binding_secret_key b) = None"
        then show "wpv view (DatastoreBinding_reconcileDegraded L K b ''ConnectionSecretNotFound'' message) Q V h''"
          using w by (intro held) (auto simp: bindable_def binding_explains_def)
      next
        fix s h'' assume "writes h'' = []" and "s_Secret V (binding_secret_key b) = Some s"
        then show "wpv view (inject_and_settle L K b w s) Q V h''"
          by (intro wpv_inject_and_settle ok K True w Q)
      qed
    qed
  qed
qed

lemma wpv_binding_decides:
  assumes ok: "conditions_ok L" "equality_ok L" and fin: "finalizers_ok L"
    and K: "answers_from K view"
    and b: "s_DatastoreBinding V req = Some b" and alive: "\<not> binding_deleting L b"
    and held: "datastoreBindingFinalizer \<in> set (mFinalizers (dbMeta b))"
  shows "wpv view (DatastoreBinding_Reconcile L K req) (\<lambda>r V' h. binding_decided L V b r h) V []"
proof -
  have add: "l_AddFinalizer L (mFinalizers (dbMeta b)) datastoreBindingFinalizer =
      (False, mFinalizers (dbMeta b))"
    using fin held by (simp add: finalizers_ok_def)
  have bind: "wpv view (bind_datastore L K b) (\<lambda>r V' h. binding_decided L V b r h) V
      [GotDatastoreBinding req (Inr b)]"
    by (intro wpv_bind_datastore ok K) simp_all
  show ?thesis
    unfolding DatastoreBinding_Reconcile_def
    by (rule wpv_bind, rule wpv_get_DatastoreBinding [OF K])
       (use b alive add bind in \<open>auto simp: checked_def\<close>)
qed

section \<open>Deletion\<close>

text \<open>The Deployment that the deletion of a binding cleans.\<close>

definition deployment_to_clean :: "lib \<Rightarrow> snapshot \<Rightarrow> DatastoreBinding \<Rightarrow> Deployment option" where
  "deployment_to_clean L V b =
     (case s_Workload V (binding_workload_key b) of
        None \<Rightarrow> None
      | Some w \<Rightarrow>
          (case s_Deployment V (key_of (wlMeta w)) of
             None \<Rightarrow> None
           | Some d \<Rightarrow> if l_IsControlledBy L (dMeta d) (wlMeta w) then Some d else None))"

definition binding_released :: "DatastoreBinding \<Rightarrow> error + unit \<Rightarrow> event list \<Rightarrow> bool" where
  "binding_released b r es \<longleftrightarrow>
     (\<exists>u. es = [UpdatedDatastoreBinding (binding_finalizers
          (filter (\<lambda>f. f \<noteq> datastoreBindingFinalizer) (mFinalizers (dbMeta b))) b) u] \<and>
        r = (case u of Inl e \<Rightarrow> Inl e | Inr _ \<Rightarrow> Inr ()))"

definition binding_left ::
  "lib \<Rightarrow> snapshot \<Rightarrow> DatastoreBinding \<Rightarrow> error + unit \<Rightarrow> event list \<Rightarrow> bool" where
  "binding_left L V b r es \<longleftrightarrow>
     (if datastoreBindingFinalizer \<notin> set (mFinalizers (dbMeta b)) then es = [] \<and> r = Inr ()
      else case deployment_to_clean L V b of
        None \<Rightarrow> binding_released b r es
      | Some d \<Rightarrow>
          (\<exists>p rest. es = AppliedDeployment d (mutateRemove b) p # rest \<and>
             (case p of Inl e \<Rightarrow> rest = [] \<and> r = Inl e | Inr _ \<Rightarrow> binding_released b r rest)))"

definition env_removal ::
  "lib \<Rightarrow> snapshot \<Rightarrow> DatastoreBinding \<Rightarrow> error + unit \<Rightarrow> event list \<Rightarrow> bool" where
  "env_removal L V b r es \<longleftrightarrow>
     (case deployment_to_clean L V b of
        None \<Rightarrow> r = Inr () \<and> es = []
      | Some d \<Rightarrow> es = [AppliedDeployment d (mutateRemove b) r])"

lemma wpv_clear_env:
  assumes K: "answers_from K view" and h: "writes h = []"
    and Q: "\<And>r V' h'. env_removal L V b r (writes h') \<Longrightarrow> Q r V' h'"
  shows "wpv view (clear_env L K b (s_Workload V (binding_workload_key b))) Q V h"
proof (cases "s_Workload V (binding_workload_key b)")
  case None
  then show ?thesis
    using h unfolding clear_env_def
    by (auto intro!: wpv_return Q simp: env_removal_def deployment_to_clean_def)
next
  case (Some w)
  show ?thesis
    unfolding Some clear_env_def option.case
  proof (rule wpv_find [OF binding_deployment_answers [OF K] h], simp_all only: option.case)
    fix h' assume "writes h' = []" and "s_Deployment V (key_of (wlMeta w)) = None"
    then show "wpv view (State_Monad.return (Inr ())) Q V h'"
      using Some by (intro wpv_return Q) (simp add: env_removal_def deployment_to_clean_def)
  next
    fix d h' assume h': "writes h' = []" and d: "s_Deployment V (key_of (wlMeta w)) = Some d"
    show "wpv view (if l_IsControlledBy L (dMeta d) (wlMeta w)
        then create_or_update_Deployment K d (mutateRemove b) else State_Monad.return (Inr ())) Q V h'"
      unfolding create_or_update_Deployment_def
      using Some d h'
      by (intro wpv_if wpv_wp [OF wp_call] wpv_return Q allI)
         (auto simp: env_removal_def deployment_to_clean_def)
  qed
qed

lemma wpv_binding_left:
  assumes fin: "finalizers_ok L" and K: "answers_from K view" and h: "writes h = []"
    and Q: "\<And>r V' h'. binding_left L V b r (writes h') \<Longrightarrow> Q r V' h'"
  shows "wpv view (reconcileBindingDelete L K b) Q V h"
proof (cases "datastoreBindingFinalizer \<in> set (mFinalizers (dbMeta b))")
  case False
  then show ?thesis
    using fin h unfolding reconcileBindingDelete_def
    by (auto intro!: wpv_return Q simp: binding_left_def finalizers_ok_def)
next
  case has: True
  have fs: "l_RemoveFinalizer L (mFinalizers (dbMeta b)) datastoreBindingFinalizer =
      filter (\<lambda>f. f \<noteq> datastoreBindingFinalizer) (mFinalizers (dbMeta b))"
    using fin by (simp add: finalizers_ok_def)
  have left: "binding_left L V b r (es @ [UpdatedDatastoreBinding (binding_finalizers
      (l_RemoveFinalizer L (mFinalizers (dbMeta b)) datastoreBindingFinalizer) b) u])"
    if "env_removal L V b (Inr ()) es" "r = (case u of Inl e \<Rightarrow> Inl e | Inr _ \<Rightarrow> Inr ())" for r u es
    using that has unfolding fs
    by (cases "deployment_to_clean L V b") (auto simp: binding_left_def env_removal_def binding_released_def)
  have release: "wpv view (checked (update_DatastoreBinding K (binding_finalizers
          (l_RemoveFinalizer L (mFinalizers (dbMeta b)) datastoreBindingFinalizer) b))
        (\<lambda>_. State_Monad.return (Inr ()))) Q V' h'"
    if "env_removal L V b (Inr ()) (writes h')" for V' h'
    unfolding update_DatastoreBinding_def
    by (rule wpv_wp, intro wp_intros allI conjI impI Q) (simp_all add: left [OF that])
  have failed: "Q (Inl e) V' h'" if "env_removal L V b (Inl e) (writes h')" for e V' h'
    using that has by (intro Q) (auto simp: binding_left_def env_removal_def split: option.splits)
  have "\<not> \<not> l_ContainsFinalizer L (mFinalizers (dbMeta b)) datastoreBindingFinalizer"
    using fin has by (simp add: finalizers_ok_def)
  then show ?thesis
    unfolding reconcileBindingDelete_def
  proof (simp only: if_False simp_thms)
    show "wpv view (checked (DatastoreBinding_resolveWorkload K b) (\<lambda>workload.
        checked (clear_env L K b workload) (\<lambda>_. checked (update_DatastoreBinding K (binding_finalizers
            (l_RemoveFinalizer L (mFinalizers (dbMeta b)) datastoreBindingFinalizer) b))
          (\<lambda>_. State_Monad.return (Inr ()))))) Q V h"
    proof (rule wpv_checked, rule wpv_answers [OF binding_workload_answers [OF K]], intro conjI allI impI)
      fix h' a x
      assume h': "reads_after h h'" and a: "a = s_Workload V (binding_workload_key b)"
        and x: "(Inr a :: error + Workload option) = Inr x"
      have h'': "writes h' = []" using h' h by (simp add: reads_after_writes)
      have x: "x = s_Workload V (binding_workload_key b)" using a x by simp
      show "wpv view (checked (clear_env L K b x) (\<lambda>_. checked (update_DatastoreBinding K (binding_finalizers
            (l_RemoveFinalizer L (mFinalizers (dbMeta b)) datastoreBindingFinalizer) b))
          (\<lambda>_. State_Monad.return (Inr ())))) Q V h'"
        unfolding x by (rule wpv_checked, rule wpv_clear_env [OF K h'']) (auto intro: release failed)
    qed auto
  qed
qed

lemma wpv_binding_deletes:
  assumes fin: "finalizers_ok L" and K: "answers_from K view"
    and b: "s_DatastoreBinding V req = Some b" and gone: "binding_deleting L b"
  shows "wpv view (DatastoreBinding_Reconcile L K req)
    (\<lambda>r V' h. \<exists>r'. binding_left L V b r' (writes h) \<and>
       r = (case r' of Inl e \<Rightarrow> Inl e | Inr _ \<Rightarrow> Inr no_requeue)) V []"
proof -
  have left: "wpv view (checked (reconcileBindingDelete L K b)
      (\<lambda>_. State_Monad.return (Inr no_requeue)))
    (\<lambda>r V' h. \<exists>r'. binding_left L V b r' (writes h) \<and>
       r = (case r' of Inl e \<Rightarrow> Inl e | Inr _ \<Rightarrow> Inr no_requeue)) V
    [GotDatastoreBinding req (Inr b)]"
  proof (rule wpv_checked, rule wpv_binding_left [OF fin K], simp, intro conjI allI impI wpv_return)
    fix r :: "error + unit" and h' assume left: "binding_left L V b r (writes h')"
    show "\<exists>r'. binding_left L V b r' (writes h') \<and>
        Inl e = (case r' of Inl e \<Rightarrow> Inl e | Inr _ \<Rightarrow> Inr no_requeue)" if "r = Inl e" for e
      using that left by (intro exI [of _ r]) simp
    show "\<exists>r'. binding_left L V b r' (writes h') \<and>
        Inr no_requeue = (case r' of Inl e \<Rightarrow> Inl e | Inr _ \<Rightarrow> Inr no_requeue)" if "r = Inr x" for x
      using that left by (intro exI [of _ r]) simp
  qed
  show ?thesis
    unfolding DatastoreBinding_Reconcile_def
    by (rule wpv_bind, rule wpv_get_DatastoreBinding [OF K]) (use b gone left in auto)
qed

section \<open>What the status says\<close>

definition coherent_binding :: "DatastoreBinding \<Rightarrow> bool" where
  "coherent_binding b \<longleftrightarrow>
     (let status = dbStatus b; cs = dbsConditions status
      in dbsObservedGeneration status = mGeneration (dbMeta b) \<and>
         (case find_condition ''Ready'' cs of
            None \<Rightarrow> False
          | Some ready \<Rightarrow>
              cnStatus ready = ConditionTrue \<and> find_condition ''Degraded'' cs = None \<or>
              cnStatus ready = ConditionFalse \<and> cnMessage ready = dbsMessage status \<and>
                (\<exists>d. find_condition ''Degraded'' cs = Some d \<and> cnStatus d = ConditionTrue \<and>
                   cnReason d = cnReason ready \<and> cnMessage d = cnMessage ready)) \<and>
         (find_condition fieldsNotEnforcedCondition cs \<noteq> None \<longleftrightarrow>
            dbConflictPolicy (dbSpec b) \<noteq> ''''))"

lemma find_settled_fields:
  "find_condition fieldsNotEnforcedCondition (settle_conditions drops puts generation names ts xs) = None
     \<longleftrightarrow> names = []"
  by (simp add: settle_conditions_def find_put_fields_reserved)

lemma binding_fields: "datastoreBindingFieldsNotEnforced spec = [] \<longleftrightarrow> dbConflictPolicy spec = ''''"
  by (simp add: datastoreBindingFieldsNotEnforced_def)

lemma bound_coherent: "coherent_binding (bound_binding b ts)"
proof -
  let ?cs = "settle_conditions [''Degraded''] [bound_condition b] (mGeneration (dbMeta b))
      (datastoreBindingFieldsNotEnforced (dbSpec b)) ts (dbsConditions (dbStatus b))"
  have "shows_condition (bound_condition b) ?cs"
    using settle_shows [OF bound_types] by simp
  moreover have "find_condition ''Degraded'' ?cs = None"
    by (subst settle_find_other) (simp_all add: fieldsNotEnforcedCondition_def bound_condition_def)
  moreover have "find_condition fieldsNotEnforcedCondition ?cs \<noteq> None \<longleftrightarrow>
      dbConflictPolicy (dbSpec b) \<noteq> ''''"
    by (simp add: find_settled_fields binding_fields del: not_None_eq)
  ultimately show ?thesis
    by (auto simp: coherent_binding_def bound_binding_def shows_condition_def bound_condition_def
        split: option.splits)
qed

lemma unbound_coherent: "coherent_binding (unbound_binding b reason message ts)"
proof -
  let ?cs = "settle_conditions [] (unbound_conditions b reason message) (mGeneration (dbMeta b))
      (datastoreBindingFieldsNotEnforced (dbSpec b)) ts (dbsConditions (dbStatus b))"
  have "\<forall>c \<in> set (unbound_conditions b reason message). shows_condition c ?cs"
    using settle_shows [OF unbound_types] by blast
  moreover have "find_condition fieldsNotEnforcedCondition ?cs \<noteq> None \<longleftrightarrow>
      dbConflictPolicy (dbSpec b) \<noteq> ''''"
    by (simp add: find_settled_fields binding_fields del: not_None_eq)
  ultimately show ?thesis
    by (auto simp: coherent_binding_def unbound_binding_def shows_condition_def
        unbound_conditions_def split: option.splits)
qed

end
