(* ===== verification/DatastoreBinding_Properties.thy ===== *)
theory DatastoreBinding_Properties
  imports DatastoreBinding_Facts Reference
begin

text \<open>The properties of the controller of DatastoreBindings, with their witnesses.\<close>

section \<open>A sample cluster\<close>

definition main_binding :: DatastoreBinding where
  "main_binding = binding_finalizers [datastoreBindingFinalizer] (sample_binding ''main'')"

definition creds :: Secret where
  "creds = \<lparr>secMeta = sample_meta ''demo'' ''creds'', secData = [''url'' \<mapsto> ''x'']\<rparr>"

definition bound_store :: store where
  "bound_store = empty_store\<lparr>st_Workloads := [sample_workload], st_Deployments := [sample_deployment],
     st_Secrets := [creds], st_DatastoreBindings := [main_binding]\<rparr>"

abbreviation binding_key :: ObjectKey where
  "binding_key \<equiv> object_key ''demo'' ''main''"

lemma bound_snapshot:
  "s_DatastoreBinding (store_snapshot bound_store) binding_key = Some main_binding"
  "s_Workload (store_snapshot bound_store) (object_key ''demo'' ''echo'') = Some sample_workload"
  "s_Deployment (store_snapshot bound_store) (object_key ''demo'' ''echo'') = Some sample_deployment"
  "s_Secret (store_snapshot bound_store) (object_key ''demo'' ''creds'') = Some creds"
  by (simp_all add: store_snapshot_def bound_store_def empty_store_def lookup_def
      main_binding_def creds_def sample_defs)

lemma main_keys:
  "binding_workload_key main_binding = object_key ''demo'' ''echo''"
  "binding_secret_key main_binding = object_key ''demo'' ''creds''"
  "key_of (wlMeta sample_workload) = object_key ''demo'' ''echo''"
  "\<not> binding_deleting ref_lib main_binding"
  "datastoreBindingFinalizer \<in> set (mFinalizers (dbMeta main_binding))"
  by (simp_all add: binding_workload_key_def binding_secret_key_def main_binding_def sample_defs)

lemma main_owned: "ref_IsControlledBy (dMeta sample_deployment) (wlMeta sample_workload)"
  by (simp add: ref_IsControlledBy_def ref_controller_def sample_defs)

lemma main_bindable:
  "bindable ref_lib (store_snapshot bound_store) main_binding s d \<longleftrightarrow> s = creds \<and> d = sample_deployment"
proof -
  have "dbEngine (dbSpec main_binding) \<in> set acceptedEngines"
    by (simp add: main_binding_def sample_binding_def acceptedEngines_def)
  then show ?thesis
    by (auto simp: bindable_def main_keys bound_snapshot main_owned)
qed

section \<open>What the controller writes\<close>

text \<open>C4: whatever the API server answers, the controller of DatastoreBindings makes only these
  writes: first the finalizer, when it is missing; the environment of a Deployment that was read
  as the one of the binding's Workload and is controlled by it, injected only for an accepted
  engine and with a Secret that was found; the status of the binding, \<open>Ready\<close> only after the
  injection was stored. A binding that is being deleted loses its finalizer only when the
  Workload or its Deployment is gone, the Deployment is not the Workload's, or the variables
  were removed from it.\<close>

theorem binding_writes_safe:
  assumes "conditions_ok L" and "equality_ok L" and "finalizers_ok L"
  shows "in_every_run (DatastoreBinding_Reconcile L K req)
    (\<lambda>r es. admissible (binding_write_ok L req) [] es)"
  by (rule in_every_run_wp, rule wp_binding_writes [OF assms])

theorem binding_writes_safe_witness:
  "in_every_run (DatastoreBinding_Reconcile ref_lib ref_kube binding_key)
    (\<lambda>r es. admissible (binding_write_ok ref_lib binding_key) [] es)"
  by (rule binding_writes_safe) simp_all

text \<open>C6: on a server that answers from one state of the cluster, a binding with its finalizer is
  injected exactly when its engine is accepted, its Workload and its Secret exist, and the
  Workload's Deployment exists and is the Workload's. The injection is the first write, and after
  it comes the \<open>Ready\<close> status unless it is there already. Otherwise at most a status that says
  degraded is written, with a reason that is true of the binding and the cluster, and the
  reconciliation is repeated after 30 seconds unless that write failed.\<close>

theorem binding_decision:
  assumes "conditions_ok L" and "equality_ok L" and "finalizers_ok L" and "answers_from K view"
    and "s_DatastoreBinding (view st) req = Some b"
    and "l_IsZero L (mDeletionTimestamp (dbMeta b))"
    and "datastoreBindingFinalizer \<in> set (mFinalizers (dbMeta b))"
  shows "case run (DatastoreBinding_Reconcile L K req) st of (r, es, _) \<Rightarrow>
    if \<exists>s d. bindable L (view st) b s d
    then \<exists>s d. bindable L (view st) b s d \<and> binding_injects b s d r es
    else binding_waits L (view st) b r es"
proof -
  have "\<not> binding_deleting L b" using assms(6) by simp
  from wpv_run [OF wpv_binding_decides [OF assms(1-5) this assms(7)]]
  show ?thesis unfolding binding_decided_def .
qed

theorem binding_decision_witness:
  "case run (DatastoreBinding_Reconcile ref_lib ref_kube binding_key) bound_store of
     (r, es, _) \<Rightarrow> binding_injects main_binding creds sample_deployment r es"
  using binding_decision [of ref_lib ref_kube store_snapshot bound_store binding_key main_binding]
    main_keys(4,5)
  by (simp add: bound_snapshot main_bindable)

text \<open>C22: on such a server, a binding that is being deleted is released: without the finalizer
  nothing is written; otherwise its variables are removed from the Workload's own Deployment, if
  there is one, and then the finalizer, unless the removal failed.\<close>

theorem binding_deletion:
  assumes "finalizers_ok L" and "answers_from K view"
    and "s_DatastoreBinding (view st) req = Some b"
    and "\<not> l_IsZero L (mDeletionTimestamp (dbMeta b))"
  shows "case run (DatastoreBinding_Reconcile L K req) st of (r, es, _) \<Rightarrow>
    \<exists>r'. binding_left L (view st) b r' (writes es) \<and>
      r = (case r' of Inl e \<Rightarrow> Inl e | Inr _ \<Rightarrow> Inr no_requeue)"
  using wpv_run [OF wpv_binding_deletes [OF assms]] .

definition leaving_binding :: DatastoreBinding where
  "leaving_binding = main_binding\<lparr>dbMeta := (dbMeta main_binding)\<lparr>mDeletionTimestamp := Some 900\<rparr>\<rparr>"

definition unbound_store :: store where
  "unbound_store = bound_store\<lparr>st_DatastoreBindings := [leaving_binding]\<rparr>"

theorem binding_deletion_witness:
  "case run (DatastoreBinding_Reconcile ref_lib ref_kube binding_key) unbound_store of
     (r, es, _) \<Rightarrow> \<exists>r'. binding_left ref_lib (store_snapshot unbound_store) leaving_binding r' (writes es) \<and>
       r = (case r' of Inl e \<Rightarrow> Inl e | Inr _ \<Rightarrow> Inr no_requeue)"
  by (rule binding_deletion [where view = store_snapshot])
     (simp_all, simp_all add: store_snapshot_def unbound_store_def lookup_def leaving_binding_def
       main_binding_def sample_defs)

section \<open>The status\<close>

text \<open>C24: every status the controller writes is coherent: the observed generation is that of the
  object; either \<open>Ready\<close> is True and no condition \<open>Degraded\<close> is left, or \<open>Ready\<close> is False and
  \<open>Degraded\<close> True with one reason and with the status' message; and the fields that are not
  enforced are reported exactly when the spec sets one.\<close>

theorem binding_status_coherent:
  assumes "conditions_ok L" and "equality_ok L" and "finalizers_ok L"
  shows "in_every_run (DatastoreBinding_Reconcile L K req)
    (\<lambda>r es. \<forall>x s. StatusDatastoreBinding x s \<in> set es \<longrightarrow> coherent_binding x)"
proof (rule in_every_run_wp, rule wp_mono [OF wp_binding_writes [OF assms]], intro allI impI)
  fix r es x s
  assume "admissible (binding_write_ok L req) [] es" and "StatusDatastoreBinding x s \<in> set es"
  then obtain before where "binding_write_ok L req before (StatusDatastoreBinding x s)"
    by (auto dest: admissible_mem)
  then show "coherent_binding x"
    by (auto simp: bound_coherent unbound_coherent)
qed

theorem binding_status_coherent_witness:
  "in_every_run (DatastoreBinding_Reconcile ref_lib ref_kube binding_key)
    (\<lambda>r es. \<forall>x s. StatusDatastoreBinding x s \<in> set es \<longrightarrow> coherent_binding x)"
  by (rule binding_status_coherent) simp_all

text \<open>The controller does not trigger itself by a \<open>Ready\<close> status. Once it is written, writing
  the status of that object again makes no call, at whatever time.\<close>

lemma binding_ready_quiet:
  assumes "conditions_ok L" and "equality_ok L"
  shows "in_every_run (setReadyStatus L K (bound_binding b ts)) (\<lambda>r es. r = Inr () \<and> es = [])"
  by (rule bound.silent_when_settled [OF assms]) (rule bound_again)

end
