(* ===== verification/Error_Flow.thy ===== *)
theory Error_Flow
  imports Read_Logic
begin

text \<open>
  How the controllers treat the errors of the calls they make: a call that answers not-found may
  be taken as an answer, any other error ends the reconciliation with that error. The rules of
  this theory prove it along the structure of a handler.
\<close>

section \<open>The error of a call\<close>

primrec failure :: "error + 'a \<Rightarrow> error option" where
  "failure (Inl e) = Some e"
| "failure (Inr x) = None"

primrec event_error :: "event \<Rightarrow> error option" where
  "event_error (GotClusterMember k r) = failure r"
| "event_error (GotFederation k r) = failure r"
| "event_error (GotWorkload k r) = failure r"
| "event_error (GotServiceEndpoint k r) = failure r"
| "event_error (GotDatastoreBinding k r) = failure r"
| "event_error (GotDeployment k r) = failure r"
| "event_error (GotService k r) = failure r"
| "event_error (GotSecret k r) = failure r"
| "event_error (GotConfigMap k r) = failure r"
| "event_error (ListedClusterMembers sel r) = failure r"
| "event_error (ListedFederations r) = failure r"
| "event_error (UpdatedServiceEndpoint x r) = failure r"
| "event_error (UpdatedDatastoreBinding x r) = failure r"
| "event_error (StatusClusterMember x r) = failure r"
| "event_error (StatusFederation x r) = failure r"
| "event_error (StatusWorkload x r) = failure r"
| "event_error (StatusServiceEndpoint x r) = failure r"
| "event_error (StatusDatastoreBinding x r) = failure r"
| "event_error (AppliedDeployment x f r) = failure r"
| "event_error (AppliedService x f r) = failure r"
| "event_error (PatchedService x y r) = failure r"
| "event_error (DeletedService x r) = failure r"

text \<open>Every failure in the trace is of the kind not-found.\<close>

definition tolerated :: "event list \<Rightarrow> bool" where
  "tolerated es \<longleftrightarrow> (\<forall>ev \<in> set es. \<forall>e. event_error ev = Some e \<longrightarrow> is_not_found e)"

text \<open>
  The result is an error exactly when the last call failed with it, and then every call before
  it succeeded or was answered not-found.
\<close>

definition stops_with :: "error + 'a \<Rightarrow> event list \<Rightarrow> bool" where
  "stops_with r es \<longleftrightarrow>
     (case r of
        Inl e \<Rightarrow> \<exists>before ev. es = before @ [ev] \<and> tolerated before \<and> event_error ev = Some e
      | Inr _ \<Rightarrow> tolerated es)"

lemma tolerated_simps [simp]:
  "tolerated []" "tolerated (es @ es') \<longleftrightarrow> tolerated es \<and> tolerated es'"
  "tolerated [ev] \<longleftrightarrow> (\<forall>e. event_error ev = Some e \<longrightarrow> is_not_found e)"
  by (auto simp: tolerated_def)

lemma stops_with_simps [simp]:
  "stops_with (Inr x) es \<longleftrightarrow> tolerated es"
  "stops_with (Inl e) (es @ [ev]) \<longleftrightarrow> tolerated es \<and> event_error ev = Some e"
  by (auto simp: stops_with_def)

lemma stops_with_Inl: "stops_with (Inl e :: error + 'a) es \<Longrightarrow> stops_with (Inl e :: error + 'b) es"
  by (simp add: stops_with_def)

section \<open>Handlers that do so\<close>

definition faithful :: "('w, error + 'a) io \<Rightarrow> bool" where
  "faithful m \<longleftrightarrow> (\<forall>h. tolerated h \<longrightarrow> wp m stops_with h)"

named_theorems faithful_intros \<open>rules for handlers that stop at the first failure\<close>

lemma faithful_run: "faithful m \<Longrightarrow> in_every_run m stops_with"
  unfolding faithful_def by (rule in_every_run_wp) simp

lemma faithful_return [faithful_intros]: "faithful (State_Monad.return (Inr x))"
  by (simp add: faithful_def wp_return)

lemma faithful_checked [faithful_intros]:
  "faithful m \<Longrightarrow> (\<And>x. faithful (f x)) \<Longrightarrow> faithful (checked m f)"
  unfolding faithful_def
proof (intro allI impI)
  fix h
  assume m: "\<forall>h. tolerated h \<longrightarrow> wp m stops_with h" and f: "\<And>x. \<forall>h. tolerated h \<longrightarrow> wp (f x) stops_with h"
    and h: "tolerated h"
  have "wp m stops_with h" using m h by blast
  from wp_mono [OF this] show "wp (checked m f) stops_with h"
    by (rule wp_checked) (auto intro: stops_with_Inl simp: f)
qed

definition reports :: "(error + 'a \<Rightarrow> event) \<Rightarrow> bool" where
  "reports ev \<longleftrightarrow> (\<forall>r. event_error (ev r) = failure r)"

lemma faithful_call [faithful_intros]: "reports ev \<Longrightarrow> faithful (call f ev)"
proof -
  assume ev: "reports ev"
  have "stops_with a (h @ [ev a])" if "tolerated h" for a h
    using that ev by (cases a) (auto simp: reports_def)
  then show ?thesis by (simp add: faithful_def wp_call)
qed

text \<open>A call whose not-found answer is used, and whose other errors are returned.\<close>

lemma faithful_tolerant [faithful_intros]:
  assumes "reports ev" and "\<And>x. faithful (g (Inr x))"
    and "\<And>e. is_not_found e \<Longrightarrow> faithful (g (Inl e))"
    and "\<And>e. \<not> is_not_found e \<Longrightarrow> g (Inl e) = State_Monad.return (Inl e)"
  shows "faithful (State_Monad.bind (call f ev) g)"
  unfolding faithful_def
proof (intro allI impI wp_bind wp_call)
  fix h a assume h: "tolerated h"
  show "wp (g a) stops_with (h @ [ev a])"
  proof (cases a)
    case (Inr x)
    then have "tolerated (h @ [ev a])" using h assms(1) by (simp add: reports_def)
    then show ?thesis using assms(2) by (simp add: Inr faithful_def)
  next
    case (Inl e)
    show ?thesis
    proof (cases "is_not_found e")
      case True
      then have "tolerated (h @ [ev a])" using h assms(1) Inl by (simp add: reports_def)
      then show ?thesis using assms(3) [OF True] by (simp add: Inl faithful_def)
    next
      case False
      have "stops_with (Inl e) (h @ [ev a])" using h assms(1) Inl by (simp add: reports_def)
      then show ?thesis using assms(4) [OF False] Inl by (simp add: wp_return)
    qed
  qed
qed

lemma faithful_clock [faithful_intros]:
  "(\<And>t. faithful (f t)) \<Longrightarrow> faithful (State_Monad.bind (clock K) f)"
  unfolding faithful_def by (intro allI impI wp_bind wp_clock) blast

lemma faithful_if [faithful_intros]:
  "(b \<Longrightarrow> faithful m) \<Longrightarrow> (\<not> b \<Longrightarrow> faithful n) \<Longrightarrow> faithful (if b then m else n)"
  by simp

lemma faithful_option [faithful_intros]:
  "(r = None \<Longrightarrow> faithful m) \<Longrightarrow> (\<And>x. r = Some x \<Longrightarrow> faithful (f x)) \<Longrightarrow>
     faithful (case r of None \<Rightarrow> m | Some x \<Rightarrow> f x)"
  by (cases r) auto

lemma faithful_sum [faithful_intros]:
  "(\<And>e. r = Inl e \<Longrightarrow> faithful (f e)) \<Longrightarrow> (\<And>x. r = Inr x \<Longrightarrow> faithful (g x)) \<Longrightarrow>
     faithful (case r of Inl e \<Rightarrow> f e | Inr x \<Rightarrow> g x)"
  by (cases r) auto

lemma faithful_prod [faithful_intros]:
  "(\<And>a b. r = (a, b) \<Longrightarrow> faithful (f a b)) \<Longrightarrow> faithful (case r of (a, b) \<Rightarrow> f a b)"
  by (cases r) auto

lemma faithful_Let [faithful_intros]: "faithful (f a) \<Longrightarrow> faithful (let x = a in f x)"
  by simp

lemma reports_events [faithful_intros]:
  "reports (GotClusterMember k)" "reports (GotFederation k)" "reports (GotWorkload k)"
  "reports (GotServiceEndpoint k)" "reports (GotDatastoreBinding k)" "reports (GotDeployment k)"
  "reports (GotService k)" "reports (GotSecret k)" "reports (GotConfigMap k)"
  "reports (ListedClusterMembers sel)" "reports ListedFederations"
  "reports (UpdatedServiceEndpoint se)" "reports (UpdatedDatastoreBinding b)"
  "reports (StatusClusterMember m)" "reports (StatusFederation fed)" "reports (StatusWorkload w)"
  "reports (StatusServiceEndpoint se)" "reports (StatusDatastoreBinding b)"
  "reports (AppliedDeployment d fd)" "reports (AppliedService s fs)"
  "reports (PatchedService s s')" "reports (DeletedService s)"
  by (simp_all add: reports_def)

end
