(* ===== verification/Error_Properties.thy ===== *)
theory Error_Properties
  imports Error_Flow ClusterMember_Controller Workload_Controller ServiceEndpoint_Controller
    DatastoreBinding_Controller
begin

text \<open>
  The error behaviour of the controllers, with its witnesses: each part of a handler is shown to
  stop at the first failure that is not of the kind not-found, and to end with that failure.
\<close>

section \<open>The parts of the handlers\<close>

lemma faithful_member: "faithful (ClusterMember_Reconcile L K req)"
  unfolding ClusterMember_Reconcile_def ClusterMember_reconcileStatus_def client_defs
  by (intro faithful_intros) (simp_all add: faithful_return)

lemma faithful_endpoint_reads:
  "faithful (ServiceEndpoint_resolveWorkload K se)" "faithful (resolveService K w)"
  unfolding ServiceEndpoint_resolveWorkload_def resolveService_def client_defs
  by (intro faithful_intros; simp add: faithful_return)+

lemma faithful_primary: "faithful (validatePrimaryMember L K se w)"
  unfolding validatePrimaryMember_def client_defs
  by (intro faithful_intros) (simp_all add: faithful_return)

lemma faithful_endpoint_status:
  "faithful (ServiceEndpoint_reconcileStatus L K se)"
  "faithful (ServiceEndpoint_reconcileDegraded L K se reason message)"
  unfolding ServiceEndpoint_reconcileStatus_def ServiceEndpoint_reconcileDegraded_def
    writeDegradedStatus_def client_defs
  by (intro faithful_intros)+

lemma faithful_route: "faithful (route_service L K n se w)" "faithful (route_workload L K n se)"
  unfolding route_workload_def route_service_def applyAnnotations_def patch_Service_def
  by (intro faithful_intros faithful_endpoint_reads faithful_primary faithful_endpoint_status)+

lemma faithful_clear_annotations: "faithful (clear_annotations L K w)"
  unfolding clear_annotations_def patch_Service_def
  by (intro faithful_intros faithful_endpoint_reads) (simp_all add: faithful_return)

lemma faithful_endpoint: "faithful (ServiceEndpoint_Reconcile L K n req)"
  unfolding ServiceEndpoint_Reconcile_def ServiceEndpoint_reconcileDelete_def
    get_ServiceEndpoint_def update_ServiceEndpoint_def
  by (intro faithful_intros faithful_endpoint_reads faithful_clear_annotations faithful_route)
     (simp_all add: faithful_return)

lemma faithful_binding_reads:
  "faithful (DatastoreBinding_resolveWorkload K b)" "faithful (resolveConnectionSecret K b)"
  "faithful (resolveDeployment K w)"
  unfolding DatastoreBinding_resolveWorkload_def resolveConnectionSecret_def resolveDeployment_def
    client_defs
  by (intro faithful_intros; simp add: faithful_return)+

lemma faithful_binding_status:
  "faithful (setReadyStatus L K b)" "faithful (DatastoreBinding_reconcileDegraded L K b reason message)"
  unfolding setReadyStatus_def DatastoreBinding_reconcileDegraded_def setDegradedStatus_def client_defs
  by (intro faithful_intros)+

lemma faithful_bind: "faithful (bind_datastore L K b)"
  unfolding bind_datastore_def inject_and_settle_def injectEnvVars_def create_or_update_Deployment_def
  by (intro faithful_intros faithful_binding_reads faithful_binding_status)

lemma faithful_binding: "faithful (DatastoreBinding_Reconcile L K req)"
  unfolding DatastoreBinding_Reconcile_def reconcileBindingDelete_def clear_env_def
    get_DatastoreBinding_def update_DatastoreBinding_def create_or_update_Deployment_def
  by (intro faithful_intros faithful_binding_reads faithful_bind) (simp_all add: faithful_return)

lemma faithful_member_gate: "faithful (isFederationMember L K n w)"
  unfolding isFederationMember_def client_defs
  by (intro faithful_intros) (simp_all add: faithful_return)

lemma faithful_target_gate: "faithful (isTargetPolicyMatch L K n w)"
  unfolding isTargetPolicyMatch_def client_defs
  by (intro faithful_intros) (simp_all add: faithful_return)

lemma faithful_or_else: "faithful m \<Longrightarrow> faithful n \<Longrightarrow> faithful (or_else m n)"
  unfolding or_else_def by (intro faithful_intros)

lemma faithful_pull_secrets: "faithful (check_pull_secrets K w names)"
proof (induction names)
  case (Cons name names)
  then show ?case
    unfolding check_pull_secrets.simps get_Secret_def
    by (intro faithful_intros) (simp_all add: faithful_return)
qed (simp add: faithful_return)

lemma faithful_check_source:
  "faithful (check_config_map K w ref)" "faithful (check_secret K w ref)"
  unfolding check_config_map_def check_secret_def client_defs
  by (intro faithful_intros; simp add: faithful_return)+

lemma faithful_env_from: "faithful (check_env_from K w sources)"
  by (induction sources) (simp_all add: faithful_return faithful_or_else faithful_check_source)

lemma faithful_dependencies: "faithful (dependencyPreflight K w)"
  unfolding dependencyPreflight_def
  by (intro faithful_or_else faithful_pull_secrets faithful_env_from)

lemma faithful_ownership: "faithful (ownershipPreflight L K w)"
  unfolding ownershipPreflight_def client_defs
  by (intro faithful_or_else faithful_intros) (simp_all add: faithful_return)

lemma faithful_workload_held:
  "faithful (Workload_reconcileDegraded L K n w d)" "faithful (Workload_reconcilePending L K n w reason message)"
  unfolding Workload_reconcileDegraded_def Workload_reconcilePending_def reconcileDegradedStatus_def
    reconcilePendingStatus_def client_defs
  by (intro faithful_intros)+

lemma faithful_apply: "faithful (apply_workload L K n w)"
  unfolding apply_workload_def reconcileDeployment_def reconcileService_def
    Workload_reconcileStatus_def writeAppliedStatus_def client_defs
  by (intro faithful_intros) (simp_all add: faithful_return)

lemma faithful_preflight: "faithful (preflight_and_apply L K n w)"
  unfolding preflight_and_apply_def
  by (intro faithful_intros faithful_dependencies faithful_ownership faithful_workload_held faithful_apply)

lemma faithful_workload: "faithful (Workload_Reconcile L K n req)"
  unfolding Workload_Reconcile_def gates_def get_Workload_def
  by (intro faithful_intros faithful_member_gate faithful_target_gate faithful_workload_held
      faithful_preflight) (simp_all add: faithful_return)

section \<open>The properties\<close>

text \<open>C12: the Workload's controller swallows no error and invents none. If its result is an error,
  that is the error of its last call, and every call that failed before was answered not-found,
  which the controller takes as an answer; if it is not an error, every call that failed was
  answered not-found.\<close>

theorem workload_errors:
  "in_every_run (Workload_Reconcile L K n req) stops_with"
  by (rule faithful_run [OF faithful_workload])

text \<open>C13: so do the controllers of ServiceEndpoints, DatastoreBindings and ClusterMembers, in
  reconciliation and in deletion: no failed call is passed over but those that were answered
  not-found.\<close>

theorem controller_errors:
  "in_every_run (ServiceEndpoint_Reconcile L K n req) stops_with \<and>
   in_every_run (DatastoreBinding_Reconcile L K req) stops_with \<and>
   in_every_run (ClusterMember_Reconcile L K req) stops_with"
  by (intro conjI faithful_run faithful_endpoint faithful_binding faithful_member)

end
