(* ===== verification/Shared_Deployment.thy ===== *)
theory Shared_Deployment
  imports Workload_Render DatastoreBinding_Controller
begin

text \<open>
  The Deployment that the controllers of a Workload and of its DatastoreBindings share: the
  Workload's controller renders it, each binding's controller injects its variables and removes
  them. Each write is a read, a mutation and an update that the API server rejects when the
  object changed in between, so the writes of the controllers happen one after the other.
\<close>

section \<open>Deployments as rendered\<close>

text \<open>The Deployment is as the Workload's controller renders it.\<close>

definition rendered_as :: "lib \<Rightarrow> Workload \<Rightarrow> Deployment \<Rightarrow> bool" where
  "rendered_as L w d \<longleftrightarrow>
     l_SetControllerReference L (wlMeta w) (dMeta d) = Inr (dMeta d) \<and>
     mLabels (dMeta d) = workloadLabels w \<and> dReplicas d = wReplicas (wlSpec w) \<and>
     dSelector d = metav1LabelSelector (workloadLabels w) \<and>
     dTemplateLabels d = workloadLabels w \<and>
     dServiceAccountName d = wServiceAccountName (wlSpec w) \<and>
     dImagePullSecrets d = wImagePullSecrets (wlSpec w) \<and>
     dContainers d = [\<lparr>cName = ''app'', cImage = wImage (wlSpec w),
       cPorts = containerPorts (wPorts (wlSpec w)), cEnv = rendered_env w d,
       cEnvFrom = envFromSources (wEnvFrom (wlSpec w))\<rparr>]"

lemma rendered_container: "rendered_as L w d \<Longrightarrow> container_env d = rendered_env w d"
  by (simp add: rendered_as_def container_env_def)

text \<open>Rendering sets these fields and the owner.\<close>

lemma mutateDeployment_eq:
  "l_SetControllerReference L (wlMeta w) (dMeta d) = Inr m \<Longrightarrow> mAnnotations m = mAnnotations (dMeta d) \<Longrightarrow>
     mutateDeployment L w d =
       Inr \<lparr>dMeta = m\<lparr>mLabels := workloadLabels w\<rparr>, dReplicas = wReplicas (wlSpec w),
         dSelector = metav1LabelSelector (workloadLabels w), dTemplateLabels = workloadLabels w,
         dServiceAccountName = wServiceAccountName (wlSpec w),
         dImagePullSecrets = wImagePullSecrets (wlSpec w),
         dContainers = [\<lparr>cName = ''app'', cImage = wImage (wlSpec w),
           cPorts = containerPorts (wPorts (wlSpec w)), cEnv = rendered_env w d,
           cEnvFrom = envFromSources (wEnvFrom (wlSpec w))\<rparr>], dConditions = dConditions d\<rparr>"
  by (cases d) (auto simp: mutateDeployment_def Let_def rendered_env_def container_env_def
      datastoreManagedEnvVars_def split: list.splits)

lemma rendered_fixed: "rendered_as L w d \<Longrightarrow> mutateDeployment L w d = Inr d"
proof -
  assume r: "rendered_as L w d"
  then have "(dMeta d)\<lparr>mLabels := workloadLabels w\<rparr> = dMeta d"
    by (intro ObjectMeta.equality) (simp_all add: rendered_as_def)
  moreover have "mutateDeployment L w d =
      Inr \<lparr>dMeta = (dMeta d)\<lparr>mLabels := workloadLabels w\<rparr>, dReplicas = wReplicas (wlSpec w),
         dSelector = metav1LabelSelector (workloadLabels w), dTemplateLabels = workloadLabels w,
         dServiceAccountName = wServiceAccountName (wlSpec w),
         dImagePullSecrets = wImagePullSecrets (wlSpec w),
         dContainers = [\<lparr>cName = ''app'', cImage = wImage (wlSpec w),
           cPorts = containerPorts (wPorts (wlSpec w)), cEnv = rendered_env w d,
           cEnvFrom = envFromSources (wEnvFrom (wlSpec w))\<rparr>], dConditions = dConditions d\<rparr>"
    by (rule mutateDeployment_eq) (use r in \<open>simp_all add: rendered_as_def\<close>)
  ultimately show ?thesis
    using r by (cases d) (simp add: rendered_as_def)
qed

lemma mutate_rendered:
  assumes ok: "owners_ok L" and d': "mutateDeployment L w d = Inr d'"
  shows "rendered_as L w d'"
proof -
  obtain meta where set: "l_SetControllerReference L (wlMeta w) (dMeta d) = Inr meta"
    and meta: "meta = (dMeta d)\<lparr>mOwnerReferences := mOwnerReferences meta\<rparr>"
    and eq: "d' = \<lparr>dMeta = meta\<lparr>mLabels := workloadLabels w\<rparr>,
       dReplicas = wReplicas (wlSpec w), dSelector = metav1LabelSelector (workloadLabels w),
       dTemplateLabels = workloadLabels w, dServiceAccountName = wServiceAccountName (wlSpec w),
       dImagePullSecrets = wImagePullSecrets (wlSpec w),
       dContainers = [\<lparr>cName = ''app'', cImage = wImage (wlSpec w),
         cPorts = containerPorts (wPorts (wlSpec w)), cEnv = rendered_env w d,
         cEnvFrom = envFromSources (wEnvFrom (wlSpec w))\<rparr>], dConditions = dConditions d\<rparr>"
    by (rule mutateDeployment_cases [OF ok d'])
  have "\<And>m m' labels annotations. l_SetControllerReference L (wlMeta w) m = Inr m' \<Longrightarrow>
      l_SetControllerReference L (wlMeta w) (m\<lparr>mLabels := labels, mAnnotations := annotations\<rparr>) =
        Inr (m'\<lparr>mLabels := labels, mAnnotations := annotations\<rparr>)"
    and again: "l_SetControllerReference L (wlMeta w) meta = Inr meta"
    using ok set unfolding owners_ok_def by blast+
  from this(1) [OF again, where labels = "workloadLabels w" and annotations = "mAnnotations meta"]
  have labelled: "l_SetControllerReference L (wlMeta w) (dMeta d') = Inr (dMeta d')"
    by (simp add: eq)
  have "mAnnotations meta = mAnnotations (dMeta d)"
    using meta by (rule annotations_of_controlled)
  then have "rendered_env w d' = rendered_env w d"
    by (intro rendered_twice) (simp_all add: eq container_env_def datastoreManagedEnvVars_def)
  then show ?thesis
    using labelled by (simp add: rendered_as_def eq)
qed

text \<open>The two mutate functions of a binding, as total functions.\<close>

definition injected :: "DatastoreBinding \<Rightarrow> Secret \<Rightarrow> Deployment \<Rightarrow> Deployment" where
  "injected b s d =
     updateDatastoreManagedEnvVars
       (d\<lparr>dContainers := update_app_env (\<lambda>env. mergeEnvVars env (envVarsToInject b s)) (dContainers d)\<rparr>)
       (datastoreManagedEnvNames b) []"

definition removed :: "DatastoreBinding \<Rightarrow> Deployment \<Rightarrow> Deployment" where
  "removed b d =
     updateDatastoreManagedEnvVars
       (d\<lparr>dContainers := update_app_env (\<lambda>env. removeEnvVars env (set (datastoreManagedEnvNames b))) (dContainers d)\<rparr>)
       [] (datastoreManagedEnvNames b)"

lemma mutate_binding [simp]:
  "mutateInject b s d = Inr (injected b s d)" "mutateRemove b d = Inr (removed b d)"
  by (simp_all add: mutateInject_def injected_def mutateRemove_def removed_def Let_def namesToBoolMap_def)

lemma managed_containers [simp]:
  "datastoreManagedEnvVars (d\<lparr>dContainers := cs\<rparr>) = datastoreManagedEnvVars d"
  by (simp add: datastoreManagedEnvVars_def)

lemma managed_injected:
  "dns_name (mName (dbMeta b)) \<Longrightarrow>
     datastoreManagedEnvVars (injected b s d) =
       datastoreManagedEnvVars d \<union> set (datastoreManagedEnvNames b)"
  by (simp add: injected_def managed_update managed_names_annotation)

lemma managed_removed:
  "datastoreManagedEnvVars (removed b d) = datastoreManagedEnvVars d - set (datastoreManagedEnvNames b)"
  by (simp add: removed_def managed_update)

lemma app_env_injected:
  "app_env (injected b s d) = map_option (\<lambda>env. mergeEnvVars env (envVarsToInject b s)) (app_env d)"
  by (simp add: app_env_def injected_def find_update_app option.map_comp comp_def)

lemma app_env_removed:
  "app_env (removed b d) = map_option (\<lambda>env. removeEnvVars env (set (datastoreManagedEnvNames b))) (app_env d)"
  by (simp add: app_env_def removed_def find_update_app option.map_comp comp_def)

text \<open>Both change only the environment of the container \<open>app\<close> and the annotations.\<close>

lemma only_env_changes:
  "(injected b s d)\<lparr>dContainers := dContainers d, dMeta := dMeta d\<rparr> = d"
  "(removed b d)\<lparr>dContainers := dContainers d, dMeta := dMeta d\<rparr> = d"
  by (simp_all add: injected_def removed_def update_annotate)

text \<open>
  What is left of a Deployment when the environment of its container \<open>app\<close> and the record of the
  managed names are put aside: the other annotations, the metadata but the annotations, the
  containers before and after the first one of that name, and that one without its environment.
\<close>

definition other_annotations :: "Deployment \<Rightarrow> strmap" where
  "other_annotations d =
     (case mAnnotations (dMeta d) of None \<Rightarrow> Map.empty | Some a \<Rightarrow> a)
       (datastoreManagedEnvVarsAnnotation := None)"

definition unmanaged_parts ::
  "Deployment \<Rightarrow> Deployment \<times> Container list \<times> Container list \<times> Container list \<times> strmap" where
  "unmanaged_parts d =
     (d\<lparr>dContainers := [], dMeta := (dMeta d)\<lparr>mAnnotations := None\<rparr>\<rparr>,
      takeWhile (\<lambda>c. cName c \<noteq> ''app'') (dContainers d),
      map (\<lambda>c. c\<lparr>cEnv := []\<rparr>) (dContainers d),
      tl (dropWhile (\<lambda>c. cName c \<noteq> ''app'') (dContainers d)),
      other_annotations d)"

lemma update_app_frame:
  "takeWhile (\<lambda>c. cName c \<noteq> ''app'') (update_app_env f cs) = takeWhile (\<lambda>c. cName c \<noteq> ''app'') cs"
  "tl (dropWhile (\<lambda>c. cName c \<noteq> ''app'') (update_app_env f cs)) =
     tl (dropWhile (\<lambda>c. cName c \<noteq> ''app'') cs)"
  by (induction cs) auto

lemma unmanaged_kept:
  "unmanaged_parts (injected b s d) = unmanaged_parts d"
  "unmanaged_parts (removed b d) = unmanaged_parts d"
  by (simp_all add: unmanaged_parts_def other_annotations_def injected_def removed_def update_annotate
      update_app_frame update_app_others annotate_def split: option.split)

lemma injected_twice:
  assumes "dns_name (mName (dbMeta b))"
  shows "injected b s (injected b s d) = injected b s d"
proof -
  let ?names = "datastoreManagedEnvNames b" and ?vs = "envVarsToInject b s"
  let ?f = "\<lambda>env. mergeEnvVars env ?vs"
  have names: "list_all annotation_name ?names" by (rule managed_names_annotation [OF assms])
  have cs: "update_app_env ?f (update_app_env ?f (dContainers d)) = update_app_env ?f (dContainers d)"
    unfolding update_app_compose
    by (rule update_app_cong) (rule mergeEnvVars_idem [OF distinct_to_inject])
  let ?d = "d\<lparr>dContainers := update_app_env ?f (dContainers d)\<rparr>"
  have "(updateDatastoreManagedEnvVars ?d ?names [])
      \<lparr>dContainers := update_app_env ?f (dContainers (updateDatastoreManagedEnvVars ?d ?names []))\<rparr> =
    updateDatastoreManagedEnvVars ?d ?names []"
    using cs by (simp add: update_annotate)
  then show ?thesis
    using annotation.update_twice [OF names, of ?d] by (simp add: injected_def)
qed

text \<open>
  The environment that is rendered over a Deployment, as a merge of preserved variables into
  those of the spec.
\<close>

lemma rendered_env_merge:
  "rendered_env w d = mergeEnvVars (envVars (wEnv (wlSpec w)))
     (filter (\<lambda>v. eName v \<in> datastoreManagedEnvVars d) (container_env d))"
  by (cases "datastoreManagedEnvVars d = {}")
     (simp_all add: rendered_env_def preserveDatastoreManagedEnvVars_def)

text \<open>An injection into a rendered Deployment leaves it as rendered: the controllers converge.\<close>

lemma injected_rendered:
  assumes ok: "owners_ok L" and r: "rendered_as L w d" and b: "dns_name (mName (dbMeta b))"
  shows "rendered_as L w (injected b s d)"
proof -
  let ?d = "injected b s d" and ?vs = "envVarsToInject b s" and ?M = "datastoreManagedEnvVars d"
  let ?spec = "envVars (wEnv (wlSpec w))"
  let ?us = "filter (\<lambda>v. eName v \<in> ?M) (container_env d)"
  have cs: "dContainers ?d = [(hd (dContainers d))\<lparr>cEnv := mergeEnvVars (rendered_env w d) ?vs\<rparr>]"
    using r by (simp add: rendered_as_def injected_def)
  then have env: "container_env ?d = mergeEnvVars (container_env d) ?vs"
    using rendered_container [OF r] by (simp add: container_env_def)
  have M: "datastoreManagedEnvVars ?d = ?M \<union> set (datastoreManagedEnvNames b)"
    by (rule managed_injected [OF b])
  have "container_env d = mergeEnvVars ?spec ?us"
    using rendered_container [OF r] by (simp only: rendered_env_merge [of w d])
  then have merged: "container_env ?d = mergeEnvVars ?spec (mergeEnvVars ?us ?vs)"
    unfolding env by (metis merge_assoc)
  have "env_names (mergeEnvVars ?us ?vs) \<subseteq> datastoreManagedEnvVars ?d"
    unfolding names_merge M env_names_to_inject by auto
  then have "rendered_env w ?d = container_env ?d"
    unfolding rendered_env_merge merged by (rule merge_preserved_stable)
  moreover have "l_SetControllerReference L (wlMeta w) (dMeta ?d) = Inr (dMeta ?d)"
  proof -
    have frame: "\<And>m m' labels annotations. l_SetControllerReference L (wlMeta w) m = Inr m' \<Longrightarrow>
        l_SetControllerReference L (wlMeta w) (m\<lparr>mLabels := labels, mAnnotations := annotations\<rparr>) =
          Inr (m'\<lparr>mLabels := labels, mAnnotations := annotations\<rparr>)"
      using ok unfolding owners_ok_def by blast
    have "l_SetControllerReference L (wlMeta w) (dMeta d) = Inr (dMeta d)"
      using r by (simp add: rendered_as_def)
    from frame [OF this, where labels = "mLabels (dMeta d)" and annotations = "mAnnotations (dMeta ?d)"]
    show ?thesis by (simp add: injected_def update_annotate)
  qed
  ultimately show ?thesis
    using r cs env rendered_container [OF r]
    by (simp add: rendered_as_def) (simp add: injected_def update_annotate)
qed

section \<open>The steps of the controllers\<close>

text \<open>
  The state: the Deployment, the Workload it was last rendered for, and the names of the
  bindings that are injected. Between two writes the spec of the Workload may change, so each
  rendering may be for another Workload; a binding may be injected again with another Secret.
\<close>

record shared_state =
  shDeployment :: Deployment
  shRendered :: Workload
  shBound :: "string set"

inductive shared_step :: "lib \<Rightarrow> shared_state \<Rightarrow> shared_state \<Rightarrow> bool" for L where
  Render: "mutateDeployment L w (shDeployment s) = Inr d \<Longrightarrow>
    shared_step L s (s\<lparr>shDeployment := d, shRendered := w\<rparr>)"
| Inject: "dns_name (mName (dbMeta b)) \<Longrightarrow> mutateInject b sec (shDeployment s) = Inr d \<Longrightarrow>
    shared_step L s (s\<lparr>shDeployment := d, shBound := insert (mName (dbMeta b)) (shBound s)\<rparr>)"
| Remove: "dns_name (mName (dbMeta b)) \<Longrightarrow> mutateRemove b (shDeployment s) = Inr d \<Longrightarrow>
    shared_step L s (s\<lparr>shDeployment := d, shBound := shBound s - {mName (dbMeta b)}\<rparr>)"

inductive_cases shared_stepE: "shared_step L s s'"

text \<open>The controller of the Workload creates the Deployment; from then on any step may follow.\<close>

inductive shared_reachable :: "lib \<Rightarrow> shared_state \<Rightarrow> bool" for L where
  Create: "mutateDeployment L w (named_deployment w) = Inr d \<Longrightarrow>
    shared_reachable L \<lparr>shDeployment = d, shRendered = w, shBound = {}\<rparr>"
| Step: "shared_reachable L s \<Longrightarrow> shared_step L s s' \<Longrightarrow> shared_reachable L s'"

text \<open>The names that the binding of a name manages.\<close>

definition managed_by :: "string \<Rightarrow> string set" where
  "managed_by n =
     {env_prefix n @ ''_URL'', env_prefix n @ ''_REPLICATION_MODE''} \<union>
     (if n = ''primary'' then {''DATABASE_URL''} else {})"

lemma managed_by_binding: "set (datastoreManagedEnvNames b) = managed_by (mName (dbMeta b))"
  by (auto simp: datastoreManagedEnvNames_def managed_by_def Let_def)

lemma managed_by_disjoint:
  "dns_name m \<Longrightarrow> dns_name n \<Longrightarrow> m \<noteq> n \<Longrightarrow> managed_by m \<inter> managed_by n = {}"
  using env_prefix_inj [of m n]
  by (auto simp: managed_by_def url_not_mode url_not_mode [symmetric] prefix_not_alias
      prefix_not_alias [symmetric])

text \<open>
  The invariant. There is one container, \<open>app\<close>. The names recorded on the Deployment are those of
  the injected bindings. Every variable of a recorded name is one that a binding of an injected
  name put there; every other variable is one of the spec last rendered.
\<close>

definition from_binding :: "string set \<Rightarrow> EnvVar \<Rightarrow> bool" where
  "from_binding bound v \<longleftrightarrow>
     (\<exists>b s. mName (dbMeta b) \<in> bound \<and> v \<in> set (envVarsToInject b s))"

definition shared_inv :: "shared_state \<Rightarrow> bool" where
  "shared_inv s \<longleftrightarrow>
     (let d = shDeployment s; env = env_map (container_env d); managed = datastoreManagedEnvVars d
      in (\<exists>c. dContainers d = [c] \<and> cName c = ''app'') \<and>
         (\<forall>n \<in> shBound s. dns_name n) \<and> managed = \<Union> (managed_by ` shBound s) \<and>
         (\<forall>n \<in> managed. \<exists>v. env n = Some v \<and> from_binding (shBound s) v) \<and>
         (\<forall>n v. n \<notin> managed \<longrightarrow> env n = Some v \<longrightarrow>
            env_map (envVars (wEnv (wlSpec (shRendered s)))) n = Some v))"

lemma container_env_updated:
  assumes "dContainers d = [c]" and "cName c = ''app''"
  shows "container_env (injected b s d) = mergeEnvVars (container_env d) (envVarsToInject b s)"
    and "container_env (removed b d) = removeEnvVars (container_env d) (set (datastoreManagedEnvNames b))"
    and "\<exists>c'. dContainers (injected b s d) = [c'] \<and> cName c' = ''app''"
    and "\<exists>c'. dContainers (removed b d) = [c'] \<and> cName c' = ''app''"
  using assms by (simp_all add: container_env_def injected_def removed_def)

lemma shared_inv_render:
  assumes "owners_ok L" and "shared_inv s" and d: "mutateDeployment L w (shDeployment s) = Inr d"
  shows "shared_inv (s\<lparr>shDeployment := d, shRendered := w\<rparr>)"
proof -
  obtain meta where meta: "meta = (dMeta (shDeployment s))\<lparr>mOwnerReferences := mOwnerReferences meta\<rparr>"
    and eq: "d = \<lparr>dMeta = meta\<lparr>mLabels := workloadLabels w\<rparr>,
       dReplicas = wReplicas (wlSpec w), dSelector = metav1LabelSelector (workloadLabels w),
       dTemplateLabels = workloadLabels w, dServiceAccountName = wServiceAccountName (wlSpec w),
       dImagePullSecrets = wImagePullSecrets (wlSpec w),
       dContainers = [\<lparr>cName = ''app'', cImage = wImage (wlSpec w),
         cPorts = containerPorts (wPorts (wlSpec w)), cEnv = rendered_env w (shDeployment s),
         cEnvFrom = envFromSources (wEnvFrom (wlSpec w))\<rparr>], dConditions = dConditions (shDeployment s)\<rparr>"
    by (rule mutateDeployment_cases [OF assms(1) d])
  have "mAnnotations meta = mAnnotations (dMeta (shDeployment s))"
    using meta by (rule annotations_of_controlled)
  then have M: "datastoreManagedEnvVars d = datastoreManagedEnvVars (shDeployment s)"
    by (intro managed_cong) (simp add: eq)
  have cs: "\<exists>c. dContainers d = [c] \<and> cName c = ''app''" by (simp add: eq)
  have E: "env_map (container_env d) = env_map (envVars (wEnv (wlSpec w))) ++
      (env_map (container_env (shDeployment s)) |` datastoreManagedEnvVars (shDeployment s))"
    unfolding env_map_rendered [symmetric] by (simp add: eq container_env_def)
  show ?thesis
    using assms(2) cs unfolding shared_inv_def Let_def
    by (simp add: E M) (auto simp: map_add_def restrict_map_def split: option.splits;
      metis option.distinct(1) option.inject)
qed

lemma from_binding_mono: "from_binding B v \<Longrightarrow> B \<subseteq> C \<Longrightarrow> from_binding C v"
  unfolding from_binding_def by blast

lemma shared_inv_inject:
  assumes inv: "shared_inv s" and b: "dns_name (mName (dbMeta b))"
  shows "shared_inv (s\<lparr>shDeployment := injected b sec (shDeployment s),
    shBound := insert (mName (dbMeta b)) (shBound s)\<rparr>)"
proof -
  let ?d = "shDeployment s" and ?vs = "envVarsToInject b sec"
  obtain c where c: "dContainers ?d = [c]" "cName c = ''app''"
    using inv unfolding shared_inv_def Let_def by blast
  have E: "env_map (container_env (injected b sec ?d)) = env_map (container_env ?d) ++ env_map ?vs"
    by (simp add: container_env_updated [OF c] env_map_merge)
  have M: "datastoreManagedEnvVars (injected b sec ?d) =
      datastoreManagedEnvVars ?d \<union> managed_by (mName (dbMeta b))"
    by (simp add: managed_injected [OF b] managed_by_binding)
  have dom: "dom (env_map ?vs) = managed_by (mName (dbMeta b))"
    by (simp add: env_names_to_inject managed_by_binding)
  have new: "from_binding (insert (mName (dbMeta b)) (shBound s)) v" if "env_map ?vs n = Some v" for n v
    using env_map_Some [OF that] unfolding from_binding_def by blast
  have "\<exists>v. (env_map (container_env ?d) ++ env_map ?vs) n = Some v \<and>
      from_binding (insert (mName (dbMeta b)) (shBound s)) v"
    if "n \<in> datastoreManagedEnvVars ?d \<union> managed_by (mName (dbMeta b))" for n
  proof (cases "env_map ?vs n")
    case (Some v)
    then show ?thesis using new [OF Some] by auto
  next
    case None
    then have "n \<in> datastoreManagedEnvVars ?d" using that dom by (metis UnE domIff)
    then obtain v where "env_map (container_env ?d) n = Some v" "from_binding (shBound s) v"
      using inv unfolding shared_inv_def Let_def by blast
    with None show ?thesis by (auto simp: map_add_def intro: from_binding_mono)
  qed
  moreover have "env_map (envVars (wEnv (wlSpec (shRendered s)))) n = Some v"
    if "n \<notin> datastoreManagedEnvVars ?d \<union> managed_by (mName (dbMeta b))"
      "(env_map (container_env ?d) ++ env_map ?vs) n = Some v" for n v
  proof -
    have "env_map ?vs n = None" using that(1) dom by (metis UnCI domIff)
    then have "env_map (container_env ?d) n = Some v" using that(2) by (simp add: map_add_def)
    then show ?thesis using inv that(1) unfolding shared_inv_def Let_def by blast
  qed
  ultimately show ?thesis
    using inv b container_env_updated(3) [OF c] unfolding shared_inv_def Let_def
    by (auto simp: E M)
qed

lemma shared_inv_remove:
  assumes inv: "shared_inv s" and b: "dns_name (mName (dbMeta b))"
  shows "shared_inv (s\<lparr>shDeployment := removed b (shDeployment s),
    shBound := shBound s - {mName (dbMeta b)}\<rparr>)"
proof -
  let ?d = "shDeployment s" and ?n = "mName (dbMeta b)"
  obtain c where c: "dContainers ?d = [c]" "cName c = ''app''"
    using inv unfolding shared_inv_def Let_def by blast
  have E: "env_map (container_env (removed b ?d)) = env_map (container_env ?d) |` (- managed_by ?n)"
    by (simp add: container_env_updated [OF c] env_map_remove managed_by_binding)
  have M: "datastoreManagedEnvVars (removed b ?d) = datastoreManagedEnvVars ?d - managed_by ?n"
    by (simp add: managed_removed managed_by_binding)
  have dns: "\<forall>n \<in> shBound s. dns_name n" and man: "datastoreManagedEnvVars ?d = \<Union> (managed_by ` shBound s)"
    using inv unfolding shared_inv_def Let_def by blast+
  have "\<Union> (managed_by ` shBound s) - managed_by ?n = \<Union> (managed_by ` (shBound s - {?n}))"
    using managed_by_disjoint [OF _ b] dns by blast
  moreover have "from_binding (shBound s - {?n}) v"
    if v: "from_binding (shBound s) v" and n: "eName v \<notin> managed_by ?n" for v
  proof -
    obtain b' s' where b': "mName (dbMeta b') \<in> shBound s" "v \<in> set (envVarsToInject b' s')"
      using v unfolding from_binding_def by blast
    then have "eName v \<in> managed_by (mName (dbMeta b'))"
      unfolding managed_by_binding [symmetric] env_names_to_inject [of b' s', symmetric] by blast
    with n have "mName (dbMeta b') \<noteq> ?n" by metis
    with b' show ?thesis unfolding from_binding_def by blast
  qed
  moreover have "eName v = n" if "env_map (container_env ?d) n = Some v" for n v
    using env_map_Some [OF that] by simp
  ultimately show ?thesis
    using inv dns container_env_updated(4) [OF c] unfolding shared_inv_def Let_def
    by (auto simp: E M restrict_map_def) (metis+)
qed

text \<open>The invariant holds in every reachable state.\<close>

lemma shared_reachable_inv:
  assumes "owners_ok L" and "shared_reachable L s"
  shows "shared_inv s"
  using assms(2)
proof (induction rule: shared_reachable.induct)
  case (Create w d)
  let ?s = "\<lparr>shDeployment = d, shRendered = w, shBound = {}\<rparr>"
  obtain meta where meta: "meta = (dMeta (named_deployment w))\<lparr>mOwnerReferences := mOwnerReferences meta\<rparr>"
    and eq: "d = \<lparr>dMeta = meta\<lparr>mLabels := workloadLabels w\<rparr>, dReplicas = wReplicas (wlSpec w),
       dSelector = metav1LabelSelector (workloadLabels w), dTemplateLabels = workloadLabels w,
       dServiceAccountName = wServiceAccountName (wlSpec w),
       dImagePullSecrets = wImagePullSecrets (wlSpec w),
       dContainers = [\<lparr>cName = ''app'', cImage = wImage (wlSpec w),
         cPorts = containerPorts (wPorts (wlSpec w)), cEnv = rendered_env w (named_deployment w),
         cEnvFrom = envFromSources (wEnvFrom (wlSpec w))\<rparr>], dConditions = dConditions (named_deployment w)\<rparr>"
    by (rule mutateDeployment_cases [OF assms(1) Create])
  have "mAnnotations meta = None"
    using annotations_of_controlled [OF meta] by (simp add: named_deployment_def empty_meta_def)
  then have "datastoreManagedEnvVars d = {}" by (simp add: datastoreManagedEnvVars_def eq)
  moreover have "rendered_env w (named_deployment w) = envVars (wEnv (wlSpec w))"
    by (simp add: rendered_env_def named_deployment_def container_env_def)
  then have "container_env d = envVars (wEnv (wlSpec w))" by (simp add: eq container_env_def)
  moreover have "\<exists>c. dContainers d = [c] \<and> cName c = ''app''" by (simp add: eq)
  ultimately show ?case by (simp add: shared_inv_def)
next
  case (Step s s')
  from Step.hyps(2) show ?case
  proof (cases rule: shared_step.cases)
    case (Render w d)
    then show ?thesis using shared_inv_render [OF assms(1) Step.IH] by simp
  next
    case (Inject b sec d)
    then show ?thesis using shared_inv_inject [OF Step.IH, of b sec] by auto
  next
    case (Remove b d)
    then show ?thesis using shared_inv_remove [OF Step.IH, of b] by auto
  qed
qed

end
