(* ===== verification/Shared_Settling.thy ===== *)
theory Shared_Settling
  imports Shared_Deployment
begin

text \<open>
  Why the controllers of a Workload and of its DatastoreBindings stop writing the Deployment
  that they share: once the spec and the bindings stay as they are, each write that changes the
  Deployment makes a measure smaller. (\<open>controllerutil.CreateOrUpdate\<close> writes only an object that
  its mutate function changed.)
\<close>

section \<open>Writes that change something\<close>

inductive effective ::
  "lib \<Rightarrow> Workload \<Rightarrow> (DatastoreBinding \<times> Secret) set \<Rightarrow> Deployment \<Rightarrow> Deployment \<Rightarrow> bool"
  for L w B where
  Rendered: "mutateDeployment L w d = Inr d' \<Longrightarrow> d' \<noteq> d \<Longrightarrow> effective L w B d d'"
| Injected: "(b, s) \<in> B \<Longrightarrow> mutateInject b s d = Inr d' \<Longrightarrow> d' \<noteq> d \<Longrightarrow> effective L w B d d'"

text \<open>The bindings of a set have DNS names, and names of their own.\<close>

definition proper_bindings :: "(DatastoreBinding \<times> Secret) set \<Rightarrow> bool" where
  "proper_bindings B \<longleftrightarrow>
     finite B \<and> (\<forall>(b, s) \<in> B. dns_name (mName (dbMeta b))) \<and>
     inj_on (\<lambda>(b, s). mName (dbMeta b)) B"

lemma proper_dns: "proper_bindings B \<Longrightarrow> (b, s) \<in> B \<Longrightarrow> dns_name (mName (dbMeta b))"
  unfolding proper_bindings_def by blast

lemma proper_disjoint:
  assumes "proper_bindings B" and "(b, s) \<in> B" and "(c, t) \<in> B" and "(b, s) \<noteq> (c, t)"
  shows "set (datastoreManagedEnvNames b) \<inter> set (datastoreManagedEnvNames c) = {}"
proof -
  have "mName (dbMeta b) \<noteq> mName (dbMeta c)"
    using assms unfolding proper_bindings_def inj_on_def by fastforce
  then show ?thesis
    unfolding managed_by_binding
    by (intro managed_by_disjoint proper_dns [OF assms(1,2)] proper_dns [OF assms(1,3)])
qed

section \<open>What it takes that an injection changes nothing\<close>

lemma update_app_fixed:
  "update_app_env f cs = cs \<longleftrightarrow>
     (\<forall>c. find (\<lambda>c. cName c = ''app'') cs = Some c \<longrightarrow> f (cEnv c) = cEnv c)"
proof (induction cs)
  case (Cons c cs)
  have "c\<lparr>cEnv := f (cEnv c)\<rparr> = c \<longleftrightarrow> f (cEnv c) = cEnv c"
    by (cases c) auto
  then show ?case using Cons by auto
qed simp

lemma injected_eq:
  "injected b s d =
     d\<lparr>dContainers := update_app_env (\<lambda>env. mergeEnvVars env (envVarsToInject b s)) (dContainers d),
       dMeta := (dMeta d)\<lparr>mAnnotations :=
         annotate (datastoreManagedEnvVars d \<union> set (datastoreManagedEnvNames b)) (mAnnotations (dMeta d))\<rparr>\<rparr>"
  by (simp add: injected_def update_annotate)

lemma injected_fixed:
  "injected b s d = d \<longleftrightarrow>
     (\<forall>env. app_env d = Some env \<longrightarrow> mergeEnvVars env (envVarsToInject b s) = env) \<and>
     annotate (datastoreManagedEnvVars d \<union> set (datastoreManagedEnvNames b)) (mAnnotations (dMeta d)) =
       mAnnotations (dMeta d)"
proof -
  let ?cs = "update_app_env (\<lambda>env. mergeEnvVars env (envVarsToInject b s)) (dContainers d)"
  let ?a = "annotate (datastoreManagedEnvVars d \<union> set (datastoreManagedEnvNames b)) (mAnnotations (dMeta d))"
  have "injected b s d = d \<longleftrightarrow> ?cs = dContainers d \<and> ?a = mAnnotations (dMeta d)"
    unfolding injected_eq by (cases d; cases "dMeta d") auto
  also have "?cs = dContainers d \<longleftrightarrow>
      (\<forall>env. app_env d = Some env \<longrightarrow> mergeEnvVars env (envVarsToInject b s) = env)"
    unfolding update_app_fixed app_env_def by auto
  finally show ?thesis .
qed

text \<open>The injection of another binding changes nothing about that.\<close>

lemma fixed_kept:
  assumes dns: "dns_name (mName (dbMeta b))" "dns_name (mName (dbMeta c))"
    and disj: "set (datastoreManagedEnvNames b) \<inter> set (datastoreManagedEnvNames c) = {}"
    and fixed: "injected b s d = d"
  shows "injected b s (injected c t d) = injected c t d"
proof -
  let ?d = "injected c t d"
  have "mergeEnvVars env (envVarsToInject b s) = env" if env: "app_env ?d = Some env" for env
  proof (rule mergeEnvVars_noop)
    fix v assume v: "v \<in> set (envVarsToInject b s)"
    obtain old where old: "app_env d = Some old" "env = mergeEnvVars old (envVarsToInject c t)"
      using env by (auto simp: app_env_injected)
    have "eName v \<in> set (datastoreManagedEnvNames b)"
      using v env_names_to_inject [of b s] by blast
    then have "env_map (envVarsToInject c t) (eName v) = None"
      using disj env_names_to_inject [of c t] by (simp add: env_map_None) blast
    moreover have "env_map old = env_map old ++ env_map (envVarsToInject b s)"
      using fixed old(1) unfolding injected_fixed by (metis env_map_merge)
    then have "env_map old (eName v) = Some v"
      using env_map_distinct [OF distinct_to_inject v] by (metis map_add_find_right)
    ultimately show "env_map env (eName v) = Some v"
      by (simp add: old(2) env_map_merge map_add_def)
  qed
  moreover have "annotate (datastoreManagedEnvVars ?d \<union> set (datastoreManagedEnvNames b))
      (mAnnotations (dMeta ?d)) = mAnnotations (dMeta ?d)"
  proof -
    have "set (datastoreManagedEnvNames b) \<subseteq> datastoreManagedEnvVars d"
      using managed_injected [OF dns(1), of s d] fixed by auto
    then have "datastoreManagedEnvVars ?d \<union> set (datastoreManagedEnvNames b) =
        datastoreManagedEnvVars d \<union> set (datastoreManagedEnvNames c)"
      unfolding managed_injected [OF dns(2)] by blast
    then show ?thesis by (simp add: injected_eq [of c])
  qed
  ultimately show ?thesis unfolding injected_fixed [of b s ?d] by blast
qed

section \<open>The measure\<close>

definition unsettled :: "(DatastoreBinding \<times> Secret) set \<Rightarrow> Deployment \<Rightarrow> (DatastoreBinding \<times> Secret) set" where
  "unsettled B d = {(b, s) \<in> B. injected b s d \<noteq> d}"

definition work_left :: "lib \<Rightarrow> Workload \<Rightarrow> (DatastoreBinding \<times> Secret) set \<Rightarrow> Deployment \<Rightarrow> nat" where
  "work_left L w B d = (if rendered_as L w d then 0 else card B + 1) + card (unsettled B d)"

lemma unsettled_le: "proper_bindings B \<Longrightarrow> card (unsettled B d) \<le> card B"
  by (auto simp: proper_bindings_def unsettled_def intro!: card_mono)

lemma unsettled_injected:
  assumes B: "proper_bindings B" and b: "(b, s) \<in> B" and change: "injected b s d \<noteq> d"
  shows "card (unsettled B (injected b s d)) < card (unsettled B d)"
proof (rule psubset_card_mono)
  show "finite (unsettled B d)"
    using B by (auto simp: proper_bindings_def unsettled_def intro: finite_subset)
  have "injected c t (injected b s d) = injected b s d"
    if "(c, t) \<in> B" "(c, t) = (b, s) \<or> injected c t d = d" for c t
  proof (cases "(c, t) = (b, s)")
    case True
    then show ?thesis using injected_twice [OF proper_dns [OF B b]] by simp
  next
    case False
    then show ?thesis
      using that fixed_kept [OF proper_dns [OF B that(1)] proper_dns [OF B b]
          proper_disjoint [OF B that(1) b]] by blast
  qed
  then show "unsettled B (injected b s d) \<subset> unsettled B d"
    using b change unfolding unsettled_def by blast
qed

lemma effective_decreases:
  assumes "owners_ok L" and B: "proper_bindings B" and "effective L w B d d'"
  shows "work_left L w B d' < work_left L w B d"
  using assms(3)
proof (cases rule: effective.cases)
  case Rendered
  then have "rendered_as L w d'" and "\<not> rendered_as L w d"
    using mutate_rendered [OF assms(1)] rendered_fixed by auto
  then show ?thesis
    using unsettled_le [OF B, of d'] by (simp add: work_left_def)
next
  case (Injected b s)
  then have d': "d' = injected b s d" and "injected b s d \<noteq> d" by auto
  then have "card (unsettled B d') < card (unsettled B d)"
    using unsettled_injected [OF B Injected(1)] by simp
  moreover have "rendered_as L w d \<Longrightarrow> rendered_as L w d'"
    unfolding d' by (rule injected_rendered [OF assms(1) _ proper_dns [OF B Injected(1)]])
  ultimately show ?thesis by (auto simp: work_left_def)
qed

lemma work_bounds:
  assumes "owners_ok L" and "proper_bindings B" and "(effective L w B ^^ n) d d'"
  shows "n + work_left L w B d' \<le> work_left L w B d"
  using assms(3)
proof (induction n arbitrary: d')
  case (Suc n)
  then obtain d1 where "(effective L w B ^^ n) d d1" "effective L w B d1 d'" by auto
  then show ?case
    using Suc.IH effective_decreases [OF assms(1,2)] by fastforce
qed simp

end
