(* ===== verification/Shared_Properties.thy ===== *)
theory Shared_Properties
  imports Shared_Settling Reference
begin

text \<open>
  The properties of the Deployment that the controllers of Workloads and DatastoreBindings
  share, with their witnesses.
\<close>

section \<open>Samples\<close>

abbreviation (input) meta_named :: "string \<Rightarrow> ObjectMeta" where
  "meta_named n \<equiv> sample_meta ''demo'' n"

definition url_secret :: Secret where
  "url_secret = \<lparr>secMeta = meta_named ''creds'', secData = [''url'' \<mapsto> ''x'']\<rparr>"

lemma sample_dns [simp]:
  "dns_name (mName (dbMeta (sample_binding ''main'')))" "dns_name (mName (dbMeta (sample_binding ''primary'')))"
  by (simp_all add: sample_binding_def sample_meta_def dns_name_def dns_chars_def)

lemma sample_renders:
  "\<exists>d. mutateDeployment ref_lib sample_workload (named_deployment sample_workload) = Inr d"
  by (simp add: mutateDeployment_def Let_def ref_SetControllerReference_def ref_controller_def
      named_deployment_def empty_meta_def)

section \<open>What a binding does to a Deployment\<close>

text \<open>C14: an injection always succeeds. It overrides the environment of the container \<open>app\<close> by the
  binding's variables: the connection URL, taken by reference from the key \<open>url\<close> of the Secret if
  the Secret has it and from \<open>DATABASE_URL\<close> if not; the replication mode of the spec, by value; and,
  for a binding named \<open>primary\<close>, the URL again as \<open>DATABASE_URL\<close>. It records these names on the
  Deployment. Everything else stays: the labels, owners, name and other annotations, the rest of
  the container \<open>app\<close>, and the other containers. Injecting again changes nothing.\<close>

theorem binding_injection:
  assumes "dns_name (mName (dbMeta b))"
  shows "\<exists>d' url_name mode_name url. mutateInject b s d = Inr d' \<and>
    url_name = env_prefix (mName (dbMeta b)) @ ''_URL'' \<and>
    mode_name = env_prefix (mName (dbMeta b)) @ ''_REPLICATION_MODE'' \<and>
    url = Some (SecretKeyRef (mName (secMeta s))
      (if ''url'' \<in> dom (secData s) then ''url'' else ''DATABASE_URL'')) \<and>
    map_option env_map (app_env d') =
      map_option (\<lambda>env. env_map env ++
        [url_name \<mapsto> \<lparr>eName = url_name, eValue = '''', eValueFrom = url\<rparr>,
         mode_name \<mapsto> \<lparr>eName = mode_name, eValue = dbReplicationMode (dbSpec b), eValueFrom = None\<rparr>] ++
        (if mName (dbMeta b) = ''primary''
         then [''DATABASE_URL'' \<mapsto> \<lparr>eName = ''DATABASE_URL'', eValue = '''', eValueFrom = url\<rparr>]
         else Map.empty)) (app_env d) \<and>
    datastoreManagedEnvVars d' = datastoreManagedEnvVars d \<union> {url_name, mode_name} \<union>
      (if mName (dbMeta b) = ''primary'' then {''DATABASE_URL''} else {}) \<and>
    unmanaged_parts d' = unmanaged_parts d \<and>
    mutateInject b s d' = Inr d'"
proof -
  let ?name = "mName (dbMeta b)"
  let ?u = "env_prefix ?name @ ''_URL''" and ?m = "env_prefix ?name @ ''_REPLICATION_MODE''"
  let ?url = "Some (SecretKeyRef (mName (secMeta s))
    (if ''url'' \<in> dom (secData s) then ''url'' else ''DATABASE_URL''))"
  have url: "Some (SecretKeyRef (mName (secMeta s)) (connectionSecretKey s)) = ?url"
    by (simp add: connectionSecretKey_def domIff split: option.split)
  have "env_map (envVarsToInject b s) =
      [?u \<mapsto> \<lparr>eName = ?u, eValue = '''', eValueFrom = ?url\<rparr>,
       ?m \<mapsto> \<lparr>eName = ?m, eValue = dbReplicationMode (dbSpec b), eValueFrom = None\<rparr>] ++
      (if ?name = ''primary''
       then [''DATABASE_URL'' \<mapsto> \<lparr>eName = ''DATABASE_URL'', eValue = '''', eValueFrom = ?url\<rparr>]
       else Map.empty)"
    unfolding envVarsToInject_def Let_def url by simp
  then have env: "map_option env_map (app_env (injected b s d)) =
      map_option (\<lambda>env. env_map env ++ [?u \<mapsto> \<lparr>eName = ?u, eValue = '''', eValueFrom = ?url\<rparr>,
        ?m \<mapsto> \<lparr>eName = ?m, eValue = dbReplicationMode (dbSpec b), eValueFrom = None\<rparr>] ++
        (if ?name = ''primary''
         then [''DATABASE_URL'' \<mapsto> \<lparr>eName = ''DATABASE_URL'', eValue = '''', eValueFrom = ?url\<rparr>]
         else Map.empty)) (app_env d)"
    unfolding app_env_injected option.map_comp comp_def env_map_merge map_add_assoc [symmetric]
    by (rule arg_cong [where f = "\<lambda>m. map_option (\<lambda>env. env_map env ++ m) (app_env d)"])
  have "set (datastoreManagedEnvNames b) =
      {?u, ?m} \<union> (if ?name = ''primary'' then {''DATABASE_URL''} else {})"
    by (auto simp: managed_names_cases)
  then have names: "datastoreManagedEnvVars (injected b s d) = datastoreManagedEnvVars d \<union> {?u, ?m} \<union>
      (if ?name = ''primary'' then {''DATABASE_URL''} else {})"
    unfolding managed_injected [OF assms] Un_assoc by (rule arg_cong)
  show ?thesis
    by (rule exI [of _ "injected b s d"], rule exI [of _ ?u], rule exI [of _ ?m], rule exI [of _ ?url])
      (intro conjI refl env names unmanaged_kept(1), simp_all only: mutate_binding injected_twice [OF assms])
qed

theorem binding_injection_witness:
  "\<exists>d'. mutateInject (sample_binding ''main'') url_secret sample_deployment = Inr d' \<and>
     datastoreManagedEnvVars d' = {''DATASTORE_MAIN_URL'', ''DATASTORE_MAIN_REPLICATION_MODE''}"
proof -
  let ?b = "sample_binding ''main''"
  have "env_prefix ''main'' = ''DATASTORE_MAIN''" by code_simp
  moreover have name: "mName (dbMeta ?b) = ''main''"
    by (simp add: sample_binding_def sample_meta_def)
  moreover have "datastoreManagedEnvVars sample_deployment = {}"
    by (simp add: sample_deployment_def sample_owned_def sample_meta_def datastoreManagedEnvVars_def)
  moreover obtain d' u m where "mutateInject ?b url_secret sample_deployment = Inr d'"
    and "u = env_prefix (mName (dbMeta ?b)) @ ''_URL''"
    and "m = env_prefix (mName (dbMeta ?b)) @ ''_REPLICATION_MODE''"
    and "datastoreManagedEnvVars d' = datastoreManagedEnvVars sample_deployment \<union> {u, m} \<union>
      (if mName (dbMeta ?b) = ''primary'' then {''DATABASE_URL''} else {})"
    using binding_injection [OF sample_dns(1), of url_secret sample_deployment] by (elim exE conjE) rule
  ultimately show ?thesis by simp
qed

text \<open>C15: a removal undoes an injection, up to the binding's names: the environment of \<open>app\<close> means what
  it meant before, without those names, and the record holds the other names only. A variable of
  the spec that the injection overrode is dropped with them, not restored; it is back when the
  Workload is rendered next. Nothing else changes: labels, owners, other annotations, the rest of
  the container \<open>app\<close> and the other containers are those from before the injection.\<close>

theorem binding_removal:
  assumes "dns_name (mName (dbMeta b))" and "mutateInject b s d = Inr d1"
  shows "\<exists>d2. mutateRemove b d1 = Inr d2 \<and>
    map_option env_map (app_env d2) =
      map_option (\<lambda>env. env_map env |` (- set (datastoreManagedEnvNames b))) (app_env d) \<and>
    datastoreManagedEnvVars d2 = datastoreManagedEnvVars d - set (datastoreManagedEnvNames b) \<and>
    filter (\<lambda>c. cName c \<noteq> ''app'') (dContainers d2) = filter (\<lambda>c. cName c \<noteq> ''app'') (dContainers d) \<and>
    d2\<lparr>dContainers := dContainers d, dMeta := dMeta d\<rparr> = d \<and>
    unmanaged_parts d2 = unmanaged_parts d"
proof -
  have d1: "d1 = injected b s d" using assms(2) by simp
  have "env_map (removeEnvVars (mergeEnvVars env (envVarsToInject b s)) (set (datastoreManagedEnvNames b))) =
      env_map env |` (- set (datastoreManagedEnvNames b))" for env
    by (subst env.remove_undoes_merge) (simp_all add: env_names_to_inject env_map_remove)
  then have "map_option env_map (app_env (removed b d1)) =
      map_option (\<lambda>env. env_map env |` (- set (datastoreManagedEnvNames b))) (app_env d)"
    by (simp add: d1 app_env_removed app_env_injected option.map_comp comp_def)
  moreover have "datastoreManagedEnvVars (removed b d1) =
      datastoreManagedEnvVars d - set (datastoreManagedEnvNames b)"
    using assms(1) by (auto simp: d1 managed_removed managed_injected)
  moreover have "filter (\<lambda>c. cName c \<noteq> ''app'') (dContainers (removed b d1)) =
      filter (\<lambda>c. cName c \<noteq> ''app'') (dContainers d)"
    by (simp add: d1 injected_def removed_def update_app_others)
  moreover have "(removed b d1)\<lparr>dContainers := dContainers d, dMeta := dMeta d\<rparr> = d"
    by (simp add: d1 injected_def removed_def update_annotate)
  moreover have "unmanaged_parts (removed b d1) = unmanaged_parts d"
    by (simp add: d1 unmanaged_kept)
  ultimately show ?thesis by simp
qed

theorem binding_removal_witness:
  "\<exists>d2. mutateRemove (sample_binding ''main'')
      (injected (sample_binding ''main'') url_secret sample_deployment) = Inr d2 \<and>
     datastoreManagedEnvVars d2 = {}"
  using binding_removal [of "sample_binding ''main''" url_secret sample_deployment]
  by (auto simp: managed_injected sample_deployment_def sample_owned_def sample_meta_def
      datastoreManagedEnvVars_def [of "\<lparr>dMeta = _, dReplicas = _, dSelector = _, dTemplateLabels = _,
        dServiceAccountName = _, dImagePullSecrets = _, dContainers = _, dConditions = _\<rparr>"])

text \<open>C37: the order in which two bindings of different names are injected does not matter for what
  the environment means and what is recorded.\<close>

theorem injections_commute:
  assumes "dns_name (mName (dbMeta a))" and "dns_name (mName (dbMeta b))"
    and "mName (dbMeta a) \<noteq> mName (dbMeta b)"
    and "mutateInject a s d = Inr d1" and "mutateInject b t d1 = Inr d2"
    and "mutateInject b t d = Inr e1" and "mutateInject a s e1 = Inr e2"
  shows "map_option env_map (app_env d2) = map_option env_map (app_env e2) \<and>
    datastoreManagedEnvVars d2 = datastoreManagedEnvVars e2"
proof -
  have "set (datastoreManagedEnvNames a) \<inter> set (datastoreManagedEnvNames b) = {}"
    unfolding managed_by_binding by (rule managed_by_disjoint [OF assms(1-3)])
  then have "env_map (mergeEnvVars (mergeEnvVars env (envVarsToInject a s)) (envVarsToInject b t)) =
      env_map (mergeEnvVars (mergeEnvVars env (envVarsToInject b t)) (envVarsToInject a s))" for env
    by (intro env.merges_commute) (simp add: env_names_to_inject)
  then show ?thesis
    using assms by (auto simp: app_env_injected option.map_comp comp_def managed_injected)
qed

theorem injections_commute_witness:
  "datastoreManagedEnvVars (injected (sample_binding ''main'') url_secret
      (injected (sample_binding ''primary'') url_secret sample_deployment)) =
   datastoreManagedEnvVars (injected (sample_binding ''primary'') url_secret
      (injected (sample_binding ''main'') url_secret sample_deployment))"
  using injections_commute [of "sample_binding ''primary''" "sample_binding ''main''" url_secret
      sample_deployment _ url_secret]
  by (simp add: sample_binding_def sample_meta_def dns_name_def dns_chars_def)

text \<open>C38: bindings of one name collide. Two bindings of the same name in different namespaces may
  refer to one Workload; they manage the same variables, so deleting the second removes the
  variables of the first from the container and from the record, although it is still bound.\<close>

theorem binding_name_collision:
  assumes "dns_name (mName (dbMeta a))" and "mName (dbMeta a) = mName (dbMeta b)"
    and "mutateInject a s d = Inr d1" and "mutateRemove b d1 = Inr d2"
  shows "set (datastoreManagedEnvNames a) \<inter> datastoreManagedEnvVars d2 = {} \<and>
    (\<forall>env. app_env d2 = Some env \<longrightarrow> env_names env \<inter> set (datastoreManagedEnvNames a) = {})"
proof -
  have same: "set (datastoreManagedEnvNames a) = set (datastoreManagedEnvNames b)"
    unfolding managed_by_binding using assms(2) by simp
  have "env_names env \<inter> set (datastoreManagedEnvNames b) = {}" if "app_env d2 = Some env" for env
    using that assms(4) by (auto simp: app_env_removed removeEnvVars_def)
  moreover have "datastoreManagedEnvVars d2 \<inter> set (datastoreManagedEnvNames b) = {}"
    using assms(4) by (auto simp: managed_removed)
  ultimately show ?thesis unfolding same by blast
qed

definition other_main :: DatastoreBinding where
  "other_main = (sample_binding ''main'')\<lparr>dbMeta := sample_meta ''staging'' ''main''\<rparr>"

theorem binding_name_collision_witness:
  "mNamespace (dbMeta other_main) \<noteq> mNamespace (dbMeta (sample_binding ''main'')) \<and>
   set (datastoreManagedEnvNames (sample_binding ''main'')) \<inter>
     datastoreManagedEnvVars (removed other_main (injected (sample_binding ''main'') url_secret sample_deployment)) = {}"
  using binding_name_collision [of "sample_binding ''main''" other_main url_secret sample_deployment]
  by (simp add: other_main_def sample_binding_def sample_meta_def dns_name_def dns_chars_def)

section \<open>The two controllers together\<close>

text \<open>C8: the controllers converge. When a binding is injected into a Deployment as the Workload's
  controller renders it, rendering again changes nothing and injecting again changes nothing, so
  neither controller triggers the other; and this holds for any number of bindings, as the
  injected Deployment is again as the controller renders it.\<close>

theorem controllers_converge:
  assumes "owners_ok L" and "dns_name (mName (dbMeta b))"
    and "mutateDeployment L w d = Inr d1" and "mutateInject b s d1 = Inr d2"
  shows "mutateDeployment L w d2 = Inr d2 \<and> mutateInject b s d2 = Inr d2"
proof -
  have "rendered_as L w d1" by (rule mutate_rendered [OF assms(1,3)])
  then have "rendered_as L w d2"
    using injected_rendered [OF assms(1) _ assms(2)] assms(4) by auto
  moreover have "d2 = injected b s d1" using assms(4) by simp
  ultimately show ?thesis
    using rendered_fixed injected_twice [OF assms(2)] by simp
qed

theorem controllers_converge_witness:
  "\<exists>d1. mutateDeployment ref_lib sample_workload (named_deployment sample_workload) = Inr d1 \<and>
     mutateDeployment ref_lib sample_workload (injected (sample_binding ''main'') url_secret d1) =
       Inr (injected (sample_binding ''main'') url_secret d1)"
  using sample_renders controllers_converge [of ref_lib "sample_binding ''main''" sample_workload
      "named_deployment sample_workload" _ url_secret]
  by auto

text \<open>C3: in whatever order the Workload's controller renders (for a spec that may change) and the
  controllers of bindings inject and remove, the Deployment has one container, \<open>app\<close>; the names
  recorded on it are those of the bindings that are injected; every variable of a recorded name
  is one that such a binding put there; and every other variable is one of the spec that was
  rendered last.\<close>

theorem shared_invariant:
  assumes "owners_ok L" and "shared_reachable L s"
  shows "shared_inv s"
  using assms(2) by (rule shared_reachable_inv [OF assms(1)])

lemma sample_reachable:
  "\<exists>s. shared_reachable ref_lib s \<and> shBound s = {''main''} \<and> shRendered s = sample_workload"
proof -
  obtain d where d: "mutateDeployment ref_lib sample_workload (named_deployment sample_workload) = Inr d"
    using sample_renders by blast
  let ?s = "\<lparr>shDeployment = d, shRendered = sample_workload, shBound = {}\<rparr>"
  let ?t = "?s\<lparr>shDeployment := injected (sample_binding ''main'') url_secret d,
    shBound := insert (mName (dbMeta (sample_binding ''main''))) (shBound ?s)\<rparr>"
  have "shared_step ref_lib ?s ?t" by (rule shared_step.Inject [of _ url_secret]) simp_all
  with shared_reachable.Create [OF d] have "shared_reachable ref_lib ?t" by (rule shared_reachable.Step)
  moreover have "shBound ?t = {''main''}" "shRendered ?t = sample_workload"
    by (simp_all add: sample_binding_def sample_meta_def)
  ultimately show ?thesis by blast
qed

theorem shared_invariant_witness:
  "\<exists>s. shared_reachable ref_lib s \<and> shBound s = {''main''} \<and> shared_inv s"
  using sample_reachable shared_invariant [OF ref_owners_ok] by blast



text \<open>C9: reconciliation settles. While the spec of the Workload and a set of bindings stay as they
  are, at most two writes for each binding and one more change the Deployment, in whatever order
  the controllers run and whatever the Deployment was at first. When no write changes it any
  more, all bindings are injected and it is as the Workload's controller renders it, unless the
  rendering is an error.\<close>

theorem reconciliation_settles:
  assumes "owners_ok L" and "proper_bindings B" and "(effective L w B ^^ n) d d'"
  shows "n \<le> 2 * card B + 1 \<and>
    ((\<forall>d''. \<not> effective L w B d' d'') \<longrightarrow>
       (\<forall>(b, s) \<in> B. mutateInject b s d' = Inr d') \<and>
       (\<forall>d''. mutateDeployment L w d' = Inr d'' \<longrightarrow> rendered_as L w d'))"
proof
  show "n \<le> 2 * card B + 1"
    using work_bounds [OF assms] unsettled_le [OF assms(2), of d]
    by (simp add: work_left_def split: if_splits)
  show "(\<forall>d''. \<not> effective L w B d' d'') \<longrightarrow>
      (\<forall>(b, s) \<in> B. mutateInject b s d' = Inr d') \<and>
      (\<forall>d''. mutateDeployment L w d' = Inr d'' \<longrightarrow> rendered_as L w d')"
    using mutate_rendered [OF assms(1), of w d']
    by (fastforce simp: effective.simps)
qed

theorem reconciliation_settles_witness:
  "\<exists>d. (effective ref_lib sample_workload {(sample_binding ''main'', url_secret)} ^^ 1)
        (named_deployment sample_workload) d \<and> 1 \<le> 2 * card {(sample_binding ''main'', url_secret)} + 1"
proof -
  let ?B = "{(sample_binding ''main'', url_secret)}" and ?d0 = "named_deployment sample_workload"
  obtain d where d: "mutateDeployment ref_lib sample_workload ?d0 = Inr d"
    using sample_renders by blast
  then have "dContainers d \<noteq> []"
    using mutate_rendered [OF ref_owners_ok d] by (simp add: rendered_as_def)
  then have "d \<noteq> ?d0" by (auto simp: named_deployment_def)
  with d have "effective ref_lib sample_workload ?B ?d0 d" by (rule effective.Rendered)
  then have run: "(effective ref_lib sample_workload ?B ^^ 1) ?d0 d" by (simp only: relpowp_1)
  have "proper_bindings ?B" by (simp add: proper_bindings_def)
  with run reconciliation_settles [OF ref_owners_ok _ run] show ?thesis by blast
qed

end
