(* ===== verification/Membership_Properties.thy ===== *)
theory Membership_Properties
  imports ServiceEndpoint_Facts Workload_Gate Reference
begin

text \<open>
  Three controllers decide which clusters belong to a Federation: that of the Federation, to list
  them; that of a Workload, to run there or not; that of a ServiceEndpoint, to accept a primary.
  They read the Federation on their own, each in its own way; here they are compared.
\<close>

section \<open>The answer of a part that reads\<close>

lemma answers_so_run:
  "answers_so view m (view st) P \<Longrightarrow> \<exists>a. fst (run m st) = Inr a \<and> P a"
proof -
  assume "answers_so view m (view st) P"
  then have "wpv view m (\<lambda>r V' h'. \<exists>a. r = Inr a \<and> P a) (view st) []"
    unfolding answers_so_def by (auto intro: wpv_mono)
  from wpv_run [OF this] show ?thesis by (auto split: prod.splits)
qed

section \<open>What each of them answers\<close>

text \<open>The verdict on a primary, with the reason for the first thing that is wrong.\<close>

lemma validatePrimaryMember_verdict:
  assumes "answers_from K view" and "stored_by_name V" and "sePrimaryMemberRef (seSpec se) = n"
  shows "answers_so view (validatePrimaryMember L K se w) V
    (\<lambda>(reason, message). (reason = '''' \<longleftrightarrow> primary_ok L V se w) \<and>
       (s_ClusterMember V n = None \<longrightarrow> reason = ''PrimaryMemberNotFound''))"
proof -
  have name: "\<And>m. s_ClusterMember V n = Some m \<Longrightarrow> member_name m = n"
    using assms(2) by (simp add: stored_by_name_def)
  have named: "list_ex (\<lambda>ref. fmrName ref = x) (fMembers (fedSpec f)) \<longleftrightarrow> x \<in> named_in f" for x f
    by (auto simp: list_ex_iff)
  show ?thesis
    unfolding validatePrimaryMember_def Let_def named
    by (rule answers_soI, intro wpv_intros assms(1))
       (auto simp: primary_ok_def assms(3) cluster_in_federation_def selected_by_def name
         split: option.splits)
qed

lemma resolveMembers_invalid:
  assumes "\<not> selector_valid L (fMemberSelector (fedSpec f))"
  shows "\<exists>e. fst (run (resolveMembers L K f) st) = Inl e"
proof -
  have "wpv (\<lambda>_. ()) (resolveMembers L K f) (\<lambda>r _ _. \<exists>e. r = Inl e) () []"
    using assms unfolding resolveMembers_def selector_valid_def
    by (auto intro!: wpv_checked wpv_return split: option.splits sum.splits)
  from wpv_run [OF this] have "case run (resolveMembers L K f) st of (r, _) \<Rightarrow> \<exists>e. r = Inl e"
    by (auto split: prod.splits)
  then show ?thesis by (auto split: prod.splits)
qed

text \<open>C17: the three controllers compared, on a server that answers from one state of the cluster. For
  a Workload whose Federation exists and a cluster whose ClusterMember exists they agree: the
  Workload's gate admits the cluster exactly when the ServiceEndpoint's controller accepts it as the
  primary of that Workload, and, if the selector of the Federation is valid, exactly when the
  Federation's controller resolves it as a member. Outside of that they may differ, as follows.
  Without a ClusterMember the gate still admits a cluster that the Federation names, while no such
  member is resolved and the endpoint reports \<open>PrimaryMemberNotFound\<close>. With an invalid selector the
  Federation's controller fails, while the gate goes by the names. A Workload that names no
  Federation is admitted everywhere but has no primary; one whose Federation does not exist is
  admitted nowhere and has no primary.\<close>

theorem membership_agreement:
  assumes "answers_from K view" and "stored_by_name (view st)"
    and "sePrimaryMemberRef (seSpec se) = n"
  shows "\<exists>member degraded reason message.
    fst (run (isFederationMember L K n w) st) = Inr (member, degraded) \<and>
    fst (run (validatePrimaryMember L K se w) st) = Inr (reason, message) \<and>
    (if rrName (wFederationRef (wlSpec w)) = '''' then member \<and> reason \<noteq> ''''
     else case s_Federation (view st) (rrName (wFederationRef (wlSpec w))) of
       None \<Rightarrow> \<not> member \<and> reason \<noteq> ''''
     | Some f \<Rightarrow>
         (case s_ClusterMember (view st) n of
            None \<Rightarrow> (member \<longleftrightarrow> n \<in> named_in f) \<and> reason = ''PrimaryMemberNotFound''
          | Some m \<Rightarrow> (member \<longleftrightarrow> reason = '''')) \<and>
         (if selector_valid L (fMemberSelector (fedSpec f))
          then \<exists>members. fst (run (resolveMembers L K f) st) = Inr members \<and>
            (case s_ClusterMember (view st) n of
               None \<Rightarrow> n \<notin> member_name ` set members
             | Some m \<Rightarrow> (member \<longleftrightarrow> m \<in> set members))
          else (\<exists>e. fst (run (resolveMembers L K f) st) = Inl e) \<and> (member \<longleftrightarrow> n \<in> named_in f)))"
proof -
  obtain a where a: "fst (run (isFederationMember L K n w) st) = Inr a"
      "gate_answer (membership_ok L (view st) n w) (explains L (view st) n w) a"
    using answers_so_run [OF isFederationMember_decides [OF assms(1)]] by blast
  obtain member degraded where ab: "a = (member, degraded)" by (cases a)
  have member: "member \<longleftrightarrow> membership_ok L (view st) n w"
    using a(2) unfolding ab by (cases degraded) auto
  obtain reason message where r: "fst (run (validatePrimaryMember L K se w) st) = Inr (reason, message)"
      "reason = '''' \<longleftrightarrow> primary_ok L (view st) se w"
      "s_ClusterMember (view st) n = None \<Longrightarrow> reason = ''PrimaryMemberNotFound''"
    using answers_so_run [OF validatePrimaryMember_verdict [OF assms, where L = L and w = w]] by auto
  have named: "cluster_in_federation L (view st) n f \<longleftrightarrow> n \<in> named_in f"
    if "s_ClusterMember (view st) n = None \<or> \<not> selector_valid L (fMemberSelector (fedSpec f))" for f
    using that by (auto simp: cluster_in_federation_def selected_by_def selector_valid_def
        split: option.splits sum.splits)
  have fed: "if selector_valid L (fMemberSelector (fedSpec f))
      then \<exists>members. fst (run (resolveMembers L K f) st) = Inr members \<and>
        (case s_ClusterMember (view st) n of
           None \<Rightarrow> n \<notin> member_name ` set members
         | Some m \<Rightarrow> (cluster_in_federation L (view st) n f \<longleftrightarrow> m \<in> set members))
      else \<exists>e. fst (run (resolveMembers L K f) st) = Inl e" for f
  proof (cases "selector_valid L (fMemberSelector (fedSpec f))")
    case True
    then obtain members where "fst (run (resolveMembers L K f) st) = Inr members"
      and "set members = federation_members L (view st) f"
      using answers_so_run [OF resolveMembers_answers [OF assms(1,2) True]] by (auto simp: resolved_def)
    then show ?thesis
      using True cluster_in_federation_iff [OF assms(2)]
      by (auto simp: federation_members_def split: option.split)
  next
    case False
    then show ?thesis using resolveMembers_invalid by auto
  qed
  show ?thesis
  proof (cases "s_Federation (view st) (rrName (wFederationRef (wlSpec w)))")
    case None
    then show ?thesis
      using a(1) r(1,2) by (auto simp: ab member membership_ok_def primary_ok_def)
  next
    case (Some f)
    then show ?thesis
      using a(1) r fed [of f]
      by (auto simp: ab member membership_ok_def primary_ok_def assms(3) named
          split: option.splits if_splits)
  qed
qed

definition agreed_store :: store where
  "agreed_store = empty_store\<lparr>st_ClusterMembers := [sample_member ''east''],
     st_Federations := [sample_federation [''east'']], st_Workloads := [sample_workload]\<rparr>"

lemma agreed_snapshot [simp]:
  "s_ClusterMember (store_snapshot agreed_store) ''east'' = Some (sample_member ''east'')"
  "s_ClusterMember (store_snapshot agreed_store) ''gone'' = None"
  "s_Federation (store_snapshot agreed_store) ''primary'' = Some (sample_federation [''east''])"
  by (simp_all add: store_snapshot_def agreed_store_def lookup_name_def empty_store_def sample_defs)

theorem membership_agreement_witness:
  "\<exists>member degraded reason message members.
    fst (run (isFederationMember ref_lib ref_kube ''east'' sample_workload) agreed_store) = Inr (member, degraded) \<and>
    fst (run (validatePrimaryMember ref_lib ref_kube
      (sample_endpoint ''ActivePassive'' ''east'') sample_workload) agreed_store) = Inr (reason, message) \<and>
    fst (run (resolveMembers ref_lib ref_kube (sample_federation [''east''])) agreed_store) = Inr members \<and>
    (member \<longleftrightarrow> reason = '''') \<and> (member \<longleftrightarrow> sample_member ''east'' \<in> set members)"
proof -
  have "sePrimaryMemberRef (seSpec (sample_endpoint ''ActivePassive'' ''east'')) = ''east''"
    and "rrName (wFederationRef (wlSpec sample_workload)) = ''primary''"
    and "selector_valid ref_lib (fMemberSelector (fedSpec (sample_federation [''east''])))"
    by (simp_all add: sample_defs selector_valid_def)
  then show ?thesis
    using membership_agreement [of ref_kube store_snapshot agreed_store
      "sample_endpoint ''ActivePassive'' ''east''" "''east''" ref_lib sample_workload]
    by auto
qed

end
