(* ===== verification/Go_Flags.thy ===== *)
theory Go_Flags
  imports Prelude
begin

text \<open>
  The parts of Go's \<open>flag\<close>, \<open>strconv\<close> and \<open>fmt\<close> packages that the two commands use: a flag set
  with string and boolean flags, parsed as \<open>(*FlagSet).Parse\<close> does, and the verb \<open>%d\<close>. What
  \<open>Parse\<close> prints (the error and the usage text) goes to the standard error stream and is left
  out.
\<close>

section \<open>Flag sets\<close>

text \<open>A flag stores its value in the variables \<open>'s\<close> of the program.\<close>

datatype 's flag =
  StringFlag "string \<Rightarrow> 's \<Rightarrow> 's"
| BoolFlag "bool \<Rightarrow> 's \<Rightarrow> 's"

text \<open>\<open>strconv.ParseBool\<close>.\<close>

definition parse_bool :: "string \<Rightarrow> bool option" where
  "parse_bool s =
     (if s \<in> {''1'', ''t'', ''T'', ''true'', ''TRUE'', ''True''} then Some True
      else if s \<in> {''0'', ''f'', ''F'', ''false'', ''FALSE'', ''False''} then Some False
      else None)"

text \<open>
  How \<open>parseOne\<close> reads one argument: it ends the flags (an argument that does not start with a
  hyphen or is a hyphen alone; or two hyphens, which are consumed), is not well formed, or
  names a flag, after one or two hyphens, with the value after the first equals sign if there
  is one.
\<close>

datatype argument =
  Positional
| Terminator
| Malformed
| Named string "string option"

definition named :: "string \<Rightarrow> argument" where
  "named name =
     Named (takeWhile (\<lambda>c. c \<noteq> CHR ''='') name)
       (case dropWhile (\<lambda>c. c \<noteq> CHR ''='') name of [] \<Rightarrow> None | _ # value \<Rightarrow> Some value)"

fun read_argument :: "string \<Rightarrow> argument" where
  "read_argument (c # d # s) =
     (if c \<noteq> CHR ''-'' then Positional
      else if d = CHR ''-'' \<and> s = [] then Terminator
      else
        let name = (if d = CHR ''-'' then s else d # s)
        in if hd name = CHR ''-'' \<or> hd name = CHR ''='' then Malformed else named name)"
| "read_argument _ = Positional"

text \<open>\<open>Parse\<close>: an error's text, or the variables and the arguments that are left.\<close>

fun parse_flags :: "(string \<rightharpoonup> 's flag) \<Rightarrow> 's \<Rightarrow> string list \<Rightarrow> string + 's \<times> string list" where
  "parse_flags F v [] = Inr (v, [])"
| "parse_flags F v (a # as) =
     (case read_argument a of
        Positional \<Rightarrow> Inr (v, a # as)
      | Terminator \<Rightarrow> Inr (v, as)
      | Malformed \<Rightarrow> Inl (''bad flag syntax: '' @ a)
      | Named name given \<Rightarrow>
          (case F name of
             None \<Rightarrow>
               Inl (if name = ''help'' \<or> name = ''h'' then ''flag: help requested''
                    else ''flag provided but not defined: -'' @ name)
           | Some (BoolFlag store) \<Rightarrow>
               (case given of
                  None \<Rightarrow> parse_flags F (store True v) as
                | Some s \<Rightarrow>
                    (case parse_bool s of
                       None \<Rightarrow> Inl (''invalid boolean value '' @ go_quote s @ '' for -'' @ name @
                                 '': parse error'')
                     | Some b \<Rightarrow> parse_flags F (store b v) as))
           | Some (StringFlag store) \<Rightarrow>
               (case given of
                  Some s \<Rightarrow> parse_flags F (store s v) as
                | None \<Rightarrow>
                    (case as of
                       [] \<Rightarrow> Inl (''flag needs an argument: -'' @ name)
                     | s # bs \<Rightarrow> parse_flags F (store s v) bs))))"

text \<open>A flag with its value, in the two forms.\<close>

lemma read_dashed:
  "name \<noteq> [] \<Longrightarrow> CHR ''='' \<notin> set name \<Longrightarrow> hd name \<noteq> CHR ''-'' \<Longrightarrow>
     read_argument (''--'' @ name) = Named name None \<and>
     read_argument (''--'' @ name @ ''='' @ s) = Named name (Some s)"
proof -
  assume name: "name \<noteq> []" "CHR ''='' \<notin> set name" "hd name \<noteq> CHR ''-''"
  have t: "takeWhile (\<lambda>c. c \<noteq> CHR ''='') name = name" "dropWhile (\<lambda>c. c \<noteq> CHR ''='') name = []"
    using name(2) by (induction name; auto)+
  have u: "takeWhile (\<lambda>c. c \<noteq> CHR ''='') (name @ CHR ''='' # s) = name"
    "dropWhile (\<lambda>c. c \<noteq> CHR ''='') (name @ CHR ''='' # s) = CHR ''='' # s"
    using name(2) by (induction name; auto)+
  have "hd name \<noteq> CHR ''=''" using name(1,2) by (metis hd_in_set)
  moreover have "named name = Named name None" "named (name @ CHR ''='' # s) = Named name (Some s)"
    unfolding named_def t u by simp_all
  ultimately show ?thesis using name by simp
qed

lemma parse_string_flag:
  assumes "F name = Some (StringFlag store)"
    and "name \<noteq> []" and "CHR ''='' \<notin> set name" and "hd name \<noteq> CHR ''-''"
  shows "parse_flags F v ((''--'' @ name) # s # as) = parse_flags F (store s v) as"
    and "parse_flags F v ((''--'' @ name @ ''='' @ s) # as) = parse_flags F (store s v) as"
proof -
  show "parse_flags F v ((''--'' @ name) # s # as) = parse_flags F (store s v) as"
    unfolding parse_flags.simps(2) [of F v "''--'' @ name"] read_dashed [OF assms(2-4), THEN conjunct1]
    by (simp add: assms(1))
  show "parse_flags F v ((''--'' @ name @ ''='' @ s) # as) = parse_flags F (store s v) as"
    unfolding parse_flags.simps(2) [of F v "''--'' @ name @ ''='' @ s"] read_dashed [OF assms(2-4), THEN conjunct2]
    by (simp add: assms(1))
qed

section \<open>Decimal numbers\<close>

fun decimal_nat :: "nat \<Rightarrow> string" where
  "decimal_nat n =
     (if n < 10 then [char_of (48 + n)] else decimal_nat (n div 10) @ [char_of (48 + n mod 10)])"

declare decimal_nat.simps [simp del]

text \<open>\<open>%d\<close> of an \<open>int64\<close>.\<close>

definition decimal :: "int64 \<Rightarrow> string" where
  "decimal n =
     (if sint n < 0 then CHR ''-'' # decimal_nat (nat (- sint n)) else decimal_nat (nat (sint n)))"

lemma of_char_decimal: "c \<in> set (decimal_nat n) \<Longrightarrow> of_char c \<in> {48..<58::nat}"
proof (induction n rule: decimal_nat.induct)
  case (1 n)
  have "of_char (char_of (48 + m) :: char) = (48 + m :: nat)" if "m < 10" for m :: nat
    using that by simp
  then show ?case using 1 by (subst (asm) (2) decimal_nat.simps) (auto split: if_splits)
qed

lemma decimal_chars: "c \<in> set (decimal n) \<Longrightarrow> c = CHR ''-'' \<or> of_char c \<in> {48..<58::nat}"
  using of_char_decimal [of c] by (auto simp: decimal_def split: if_splits)

section \<open>Recorded calls\<close>

text \<open>
  The commands act on a world of any type. To speak of the calls they make, a call is recorded
  with its answer in a list beside the world.
\<close>

definition recording :: "('w \<Rightarrow> 'a \<times> 'w) \<Rightarrow> ('a \<Rightarrow> 'e) \<Rightarrow> 'w \<times> 'e list \<Rightarrow> 'a \<times> 'w \<times> 'e list" where
  "recording f ev = (\<lambda>(w, es). case f w of (a, w') \<Rightarrow> (a, w', es @ [ev a]))"

lemma run_recording [simp]:
  "recording f ev (w, es) = (fst (f w), snd (f w), es @ [ev (fst (f w))])"
  by (simp add: recording_def split_beta)

end
