(* ===== verification/Status_Command.thy ===== *)
theory Status_Command
  imports Go_Flags
begin

text \<open>
  The command \<open>polykube-status\<close> (\<open>cmd/polykube-status/main.go\<close>): its options, the list of
  contexts, the query of every context, the records of a Workload, and the table. Its functions
  run in the state monad over a world \<open>'w\<close>, on which the client libraries and the output act.
\<close>

section \<open>Code that is not in the repository\<close>

text \<open>
  The values of an unstructured object, as far as the command tells them apart, and the
  accessors of \<open>unstructured\<close> with their three results (value, found, error).
\<close>

datatype any =
  AnyString string
| AnyMap "string \<rightharpoonup> any"
| AnyOther

record 'o accessors =
  u_NestedInt64 :: "'o \<Rightarrow> string list \<Rightarrow> int64 \<times> bool \<times> string option"
  u_NestedString :: "'o \<Rightarrow> string list \<Rightarrow> string \<times> bool \<times> string option"
  u_NestedSlice :: "'o \<Rightarrow> string list \<Rightarrow> any list \<times> bool \<times> string option"
  u_GetNamespace :: "'o \<Rightarrow> string"
  u_GetName :: "'o \<Rightarrow> string"
  u_GetGeneration :: "'o \<Rightarrow> int64"

text \<open>\<open>clientcmd\<close> and \<open>dynamic\<close>; an error is its text.\<close>

record GroupVersionResource =
  gvrGroup :: string
  gvrVersion :: string
  gvrResource :: string

record loading_rules =
  ExplicitPath :: string

record ('w, 'o, 'c, 'd) client_go =
  g_DefaultLoadingRules :: "'w \<Rightarrow> loading_rules \<times> 'w"
  g_ClientConfig :: "loading_rules \<Rightarrow> string \<Rightarrow> 'w \<Rightarrow> (string + 'c) \<times> 'w"
    \<comment> \<open>the deferred loading of a configuration, with \<open>CurrentContext\<close> overridden\<close>
  g_NewForConfig :: "'c \<Rightarrow> 'w \<Rightarrow> (string + 'd) \<times> 'w"
  g_List :: "'d \<Rightarrow> GroupVersionResource \<Rightarrow> string \<Rightarrow> 'w \<Rightarrow> (string + 'o list) \<times> 'w"

section \<open>Options\<close>

record options =
  oContexts :: "string list"
  oKubeconfig :: string
  oNamespace :: string
  oOutput :: string

text \<open>The variables behind the flags, and the flag set.\<close>

record flag_values =
  fContexts :: string
  fKubeconfig :: string
  fNamespace :: string
  fOutput :: string

definition status_flags :: "string \<rightharpoonup> flag_values flag" where
  "status_flags = map_of
     [(''contexts'', StringFlag (\<lambda>s v. v\<lparr>fContexts := s\<rparr>)),
      (''kubeconfig'', StringFlag (\<lambda>s v. v\<lparr>fKubeconfig := s\<rparr>)),
      (''namespace'', StringFlag (\<lambda>s v. v\<lparr>fNamespace := s\<rparr>)),
      (''output'', StringFlag (\<lambda>s v. v\<lparr>fOutput := s\<rparr>))]"

definition default_values :: flag_values where
  "default_values =
     \<lparr>fContexts = '''', fKubeconfig = '''', fNamespace = '''', fOutput = ''table''\<rparr>"

text \<open>The loop over the values between commas: \<open>seen\<close> and \<open>contexts\<close> as in the code.\<close>

primrec collect_contexts :: "string set \<Rightarrow> string list \<Rightarrow> string list \<Rightarrow> string + string list" where
  "collect_contexts seen contexts [] = Inr contexts"
| "collect_contexts seen contexts (value # rest) =
     (let contextName = trim_space value
      in if contextName = '''' then collect_contexts seen contexts rest
         else if contextName \<in> seen
           then Inl (''context '' @ go_quote contextName @ '' was specified more than once'')
         else collect_contexts (insert contextName seen) (contexts @ [contextName]) rest)"

definition parseOptions :: "string list \<Rightarrow> string + options" where
  "parseOptions args =
     (case parse_flags status_flags default_values args of
        Inl err \<Rightarrow> Inl err
      | Inr (v, left) \<Rightarrow>
          if left \<noteq> [] then Inl (''unexpected arguments: '' @ join '' '' left)
          else
            (case collect_contexts {} [] (split_on (CHR '','') (fContexts v)) of
               Inl err \<Rightarrow> Inl err
             | Inr contexts \<Rightarrow>
                 if contexts = []
                   then Inl ''--contexts is required; refusing to query implicit kubeconfig contexts''
                 else if fOutput v \<noteq> ''table'' \<and> fOutput v \<noteq> ''json''
                   then Inl (''--output must be table or json, got '' @ go_quote (fOutput v))
                 else Inr \<lparr>oContexts = contexts, oKubeconfig = fKubeconfig v,
                        oNamespace = fNamespace v, oOutput = fOutput v\<rparr>))"

section \<open>Records\<close>

record statusRecord =
  srContext :: string
  srNamespace :: string
  srWorkload :: string
  srClusterMember :: string
  srGeneration :: int64
  srObservedGeneration :: int64
  srTargetState :: string
  srActiveImage :: string
  srMessage :: string

definition stringField :: "(string \<rightharpoonup> any) \<Rightarrow> string \<Rightarrow> string" where
  "stringField m f = (case m f of Some (AnyString s) \<Rightarrow> s | _ \<Rightarrow> '''')"

text \<open>The records of one Workload, and the loop over the list.\<close>

definition target_record ::
  "string \<Rightarrow> 'o accessors \<Rightarrow> 'o \<Rightarrow> (string \<rightharpoonup> any) \<Rightarrow> statusRecord" where
  "target_record contextName U workload m =
     \<lparr>srContext = contextName, srNamespace = u_GetNamespace U workload,
      srWorkload = u_GetName U workload, srClusterMember = stringField m ''clusterMemberRef'',
      srGeneration = u_GetGeneration U workload,
      srObservedGeneration = fst (u_NestedInt64 U workload [''status'', ''observedGeneration'']),
      srTargetState = stringField m ''state'',
      srActiveImage = fst (u_NestedString U workload [''status'', ''activeImage'']),
      srMessage = stringField m ''message''\<rparr>"

primrec target_records ::
  "string \<Rightarrow> 'o accessors \<Rightarrow> 'o \<Rightarrow> any list \<Rightarrow> statusRecord list" where
  "target_records contextName U workload [] = []"
| "target_records contextName U workload (target # rest) =
     (case target of
        AnyMap m \<Rightarrow> target_record contextName U workload m # target_records contextName U workload rest
      | _ \<Rightarrow> target_records contextName U workload rest)"

primrec recordsFor :: "string \<Rightarrow> 'o accessors \<Rightarrow> 'o list \<Rightarrow> statusRecord list" where
  "recordsFor contextName U [] = []"
| "recordsFor contextName U (workload # rest) =
     (let targets = fst (u_NestedSlice U workload [''status'', ''targets''])
      in (if targets = [] then
            [\<lparr>srContext = contextName, srNamespace = u_GetNamespace U workload,
              srWorkload = u_GetName U workload, srClusterMember = '''',
              srGeneration = u_GetGeneration U workload,
              srObservedGeneration = fst (u_NestedInt64 U workload [''status'', ''observedGeneration'']),
              srTargetState = '''',
              srActiveImage = fst (u_NestedString U workload [''status'', ''activeImage'']),
              srMessage = ''''\<rparr>]
          else target_records contextName U workload targets) @ recordsFor contextName U rest)"

text \<open>The order of the output: the four fields joined by a NUL byte.\<close>

definition record_key :: "statusRecord \<Rightarrow> string" where
  "record_key r =
     join [CHR 0x00] [srContext r, srNamespace r, srWorkload r, srClusterMember r]"

definition record_less :: "statusRecord \<Rightarrow> statusRecord \<Rightarrow> bool" where
  "record_less left right \<longleftrightarrow> record_key left < record_key right"

section \<open>The table\<close>

text \<open>\<open>strings.NewReplacer\<close> with three replacements of single bytes.\<close>

definition valueOrNone :: "string \<Rightarrow> string" where
  "valueOrNone value =
     (if value = '''' then ''<none>''
      else map (\<lambda>c. if c = CHR 0x09 \<or> c = CHR 0x0D \<or> c = CHR 0x0A then CHR '' '' else c) value)"

definition table_header :: string where
  "table_header = join [CHR 0x09]
     [''CONTEXT'', ''NAMESPACE'', ''WORKLOAD'', ''MEMBER'', ''GENERATION'', ''OBSERVED'', ''STATE'',
      ''ACTIVE IMAGE'', ''MESSAGE''] @ [CHR 0x0A]"

definition table_row :: "statusRecord \<Rightarrow> string" where
  "table_row r = join [CHR 0x09]
     [srContext r, srNamespace r, srWorkload r, valueOrNone (srClusterMember r),
      decimal (srGeneration r), decimal (srObservedGeneration r), valueOrNone (srTargetState r),
      valueOrNone (srActiveImage r), valueOrNone (srMessage r)] @ [CHR 0x0A]"

text \<open>
  What \<open>run\<close> gets and uses: the function that lists the Workloads of a context, the
  \<open>tabwriter\<close> and the JSON encoder on the standard output, and \<open>sort.Slice\<close>.
\<close>

record ('w, 'o) outside =
  x_List :: "string \<Rightarrow> string \<Rightarrow> string \<Rightarrow> 'w \<Rightarrow> (string + 'o list) \<times> 'w"
    \<comment> \<open>kubeconfig, context, namespace\<close>
  x_TabWrite :: "string \<Rightarrow> 'w \<Rightarrow> string option \<times> 'w"
  x_TabFlush :: "'w \<Rightarrow> string option \<times> 'w"
  x_Encode :: "statusRecord list \<Rightarrow> 'w \<Rightarrow> string option \<times> 'w"
  x_Sort :: "(statusRecord \<Rightarrow> statusRecord \<Rightarrow> bool) \<Rightarrow> statusRecord list \<Rightarrow> statusRecord list"

primrec write_rows ::
  "('w, 'o) outside \<Rightarrow> statusRecord list \<Rightarrow> ('w, string option) state" where
  "write_rows X [] = State (x_TabFlush X)"
| "write_rows X (r # rs) =
     do { err \<leftarrow> State (x_TabWrite X (table_row r));
          case err of Some e \<Rightarrow> State_Monad.return (Some e) | None \<Rightarrow> write_rows X rs }"

definition writeTable :: "('w, 'o) outside \<Rightarrow> statusRecord list \<Rightarrow> ('w, string option) state" where
  "writeTable X records =
     do { err \<leftarrow> State (x_TabWrite X table_header);
          case err of Some e \<Rightarrow> State_Monad.return (Some e) | None \<Rightarrow> write_rows X records }"

section \<open>The command\<close>

primrec query_contexts ::
  "('w, 'o) outside \<Rightarrow> 'o accessors \<Rightarrow> options \<Rightarrow> string list \<Rightarrow> statusRecord list \<Rightarrow>
   ('w, string + statusRecord list) state" where
  "query_contexts X U opts [] records = State_Monad.return (Inr records)"
| "query_contexts X U opts (contextName # rest) records =
     do {
       r \<leftarrow> State (x_List X (oKubeconfig opts) contextName (oNamespace opts));
       case r of
         Inl err \<Rightarrow>
           State_Monad.return (Inl (''query context '' @ go_quote contextName @ '': '' @ err))
       | Inr workloads \<Rightarrow>
           query_contexts X U opts rest (records @ recordsFor contextName U workloads)
     }"

text \<open>The error's text, if there is one.\<close>

definition run_status ::
  "('w, 'o) outside \<Rightarrow> 'o accessors \<Rightarrow> string list \<Rightarrow> ('w, string option) state" where
  "run_status X U args =
     (case parseOptions args of
        Inl err \<Rightarrow> State_Monad.return (Some err)
      | Inr opts \<Rightarrow>
          do {
            r \<leftarrow> query_contexts X U opts (oContexts opts) [];
            case r of
              Inl err \<Rightarrow> State_Monad.return (Some err)
            | Inr records \<Rightarrow>
                let records = x_Sort X record_less records
                in if oOutput opts = ''json'' then State (x_Encode X records)
                   else if oOutput opts = ''table'' then writeTable X records
                   else State_Monad.return (Some (''unsupported output '' @ go_quote (oOutput opts)))
          })"

definition workloadResource :: GroupVersionResource where
  "workloadResource =
     \<lparr>gvrGroup = ''runtime.polykube.dev'', gvrVersion = ''v1alpha1'', gvrResource = ''workloads''\<rparr>"

definition listWorkloads ::
  "('w, 'o, 'c, 'd) client_go \<Rightarrow> string \<Rightarrow> string \<Rightarrow> string \<Rightarrow> ('w, string + 'o list) state" where
  "listWorkloads G kubeconfig contextName namespace =
     do {
       rules \<leftarrow> State (g_DefaultLoadingRules G);
       let rules = (if kubeconfig \<noteq> '''' then rules\<lparr>ExplicitPath := kubeconfig\<rparr> else rules);
       config \<leftarrow> State (g_ClientConfig G rules contextName);
       case config of
         Inl err \<Rightarrow> State_Monad.return (Inl err)
       | Inr config \<Rightarrow>
           do {
             client \<leftarrow> State (g_NewForConfig G config);
             case client of
               Inl err \<Rightarrow> State_Monad.return (Inl err)
             | Inr client \<Rightarrow> State (g_List G client workloadResource namespace)
           }
     }"

text \<open>\<open>main\<close>: what it prints to the standard error stream and the exit code.\<close>

definition status_main ::
  "('w, 'o, 'c, 'd) client_go \<Rightarrow> ('w, 'o) outside \<Rightarrow> 'o accessors \<Rightarrow> string list \<Rightarrow>
   ('w, string \<times> nat) state" where
  "status_main G X U args =
     do {
       err \<leftarrow> run_status
         (X\<lparr>x_List := \<lambda>kubeconfig c ns. run_state (listWorkloads G kubeconfig c ns)\<rparr>) U args;
       State_Monad.return
         (case err of
            None \<Rightarrow> ('''', 0)
          | Some e \<Rightarrow> (''polykube-status: '' @ e @ [CHR 0x0A], 1))
     }"

end
