(* ===== verification/Status_Facts.thy ===== *)
theory Status_Facts
  imports Status_Command "HOL-Library.Multiset"
begin

text \<open>
  The facts about the command: what the options accepted are, the queries and the output as a
  recorded sequence of events, the order of the records, and the text of the table.
\<close>

section \<open>Options\<close>

text \<open>The context names in the value of the flag.\<close>

definition context_names :: "string list \<Rightarrow> string list" where
  "context_names parts = filter (\<lambda>c. c \<noteq> '''') (map trim_space parts)"

lemma context_names_simps [simp]:
  "context_names [] = []"
  "context_names (v # vs) =
     (if trim_space v = '''' then context_names vs else trim_space v # context_names vs)"
  by (simp_all add: context_names_def)

lemma collect_contexts_iff:
  "distinct cs \<Longrightarrow>
     collect_contexts (set cs) cs parts = Inr result \<longleftrightarrow>
       result = cs @ context_names parts \<and> distinct result"
proof (induction parts arbitrary: cs)
  case Nil
  then show ?case by auto
next
  case (Cons v vs)
  show ?case
  proof (cases "trim_space v = '''' \<or> trim_space v \<in> set cs")
    case True
    then show ?thesis using Cons by (auto simp: Let_def)
  next
    case False
    then have "collect_contexts (set cs) cs (v # vs) =
        collect_contexts (set (cs @ [trim_space v])) (cs @ [trim_space v]) vs"
      by (simp add: Let_def)
    also have "\<dots> = Inr result \<longleftrightarrow> result = (cs @ [trim_space v]) @ context_names vs \<and> distinct result"
      by (rule Cons.IH) (use False Cons.prems in simp)
    finally show ?thesis using False by simp
  qed
qed

text \<open>What every accepted command line means.\<close>

definition context_name :: "string \<Rightarrow> bool" where
  "context_name c \<longleftrightarrow> c \<noteq> '''' \<and> trim_space c = c \<and> CHR '','' \<notin> set c"

definition valid_options :: "options \<Rightarrow> bool" where
  "valid_options opts \<longleftrightarrow>
     oContexts opts \<noteq> [] \<and> distinct (oContexts opts) \<and> list_all context_name (oContexts opts) \<and>
     oOutput opts \<in> {''table'', ''json''}"

definition options_of :: "flag_values \<Rightarrow> options" where
  "options_of v =
     \<lparr>oContexts = context_names (split_on (CHR '','') (fContexts v)),
      oKubeconfig = fKubeconfig v, oNamespace = fNamespace v, oOutput = fOutput v\<rparr>"

lemma names_are_context_names:
  "list_all context_name (context_names (split_on (CHR '','') s))"
proof -
  have "CHR '','' \<notin> set (trim_space w)" if "w \<in> set (split_on (CHR '','') s)" for w
    using split_on_no_sep [OF that] trim_space_subset [of w] by blast
  then show ?thesis
    by (auto simp: context_names_def context_name_def list_all_iff)
qed

lemma parseOptions_iff:
  "parseOptions args = Inr opts \<longleftrightarrow>
     (\<exists>v. parse_flags status_flags default_values args = Inr (v, []) \<and>
        opts = options_of v \<and> valid_options opts)"
proof (cases "parse_flags status_flags default_values args")
  case (Inl err)
  then show ?thesis by (simp add: parseOptions_def)
next
  case (Inr parsed)
  obtain v left where parsed: "parsed = (v, left)" by (cases parsed)
  let ?parts = "split_on (CHR '','') (fContexts v)"
  note names = collect_contexts_iff [of "[]" ?parts, simplified]
  show ?thesis
  proof (cases "collect_contexts {} [] ?parts")
    case (Inl err)
    then have "\<not> distinct (context_names ?parts)" using names by (metis sum.distinct(1))
    then show ?thesis
      using Inl Inr parsed by (auto simp: parseOptions_def options_of_def valid_options_def)
  next
    case collected: (Inr contexts)
    then have "contexts = context_names ?parts" "distinct contexts"
      using names by auto
    then show ?thesis
      using collected Inr parsed names_are_context_names [of "fContexts v"]
      by (auto simp: parseOptions_def options_of_def valid_options_def)
  qed
qed

lemma context_names_join:
  assumes "cs \<noteq> []" and "list_all context_name cs"
  shows "context_names (split_on (CHR '','') (join '','' cs)) = cs"
proof -
  have "split_on (CHR '','') (join [CHR '',''] cs) = cs"
    by (rule split_on_join) (use assms in \<open>auto simp: context_name_def list_all_iff\<close>)
  moreover have "context_names cs = cs"
    using assms(2) by (induction cs) (simp_all add: context_name_def)
  ultimately show ?thesis by simp
qed

text \<open>
  A command line: flags with their values, each as one argument with an equals sign or as two
  arguments. The last value of a flag counts.
\<close>

type_synonym setting = "string \<times> string \<times> bool"

definition setting_args :: "setting \<Rightarrow> string list" where
  "setting_args = (\<lambda>(name, value, joined).
     if joined then [''--'' @ name @ ''='' @ value] else [''--'' @ name, value])"

definition setting :: "setting list \<Rightarrow> string \<Rightarrow> string \<Rightarrow> string" where
  "setting ss name unset =
     (case map_of (rev (map (\<lambda>(n, value, joined). (n, value)) ss)) name of
        None \<Rightarrow> unset | Some value \<Rightarrow> value)"

definition status_flag_names :: "string list" where
  "status_flag_names = [''contexts'', ''kubeconfig'', ''namespace'', ''output'']"

lemma setting_Nil [simp]: "setting [] name unset = unset"
  by (simp add: setting_def)

lemma setting_Cons [simp]:
  "setting ((n, value, joined) # ss) name unset =
     setting ss name (if name = n then value else unset)"
  by (simp add: setting_def map_add_def split: option.splits)

lemma parse_settings:
  "list_all (\<lambda>(name, value, joined). name \<in> set status_flag_names) ss \<Longrightarrow>
     parse_flags status_flags v (concat (map setting_args ss)) =
       Inr (\<lparr>fContexts = setting ss ''contexts'' (fContexts v),
             fKubeconfig = setting ss ''kubeconfig'' (fKubeconfig v),
             fNamespace = setting ss ''namespace'' (fNamespace v),
             fOutput = setting ss ''output'' (fOutput v)\<rparr>, [])"
proof (induction ss arbitrary: v)
  case Nil
  then show ?case by simp
next
  case (Cons x ss)
  obtain name "value" joined where x: "x = (name, value, joined)" by (cases x)
  have name: "name \<in> set status_flag_names" using Cons.prems x by simp
  then obtain store where store: "status_flags name = Some (StringFlag store)"
    and stored: "store value v = \<lparr>fContexts = if name = ''contexts'' then value else fContexts v,
      fKubeconfig = if name = ''kubeconfig'' then value else fKubeconfig v,
      fNamespace = if name = ''namespace'' then value else fNamespace v,
      fOutput = if name = ''output'' then value else fOutput v\<rparr>"
    by (cases v) (auto simp: status_flag_names_def status_flags_def)
  have "name \<noteq> []" "CHR ''='' \<notin> set name" "hd name \<noteq> CHR ''-''"
    using name by (auto simp: status_flag_names_def)
  note flag = parse_string_flag [where F = status_flags, OF store this]
  have "parse_flags status_flags v (concat (map setting_args (x # ss))) =
      parse_flags status_flags (store value v) (concat (map setting_args ss))"
    using flag [of v "value" "concat (map setting_args ss)"] by (simp add: x setting_args_def)
  also have "\<dots> = Inr (\<lparr>fContexts = setting ss ''contexts'' (fContexts (store value v)),
             fKubeconfig = setting ss ''kubeconfig'' (fKubeconfig (store value v)),
             fNamespace = setting ss ''namespace'' (fNamespace (store value v)),
             fOutput = setting ss ''output'' (fOutput (store value v))\<rparr>, [])"
    by (rule Cons.IH) (use Cons.prems in simp)
  finally show ?case by (simp add: x stored eq_commute)
qed

section \<open>Recorded runs\<close>

text \<open>The calls of a run, with their answers.\<close>

datatype 'o status_event =
  Listed string string string "string + 'o list"
| TabWritten string "string option"
| TabFlushed "string option"
| EncodedRecords "statusRecord list" "string option"

definition recorded :: "('w, 'o) outside \<Rightarrow> ('w \<times> 'o status_event list, 'o) outside" where
  "recorded X =
     \<lparr>x_List = \<lambda>kubeconfig c ns. recording (x_List X kubeconfig c ns) (Listed kubeconfig c ns),
      x_TabWrite = \<lambda>line. recording (x_TabWrite X line) (TabWritten line),
      x_TabFlush = recording (x_TabFlush X) TabFlushed,
      x_Encode = \<lambda>records. recording (x_Encode X records) (EncodedRecords records),
      x_Sort = x_Sort X\<rparr>"

definition recorded_run ::
  "('w, 'o) outside \<Rightarrow> 'o accessors \<Rightarrow> string list \<Rightarrow> 'w \<Rightarrow> string option \<times> 'o status_event list"
where
  "recorded_run X U args w =
     (case run_state (run_status (recorded X) U args) (w, []) of (r, _, es) \<Rightarrow> (r, es))"

lemma recorded_simps [simp]:
  "x_List (recorded X) kubeconfig c ns = recording (x_List X kubeconfig c ns) (Listed kubeconfig c ns)"
  "x_TabWrite (recorded X) line = recording (x_TabWrite X line) (TabWritten line)"
  "x_TabFlush (recorded X) = recording (x_TabFlush X) TabFlushed"
  "x_Encode (recorded X) records = recording (x_Encode X records) (EncodedRecords records)"
  "x_Sort (recorded X) = x_Sort X"
  by (simp_all add: recorded_def)

text \<open>The text lines written: up to the first failure, with the flush at the end.\<close>

primrec written :: "string list \<Rightarrow> 'o status_event list \<Rightarrow> string option \<Rightarrow> bool" where
  "written [] es r \<longleftrightarrow> es = [TabFlushed r]"
| "written (line # lines) es r \<longleftrightarrow>
     (\<exists>err rest. es = TabWritten line err # rest \<and>
        (case err of Some m \<Rightarrow> rest = [] \<and> r = Some m | None \<Rightarrow> written lines rest r))"

lemma write_rows_recorded:
  "\<exists>r w' es'. run_state (write_rows (recorded X) rs) (w, es) = (r, w', es @ es') \<and>
     written (map table_row rs) es' r"
proof (induction rs arbitrary: w es)
  case Nil
  then show ?case by simp
next
  case (Cons x rs)
  obtain err w1 where step: "x_TabWrite X (table_row x) w = (err, w1)" by fastforce
  show ?case
  proof (cases err)
    case (Some m)
    then show ?thesis using step by simp
  next
    case None
    obtain r w' es' where
      "run_state (write_rows (recorded X) rs) (w1, es @ [TabWritten (table_row x) None]) =
        (r, w', (es @ [TabWritten (table_row x) None]) @ es')" "written (map table_row rs) es' r"
      using Cons.IH by blast
    then show ?thesis
      using step None by (intro exI [of _ r] exI [of _ w'] exI [of _ "TabWritten (table_row x) None # es'"]) simp
  qed
qed

lemma writeTable_recorded:
  obtains r w' es' where
    "run_state (writeTable (recorded X) rs) (w, es) = (r, w', es @ es')"
    "written (table_header # map table_row rs) es' r"
proof -
  obtain err w1 where step: "x_TabWrite X table_header w = (err, w1)" by fastforce
  show ?thesis
  proof (cases err)
    case (Some m)
    then show ?thesis
      using step by (intro that [of "Some m" w1 "[TabWritten table_header (Some m)]"])
        (simp_all add: writeTable_def)
  next
    case None
    obtain r w' es' where
      "run_state (write_rows (recorded X) rs) (w1, es @ [TabWritten table_header None]) =
        (r, w', (es @ [TabWritten table_header None]) @ es')" "written (map table_row rs) es' r"
      using write_rows_recorded [of X rs w1 "es @ [TabWritten table_header None]"] by blast
    then show ?thesis
      using step None by (intro that [of r w' "TabWritten table_header None # es'"])
        (simp_all add: writeTable_def)
  qed
qed

text \<open>The queries: one for each context, in order, up to the first failure.\<close>

definition query_events :: "options \<Rightarrow> string list \<Rightarrow> (string + 'o list) list \<Rightarrow> 'o status_event list" where
  "query_events opts = map2 (\<lambda>c a. Listed (oKubeconfig opts) c (oNamespace opts) a)"

definition all_records :: "'o accessors \<Rightarrow> string list \<Rightarrow> 'o list list \<Rightarrow> statusRecord list" where
  "all_records U cs answers = concat (map2 (\<lambda>c ws. recordsFor c U ws) cs answers)"

definition query_error :: "string \<Rightarrow> string \<Rightarrow> string" where
  "query_error c err = ''query context '' @ go_quote c @ '': '' @ err"

lemma query_contexts_recorded:
  "(\<exists>answers err w'. length answers < length cs \<and>
      run_state (query_contexts (recorded X) U opts cs records) (w, es) =
        (Inl (query_error (cs ! length answers) err), w',
         es @ query_events opts cs (map Inr answers @ [Inl err]))) \<or>
   (\<exists>answers w'. length answers = length cs \<and>
      run_state (query_contexts (recorded X) U opts cs records) (w, es) =
        (Inr (records @ all_records U cs answers), w', es @ query_events opts cs (map Inr answers)))"
proof (induction cs arbitrary: records w es)
  case Nil
  then show ?case by (simp add: query_events_def all_records_def)
next
  case (Cons c cs)
  let ?ev = "Listed (oKubeconfig opts) c (oNamespace opts)"
  obtain a w1 where step: "x_List X (oKubeconfig opts) c (oNamespace opts) w = (a, w1)" by fastforce
  show ?case
  proof (cases a)
    case (Inl err)
    then show ?thesis
      using step by (intro disjI1 exI [of _ "[]"] exI [of _ err] exI [of _ w1])
        (simp add: query_events_def query_error_def)
  next
    case (Inr ws)
    let ?run = "run_state (query_contexts (recorded X) U opts (c # cs) records) (w, es)"
    have eq: "?run = run_state (query_contexts (recorded X) U opts cs (records @ recordsFor c U ws))
        (w1, es @ [?ev (Inr ws)])"
      using step Inr by simp
    from Cons.IH [of "records @ recordsFor c U ws" w1 "es @ [?ev (Inr ws)]"] show ?thesis
    proof (elim disjE exE conjE)
      fix answers err w'
      assume "length answers < length cs" and
        "run_state (query_contexts (recorded X) U opts cs (records @ recordsFor c U ws)) (w1, es @ [?ev (Inr ws)]) =
          (Inl (query_error (cs ! length answers) err), w',
           (es @ [?ev (Inr ws)]) @ query_events opts cs (map Inr answers @ [Inl err]))"
      then show ?thesis
        unfolding eq by (intro disjI1 exI [of _ "ws # answers"] exI [of _ err] exI [of _ w'])
          (simp add: query_events_def)
    next
      fix answers w'
      assume "length answers = length cs" and
        "run_state (query_contexts (recorded X) U opts cs (records @ recordsFor c U ws)) (w1, es @ [?ev (Inr ws)]) =
          (Inr ((records @ recordsFor c U ws) @ all_records U cs answers), w',
           (es @ [?ev (Inr ws)]) @ query_events opts cs (map Inr answers))"
      then show ?thesis
        unfolding eq by (intro disjI2 exI [of _ "ws # answers"] exI [of _ w'])
          (simp add: query_events_def all_records_def)
    qed
  qed
qed

text \<open>What is written for a list of records, with the result.\<close>

definition output_events ::
  "string \<Rightarrow> statusRecord list \<Rightarrow> 'o status_event list \<Rightarrow> string option \<Rightarrow> bool" where
  "output_events format records es r \<longleftrightarrow>
     (if format = ''json'' then es = [EncodedRecords records r]
      else written (table_header # map table_row records) es r)"

lemma run_status_recorded:
  assumes "parseOptions args = Inr opts" and "recorded_run X U args w = (r, es)"
  shows "(\<exists>answers err. length answers < length (oContexts opts) \<and>
      r = Some (query_error (oContexts opts ! length answers) err) \<and>
      es = query_events opts (oContexts opts) (map Inr answers @ [Inl err])) \<or>
    (\<exists>answers out. length answers = length (oContexts opts) \<and>
      es = query_events opts (oContexts opts) (map Inr answers) @ out \<and>
      output_events (oOutput opts)
        (x_Sort X record_less (all_records U (oContexts opts) answers)) out r)"
  using query_contexts_recorded [of "oContexts opts" X U opts "[]" w "[]"]
proof (elim disjE exE conjE)
  fix answers err w'
  assume "length answers < length (oContexts opts)" and
    "run_state (query_contexts (recorded X) U opts (oContexts opts) []) (w, []) =
      (Inl (query_error (oContexts opts ! length answers) err), w',
       [] @ query_events opts (oContexts opts) (map Inr answers @ [Inl err]))"
  then show ?thesis
    using assms by (intro disjI1) (auto simp: recorded_run_def run_status_def)
next
  fix answers w'
  assume len: "length answers = length (oContexts opts)" and
    query: "run_state (query_contexts (recorded X) U opts (oContexts opts) []) (w, []) =
      (Inr ([] @ all_records U (oContexts opts) answers), w',
       [] @ query_events opts (oContexts opts) (map Inr answers))"
  let ?records = "x_Sort X record_less (all_records U (oContexts opts) answers)"
  let ?es = "query_events opts (oContexts opts) (map Inr answers)"
  have "oOutput opts = ''json'' \<or> oOutput opts = ''table''"
    using assms(1) by (auto simp: parseOptions_iff valid_options_def)
  then show ?thesis
  proof
    assume json: "oOutput opts = ''json''"
    then have "recorded_run X U args w =
        (fst (x_Encode X ?records w'), ?es @ [EncodedRecords ?records (fst (x_Encode X ?records w'))])"
      using assms(1) query by (simp add: recorded_run_def run_status_def Let_def)
    then show ?thesis using assms(2) json len by (auto simp: output_events_def)
  next
    assume table: "oOutput opts = ''table''"
    obtain r' w'' out where
      "run_state (writeTable (recorded X) ?records) (w', ?es) = (r', w'', ?es @ out)"
      and out: "written (table_header # map table_row ?records) out r'"
      by (rule writeTable_recorded)
    then have "recorded_run X U args w = (r', ?es @ out)"
      using assms(1) query table by (simp add: recorded_run_def run_status_def Let_def)
    then show ?thesis
      using assms(2) len table out by (auto simp: output_events_def simp del: written.simps)
  qed
qed

section \<open>The order of the records\<close>

text \<open>
  Joined by NUL bytes, lists of strings without NUL bytes compare as the lists do, entry by
  entry.
\<close>

lemma nul_least: "c \<noteq> CHR 0x00 \<Longrightarrow> CHR 0x00 < c"
proof -
  assume c: "c \<noteq> CHR 0x00"
  have "of_char c \<noteq> (0::nat)"
  proof
    assume "of_char c = (0::nat)"
    then have "c = char_of (0::nat)" by (metis char_of_char)
    moreover have "char_of (0::nat) = CHR 0x00" by code_simp
    ultimately show False using c by simp
  qed
  then show ?thesis by (simp add: less_char_def)
qed

lemma not_less_nul: "\<not> c < CHR 0x00"
  by (metis nul_least order.asym order.irrefl)

lemma prefix_less:
  "CHR 0x00 \<notin> set a \<Longrightarrow> CHR 0x00 \<notin> set b \<Longrightarrow>
     a @ CHR 0x00 # s < b @ CHR 0x00 # t \<longleftrightarrow> a < b \<or> a = b \<and> s < t"
proof (induction a arbitrary: b)
  case Nil
  then show ?case by (cases b) (auto intro: nul_least)
next
  case (Cons x xs)
  then show ?case
    by (cases b) (auto simp: not_less_nul dest: nul_least)
qed

lemma join_less:
  "length as = length bs \<Longrightarrow>
     list_all (\<lambda>w. CHR 0x00 \<notin> set w) as \<Longrightarrow> list_all (\<lambda>w. CHR 0x00 \<notin> set w) bs \<Longrightarrow>
     join [CHR 0x00] as < join [CHR 0x00] bs \<longleftrightarrow> as < bs"
proof (induction as bs rule: list_induct2)
  case Nil
  then show ?case by simp
next
  case (Cons a as b bs)
  then show ?case
    by (cases as; cases bs) (simp_all add: prefix_less)
qed

text \<open>\<open>sort.Slice\<close> with the order of a key permutes the list and sorts it by the key.\<close>

definition sort_ok :: "('w, 'o) outside \<Rightarrow> bool" where
  "sort_ok X \<longleftrightarrow>
     (\<forall>(key :: statusRecord \<Rightarrow> string) records.
        let result = x_Sort X (\<lambda>a b. key a < key b) records
        in mset result = mset records \<and> sorted (map key result))"

definition record_path :: "statusRecord \<Rightarrow> string list" where
  "record_path r = [srContext r, srNamespace r, srWorkload r, srClusterMember r]"

definition nul_free :: "statusRecord \<Rightarrow> bool" where
  "nul_free r \<longleftrightarrow> list_all (\<lambda>w. CHR 0x00 \<notin> set w) (record_path r)"

lemma record_less_path:
  "nul_free a \<Longrightarrow> nul_free b \<Longrightarrow> record_key a < record_key b \<longleftrightarrow> record_path a < record_path b"
  unfolding record_key_def nul_free_def record_path_def by (rule join_less) simp_all

lemma sorted_records:
  assumes "sort_ok X" and "\<forall>r \<in> set records. nul_free r"
  shows "mset (x_Sort X record_less records) = mset records"
    and "sorted (map record_path (x_Sort X record_less records))"
proof -
  let ?result = "x_Sort X record_less records"
  have "record_less = (\<lambda>a b. record_key a < record_key b)"
    by (intro ext) (simp add: record_less_def)
  then have *: "mset ?result = mset records" "sorted (map record_key ?result)"
    using assms(1) [unfolded sort_ok_def Let_def, rule_format, of record_key records] by simp_all
  show "mset ?result = mset records" by fact
  have "set ?result = set records" using * by (metis set_mset_mset)
  then have "\<forall>a \<in> set ?result. \<forall>b \<in> set ?result. record_key a \<le> record_key b \<longrightarrow> record_path a \<le> record_path b"
    using assms(2) record_less_path by (metis linorder_not_less)
  then show "sorted (map record_path ?result)"
    using *(2) by (simp add: sorted_map) (erule sorted_wrt_mono_rel [rotated]; blast)
qed

section \<open>The text of the table\<close>

definition table_cells :: "statusRecord \<Rightarrow> string list" where
  "table_cells r =
     [srContext r, srNamespace r, srWorkload r, valueOrNone (srClusterMember r),
      decimal (srGeneration r), decimal (srObservedGeneration r), valueOrNone (srTargetState r),
      valueOrNone (srActiveImage r), valueOrNone (srMessage r)]"

definition header_cells :: "string list" where
  "header_cells =
     [''CONTEXT'', ''NAMESPACE'', ''WORKLOAD'', ''MEMBER'', ''GENERATION'', ''OBSERVED'', ''STATE'',
      ''ACTIVE IMAGE'', ''MESSAGE'']"

text \<open>
  How a \<open>tabwriter.Writer\<close> without flags takes its text apart, before it pads the cells: a tab or
  a vertical tab ends a cell, a newline or a form feed a line; between two bytes \<open>0xFF\<close> (its
  \<open>Escape\<close>) no byte does. What follows the last line is a line of its own.
\<close>

definition ends_cell :: "char \<Rightarrow> bool" where
  "ends_cell c \<longleftrightarrow> c = CHR 0x09 \<or> c = CHR 0x0B"

definition ends_line :: "char \<Rightarrow> bool" where
  "ends_line c \<longleftrightarrow> c = CHR 0x0A \<or> c = CHR 0x0C"

fun tab_scan :: "bool \<Rightarrow> string \<Rightarrow> string list \<Rightarrow> string \<Rightarrow> string list list" where
  "tab_scan escaped cell cells [] = [cells @ [cell]]"
| "tab_scan escaped cell cells (c # s) =
     (if escaped then tab_scan (c \<noteq> CHR 0xFF) (cell @ [c]) cells s
      else if ends_cell c then tab_scan False [] (cells @ [cell]) s
      else if ends_line c then (cells @ [cell]) # tab_scan False [] [] s
      else tab_scan (c = CHR 0xFF) (cell @ [c]) cells s)"

definition tab_lines :: "string \<Rightarrow> string list list" where
  "tab_lines s = tab_scan False [] [] s"

text \<open>Text that stays in its cell, and text that \<open>valueOrNone\<close> makes so.\<close>

definition tab_plain :: "string \<Rightarrow> bool" where
  "tab_plain s \<longleftrightarrow> list_all (\<lambda>c. \<not> ends_cell c \<and> \<not> ends_line c \<and> c \<noteq> CHR 0xFF) s"

definition tab_cleanable :: "string \<Rightarrow> bool" where
  "tab_cleanable s \<longleftrightarrow> CHR 0x0B \<notin> set s \<and> CHR 0x0C \<notin> set s \<and> CHR 0xFF \<notin> set s"

lemmas tab_defs = tab_plain_def tab_cleanable_def ends_cell_def ends_line_def

lemma plain_valueOrNone: "tab_plain (valueOrNone s) \<longleftrightarrow> tab_cleanable s"
  by (auto simp: tab_defs valueOrNone_def list_all_iff)

lemma plain_decimal: "tab_plain (decimal n)"
  unfolding tab_defs list_all_iff by (auto dest!: decimal_chars)

lemma plain_cells:
  "list_all tab_plain (table_cells r) \<longleftrightarrow>
     list_all tab_plain [srContext r, srNamespace r, srWorkload r] \<and>
     list_all tab_cleanable [srClusterMember r, srTargetState r, srActiveImage r, srMessage r]"
  by (auto simp: table_cells_def plain_valueOrNone plain_decimal)

lemma tab_scan_plain:
  "tab_plain w \<Longrightarrow> tab_scan False cell cells (w @ s) = tab_scan False (cell @ w) cells s"
  by (induction w arbitrary: cell) (auto simp: tab_plain_def)

lemma tab_scan_row:
  "list_all tab_plain ws \<Longrightarrow> ws \<noteq> [] \<Longrightarrow>
     tab_scan False [] cells (join [CHR 0x09] ws @ CHR 0x0A # s) =
       (cells @ ws) # tab_scan False [] [] s"
proof (induction "[CHR 0x09]" ws arbitrary: cells rule: join.induct)
  case (2 w)
  then show ?case by (simp add: tab_scan_plain ends_cell_def ends_line_def)
next
  case (3 w v ws)
  then show ?case by (simp add: tab_scan_plain ends_cell_def del: join.simps(3)) (simp add: tab_scan_plain ends_cell_def)
qed simp

lemma tab_lines_table:
  "list_all (\<lambda>ws. list_all tab_plain ws \<and> ws \<noteq> []) table \<Longrightarrow>
     tab_lines (concat (map (\<lambda>ws. join [CHR 0x09] ws @ [CHR 0x0A]) table)) = table @ [[[]]]"
  unfolding tab_lines_def by (induction table) (simp_all add: tab_scan_row)

lemma table_text:
  "table_header = join [CHR 0x09] header_cells @ [CHR 0x0A]"
  "table_row = (\<lambda>r. join [CHR 0x09] (table_cells r) @ [CHR 0x0A])"
  unfolding table_header_def header_cells_def table_row_def table_cells_def by (rule refl)+

end
