(* ===== verification/Status_Properties.thy ===== *)
theory Status_Properties
  imports Status_Facts
begin

text \<open>The properties of the command \<open>polykube-status\<close>, with their witnesses.\<close>

section \<open>A sample cluster\<close>

text \<open>Two contexts, of which one denies access; an insertion sort for \<open>sort.Slice\<close>.\<close>

primrec insert_by :: "('a \<Rightarrow> 'a \<Rightarrow> bool) \<Rightarrow> 'a \<Rightarrow> 'a list \<Rightarrow> 'a list" where
  "insert_by lt x [] = [x]"
| "insert_by lt x (y # ys) = (if lt y x then y # insert_by lt x ys else x # y # ys)"

lemma insert_by_key: "insert_by (\<lambda>a b. key a < (key b :: string)) = insort_key key"
proof (intro ext)
  show "insert_by (\<lambda>a b. key a < key b) x ys = insort_key key x ys" for x ys
    by (induction ys) auto
qed

type_synonym sample_object = "string \<times> any list"

definition sample_outside :: "(unit, sample_object) outside" where
  "sample_outside =
     \<lparr>x_List = \<lambda>kubeconfig c ns w.
        (if c = ''beta'' then Inl ''access denied'' else Inr [(''echo'', []), (''api'', [])], w),
      x_TabWrite = \<lambda>s w. (None, w), x_TabFlush = \<lambda>w. (None, w), x_Encode = \<lambda>rs w. (None, w),
      x_Sort = \<lambda>lt rs. foldr (insert_by lt) rs []\<rparr>"

definition sample_accessors :: "sample_object accessors" where
  "sample_accessors =
     \<lparr>u_NestedInt64 = \<lambda>x path. (0, False, None), u_NestedString = \<lambda>x path. ('''', False, None),
      u_NestedSlice = \<lambda>x path. (snd x, True, None), u_GetNamespace = \<lambda>x. ''demo'',
      u_GetName = fst, u_GetGeneration = \<lambda>x. 1\<rparr>"

lemma sample_sort_ok: "sort_ok sample_outside"
  by (simp add: sort_ok_def sample_outside_def insert_by_key sort_key_def [symmetric])

definition sample_options :: options where
  "sample_options =
     \<lparr>oContexts = [''beta'', ''alpha''], oKubeconfig = '''', oNamespace = ''demo'', oOutput = ''table''\<rparr>"

definition sample_args :: "string list" where
  "sample_args = [''--contexts'', '' beta,,alpha '', ''-namespace=demo'']"

lemma sample_parsed: "parseOptions sample_args = Inr sample_options"
  by code_simp

section \<open>Options\<close>

text \<open>C25: an accepted command line leaves no argument over and names at least one context; the
  contexts are distinct, not empty, without white space at their ends and without commas, and
  the output is one of the two formats.\<close>

theorem status_options_valid:
  assumes "parseOptions args = Inr opts"
  shows "valid_options opts \<and>
    (\<exists>v. parse_flags status_flags default_values args = Inr (v, []) \<and> opts = options_of v)"
  using assms by (auto simp: parseOptions_iff)

theorem status_options_valid_witness:
  "valid_options sample_options"
  using status_options_valid [OF sample_parsed] by blast

text \<open>C26: every valid set of options can be asked for. The flags may come in any order, repeated
  (the last one counts), with the value in the same argument or in the next; if the last values
  are those of the options, the command line is parsed to these options.\<close>

theorem status_options_roundtrip:
  assumes "valid_options opts"
    and "list_all (\<lambda>(name, value, joined). name \<in> set status_flag_names) settings"
    and "setting settings ''contexts'' '''' = join '','' (oContexts opts)"
    and "setting settings ''kubeconfig'' '''' = oKubeconfig opts"
    and "setting settings ''namespace'' '''' = oNamespace opts"
    and "setting settings ''output'' ''table'' = oOutput opts"
  shows "parseOptions (concat (map setting_args settings)) = Inr opts"
proof -
  have "context_names (split_on (CHR '','') (join '','' (oContexts opts))) = oContexts opts"
    by (rule context_names_join) (use assms(1) in \<open>auto simp: valid_options_def\<close>)
  then show ?thesis
    using assms parse_settings [OF assms(2), of default_values]
    by (simp add: parseOptions_iff options_of_def default_values_def)
qed

theorem status_options_roundtrip_witness:
  "parseOptions (concat (map setting_args
     [(''output'', ''json'', True), (''contexts'', ''beta,alpha'', False), (''output'', ''table'', False),
      (''namespace'', ''demo'', True)])) = Inr sample_options"
  by (rule status_options_roundtrip)
     (simp_all add: sample_options_def status_flag_names_def valid_options_def context_name_def
       trim_space_def is_space_def)

section \<open>Queries and output\<close>

text \<open>C19: all contexts or nothing. A command line that is not accepted makes no call. Otherwise the
  contexts are queried once each, in the order given, with the kubeconfig and the namespace of
  the options, up to the first one that fails; its name and error are the result and nothing is
  written. Only when all were answered the records of all answers are sorted and written, and
  the result is the first error of the output.\<close>

theorem status_all_or_nothing:
  assumes "recorded_run X U args w = (r, es)"
  shows "case parseOptions args of
      Inl err \<Rightarrow> r = Some err \<and> es = []
    | Inr opts \<Rightarrow>
        (\<exists>answers err. length answers < length (oContexts opts) \<and>
           r = Some (query_error (oContexts opts ! length answers) err) \<and>
           es = query_events opts (oContexts opts) (map Inr answers @ [Inl err])) \<or>
        (\<exists>answers out. length answers = length (oContexts opts) \<and>
           es = query_events opts (oContexts opts) (map Inr answers) @ out \<and>
           output_events (oOutput opts)
             (x_Sort X record_less (all_records U (oContexts opts) answers)) out r)"
proof (cases "parseOptions args")
  case (Inl err)
  then show ?thesis using assms by (simp add: recorded_run_def run_status_def)
next
  case (Inr opts)
  then show ?thesis using run_status_recorded [OF Inr assms] by simp
qed

theorem status_all_or_nothing_witness:
  "\<exists>r es. recorded_run sample_outside sample_accessors sample_args () = (r, es) \<and> r \<noteq> None \<and>
     es = [Listed '''' ''beta'' ''demo'' (Inl ''access denied'')]"
proof -
  obtain r es where run: "recorded_run sample_outside sample_accessors sample_args () = (r, es)"
    by fastforce
  have "es = [Listed '''' ''beta'' ''demo'' (Inl ''access denied'')]"
    using run sample_parsed
    by (simp add: recorded_run_def run_status_def sample_options_def sample_outside_def)
  moreover from this have "r \<noteq> None"
    using status_all_or_nothing [OF run] unfolding sample_parsed
    by (auto simp: sample_options_def query_events_def dest: arg_cong [of _ _ length])
  ultimately show ?thesis using run by simp
qed

text \<open>C20: a successful run writes every record once, in order. The records written are those of
  all answers, sorted by context, namespace, Workload and cluster member, each compared as a
  string, when these contain no NUL byte; in the table format they are written as the header
  and one line for each record, and flushed.\<close>

theorem status_output_sorted:
  assumes "sort_ok X" and "parseOptions args = Inr opts" and "recorded_run X U args w = (None, es)"
  shows "\<exists>answers records out. length answers = length (oContexts opts) \<and>
    es = query_events opts (oContexts opts) (map Inr answers) @ out \<and>
    (if oOutput opts = ''json'' then out = [EncodedRecords records None]
     else out = map (\<lambda>line. TabWritten line None) (table_header # map table_row records) @ [TabFlushed None]) \<and>
    ((\<forall>r \<in> set (all_records U (oContexts opts) answers). nul_free r) \<longrightarrow>
       mset records = mset (all_records U (oContexts opts) answers) \<and>
       sorted (map record_path records))"
proof -
  have all_written: "out = map (\<lambda>line. TabWritten line None) ls @ [TabFlushed None]"
    if "written ls out None" for ls and out :: "'b status_event list"
    using that by (induction ls arbitrary: out) (auto split: option.splits)
  obtain answers out where "length answers = length (oContexts opts)"
    "es = query_events opts (oContexts opts) (map Inr answers) @ out"
    "output_events (oOutput opts) (x_Sort X record_less (all_records U (oContexts opts) answers)) out None"
    using run_status_recorded [OF assms(2,3)] by blast
  then show ?thesis
    using sorted_records [OF assms(1)] all_written [of _ out]
    by (intro exI [of _ answers] exI [of _ "x_Sort X record_less (all_records U (oContexts opts) answers)"]
        exI [of _ out]) (simp add: output_events_def del: written.simps list.map append.simps split: if_splits)
qed

lemma sample_table: "fst (run_state (writeTable (recorded sample_outside) rs) s) = None"
proof -
  have rows: "fst (run_state (write_rows (recorded sample_outside) rs) s) = None" for s
    by (induction rs arbitrary: s) (simp_all add: sample_outside_def recording_def split_beta)
  show ?thesis
    using rows by (simp add: writeTable_def sample_outside_def recording_def split_beta)
qed

definition alpha_args :: "string list" where
  "alpha_args = [''--contexts=alpha'']"

theorem status_output_sorted_witness:
  "\<exists>es records. recorded_run sample_outside sample_accessors alpha_args () = (None, es) \<and>
     length records = 2 \<and> sorted (map record_path records) \<and>
     TabWritten table_header None \<in> set es \<and> (\<forall>r \<in> set records. TabWritten (table_row r) None \<in> set es)"
proof -
  let ?o = "\<lparr>oContexts = [''alpha''], oKubeconfig = '''', oNamespace = '''', oOutput = ''table''\<rparr>"
  have parsed: "parseOptions alpha_args = Inr ?o" by code_simp
  let ?listed = "Listed '''' ''alpha'' '''' (Inr [(''echo'', []), (''api'', [])])"
  let ?all = "recordsFor ''alpha'' sample_accessors [(''echo'', []), (''api'', [])]"
  have query: "run_state (query_contexts (recorded sample_outside) sample_accessors ?o [''alpha''] []) ((), []) =
      (Inr ?all, (), [?listed])"
    by (simp add: sample_outside_def)
  obtain r w' table where
    "run_state (writeTable (recorded sample_outside) (x_Sort sample_outside record_less ?all)) ((), [?listed]) =
      (r, w', [?listed] @ table)"
    by (rule writeTable_recorded)
  moreover from this have "r = None"
    using sample_table [of "x_Sort sample_outside record_less ?all" "((), [?listed])"] by simp
  ultimately have "recorded_run sample_outside sample_accessors alpha_args () = (None, ?listed # table)"
    unfolding recorded_run_def run_status_def parsed using query by (simp add: Let_def)
  then obtain es where run: "recorded_run sample_outside sample_accessors alpha_args () = (None, es)"
    and es: "hd es = ?listed"
    by simp
  obtain answers records out where one: "length answers = 1"
    and split: "es = query_events ?o [''alpha''] (map Inr answers) @ out"
    and out: "out = map (\<lambda>line. TabWritten line None) (table_header # map table_row records) @ [TabFlushed None]"
    and sorted: "(\<forall>r \<in> set (all_records sample_accessors [''alpha''] answers). nul_free r) \<longrightarrow>
       mset records = mset (all_records sample_accessors [''alpha''] answers) \<and> sorted (map record_path records)"
    using status_output_sorted [OF sample_sort_ok parsed run] by auto
  have "answers = [[(''echo'', []), (''api'', [])]]"
    using one split es by (auto simp: length_Suc_conv query_events_def)
  then have all: "all_records sample_accessors [''alpha''] answers =
      recordsFor ''alpha'' sample_accessors [(''echo'', []), (''api'', [])]"
    by (simp add: all_records_def)
  have "\<forall>r \<in> set (recordsFor ''alpha'' sample_accessors [(''echo'', []), (''api'', [])]). nul_free r"
    by (simp add: sample_accessors_def nul_free_def record_path_def)
  moreover have "length (recordsFor ''alpha'' sample_accessors [(''echo'', []), (''api'', [])]) = 2"
    by (simp add: sample_accessors_def)
  ultimately have "length records = 2" "sorted (map record_path records)"
    using sorted unfolding all by (metis size_mset)+
  then show ?thesis using run out split by auto
qed

section \<open>The table\<close>

text \<open>C34: the table can be read back. What the \<open>tabwriter\<close> takes for lines and cells of the text that
  it is given is the header, one line for each record with the nine cells of the record, and the
  empty rest after the last newline, provided that no context, namespace or name contains a
  tab, a line break or another byte that the writer interprets, and no member, state, image or
  message a vertical tab, a form feed or the byte \<open>0xFF\<close>. Tabs and newlines are allowed in the latter
  four: they are replaced. Those three bytes are not, and do add cells and lines.\<close>

theorem status_table_cells:
  assumes "list_all (\<lambda>r. list_all tab_plain [srContext r, srNamespace r, srWorkload r] \<and>
    list_all tab_cleanable [srClusterMember r, srTargetState r, srActiveImage r, srMessage r]) records"
  shows "tab_lines (concat (table_header # map table_row records)) =
    header_cells # map table_cells records @ [[[]]]"
proof -
  have whole: "concat (table_header # map table_row records) =
      concat (map (\<lambda>ws. join [CHR 0x09] ws @ [CHR 0x0A]) (header_cells # map table_cells records))"
    by (simp add: table_text comp_def)
  have "list_all (\<lambda>ws. list_all tab_plain ws \<and> ws \<noteq> []) (header_cells # map table_cells records)"
    using assms unfolding plain_cells [symmetric]
    by (auto simp: list_all_iff header_cells_def tab_defs) (simp add: table_cells_def)
  from tab_lines_table [OF this] show ?thesis unfolding whole by simp
qed

definition broken_record :: statusRecord where
  "broken_record = \<lparr>srContext = ''alpha'', srNamespace = ''demo'', srWorkload = ''echo'',
     srClusterMember = ''east'', srGeneration = 1, srObservedGeneration = 1, srTargetState = ''Ready'',
     srActiveImage = ''app:1'', srMessage = ''a'' @ [CHR 0x09] @ ''b'' @ [CHR 0x0C] @ ''c''\<rparr>"

theorem status_table_cells_witness:
  "tab_lines (concat (table_header # map table_row
     [broken_record\<lparr>srMessage := ''two'' @ [CHR 0x0A, CHR 0x09] @ ''lines''\<rparr>])) =
   [header_cells, [''alpha'', ''demo'', ''echo'', ''east'', ''1'', ''1'', ''Ready'', ''app:1'', ''two  lines''], [[]]]"
proof -
  have "table_cells (broken_record\<lparr>srMessage := ''two'' @ [CHR 0x0A, CHR 0x09] @ ''lines''\<rparr>) =
      [''alpha'', ''demo'', ''echo'', ''east'', ''1'', ''1'', ''Ready'', ''app:1'', ''two  lines'']"
    by code_simp
  then show ?thesis
    using status_table_cells [of "[broken_record\<lparr>srMessage := ''two'' @ [CHR 0x0A, CHR 0x09] @ ''lines''\<rparr>]"]
    by (simp add: broken_record_def tab_defs)
qed

text \<open>With a form feed in its message, one record takes two lines.\<close>

lemma form_feed_breaks_the_row:
  "tab_lines (table_row broken_record) =
     [[''alpha'', ''demo'', ''echo'', ''east'', ''1'', ''1'', ''Ready'', ''app:1'', ''a b''], [''c''], [[]]]"
  by code_simp

end
