(* ===== verification/Type_Registry.thy ===== *)
theory Type_Registry
  imports Main
begin

text \<open>
  The types that the operator knows: the group and kinds of each API group
  (\<open>api/*/v1alpha1/groupversion_info.go\<close>) and the scheme they are added to
  (\<open>internal/scheme/scheme.go\<close>). The scheme itself (\<open>runtime.Scheme\<close>, a value of any type \<open>'s\<close>)
  and client-go's own types are parameters.
\<close>

section \<open>Groups and kinds\<close>

record GroupVersion =
  gvGroup :: string
  gvVersion :: string

type_synonym kind = "GroupVersion \<times> string"

record 's scheme_lib =
  s_NewScheme :: 's
  s_AddKnownTypes :: "GroupVersion \<Rightarrow> string list \<Rightarrow> 's \<Rightarrow> 's"
  s_AddToGroupVersion :: "GroupVersion \<Rightarrow> 's \<Rightarrow> 's"
  s_ClientGo :: "'s \<Rightarrow> string option \<times> 's"
    \<comment> \<open>\<open>clientgoscheme.AddToScheme\<close>: an error's text, and the scheme as it left it\<close>
  s_Recognizes :: "'s \<Rightarrow> kind \<Rightarrow> bool"

definition infrastructure_group :: GroupVersion where
  "infrastructure_group = \<lparr>gvGroup = ''infrastructure.polykube.dev'', gvVersion = ''v1alpha1''\<rparr>"
definition runtime_group :: GroupVersion where
  "runtime_group = \<lparr>gvGroup = ''runtime.polykube.dev'', gvVersion = ''v1alpha1''\<rparr>"
definition routing_group :: GroupVersion where
  "routing_group = \<lparr>gvGroup = ''routing.polykube.dev'', gvVersion = ''v1alpha1''\<rparr>"
definition data_group :: GroupVersion where
  "data_group = \<lparr>gvGroup = ''data.polykube.dev'', gvVersion = ''v1alpha1''\<rparr>"

text \<open>\<open>addKnownTypes\<close> of each group; none returns an error.\<close>

definition infrastructure_addKnownTypes :: "'s scheme_lib \<Rightarrow> 's \<Rightarrow> string option \<times> 's" where
  "infrastructure_addKnownTypes S s =
     (None, s_AddToGroupVersion S infrastructure_group
        (s_AddKnownTypes S infrastructure_group
           [''ClusterMember'', ''ClusterMemberList'', ''Federation'', ''FederationList''] s))"

definition runtime_addKnownTypes :: "'s scheme_lib \<Rightarrow> 's \<Rightarrow> string option \<times> 's" where
  "runtime_addKnownTypes S s =
     (None, s_AddToGroupVersion S runtime_group
        (s_AddKnownTypes S runtime_group [''Workload'', ''WorkloadList''] s))"

definition routing_addKnownTypes :: "'s scheme_lib \<Rightarrow> 's \<Rightarrow> string option \<times> 's" where
  "routing_addKnownTypes S s =
     (None, s_AddToGroupVersion S routing_group
        (s_AddKnownTypes S routing_group [''ServiceEndpoint'', ''ServiceEndpointList''] s))"

definition data_addKnownTypes :: "'s scheme_lib \<Rightarrow> 's \<Rightarrow> string option \<times> 's" where
  "data_addKnownTypes S s =
     (None, s_AddToGroupVersion S data_group
        (s_AddKnownTypes S data_group [''DatastoreBinding'', ''DatastoreBindingList''] s))"

section \<open>The scheme of the operator\<close>

text \<open>The loop over the adders, which stops at the first error.\<close>

primrec run_adders :: "('s \<Rightarrow> string option \<times> 's) list \<Rightarrow> 's \<Rightarrow> string option \<times> 's" where
  "run_adders [] s = (None, s)"
| "run_adders (add # adders) s =
     (case add s of
        (Some err, s') \<Rightarrow> (Some err, s')
      | (None, s') \<Rightarrow> run_adders adders s')"

definition AddToScheme :: "'s scheme_lib \<Rightarrow> 's \<Rightarrow> string option \<times> 's" where
  "AddToScheme S s =
     run_adders
       [s_ClientGo S, infrastructure_addKnownTypes S, runtime_addKnownTypes S,
        routing_addKnownTypes S, data_addKnownTypes S] s"

definition New :: "'s scheme_lib \<Rightarrow> string + 's" where
  "New S =
     (case AddToScheme S (s_NewScheme S) of
        (Some err, s) \<Rightarrow> Inl err
      | (None, s) \<Rightarrow> Inr s)"

section \<open>What a scheme knows\<close>

text \<open>
  \<open>AddKnownTypes\<close> makes the scheme recognize the types under the group; nothing that was
  recognized is forgotten; and client-go's scheme has the workload and core kinds that the
  operator uses, when it was added without an error.
\<close>

definition client_go_kinds :: "kind set" where
  "client_go_kinds =
     {(\<lparr>gvGroup = ''apps'', gvVersion = ''v1''\<rparr>, ''Deployment''),
      (\<lparr>gvGroup = '''', gvVersion = ''v1''\<rparr>, ''Service''),
      (\<lparr>gvGroup = '''', gvVersion = ''v1''\<rparr>, ''Secret''),
      (\<lparr>gvGroup = '''', gvVersion = ''v1''\<rparr>, ''ConfigMap'')}"

definition registry_ok :: "'s scheme_lib \<Rightarrow> bool" where
  "registry_ok S \<longleftrightarrow>
     (\<forall>gv kinds s. \<forall>k \<in> set kinds. s_Recognizes S (s_AddKnownTypes S gv kinds s) (gv, k)) \<and>
     (\<forall>gv kinds s k. s_Recognizes S s k \<longrightarrow> s_Recognizes S (s_AddKnownTypes S gv kinds s) k) \<and>
     (\<forall>gv s k. s_Recognizes S s k \<longrightarrow> s_Recognizes S (s_AddToGroupVersion S gv s) k) \<and>
     (\<forall>s s'. s_ClientGo S s = (None, s') \<longrightarrow> (\<forall>k \<in> client_go_kinds. s_Recognizes S s' k))"

definition polykube_kinds :: "kind set" where
  "polykube_kinds =
     {(infrastructure_group, ''ClusterMember''), (infrastructure_group, ''ClusterMemberList''),
      (infrastructure_group, ''Federation''), (infrastructure_group, ''FederationList''),
      (runtime_group, ''Workload''), (runtime_group, ''WorkloadList''),
      (routing_group, ''ServiceEndpoint''), (routing_group, ''ServiceEndpointList''),
      (data_group, ''DatastoreBinding''), (data_group, ''DatastoreBindingList'')}"

lemmas addKnownTypes_defs =
  infrastructure_addKnownTypes_def runtime_addKnownTypes_def routing_addKnownTypes_def
  data_addKnownTypes_def

text \<open>Only client-go can fail; after success all kinds are known.\<close>

lemma AddToScheme_error: "fst (AddToScheme S s) = fst (s_ClientGo S s)"
  by (simp add: AddToScheme_def addKnownTypes_defs split: prod.split option.split)

lemma AddToScheme_knows:
  assumes "registry_ok S" and "AddToScheme S s = (None, s')" and "k \<in> polykube_kinds \<union> client_go_kinds"
  shows "s_Recognizes S s' k"
proof -
  obtain s1 where s1: "s_ClientGo S s = (None, s1)"
    using assms(2) by (cases "s_ClientGo S s") (auto simp: AddToScheme_def split: option.splits)
  let ?add = "\<lambda>gv kinds s. s_AddToGroupVersion S gv (s_AddKnownTypes S gv kinds s)"
  have s': "s' = ?add data_group [''DatastoreBinding'', ''DatastoreBindingList'']
      (?add routing_group [''ServiceEndpoint'', ''ServiceEndpointList'']
      (?add runtime_group [''Workload'', ''WorkloadList'']
      (?add infrastructure_group [''ClusterMember'', ''ClusterMemberList'', ''Federation'', ''FederationList''] s1)))"
    using assms(2) s1 by (simp add: AddToScheme_def addKnownTypes_defs)
  have new: "s_Recognizes S (?add gv kinds s) (gv, k)" if "k \<in> set kinds" for gv kinds s k
    using assms(1) that unfolding registry_ok_def by blast
  have kept: "s_Recognizes S (?add gv kinds s) k" if "s_Recognizes S s k" for gv kinds s k
    using assms(1) that unfolding registry_ok_def by blast
  have core: "s_Recognizes S s1 k" if "k \<in> client_go_kinds" for k
    using assms(1) that s1 unfolding registry_ok_def by blast
  have "s_Recognizes S s' (infrastructure_group, k)"
    if "k \<in> set [''ClusterMember'', ''ClusterMemberList'', ''Federation'', ''FederationList'']" for k
    unfolding s' by (rule kept, rule kept, rule kept, rule new [OF that])
  moreover have "s_Recognizes S s' (runtime_group, k)" if "k \<in> set [''Workload'', ''WorkloadList'']" for k
    unfolding s' by (rule kept, rule kept, rule new [OF that])
  moreover have "s_Recognizes S s' (routing_group, k)"
    if "k \<in> set [''ServiceEndpoint'', ''ServiceEndpointList'']" for k
    unfolding s' by (rule kept, rule new [OF that])
  moreover have "s_Recognizes S s' (data_group, k)"
    if "k \<in> set [''DatastoreBinding'', ''DatastoreBindingList'']" for k
    unfolding s' by (rule new [OF that])
  moreover have "s_Recognizes S s' k" if "k \<in> client_go_kinds" for k
    unfolding s' by (rule kept, rule kept, rule kept, rule kept, rule core [OF that])
  ultimately show ?thesis
    using assms(3) unfolding polykube_kinds_def by (elim UnE insertE emptyE) simp_all
qed

end
