(* ===== verification/Operator_Command.thy ===== *)
theory Operator_Command
  imports Go_Flags Type_Registry
begin

text \<open>
  The operator's command (\<open>cmd/polykube-operator/main.go\<close>): its flags, the options of the
  manager, what each controller subscribes to (\<open>SetupWithManager\<close>), and the order in which the
  process is put together. The manager (\<open>'m\<close>), the client configuration (\<open>'c\<close>) and what
  controller-runtime does with them are parameters.
\<close>

section \<open>Flags\<close>

record operator_values =
  metricsAddr :: string
  probeAddr :: string
  clusterMemberName :: string
  watchNamespace :: string
  enableLeaderElection :: bool

definition operator_flags :: "string \<rightharpoonup> operator_values flag" where
  "operator_flags = map_of
     [(''metrics-bind-address'', StringFlag (\<lambda>s v. v\<lparr>metricsAddr := s\<rparr>)),
      (''health-probe-bind-address'', StringFlag (\<lambda>s v. v\<lparr>probeAddr := s\<rparr>)),
      (''cluster-member-name'', StringFlag (\<lambda>s v. v\<lparr>clusterMemberName := s\<rparr>)),
      (''watch-namespace'', StringFlag (\<lambda>s v. v\<lparr>watchNamespace := s\<rparr>)),
      (''leader-elect'', BoolFlag (\<lambda>b v. v\<lparr>enableLeaderElection := b\<rparr>))]"

definition operator_defaults :: operator_values where
  "operator_defaults =
     \<lparr>metricsAddr = '':8080'', probeAddr = '':8081'', clusterMemberName = '''',
      watchNamespace = '''', enableLeaderElection = False\<rparr>"

section \<open>The options of the manager\<close>

text \<open>\<open>cache.Config{}\<close>, and the fields of \<open>ctrl.Options\<close> that are set.\<close>

datatype cache_config = EmptyCacheConfig

record 's manager_options =
  moScheme :: 's
  moMetricsBindAddress :: string
  moHealthProbeBindAddress :: string
  moLeaderElection :: bool
  moLeaderElectionID :: string
  moDefaultNamespaces :: "(string \<rightharpoonup> cache_config) option"

definition managerOptions ::
  "'s \<Rightarrow> string \<Rightarrow> string \<Rightarrow> string \<Rightarrow> bool \<Rightarrow> 's manager_options" where
  "managerOptions scheme metrics_addr probe_addr watch_namespace leader_election =
     (let options = \<lparr>moScheme = scheme, moMetricsBindAddress = metrics_addr,
            moHealthProbeBindAddress = probe_addr, moLeaderElection = leader_election,
            moLeaderElectionID = ''polykube-operator.polykube.dev'', moDefaultNamespaces = None\<rparr>
      in if watch_namespace \<noteq> ''''
         then options\<lparr>moDefaultNamespaces := Some [watch_namespace \<mapsto> EmptyCacheConfig]\<rparr>
         else options)"

section \<open>The controllers and what they subscribe to\<close>

text \<open>The reconcilers, with the name of the cluster member where they have it.\<close>

datatype reconciler =
  WorkloadReconciler string
| ClusterMemberReconciler
| FederationReconciler
| ServiceEndpointReconciler string
| DatastoreBindingReconciler

text \<open>What is given to the builder: \<open>For\<close>, \<open>Owns\<close> and \<open>Watches\<close>.\<close>

record subscription =
  subFor :: kind
  subOwns :: "kind list"
  subWatches :: "kind list"

definition Workload_SetupWithManager :: subscription where
  "Workload_SetupWithManager =
     \<lparr>subFor = (runtime_group, ''Workload''),
      subOwns = [(\<lparr>gvGroup = ''apps'', gvVersion = ''v1''\<rparr>, ''Deployment''),
                 (\<lparr>gvGroup = '''', gvVersion = ''v1''\<rparr>, ''Service'')],
      subWatches = []\<rparr>"

definition ClusterMember_SetupWithManager :: subscription where
  "ClusterMember_SetupWithManager =
     \<lparr>subFor = (infrastructure_group, ''ClusterMember''), subOwns = [], subWatches = []\<rparr>"

definition Federation_SetupWithManager :: subscription where
  "Federation_SetupWithManager =
     \<lparr>subFor = (infrastructure_group, ''Federation''), subOwns = [],
      subWatches = [(infrastructure_group, ''ClusterMember'')]\<rparr>"

definition ServiceEndpoint_SetupWithManager :: subscription where
  "ServiceEndpoint_SetupWithManager =
     \<lparr>subFor = (routing_group, ''ServiceEndpoint''), subOwns = [], subWatches = []\<rparr>"

definition DatastoreBinding_SetupWithManager :: subscription where
  "DatastoreBinding_SetupWithManager =
     \<lparr>subFor = (data_group, ''DatastoreBinding''), subOwns = [], subWatches = []\<rparr>"

primrec subscription_of :: "reconciler \<Rightarrow> subscription" where
  "subscription_of (WorkloadReconciler n) = Workload_SetupWithManager"
| "subscription_of ClusterMemberReconciler = ClusterMember_SetupWithManager"
| "subscription_of FederationReconciler = Federation_SetupWithManager"
| "subscription_of (ServiceEndpointReconciler n) = ServiceEndpoint_SetupWithManager"
| "subscription_of DatastoreBindingReconciler = DatastoreBinding_SetupWithManager"

section \<open>The process\<close>

record ('w, 'c, 'm, 's) runtime_env =
  o_GetConfig :: "'w \<Rightarrow> 'c option \<times> 'w"
    \<comment> \<open>\<open>GetConfigOrDie\<close>: no configuration ends the process\<close>
  o_NewManager :: "'c \<Rightarrow> 's manager_options \<Rightarrow> 'w \<Rightarrow> (string + 'm) \<times> 'w"
  o_Complete :: "'m \<Rightarrow> subscription \<Rightarrow> reconciler \<Rightarrow> 'w \<Rightarrow> string option \<times> 'w"
  o_AddHealthzCheck :: "'m \<Rightarrow> string \<Rightarrow> 'w \<Rightarrow> string option \<times> 'w"
  o_AddReadyzCheck :: "'m \<Rightarrow> string \<Rightarrow> 'w \<Rightarrow> string option \<times> 'w"
  o_Start :: "'m \<Rightarrow> 'w \<Rightarrow> string option \<times> 'w"

text \<open>How the process ends: \<open>main\<close> returns, \<open>os.Exit\<close> (after logging a message), or a panic.\<close>

datatype process_end =
  Returned
| Exited nat string
| Panicked string

text \<open>Go's \<open>if err := m; err != nil { log.Error(err, message); os.Exit(1) }\<close>.\<close>

definition must ::
  "('w, string option) state \<Rightarrow> string \<Rightarrow> ('w, process_end) state \<Rightarrow> ('w, process_end) state" where
  "must m message rest =
     do { err \<leftarrow> m;
          case err of Some e \<Rightarrow> State_Monad.return (Exited 1 message) | None \<Rightarrow> rest }"

definition SetupWithManager ::
  "('w, 'c, 'm, 's) runtime_env \<Rightarrow> 'm \<Rightarrow> reconciler \<Rightarrow> ('w, string option) state" where
  "SetupWithManager R mgr r = State (o_Complete R mgr (subscription_of r) r)"

definition start_operator ::
  "('w, 'c, 'm, 's) runtime_env \<Rightarrow> string \<Rightarrow> 'm \<Rightarrow> ('w, process_end) state" where
  "start_operator R member mgr =
     must (SetupWithManager R mgr (WorkloadReconciler member)) ''unable to create Workload controller''
     (must (SetupWithManager R mgr ClusterMemberReconciler) ''unable to create ClusterMember controller''
     (must (SetupWithManager R mgr FederationReconciler) ''unable to create Federation controller''
     (must (SetupWithManager R mgr (ServiceEndpointReconciler member)) ''unable to create ServiceEndpoint controller''
     (must (SetupWithManager R mgr DatastoreBindingReconciler) ''unable to create DatastoreBinding controller''
     (must (State (o_AddHealthzCheck R mgr ''healthz'')) ''unable to set up health check''
     (must (State (o_AddReadyzCheck R mgr ''readyz'')) ''unable to set up ready check''
     (must (State (o_Start R mgr)) ''manager exited''
     (State_Monad.return Returned))))))))"

text \<open>
  \<open>init\<close> and \<open>main\<close>. \<open>flag.Parse\<close> ends the process by itself: with 0 after the help text, with 2
  after an error; arguments that are left over are ignored.
\<close>

definition operator_main ::
  "'s scheme_lib \<Rightarrow> ('w, 'c, 'm, 's) runtime_env \<Rightarrow> string list \<Rightarrow> ('w, process_end) state" where
  "operator_main S R args =
     (case AddToScheme S (s_NewScheme S) of
        (Some err, scheme) \<Rightarrow> State_Monad.return (Panicked err)
      | (None, scheme) \<Rightarrow>
          (case parse_flags operator_flags operator_defaults args of
             Inl err \<Rightarrow> State_Monad.return (Exited (if err = ''flag: help requested'' then 0 else 2) err)
           | Inr (v, left) \<Rightarrow>
               do {
                 config \<leftarrow> State (o_GetConfig R);
                 case config of
                   None \<Rightarrow> State_Monad.return (Exited 1 ''unable to get kubeconfig'')
                 | Some config \<Rightarrow>
                     do {
                       mgr \<leftarrow> State (o_NewManager R config
                         (managerOptions scheme (metricsAddr v) (probeAddr v) (watchNamespace v)
                            (enableLeaderElection v)));
                       case mgr of
                         Inl err \<Rightarrow> State_Monad.return (Exited 1 ''unable to start manager'')
                       | Inr mgr \<Rightarrow> start_operator R (clusterMemberName v) mgr
                     }
               }))"

section \<open>Recorded runs\<close>

datatype 's operator_event =
  GotConfig
| MadeManager "'s manager_options" "string option"
| Completed reconciler subscription "string option"
| AddedHealthz string "string option"
| AddedReadyz string "string option"
| Started "string option"

definition sum_error :: "string + 'a \<Rightarrow> string option" where
  "sum_error r = (case r of Inl err \<Rightarrow> Some err | Inr x \<Rightarrow> None)"

definition operator_recorded ::
  "('w, 'c, 'm, 's) runtime_env \<Rightarrow> ('w \<times> 's operator_event list, 'c, 'm, 's) runtime_env" where
  "operator_recorded R =
     \<lparr>o_GetConfig = recording (o_GetConfig R) (\<lambda>_. GotConfig),
      o_NewManager = \<lambda>c options. recording (o_NewManager R c options) (\<lambda>r. MadeManager options (sum_error r)),
      o_Complete = \<lambda>mgr sub r. recording (o_Complete R mgr sub r) (Completed r sub),
      o_AddHealthzCheck = \<lambda>mgr n. recording (o_AddHealthzCheck R mgr n) (AddedHealthz n),
      o_AddReadyzCheck = \<lambda>mgr n. recording (o_AddReadyzCheck R mgr n) (AddedReadyz n),
      o_Start = \<lambda>mgr. recording (o_Start R mgr) Started\<rparr>"

definition operator_run ::
  "'s scheme_lib \<Rightarrow> ('w, 'c, 'm, 's) runtime_env \<Rightarrow> string list \<Rightarrow> 'w \<Rightarrow> process_end \<times> 's operator_event list"
where
  "operator_run S R args w =
     (case run_state (operator_main S (operator_recorded R) args) (w, []) of (r, _, es) \<Rightarrow> (r, es))"

lemma operator_recorded_simps [simp]:
  "o_GetConfig (operator_recorded R) = recording (o_GetConfig R) (\<lambda>_. GotConfig)"
  "o_NewManager (operator_recorded R) c options =
     recording (o_NewManager R c options) (\<lambda>r. MadeManager options (sum_error r))"
  "o_Complete (operator_recorded R) mgr sub r = recording (o_Complete R mgr sub r) (Completed r sub)"
  "o_AddHealthzCheck (operator_recorded R) mgr n = recording (o_AddHealthzCheck R mgr n) (AddedHealthz n)"
  "o_AddReadyzCheck (operator_recorded R) mgr n = recording (o_AddReadyzCheck R mgr n) (AddedReadyz n)"
  "o_Start (operator_recorded R) mgr = recording (o_Start R mgr) Started"
  by (simp_all add: operator_recorded_def)

text \<open>The calls that put the process together, in their order.\<close>

definition registered :: "string \<Rightarrow> 's operator_event list" where
  "registered member =
     map (\<lambda>r. Completed r (subscription_of r) None)
       [WorkloadReconciler member, ClusterMemberReconciler, FederationReconciler,
        ServiceEndpointReconciler member, DatastoreBindingReconciler] @
     [AddedHealthz ''healthz'' None, AddedReadyz ''readyz'' None]"

text \<open>A chain of calls: each is recorded, a failure ends the run with its message.\<close>

definition chain :: "(('w \<Rightarrow> string option \<times> 'w) \<times> (string option \<Rightarrow> 'e) \<times> string) list \<Rightarrow>
    ('w \<times> 'e list, process_end) state" where
  "chain steps =
     foldr (\<lambda>(f, ev, message). must (State (recording f ev)) message) steps (State_Monad.return Returned)"

lemma chain_recorded:
  "run_state (chain steps) (w, es) = (out, w', es') \<Longrightarrow>
     (out = Returned \<and> es' = es @ map (\<lambda>(f, ev, message). ev None) steps) \<or>
     (\<exists>n err. n < length steps \<and> out = Exited 1 (snd (snd (steps ! n))) \<and>
        es' = es @ map (\<lambda>(f, ev, message). ev None) (take n steps) @ [fst (snd (steps ! n)) (Some err)])"
proof (induction steps arbitrary: w es)
  case Nil
  then show ?case by (simp add: chain_def)
next
  case (Cons step steps)
  obtain f ev message where step: "step = (f, ev, message)" by (cases step)
  obtain r w1 where call: "f w = (r, w1)" by fastforce
  show ?case
  proof (cases r)
    case (Some err)
    then have "out = Exited 1 message" "es' = es @ [ev (Some err)]"
      using Cons.prems step call by (simp_all add: chain_def must_def)
    then show ?thesis using step by (intro disjI2 exI [of _ 0] exI [of _ err]) simp
  next
    case None
    then have "run_state (chain steps) (w1, es @ [ev None]) = (out, w', es')"
      using Cons.prems step call by (simp add: chain_def must_def)
    then show ?thesis
    proof (rule Cons.IH [THEN disjE]; elim exE conjE)
      fix n err
      assume "n < length steps" "out = Exited 1 (snd (snd (steps ! n)))"
        "es' = (es @ [ev None]) @ map (\<lambda>(f, ev, message). ev None) (take n steps) @
          [fst (snd (steps ! n)) (Some err)]"
      then show ?thesis using step by (intro disjI2 exI [of _ "Suc n"] exI [of _ err]) simp
    qed (use step in simp)
  qed
qed

definition start_steps ::
  "('w, 'c, 'm, 's) runtime_env \<Rightarrow> string \<Rightarrow> 'm \<Rightarrow>
   (('w \<Rightarrow> string option \<times> 'w) \<times> (string option \<Rightarrow> 's operator_event) \<times> string) list" where
  "start_steps R member mgr =
     map (\<lambda>(r, kind). (o_Complete R mgr (subscription_of r) r, Completed r (subscription_of r),
            ''unable to create '' @ kind @ '' controller''))
       [(WorkloadReconciler member, ''Workload''), (ClusterMemberReconciler, ''ClusterMember''),
        (FederationReconciler, ''Federation''), (ServiceEndpointReconciler member, ''ServiceEndpoint''),
        (DatastoreBindingReconciler, ''DatastoreBinding'')] @
     [(o_AddHealthzCheck R mgr ''healthz'', AddedHealthz ''healthz'', ''unable to set up health check''),
      (o_AddReadyzCheck R mgr ''readyz'', AddedReadyz ''readyz'', ''unable to set up ready check''),
      (o_Start R mgr, Started, ''manager exited'')]"

lemma start_operator_chain:
  "start_operator (operator_recorded R) member mgr = chain (start_steps R member mgr)"
  by (simp add: start_operator_def chain_def start_steps_def SetupWithManager_def)

lemma started_steps:
  assumes "run_state (start_operator (operator_recorded R) member mgr) (w, es) = (out, w', es')"
    and "Started r \<in> set es'" and "Started r \<notin> set es"
  shows "es' = es @ registered member @ [Started r]"
proof -
  have none: "map (\<lambda>(f, ev, message). ev None) (start_steps R member mgr) = registered member @ [Started None]"
    by (simp add: start_steps_def registered_def)
  have len: "length (start_steps R member mgr) = 8"
    by (simp add: start_steps_def)
  from chain_recorded [OF assms(1) [unfolded start_operator_chain]] show ?thesis
  proof (elim disjE exE conjE)
    assume "es' = es @ map (\<lambda>(f, ev, message). ev None) (start_steps R member mgr)"
    then show ?thesis using assms(2,3) unfolding none by (auto simp: registered_def)
  next
    fix n err
    assume n: "n < length (start_steps R member mgr)" and
      es': "es' = es @ map (\<lambda>(f, ev, message). ev None) (take n (start_steps R member mgr)) @
        [fst (snd (start_steps R member mgr ! n)) (Some err)]"
    have "n \<in> {0, 1, 2, 3, 4, 5, 6, 7}" using n len by auto
    then show ?thesis
      using assms(2,3) unfolding es' by (auto simp: start_steps_def registered_def)
  qed
qed

text \<open>The whole run, when the manager is started.\<close>

lemma operator_run_started:
  assumes "operator_run S R args w = (out, es)" and "Started r \<in> set es"
  obtains scheme v left where "AddToScheme S (s_NewScheme S) = (None, scheme)"
    and "parse_flags operator_flags operator_defaults args = Inr (v, left)"
    and "es = [GotConfig, MadeManager (managerOptions scheme (metricsAddr v) (probeAddr v)
        (watchNamespace v) (enableLeaderElection v)) None] @
      registered (clusterMemberName v) @ [Started r]"
proof -
  obtain scheme where scheme: "AddToScheme S (s_NewScheme S) = (None, scheme)"
    using assms by (cases "AddToScheme S (s_NewScheme S)")
      (auto simp: operator_run_def operator_main_def split: option.splits)
  obtain v left where parsed: "parse_flags operator_flags operator_defaults args = Inr (v, left)"
    using assms scheme by (cases "parse_flags operator_flags operator_defaults args")
      (auto simp: operator_run_def operator_main_def)
  let ?options = "managerOptions scheme (metricsAddr v) (probeAddr v) (watchNamespace v) (enableLeaderElection v)"
  obtain config w1 where config: "o_GetConfig R w = (Some config, w1)"
    using assms scheme parsed by (cases "o_GetConfig R w")
      (auto simp: operator_run_def operator_main_def split: option.splits)
  obtain mgr w2 where mgr: "o_NewManager R config ?options w1 = (Inr mgr, w2)"
    using assms scheme parsed config by (cases "o_NewManager R config ?options w1")
      (auto simp: operator_run_def operator_main_def sum_error_def split: sum.splits)
  let ?es = "[GotConfig, MadeManager ?options None]"
  obtain w' where "run_state (start_operator (operator_recorded R) (clusterMemberName v) mgr) (w2, ?es) = (out, w', es)"
    using assms(1) scheme parsed config mgr
    by (auto simp: operator_run_def operator_main_def sum_error_def split: prod.splits)
  then have "es = ?es @ registered (clusterMemberName v) @ [Started r]"
    by (rule started_steps) (use assms(2) in simp_all)
  with scheme parsed show ?thesis by (rule that)
qed

section \<open>The property\<close>

definition subscribed :: "subscription \<Rightarrow> kind set" where
  "subscribed sub = insert (subFor sub) (set (subOwns sub) \<union> set (subWatches sub))"

lemma subscribed_known: "subscribed (subscription_of r) \<subseteq> polykube_kinds \<union> client_go_kinds"
  by (cases r) (simp_all add: subscribed_def polykube_kinds_def client_go_kinds_def
      Workload_SetupWithManager_def ClusterMember_SetupWithManager_def Federation_SetupWithManager_def
      ServiceEndpoint_SetupWithManager_def DatastoreBinding_SetupWithManager_def)

text \<open>C27: the manager is started only as a whole. When it is started, the five controllers, in their
  order, and both health checks were registered with it before, without a failure; the Workload's
  and the ServiceEndpoint's controller have the same name of the cluster member, the one of the
  flag; the cache is restricted to one namespace exactly when a namespace was given; and its
  scheme knows every kind that a controller subscribes to and every kind of the four API groups.\<close>

theorem operator_starts_complete:
  assumes "registry_ok S" and "operator_run S R args w = (out, es)" and "Started r \<in> set es"
  shows "\<exists>options v left. parse_flags operator_flags operator_defaults args = Inr (v, left) \<and>
    es = [GotConfig, MadeManager options None] @ registered (clusterMemberName v) @ [Started r] \<and>
    moDefaultNamespaces options =
      (if watchNamespace v = '''' then None else Some [watchNamespace v \<mapsto> EmptyCacheConfig]) \<and>
    (\<forall>k \<in> polykube_kinds \<union> (\<Union>c. subscribed (subscription_of c)). s_Recognizes S (moScheme options) k)"
proof -
  obtain scheme v left where scheme: "AddToScheme S (s_NewScheme S) = (None, scheme)"
    and parsed: "parse_flags operator_flags operator_defaults args = Inr (v, left)"
    and es: "es = [GotConfig, MadeManager (managerOptions scheme (metricsAddr v) (probeAddr v)
        (watchNamespace v) (enableLeaderElection v)) None] @
      registered (clusterMemberName v) @ [Started r]"
    by (rule operator_run_started [OF assms(2,3)])
  let ?options = "managerOptions scheme (metricsAddr v) (probeAddr v) (watchNamespace v) (enableLeaderElection v)"
  have "moScheme ?options = scheme" and
    cache: "moDefaultNamespaces ?options =
      (if watchNamespace v = [] then None else Some [watchNamespace v \<mapsto> EmptyCacheConfig])"
    by (simp_all add: managerOptions_def Let_def)
  then have known: "\<forall>k \<in> polykube_kinds \<union> (\<Union>c. subscribed (subscription_of c)).
      s_Recognizes S (moScheme ?options) k"
    using AddToScheme_knows [OF assms(1) scheme] subscribed_known by fastforce
  show ?thesis
    by (intro exI conjI) (rule parsed, rule es, rule cache, rule known)
qed

text \<open>A cluster where everything works: the scheme is the set of the kinds it knows.\<close>

definition set_registry :: "kind set scheme_lib" where
  "set_registry =
     \<lparr>s_NewScheme = {}, s_AddKnownTypes = \<lambda>gv kinds s. s \<union> Pair gv ` set kinds,
      s_AddToGroupVersion = \<lambda>gv s. s, s_ClientGo = \<lambda>s. (None, s \<union> client_go_kinds),
      s_Recognizes = \<lambda>s k. k \<in> s\<rparr>"

definition calm_env :: "(unit, unit, unit, kind set) runtime_env" where
  "calm_env =
     \<lparr>o_GetConfig = \<lambda>w. (Some (), w), o_NewManager = \<lambda>c options w. (Inr (), w),
      o_Complete = \<lambda>mgr sub r w. (None, w), o_AddHealthzCheck = \<lambda>mgr n w. (None, w),
      o_AddReadyzCheck = \<lambda>mgr n w. (None, w), o_Start = \<lambda>mgr w. (None, w)\<rparr>"

theorem operator_starts_complete_witness:
  "\<exists>out es. operator_run set_registry calm_env [''--cluster-member-name'', ''east''] () = (out, es) \<and>
     Completed (WorkloadReconciler ''east'') Workload_SetupWithManager None \<in> set es \<and>
     Completed (ServiceEndpointReconciler ''east'') ServiceEndpoint_SetupWithManager None \<in> set es"
proof -
  let ?v = "operator_defaults\<lparr>clusterMemberName := ''east''\<rparr>"
  have ok: "registry_ok set_registry"
    by (simp add: registry_ok_def set_registry_def)
  have parsed: "parse_flags operator_flags operator_defaults [''--cluster-member-name'', ''east''] = Inr (?v, [])"
    by code_simp
  obtain scheme where scheme: "AddToScheme set_registry (s_NewScheme set_registry) = (None, scheme)"
    by (simp add: AddToScheme_def addKnownTypes_defs set_registry_def)
  obtain out es where run: "operator_run set_registry calm_env [''--cluster-member-name'', ''east''] () = (out, es)"
    by fastforce
  then have "Started None \<in> set es"
    unfolding operator_run_def operator_main_def parsed scheme
    by (auto simp: start_operator_def must_def SetupWithManager_def calm_env_def sum_error_def)
  from operator_starts_complete [OF ok run this] run show ?thesis
    unfolding parsed by (auto simp: registered_def)
qed

end
