(* ===== verification/Memory.thy ===== *)
theory Memory
  imports Main
begin

text \<open>
  Memory as Go programs see it: values that refer to pointers' targets, arrays of slices and maps
  by their addresses, the copying that generated \<open>DeepCopyInto\<close> functions consist of, and what it
  means that such a function copies deeply. A slice is a reference to its array; the spare
  capacity behind its length is not in the model, as these functions never append.
\<close>

section \<open>Values and cells\<close>

type_synonym addr = nat

datatype val =
  Scalar string
| Nil_ref
| Ref addr
| Struct "val list"

datatype cell =
  Object val
| Array "val list"
| Map_cell "string \<rightharpoonup> string"

text \<open>Addresses below the break are allocated.\<close>

record memory =
  cells :: "addr \<Rightarrow> cell"
  brk :: addr

definition alloc :: "cell \<Rightarrow> memory \<Rightarrow> addr \<times> memory" where
  "alloc c m = (brk m, \<lparr>cells = (cells m)(brk m := c), brk = Suc (brk m)\<rparr>)"

text \<open>The types of values.\<close>

datatype ty =
  Plain
| Pointer ty
| Slice ty
| String_map
| Struct_of "ty list"

text \<open>The abstract value that a value stands for in a memory, whatever addresses it uses.\<close>

datatype tree =
  Leaf string
| Nothing
| Target tree
| Elements "tree list"
| Entries "string \<rightharpoonup> string"
| Members "tree list"

text \<open>
  \<open>rep m t v tr A\<close>: the value \<open>v\<close> of type \<open>t\<close> stands for \<open>tr\<close> in the memory \<open>m\<close>, and the cells it
  reaches are those in \<open>A\<close>.
\<close>

inductive rep :: "memory \<Rightarrow> ty \<Rightarrow> val \<Rightarrow> tree \<Rightarrow> addr set \<Rightarrow> bool"
  and reps :: "memory \<Rightarrow> ty list \<Rightarrow> val list \<Rightarrow> tree list \<Rightarrow> addr set \<Rightarrow> bool"
  for m where
  rep_plain: "rep m Plain (Scalar s) (Leaf s) {}"
| rep_nil_pointer: "rep m (Pointer t) Nil_ref Nothing {}"
| rep_pointer: "cells m a = Object v \<Longrightarrow> rep m t v tr A \<Longrightarrow> rep m (Pointer t) (Ref a) (Target tr) (insert a A)"
| rep_nil_slice: "rep m (Slice t) Nil_ref Nothing {}"
| rep_slice: "cells m a = Array vs \<Longrightarrow> reps m (replicate (length vs) t) vs trs A \<Longrightarrow>
    rep m (Slice t) (Ref a) (Elements trs) (insert a A)"
| rep_nil_map: "rep m String_map Nil_ref Nothing {}"
| rep_map: "cells m a = Map_cell f \<Longrightarrow> rep m String_map (Ref a) (Entries f) {a}"
| rep_struct: "reps m ts vs trs A \<Longrightarrow> rep m (Struct_of ts) (Struct vs) (Members trs) A"
| reps_Nil: "reps m [] [] [] {}"
| reps_Cons: "rep m t v tr A \<Longrightarrow> reps m ts vs trs B \<Longrightarrow> reps m (t # ts) (v # vs) (tr # trs) (A \<union> B)"

inductive_cases rep_PointerE: "rep m (Pointer t) v tr A"
inductive_cases rep_SliceE: "rep m (Slice t) v tr A"
inductive_cases rep_MapE: "rep m String_map v tr A"
inductive_cases rep_StructE: "rep m (Struct_of ts) v tr A"
inductive_simps reps_Nil_iff [simp]: "reps m [] vs trs A"
inductive_cases reps_ConsE: "reps m (t # ts) vs trs A"

text \<open>What a value stands for depends on the cells it reaches only.\<close>

lemma rep_frame:
  "rep m t v tr A \<Longrightarrow> (\<forall>a \<in> A. cells m' a = cells m a) \<Longrightarrow> rep m' t v tr A"
  "reps m ts vs trs A \<Longrightarrow> (\<forall>a \<in> A. cells m' a = cells m a) \<Longrightarrow> reps m' ts vs trs A"
  by (induction rule: rep_reps.inducts) (auto intro: rep_reps.intros)

text \<open>A type without references reaches no cell.\<close>

fun flat :: "ty \<Rightarrow> bool" where
  "flat Plain \<longleftrightarrow> True"
| "flat (Struct_of ts) \<longleftrightarrow> list_all flat ts"
| "flat _ \<longleftrightarrow> False"

lemma flat_reaches:
  "rep m t v tr A \<Longrightarrow> flat t \<Longrightarrow> A = {}"
  "reps m ts vs trs A \<Longrightarrow> list_all flat ts \<Longrightarrow> A = {}"
  by (induction rule: rep_reps.inducts) auto

lemma reps_length: "reps m ts vs trs A \<Longrightarrow> length vs = length ts"
  by (induction ts arbitrary: vs trs A) (auto elim: reps_ConsE)

section \<open>Copying\<close>

type_synonym copier = "val \<Rightarrow> memory \<Rightarrow> val \<times> memory"

text \<open>An assignment copies the value as it is.\<close>

definition plain :: copier where
  "plain v m = (v, m)"

fun copy_list :: "copier list \<Rightarrow> val list \<Rightarrow> memory \<Rightarrow> val list \<times> memory" where
  "copy_list (c # cs) (v # vs) m =
     (let (v', m1) = c v m; (vs', m2) = copy_list cs vs m1 in (v' # vs', m2))"
| "copy_list _ vs m = (vs, m)"

text \<open>\<open>if in != nil { *out = new(T); (*in).DeepCopyInto(*out) }\<close>.\<close>

definition copy_pointer :: "copier \<Rightarrow> copier" where
  "copy_pointer c v m =
     (case v of
        Ref a \<Rightarrow>
          (case cells m a of
             Object w \<Rightarrow>
               (let (w', m1) = c w m; (a', m2) = alloc (Object w') m1 in (Ref a', m2))
           | _ \<Rightarrow> (v, m))
      | _ \<Rightarrow> (v, m))"

text \<open>\<open>if in != nil { *out = make([]T, len(*in)); for i := range *in { .. } }\<close>.\<close>

definition copy_slice :: "copier \<Rightarrow> copier" where
  "copy_slice c v m =
     (case v of
        Ref a \<Rightarrow>
          (case cells m a of
             Array vs \<Rightarrow>
               (let (vs', m1) = copy_list (replicate (length vs) c) vs m;
                    (a', m2) = alloc (Array vs') m1
                in (Ref a', m2))
           | _ \<Rightarrow> (v, m))
      | _ \<Rightarrow> (v, m))"

text \<open>\<open>if in != nil { *out = make(map[string]string, len(*in)); for key, val := range *in { .. } }\<close>.\<close>

definition copy_map :: copier where
  "copy_map v m =
     (case v of
        Ref a \<Rightarrow>
          (case cells m a of
             Map_cell f \<Rightarrow> (let (a', m1) = alloc (Map_cell f) m in (Ref a', m1))
           | _ \<Rightarrow> (v, m))
      | _ \<Rightarrow> (v, m))"

text \<open>A \<open>DeepCopyInto\<close>, by what it does to each field in turn.\<close>

definition copy_struct :: "copier list \<Rightarrow> copier" where
  "copy_struct cs v m =
     (case v of
        Struct vs \<Rightarrow> (let (vs', m') = copy_list cs vs m in (Struct vs', m'))
      | _ \<Rightarrow> (v, m))"

section \<open>Deep copies\<close>

definition extends :: "memory \<Rightarrow> memory \<Rightarrow> bool" where
  "extends m m' \<longleftrightarrow> brk m \<le> brk m' \<and> (\<forall>a < brk m. cells m' a = cells m a)"

lemma extends_refl [simp]: "extends m m"
  by (simp add: extends_def)

lemma extends_trans: "extends m m1 \<Longrightarrow> extends m1 m2 \<Longrightarrow> extends m m2"
  by (auto simp: extends_def)

lemma extends_alloc: "alloc c m = (a, m') \<Longrightarrow> extends m m'"
  by (auto simp: alloc_def extends_def)

text \<open>
  A copier is deep at a type: the copy stands for the same value, reaches new cells only, and no
  cell that was allocated before has changed.
\<close>

definition deep :: "copier \<Rightarrow> ty \<Rightarrow> bool" where
  "deep c t \<longleftrightarrow>
     (\<forall>m v tr A. rep m t v tr A \<longrightarrow> A \<subseteq> {..<brk m} \<longrightarrow>
        (\<exists>v' m' A'. c v m = (v', m') \<and> rep m' t v' tr A' \<and> A' \<subseteq> {brk m..<brk m'} \<and> extends m m'))"

named_theorems deep_intros \<open>rules for deep copies\<close>

lemma deepE:
  assumes "deep c t" and "rep m t v tr A" and "A \<subseteq> {..<brk m}"
  obtains v' m' A' where "c v m = (v', m')" and "rep m' t v' tr A'"
    and "A' \<subseteq> {brk m..<brk m'}" and "extends m m'"
  using assms unfolding deep_def by blast

lemma deep_plain [deep_intros]: "flat t \<Longrightarrow> deep plain t"
  unfolding deep_def plain_def
proof (intro allI impI)
  fix m v tr A
  assume "flat t" and v: "rep m t v tr A"
  then have "A = {}" by (intro flat_reaches(1) [OF v])
  then show "\<exists>v' m' A'. (v, m) = (v', m') \<and> rep m' t v' tr A' \<and> A' \<subseteq> {brk m..<brk m'} \<and> extends m m'"
    by (intro exI [of _ v] exI [of _ m] exI [of _ "{}"]) (use v in simp)
qed

lemma rep_extends:
  "rep m t v tr A \<Longrightarrow> A \<subseteq> {..<brk m} \<Longrightarrow> extends m m' \<Longrightarrow> rep m' t v tr A"
  "reps m ts vs trs A \<Longrightarrow> A \<subseteq> {..<brk m} \<Longrightarrow> extends m m' \<Longrightarrow> reps m' ts vs trs A"
  unfolding extends_def by (erule rep_frame(1), blast, erule rep_frame(2), blast)

lemma deep_list:
  "list_all2 deep cs ts \<Longrightarrow> reps m ts vs trs A \<Longrightarrow> A \<subseteq> {..<brk m} \<Longrightarrow>
     \<exists>vs' m' A'. copy_list cs vs m = (vs', m') \<and> reps m' ts vs' trs A' \<and>
       A' \<subseteq> {brk m..<brk m'} \<and> extends m m'"
proof (induction cs ts arbitrary: m vs trs A rule: list_all2_induct)
  case Nil
  then show ?case by simp
next
  case (Cons c cs t ts)
  from Cons.prems(1) obtain v vs1 tr trs1 A1 B1 where
    vs: "vs = v # vs1" and trs: "trs = tr # trs1" and A: "A = A1 \<union> B1"
    and hd: "rep m t v tr A1" and tl: "reps m ts vs1 trs1 B1"
    by (rule reps_ConsE)
  obtain v' m1 A' where c: "c v m = (v', m1)" and v': "rep m1 t v' tr A'"
    and A': "A' \<subseteq> {brk m..<brk m1}" and m1: "extends m m1"
    by (rule deepE [OF Cons.hyps(1) hd]) (use Cons.prems(2) A in auto)
  have "reps m1 ts vs1 trs1 B1"
    by (rule rep_extends(2) [OF tl _ m1]) (use Cons.prems(2) A in auto)
  moreover have "B1 \<subseteq> {..<brk m1}"
    using Cons.prems(2) A m1 by (auto simp: extends_def)
  ultimately obtain vs' m2 B' where cs: "copy_list cs vs1 m1 = (vs', m2)"
    and vs': "reps m2 ts vs' trs1 B'" and B': "B' \<subseteq> {brk m1..<brk m2}" and m2: "extends m1 m2"
    using Cons.IH by blast
  have "rep m2 t v' tr A'"
    by (rule rep_extends(1) [OF v' _ m2]) (use A' in auto)
  then have "reps m2 (t # ts) (v' # vs') (tr # trs1) (A' \<union> B')"
    using vs' by (rule reps_Cons)
  moreover have "A' \<union> B' \<subseteq> {brk m..<brk m2}"
    using A' B' m1 m2 by (auto simp: extends_def)
  ultimately show ?case
    using c cs extends_trans [OF m1 m2] by (auto simp: vs trs)
qed

lemma deep_struct [deep_intros]: "list_all2 deep cs ts \<Longrightarrow> deep (copy_struct cs) (Struct_of ts)"
  unfolding deep_def [of "copy_struct cs"]
proof (intro allI impI)
  fix m v tr A
  assume cs: "list_all2 deep cs ts" and v: "rep m (Struct_of ts) v tr A" and A: "A \<subseteq> {..<brk m}"
  from v obtain vs trs where "v = Struct vs" "tr = Members trs" "reps m ts vs trs A"
    by (rule rep_StructE)
  with deep_list [OF cs this(3) A]
  show "\<exists>v' m' A'. copy_struct cs v m = (v', m') \<and> rep m' (Struct_of ts) v' tr A' \<and>
      A' \<subseteq> {brk m..<brk m'} \<and> extends m m'"
    by (fastforce simp: copy_struct_def intro: rep_struct)
qed

text \<open>A new cell on top of a copy.\<close>

lemma alloc_cell:
  "alloc c m = (a, m') \<Longrightarrow> a = brk m \<and> brk m' = Suc (brk m) \<and> cells m' a = c"
  by (auto simp: alloc_def)

lemma deep_pointer [deep_intros]: "deep c t \<Longrightarrow> deep (copy_pointer c) (Pointer t)"
  unfolding deep_def [of "copy_pointer c"]
proof (intro allI impI)
  fix m v tr A
  assume c: "deep c t" and v: "rep m (Pointer t) v tr A" and A: "A \<subseteq> {..<brk m}"
  from v consider (none) "v = Nil_ref" "tr = Nothing"
    | (some) a w tr' B where "v = Ref a" "tr = Target tr'" "A = insert a B" "cells m a = Object w" "rep m t w tr' B"
    by (rule rep_PointerE)
  then show "\<exists>v' m' A'. copy_pointer c v m = (v', m') \<and> rep m' (Pointer t) v' tr A' \<and>
      A' \<subseteq> {brk m..<brk m'} \<and> extends m m'"
  proof cases
    case none
    show ?thesis
      by (intro exI [of _ v] exI [of _ m] exI [of _ "{}"]) (use none in \<open>simp add: copy_pointer_def rep_nil_pointer\<close>)
  next
    case some
    obtain w' m1 B' where w': "c w m = (w', m1)" "rep m1 t w' tr' B'" "B' \<subseteq> {brk m..<brk m1}" "extends m m1"
      by (rule deepE [OF c some(5)]) (use A some in auto)
    obtain a' m2 where new: "alloc (Object w') m1 = (a', m2)" by fastforce
    have "rep m2 t w' tr' B'"
      by (rule rep_extends(1) [OF w'(2) _ extends_alloc [OF new]]) (use w'(3) in auto)
    then have "rep m2 (Pointer t) (Ref a') (Target tr') (insert a' B')"
      using alloc_cell [OF new] by (auto intro: rep_pointer)
    moreover have "insert a' B' \<subseteq> {brk m..<brk m2}"
      using alloc_cell [OF new] w'(3,4) by (auto simp: extends_def)
    ultimately show ?thesis
      using some w'(1) new extends_trans [OF w'(4) extends_alloc [OF new]]
      by (auto simp: copy_pointer_def)
  qed
qed

lemma deep_slice [deep_intros]: "deep c t \<Longrightarrow> deep (copy_slice c) (Slice t)"
  unfolding deep_def [of "copy_slice c"]
proof (intro allI impI)
  fix m v tr A
  assume c: "deep c t" and v: "rep m (Slice t) v tr A" and A: "A \<subseteq> {..<brk m}"
  from v consider (none) "v = Nil_ref" "tr = Nothing"
    | (some) a vs trs B where "v = Ref a" "tr = Elements trs" "A = insert a B" "cells m a = Array vs" "reps m (replicate (length vs) t) vs trs B"
    by (rule rep_SliceE)
  then show "\<exists>v' m' A'. copy_slice c v m = (v', m') \<and> rep m' (Slice t) v' tr A' \<and>
      A' \<subseteq> {brk m..<brk m'} \<and> extends m m'"
  proof cases
    case none
    show ?thesis
      by (intro exI [of _ v] exI [of _ m] exI [of _ "{}"]) (use none in \<open>simp add: copy_slice_def rep_nil_slice\<close>)
  next
    case some
    have "list_all2 deep (replicate (length vs) c) (replicate (length vs) t)"
      using c by (simp add: list_all2_conv_all_nth)
    moreover have "B \<subseteq> {..<brk m}" using A some by auto
    ultimately obtain vs' m1 B' where vs': "copy_list (replicate (length vs) c) vs m = (vs', m1)"
      "reps m1 (replicate (length vs) t) vs' trs B'" "B' \<subseteq> {brk m..<brk m1}" "extends m m1"
      using deep_list some(5) by blast
    obtain a' m2 where new: "alloc (Array vs') m1 = (a', m2)" by fastforce
    have "length vs' = length vs"
      using vs'(2) reps_length by fastforce
    moreover have "reps m2 (replicate (length vs) t) vs' trs B'"
      by (rule rep_extends(2) [OF vs'(2) _ extends_alloc [OF new]]) (use vs'(3) in auto)
    ultimately have "rep m2 (Slice t) (Ref a') (Elements trs) (insert a' B')"
      using alloc_cell [OF new] by (auto intro: rep_slice)
    moreover have "insert a' B' \<subseteq> {brk m..<brk m2}"
      using alloc_cell [OF new] vs'(3,4) by (auto simp: extends_def)
    ultimately show ?thesis
      using some vs'(1) new extends_trans [OF vs'(4) extends_alloc [OF new]]
      by (auto simp: copy_slice_def)
  qed
qed

lemma deep_map [deep_intros]: "deep copy_map String_map"
  unfolding deep_def
proof (intro allI impI)
  fix m v tr A
  assume v: "rep m String_map v tr A" and A: "A \<subseteq> {..<brk m}"
  from v consider (none) "v = Nil_ref" "tr = Nothing"
    | (some) a f where "v = Ref a" "tr = Entries f" "A = {a}" "cells m a = Map_cell f"
    by (rule rep_MapE)
  then show "\<exists>v' m' A'. copy_map v m = (v', m') \<and> rep m' String_map v' tr A' \<and>
      A' \<subseteq> {brk m..<brk m'} \<and> extends m m'"
  proof cases
    case none
    show ?thesis
      by (intro exI [of _ v] exI [of _ m] exI [of _ "{}"]) (use none in \<open>simp add: copy_map_def rep_nil_map\<close>)
  next
    case some
    obtain a' m' where new: "alloc (Map_cell f) m = (a', m')" by fastforce
    then have "rep m' String_map (Ref a') (Entries f) {a'}" "{a'} \<subseteq> {brk m..<brk m'}"
      using alloc_cell [OF new] by (auto intro: rep_map)
    then show ?thesis
      using some new extends_alloc [OF new] by (auto simp: copy_map_def)
  qed
qed

end
