(* ===== verification/Deep_Copy.thy ===== *)
theory Deep_Copy
  imports Memory
begin

text \<open>
  The deep copies of the API types (\<open>api/*/v1alpha1/zz_generated.deepcopy.go\<close>). For each type
  there is its shape, the fields of the struct in \<open>types.go\<close> in their order, and its copy
  functions, field by field as generated. The controllers get their objects through these
  functions, so that no two reconciliations share memory.
\<close>

section \<open>Library types\<close>

text \<open>The types of \<open>metav1\<close> and their \<open>DeepCopyInto\<close> are parameters, with the shapes they have.\<close>

record deep_lib =
  t_ObjectMeta :: ty
  c_ObjectMeta :: copier
  t_ListMeta :: ty
  c_ListMeta :: copier
  t_LabelSelector :: ty
  c_LabelSelector :: copier
  t_Condition :: ty
  c_Condition :: copier
  t_Time :: ty
  c_Time :: copier

text \<open>They copy deeply, as documented.\<close>

definition deep_lib_ok :: "deep_lib \<Rightarrow> bool" where
  "deep_lib_ok K \<longleftrightarrow>
     deep (c_ObjectMeta K) (t_ObjectMeta K) \<and> deep (c_ListMeta K) (t_ListMeta K) \<and>
     deep (c_LabelSelector K) (t_LabelSelector K) \<and> deep (c_Condition K) (t_Condition K) \<and>
     deep (c_Time K) (t_Time K)"

text \<open>\<open>metav1.TypeMeta\<close>: two strings.\<close>

definition TypeMeta_shape :: ty where
  "TypeMeta_shape = Struct_of [Plain, Plain]"

text \<open>\<open>DeepCopyObject\<close>: \<open>if c := in.DeepCopy(); c != nil { return c }; return nil\<close>.\<close>

definition as_object :: "copier \<Rightarrow> copier" where
  "as_object c v m = (case c v m of (p, m') \<Rightarrow> if p \<noteq> Nil_ref then (p, m') else (Nil_ref, m'))"

lemma as_object_eq [simp]: "as_object c = c"
  by (intro ext) (simp add: as_object_def split: prod.split)

section \<open>The types of runtime.polykube.dev\<close>

definition LocalObjectReference_shape :: ty where
  "LocalObjectReference_shape = Struct_of [Plain]"

definition LocalObjectReference_DeepCopyInto :: copier where
  "LocalObjectReference_DeepCopyInto = copy_struct [plain]"

definition LocalObjectReference_DeepCopy :: copier where
  "LocalObjectReference_DeepCopy = copy_pointer LocalObjectReference_DeepCopyInto"

definition runtime_NamespacedObjectReference_shape :: ty where
  "runtime_NamespacedObjectReference_shape = Struct_of [Plain, Plain]"

definition runtime_NamespacedObjectReference_DeepCopyInto :: copier where
  "runtime_NamespacedObjectReference_DeepCopyInto = copy_struct [plain, plain]"

definition runtime_NamespacedObjectReference_DeepCopy :: copier where
  "runtime_NamespacedObjectReference_DeepCopy = copy_pointer runtime_NamespacedObjectReference_DeepCopyInto"

definition EnvVar_shape :: ty where
  "EnvVar_shape = Struct_of [Plain, Plain]"

definition EnvVar_DeepCopyInto :: copier where
  "EnvVar_DeepCopyInto = copy_struct [plain, plain]"

definition EnvVar_DeepCopy :: copier where
  "EnvVar_DeepCopy = copy_pointer EnvVar_DeepCopyInto"

definition EnvFromSource_shape :: ty where
  "EnvFromSource_shape = Struct_of [Pointer LocalObjectReference_shape,
      Pointer LocalObjectReference_shape]"

definition EnvFromSource_DeepCopyInto :: copier where
  "EnvFromSource_DeepCopyInto = copy_struct [copy_pointer plain, copy_pointer plain]"

definition EnvFromSource_DeepCopy :: copier where
  "EnvFromSource_DeepCopy = copy_pointer EnvFromSource_DeepCopyInto"

definition ContainerPort_shape :: ty where
  "ContainerPort_shape = Struct_of [Plain, Plain, Plain]"

definition ContainerPort_DeepCopyInto :: copier where
  "ContainerPort_DeepCopyInto = copy_struct [plain, plain, plain]"

definition ContainerPort_DeepCopy :: copier where
  "ContainerPort_DeepCopy = copy_pointer ContainerPort_DeepCopyInto"

definition WorkloadTargetPolicy_shape :: "deep_lib \<Rightarrow> ty" where
  "WorkloadTargetPolicy_shape K = Struct_of [Pointer (t_LabelSelector K), Slice Plain, Plain]"

definition WorkloadTargetPolicy_DeepCopyInto :: "deep_lib \<Rightarrow> copier" where
  "WorkloadTargetPolicy_DeepCopyInto K = copy_struct [copy_pointer (c_LabelSelector K),
      copy_slice plain, plain]"

definition WorkloadTargetPolicy_DeepCopy :: "deep_lib \<Rightarrow> copier" where
  "WorkloadTargetPolicy_DeepCopy K = copy_pointer (WorkloadTargetPolicy_DeepCopyInto K)"

definition RolloutReference_shape :: ty where
  "RolloutReference_shape = Struct_of [Plain, Plain, Plain]"

definition RolloutReference_DeepCopyInto :: copier where
  "RolloutReference_DeepCopyInto = copy_struct [plain, plain, plain]"

definition RolloutReference_DeepCopy :: copier where
  "RolloutReference_DeepCopy = copy_pointer RolloutReference_DeepCopyInto"

definition WorkloadSpec_shape :: "deep_lib \<Rightarrow> ty" where
  "WorkloadSpec_shape K = Struct_of [runtime_NamespacedObjectReference_shape, Plain,
      Slice LocalObjectReference_shape, Slice ContainerPort_shape, Slice EnvVar_shape,
      Slice EnvFromSource_shape, Pointer (WorkloadTargetPolicy_shape K),
      Pointer RolloutReference_shape, Pointer Plain, Plain]"

definition WorkloadSpec_DeepCopyInto :: "deep_lib \<Rightarrow> copier" where
  "WorkloadSpec_DeepCopyInto K = copy_struct [plain, plain, copy_slice plain, copy_slice plain,
      copy_slice plain, copy_slice EnvFromSource_DeepCopyInto,
      copy_pointer (WorkloadTargetPolicy_DeepCopyInto K), copy_pointer plain,
      copy_pointer plain, plain]"

definition WorkloadSpec_DeepCopy :: "deep_lib \<Rightarrow> copier" where
  "WorkloadSpec_DeepCopy K = copy_pointer (WorkloadSpec_DeepCopyInto K)"

definition WorkloadTargetStatus_shape :: "deep_lib \<Rightarrow> ty" where
  "WorkloadTargetStatus_shape K = Struct_of [Plain, Plain, Plain, Pointer (t_Time K), Plain]"

definition WorkloadTargetStatus_DeepCopyInto :: "deep_lib \<Rightarrow> copier" where
  "WorkloadTargetStatus_DeepCopyInto K = copy_struct [plain, plain, plain,
      copy_pointer (c_Time K), plain]"

definition WorkloadTargetStatus_DeepCopy :: "deep_lib \<Rightarrow> copier" where
  "WorkloadTargetStatus_DeepCopy K = copy_pointer (WorkloadTargetStatus_DeepCopyInto K)"

definition WorkloadStatus_shape :: "deep_lib \<Rightarrow> ty" where
  "WorkloadStatus_shape K = Struct_of [Slice (t_Condition K), Plain,
      Slice (WorkloadTargetStatus_shape K), Plain]"

definition WorkloadStatus_DeepCopyInto :: "deep_lib \<Rightarrow> copier" where
  "WorkloadStatus_DeepCopyInto K = copy_struct [copy_slice (c_Condition K), plain,
      copy_slice (WorkloadTargetStatus_DeepCopyInto K), plain]"

definition WorkloadStatus_DeepCopy :: "deep_lib \<Rightarrow> copier" where
  "WorkloadStatus_DeepCopy K = copy_pointer (WorkloadStatus_DeepCopyInto K)"

definition Workload_shape :: "deep_lib \<Rightarrow> ty" where
  "Workload_shape K = Struct_of [TypeMeta_shape, t_ObjectMeta K, WorkloadSpec_shape K,
      WorkloadStatus_shape K]"

definition Workload_DeepCopyInto :: "deep_lib \<Rightarrow> copier" where
  "Workload_DeepCopyInto K = copy_struct [plain, c_ObjectMeta K, WorkloadSpec_DeepCopyInto K,
      WorkloadStatus_DeepCopyInto K]"

definition Workload_DeepCopy :: "deep_lib \<Rightarrow> copier" where
  "Workload_DeepCopy K = copy_pointer (Workload_DeepCopyInto K)"

definition Workload_DeepCopyObject :: "deep_lib \<Rightarrow> copier" where
  "Workload_DeepCopyObject K = as_object (Workload_DeepCopy K)"

definition WorkloadList_shape :: "deep_lib \<Rightarrow> ty" where
  "WorkloadList_shape K = Struct_of [TypeMeta_shape, t_ListMeta K, Slice (Workload_shape K)]"

definition WorkloadList_DeepCopyInto :: "deep_lib \<Rightarrow> copier" where
  "WorkloadList_DeepCopyInto K = copy_struct [plain, c_ListMeta K,
      copy_slice (Workload_DeepCopyInto K)]"

definition WorkloadList_DeepCopy :: "deep_lib \<Rightarrow> copier" where
  "WorkloadList_DeepCopy K = copy_pointer (WorkloadList_DeepCopyInto K)"

definition WorkloadList_DeepCopyObject :: "deep_lib \<Rightarrow> copier" where
  "WorkloadList_DeepCopyObject K = as_object (WorkloadList_DeepCopy K)"

section \<open>The types of infrastructure.polykube.dev\<close>

definition ClusterMemberSpec_shape :: ty where
  "ClusterMemberSpec_shape = Struct_of [Plain, Plain, Plain, Plain, Plain, Plain, Plain, Plain,
      String_map]"

definition ClusterMemberSpec_DeepCopyInto :: copier where
  "ClusterMemberSpec_DeepCopyInto = copy_struct [plain, plain, plain, plain, plain, plain,
      plain, plain, copy_map]"

definition ClusterMemberSpec_DeepCopy :: copier where
  "ClusterMemberSpec_DeepCopy = copy_pointer ClusterMemberSpec_DeepCopyInto"

definition ClusterMemberStatus_shape :: "deep_lib \<Rightarrow> ty" where
  "ClusterMemberStatus_shape K = Struct_of [Plain, Pointer (t_Time K), Slice (t_Condition K)]"

definition ClusterMemberStatus_DeepCopyInto :: "deep_lib \<Rightarrow> copier" where
  "ClusterMemberStatus_DeepCopyInto K = copy_struct [plain, copy_pointer (c_Time K),
      copy_slice (c_Condition K)]"

definition ClusterMemberStatus_DeepCopy :: "deep_lib \<Rightarrow> copier" where
  "ClusterMemberStatus_DeepCopy K = copy_pointer (ClusterMemberStatus_DeepCopyInto K)"

definition ClusterMember_shape :: "deep_lib \<Rightarrow> ty" where
  "ClusterMember_shape K = Struct_of [TypeMeta_shape, t_ObjectMeta K, ClusterMemberSpec_shape,
      ClusterMemberStatus_shape K]"

definition ClusterMember_DeepCopyInto :: "deep_lib \<Rightarrow> copier" where
  "ClusterMember_DeepCopyInto K = copy_struct [plain, c_ObjectMeta K,
      ClusterMemberSpec_DeepCopyInto, ClusterMemberStatus_DeepCopyInto K]"

definition ClusterMember_DeepCopy :: "deep_lib \<Rightarrow> copier" where
  "ClusterMember_DeepCopy K = copy_pointer (ClusterMember_DeepCopyInto K)"

definition ClusterMember_DeepCopyObject :: "deep_lib \<Rightarrow> copier" where
  "ClusterMember_DeepCopyObject K = as_object (ClusterMember_DeepCopy K)"

definition ClusterMemberList_shape :: "deep_lib \<Rightarrow> ty" where
  "ClusterMemberList_shape K = Struct_of [TypeMeta_shape, t_ListMeta K,
      Slice (ClusterMember_shape K)]"

definition ClusterMemberList_DeepCopyInto :: "deep_lib \<Rightarrow> copier" where
  "ClusterMemberList_DeepCopyInto K = copy_struct [plain, c_ListMeta K,
      copy_slice (ClusterMember_DeepCopyInto K)]"

definition ClusterMemberList_DeepCopy :: "deep_lib \<Rightarrow> copier" where
  "ClusterMemberList_DeepCopy K = copy_pointer (ClusterMemberList_DeepCopyInto K)"

definition ClusterMemberList_DeepCopyObject :: "deep_lib \<Rightarrow> copier" where
  "ClusterMemberList_DeepCopyObject K = as_object (ClusterMemberList_DeepCopy K)"

definition FederationMemberReference_shape :: ty where
  "FederationMemberReference_shape = Struct_of [Plain]"

definition FederationMemberReference_DeepCopyInto :: copier where
  "FederationMemberReference_DeepCopyInto = copy_struct [plain]"

definition FederationMemberReference_DeepCopy :: copier where
  "FederationMemberReference_DeepCopy = copy_pointer FederationMemberReference_DeepCopyInto"

definition FederationTargetPolicy_shape :: "deep_lib \<Rightarrow> ty" where
  "FederationTargetPolicy_shape K = Struct_of [Pointer (t_LabelSelector K), Slice Plain]"

definition FederationTargetPolicy_DeepCopyInto :: "deep_lib \<Rightarrow> copier" where
  "FederationTargetPolicy_DeepCopyInto K = copy_struct [copy_pointer (c_LabelSelector K),
      copy_slice plain]"

definition FederationTargetPolicy_DeepCopy :: "deep_lib \<Rightarrow> copier" where
  "FederationTargetPolicy_DeepCopy K = copy_pointer (FederationTargetPolicy_DeepCopyInto K)"

definition FederationNetworkingSpec_shape :: ty where
  "FederationNetworkingSpec_shape = Struct_of [Plain, String_map]"

definition FederationNetworkingSpec_DeepCopyInto :: copier where
  "FederationNetworkingSpec_DeepCopyInto = copy_struct [plain, copy_map]"

definition FederationNetworkingSpec_DeepCopy :: copier where
  "FederationNetworkingSpec_DeepCopy = copy_pointer FederationNetworkingSpec_DeepCopyInto"

definition FederationSpec_shape :: "deep_lib \<Rightarrow> ty" where
  "FederationSpec_shape K = Struct_of [Pointer (t_LabelSelector K),
      Slice FederationMemberReference_shape, Plain, Pointer (FederationTargetPolicy_shape K),
      Pointer FederationNetworkingSpec_shape]"

definition FederationSpec_DeepCopyInto :: "deep_lib \<Rightarrow> copier" where
  "FederationSpec_DeepCopyInto K = copy_struct [copy_pointer (c_LabelSelector K),
      copy_slice plain, plain, copy_pointer (FederationTargetPolicy_DeepCopyInto K),
      copy_pointer FederationNetworkingSpec_DeepCopyInto]"

definition FederationSpec_DeepCopy :: "deep_lib \<Rightarrow> copier" where
  "FederationSpec_DeepCopy K = copy_pointer (FederationSpec_DeepCopyInto K)"

definition FederationMemberStatus_shape :: ty where
  "FederationMemberStatus_shape = Struct_of [Plain, Plain]"

definition FederationMemberStatus_DeepCopyInto :: copier where
  "FederationMemberStatus_DeepCopyInto = copy_struct [plain, plain]"

definition FederationMemberStatus_DeepCopy :: copier where
  "FederationMemberStatus_DeepCopy = copy_pointer FederationMemberStatus_DeepCopyInto"

definition FederationStatus_shape :: "deep_lib \<Rightarrow> ty" where
  "FederationStatus_shape K = Struct_of [Plain, Slice FederationMemberStatus_shape,
      Slice (t_Condition K), Plain]"

definition FederationStatus_DeepCopyInto :: "deep_lib \<Rightarrow> copier" where
  "FederationStatus_DeepCopyInto K = copy_struct [plain, copy_slice plain,
      copy_slice (c_Condition K), plain]"

definition FederationStatus_DeepCopy :: "deep_lib \<Rightarrow> copier" where
  "FederationStatus_DeepCopy K = copy_pointer (FederationStatus_DeepCopyInto K)"

definition Federation_shape :: "deep_lib \<Rightarrow> ty" where
  "Federation_shape K = Struct_of [TypeMeta_shape, t_ObjectMeta K, FederationSpec_shape K,
      FederationStatus_shape K]"

definition Federation_DeepCopyInto :: "deep_lib \<Rightarrow> copier" where
  "Federation_DeepCopyInto K = copy_struct [plain, c_ObjectMeta K,
      FederationSpec_DeepCopyInto K, FederationStatus_DeepCopyInto K]"

definition Federation_DeepCopy :: "deep_lib \<Rightarrow> copier" where
  "Federation_DeepCopy K = copy_pointer (Federation_DeepCopyInto K)"

definition Federation_DeepCopyObject :: "deep_lib \<Rightarrow> copier" where
  "Federation_DeepCopyObject K = as_object (Federation_DeepCopy K)"

definition FederationList_shape :: "deep_lib \<Rightarrow> ty" where
  "FederationList_shape K = Struct_of [TypeMeta_shape, t_ListMeta K, Slice (Federation_shape K)]"

definition FederationList_DeepCopyInto :: "deep_lib \<Rightarrow> copier" where
  "FederationList_DeepCopyInto K = copy_struct [plain, c_ListMeta K,
      copy_slice (Federation_DeepCopyInto K)]"

definition FederationList_DeepCopy :: "deep_lib \<Rightarrow> copier" where
  "FederationList_DeepCopy K = copy_pointer (FederationList_DeepCopyInto K)"

definition FederationList_DeepCopyObject :: "deep_lib \<Rightarrow> copier" where
  "FederationList_DeepCopyObject K = as_object (FederationList_DeepCopy K)"

section \<open>The types of routing.polykube.dev\<close>

definition routing_NamespacedObjectReference_shape :: ty where
  "routing_NamespacedObjectReference_shape = Struct_of [Plain, Plain]"

definition routing_NamespacedObjectReference_DeepCopyInto :: copier where
  "routing_NamespacedObjectReference_DeepCopyInto = copy_struct [plain, plain]"

definition routing_NamespacedObjectReference_DeepCopy :: copier where
  "routing_NamespacedObjectReference_DeepCopy = copy_pointer routing_NamespacedObjectReference_DeepCopyInto"

definition GatewayReference_shape :: ty where
  "GatewayReference_shape = Struct_of [Plain, Plain, Plain]"

definition GatewayReference_DeepCopyInto :: copier where
  "GatewayReference_DeepCopyInto = copy_struct [plain, plain, plain]"

definition GatewayReference_DeepCopy :: copier where
  "GatewayReference_DeepCopy = copy_pointer GatewayReference_DeepCopyInto"

definition FailoverPolicy_shape :: ty where
  "FailoverPolicy_shape = Struct_of [Plain, Plain]"

definition FailoverPolicy_DeepCopyInto :: copier where
  "FailoverPolicy_DeepCopyInto = copy_struct [plain, plain]"

definition FailoverPolicy_DeepCopy :: copier where
  "FailoverPolicy_DeepCopy = copy_pointer FailoverPolicy_DeepCopyInto"

definition ServiceEndpointSpec_shape :: ty where
  "ServiceEndpointSpec_shape = Struct_of [routing_NamespacedObjectReference_shape, Slice Plain,
      Plain, Plain, Pointer FailoverPolicy_shape, Pointer GatewayReference_shape]"

definition ServiceEndpointSpec_DeepCopyInto :: copier where
  "ServiceEndpointSpec_DeepCopyInto = copy_struct [plain, copy_slice plain, plain, plain,
      copy_pointer plain, copy_pointer plain]"

definition ServiceEndpointSpec_DeepCopy :: copier where
  "ServiceEndpointSpec_DeepCopy = copy_pointer ServiceEndpointSpec_DeepCopyInto"

definition ServiceEndpointStatus_shape :: "deep_lib \<Rightarrow> ty" where
  "ServiceEndpointStatus_shape K = Struct_of [Slice (t_Condition K), Plain, Slice Plain,
      Pointer (t_Time K), Plain]"

definition ServiceEndpointStatus_DeepCopyInto :: "deep_lib \<Rightarrow> copier" where
  "ServiceEndpointStatus_DeepCopyInto K = copy_struct [copy_slice (c_Condition K), plain,
      copy_slice plain, copy_pointer (c_Time K), plain]"

definition ServiceEndpointStatus_DeepCopy :: "deep_lib \<Rightarrow> copier" where
  "ServiceEndpointStatus_DeepCopy K = copy_pointer (ServiceEndpointStatus_DeepCopyInto K)"

definition ServiceEndpoint_shape :: "deep_lib \<Rightarrow> ty" where
  "ServiceEndpoint_shape K = Struct_of [TypeMeta_shape, t_ObjectMeta K,
      ServiceEndpointSpec_shape, ServiceEndpointStatus_shape K]"

definition ServiceEndpoint_DeepCopyInto :: "deep_lib \<Rightarrow> copier" where
  "ServiceEndpoint_DeepCopyInto K = copy_struct [plain, c_ObjectMeta K,
      ServiceEndpointSpec_DeepCopyInto, ServiceEndpointStatus_DeepCopyInto K]"

definition ServiceEndpoint_DeepCopy :: "deep_lib \<Rightarrow> copier" where
  "ServiceEndpoint_DeepCopy K = copy_pointer (ServiceEndpoint_DeepCopyInto K)"

definition ServiceEndpoint_DeepCopyObject :: "deep_lib \<Rightarrow> copier" where
  "ServiceEndpoint_DeepCopyObject K = as_object (ServiceEndpoint_DeepCopy K)"

definition ServiceEndpointList_shape :: "deep_lib \<Rightarrow> ty" where
  "ServiceEndpointList_shape K = Struct_of [TypeMeta_shape, t_ListMeta K,
      Slice (ServiceEndpoint_shape K)]"

definition ServiceEndpointList_DeepCopyInto :: "deep_lib \<Rightarrow> copier" where
  "ServiceEndpointList_DeepCopyInto K = copy_struct [plain, c_ListMeta K,
      copy_slice (ServiceEndpoint_DeepCopyInto K)]"

definition ServiceEndpointList_DeepCopy :: "deep_lib \<Rightarrow> copier" where
  "ServiceEndpointList_DeepCopy K = copy_pointer (ServiceEndpointList_DeepCopyInto K)"

definition ServiceEndpointList_DeepCopyObject :: "deep_lib \<Rightarrow> copier" where
  "ServiceEndpointList_DeepCopyObject K = as_object (ServiceEndpointList_DeepCopy K)"

section \<open>The types of data.polykube.dev\<close>

definition data_NamespacedObjectReference_shape :: ty where
  "data_NamespacedObjectReference_shape = Struct_of [Plain, Plain]"

definition data_NamespacedObjectReference_DeepCopyInto :: copier where
  "data_NamespacedObjectReference_DeepCopyInto = copy_struct [plain, plain]"

definition data_NamespacedObjectReference_DeepCopy :: copier where
  "data_NamespacedObjectReference_DeepCopy = copy_pointer data_NamespacedObjectReference_DeepCopyInto"

definition DatastoreBindingSpec_shape :: ty where
  "DatastoreBindingSpec_shape = Struct_of [data_NamespacedObjectReference_shape, Plain,
      data_NamespacedObjectReference_shape, Plain, Plain]"

definition DatastoreBindingSpec_DeepCopyInto :: copier where
  "DatastoreBindingSpec_DeepCopyInto = copy_struct [plain, plain, plain, plain, plain]"

definition DatastoreBindingSpec_DeepCopy :: copier where
  "DatastoreBindingSpec_DeepCopy = copy_pointer DatastoreBindingSpec_DeepCopyInto"

definition DatastoreBindingStatus_shape :: "deep_lib \<Rightarrow> ty" where
  "DatastoreBindingStatus_shape K = Struct_of [Slice (t_Condition K), Plain, Plain]"

definition DatastoreBindingStatus_DeepCopyInto :: "deep_lib \<Rightarrow> copier" where
  "DatastoreBindingStatus_DeepCopyInto K = copy_struct [copy_slice (c_Condition K), plain, plain]"

definition DatastoreBindingStatus_DeepCopy :: "deep_lib \<Rightarrow> copier" where
  "DatastoreBindingStatus_DeepCopy K = copy_pointer (DatastoreBindingStatus_DeepCopyInto K)"

definition DatastoreBinding_shape :: "deep_lib \<Rightarrow> ty" where
  "DatastoreBinding_shape K = Struct_of [TypeMeta_shape, t_ObjectMeta K,
      DatastoreBindingSpec_shape, DatastoreBindingStatus_shape K]"

definition DatastoreBinding_DeepCopyInto :: "deep_lib \<Rightarrow> copier" where
  "DatastoreBinding_DeepCopyInto K = copy_struct [plain, c_ObjectMeta K, plain,
      DatastoreBindingStatus_DeepCopyInto K]"

definition DatastoreBinding_DeepCopy :: "deep_lib \<Rightarrow> copier" where
  "DatastoreBinding_DeepCopy K = copy_pointer (DatastoreBinding_DeepCopyInto K)"

definition DatastoreBinding_DeepCopyObject :: "deep_lib \<Rightarrow> copier" where
  "DatastoreBinding_DeepCopyObject K = as_object (DatastoreBinding_DeepCopy K)"

definition DatastoreBindingList_shape :: "deep_lib \<Rightarrow> ty" where
  "DatastoreBindingList_shape K = Struct_of [TypeMeta_shape, t_ListMeta K,
      Slice (DatastoreBinding_shape K)]"

definition DatastoreBindingList_DeepCopyInto :: "deep_lib \<Rightarrow> copier" where
  "DatastoreBindingList_DeepCopyInto K = copy_struct [plain, c_ListMeta K,
      copy_slice (DatastoreBinding_DeepCopyInto K)]"

definition DatastoreBindingList_DeepCopy :: "deep_lib \<Rightarrow> copier" where
  "DatastoreBindingList_DeepCopy K = copy_pointer (DatastoreBindingList_DeepCopyInto K)"

definition DatastoreBindingList_DeepCopyObject :: "deep_lib \<Rightarrow> copier" where
  "DatastoreBindingList_DeepCopyObject K = as_object (DatastoreBindingList_DeepCopy K)"

section \<open>All of them are deep\<close>

text \<open>The copy functions of the API, each with the type of what it copies.\<close>

definition api_copies :: "deep_lib \<Rightarrow> (copier \<times> ty) list" where
  "api_copies K =
     [(LocalObjectReference_DeepCopyInto, LocalObjectReference_shape),
      (LocalObjectReference_DeepCopy, Pointer LocalObjectReference_shape),
      (runtime_NamespacedObjectReference_DeepCopyInto, runtime_NamespacedObjectReference_shape),
      (runtime_NamespacedObjectReference_DeepCopy, Pointer runtime_NamespacedObjectReference_shape),
      (EnvVar_DeepCopyInto, EnvVar_shape),
      (EnvVar_DeepCopy, Pointer EnvVar_shape),
      (EnvFromSource_DeepCopyInto, EnvFromSource_shape),
      (EnvFromSource_DeepCopy, Pointer EnvFromSource_shape),
      (ContainerPort_DeepCopyInto, ContainerPort_shape),
      (ContainerPort_DeepCopy, Pointer ContainerPort_shape),
      (WorkloadTargetPolicy_DeepCopyInto K, WorkloadTargetPolicy_shape K),
      (WorkloadTargetPolicy_DeepCopy K, Pointer (WorkloadTargetPolicy_shape K)),
      (RolloutReference_DeepCopyInto, RolloutReference_shape),
      (RolloutReference_DeepCopy, Pointer RolloutReference_shape),
      (WorkloadSpec_DeepCopyInto K, WorkloadSpec_shape K),
      (WorkloadSpec_DeepCopy K, Pointer (WorkloadSpec_shape K)),
      (WorkloadTargetStatus_DeepCopyInto K, WorkloadTargetStatus_shape K),
      (WorkloadTargetStatus_DeepCopy K, Pointer (WorkloadTargetStatus_shape K)),
      (WorkloadStatus_DeepCopyInto K, WorkloadStatus_shape K),
      (WorkloadStatus_DeepCopy K, Pointer (WorkloadStatus_shape K)),
      (Workload_DeepCopyInto K, Workload_shape K),
      (Workload_DeepCopy K, Pointer (Workload_shape K)),
      (Workload_DeepCopyObject K, Pointer (Workload_shape K)),
      (WorkloadList_DeepCopyInto K, WorkloadList_shape K),
      (WorkloadList_DeepCopy K, Pointer (WorkloadList_shape K)),
      (WorkloadList_DeepCopyObject K, Pointer (WorkloadList_shape K)),
      (ClusterMemberSpec_DeepCopyInto, ClusterMemberSpec_shape),
      (ClusterMemberSpec_DeepCopy, Pointer ClusterMemberSpec_shape),
      (ClusterMemberStatus_DeepCopyInto K, ClusterMemberStatus_shape K),
      (ClusterMemberStatus_DeepCopy K, Pointer (ClusterMemberStatus_shape K)),
      (ClusterMember_DeepCopyInto K, ClusterMember_shape K),
      (ClusterMember_DeepCopy K, Pointer (ClusterMember_shape K)),
      (ClusterMember_DeepCopyObject K, Pointer (ClusterMember_shape K)),
      (ClusterMemberList_DeepCopyInto K, ClusterMemberList_shape K),
      (ClusterMemberList_DeepCopy K, Pointer (ClusterMemberList_shape K)),
      (ClusterMemberList_DeepCopyObject K, Pointer (ClusterMemberList_shape K)),
      (FederationMemberReference_DeepCopyInto, FederationMemberReference_shape),
      (FederationMemberReference_DeepCopy, Pointer FederationMemberReference_shape),
      (FederationTargetPolicy_DeepCopyInto K, FederationTargetPolicy_shape K),
      (FederationTargetPolicy_DeepCopy K, Pointer (FederationTargetPolicy_shape K)),
      (FederationNetworkingSpec_DeepCopyInto, FederationNetworkingSpec_shape),
      (FederationNetworkingSpec_DeepCopy, Pointer FederationNetworkingSpec_shape),
      (FederationSpec_DeepCopyInto K, FederationSpec_shape K),
      (FederationSpec_DeepCopy K, Pointer (FederationSpec_shape K)),
      (FederationMemberStatus_DeepCopyInto, FederationMemberStatus_shape),
      (FederationMemberStatus_DeepCopy, Pointer FederationMemberStatus_shape),
      (FederationStatus_DeepCopyInto K, FederationStatus_shape K),
      (FederationStatus_DeepCopy K, Pointer (FederationStatus_shape K)),
      (Federation_DeepCopyInto K, Federation_shape K),
      (Federation_DeepCopy K, Pointer (Federation_shape K)),
      (Federation_DeepCopyObject K, Pointer (Federation_shape K)),
      (FederationList_DeepCopyInto K, FederationList_shape K),
      (FederationList_DeepCopy K, Pointer (FederationList_shape K)),
      (FederationList_DeepCopyObject K, Pointer (FederationList_shape K)),
      (routing_NamespacedObjectReference_DeepCopyInto, routing_NamespacedObjectReference_shape),
      (routing_NamespacedObjectReference_DeepCopy, Pointer routing_NamespacedObjectReference_shape),
      (GatewayReference_DeepCopyInto, GatewayReference_shape),
      (GatewayReference_DeepCopy, Pointer GatewayReference_shape),
      (FailoverPolicy_DeepCopyInto, FailoverPolicy_shape),
      (FailoverPolicy_DeepCopy, Pointer FailoverPolicy_shape),
      (ServiceEndpointSpec_DeepCopyInto, ServiceEndpointSpec_shape),
      (ServiceEndpointSpec_DeepCopy, Pointer ServiceEndpointSpec_shape),
      (ServiceEndpointStatus_DeepCopyInto K, ServiceEndpointStatus_shape K),
      (ServiceEndpointStatus_DeepCopy K, Pointer (ServiceEndpointStatus_shape K)),
      (ServiceEndpoint_DeepCopyInto K, ServiceEndpoint_shape K),
      (ServiceEndpoint_DeepCopy K, Pointer (ServiceEndpoint_shape K)),
      (ServiceEndpoint_DeepCopyObject K, Pointer (ServiceEndpoint_shape K)),
      (ServiceEndpointList_DeepCopyInto K, ServiceEndpointList_shape K),
      (ServiceEndpointList_DeepCopy K, Pointer (ServiceEndpointList_shape K)),
      (ServiceEndpointList_DeepCopyObject K, Pointer (ServiceEndpointList_shape K)),
      (data_NamespacedObjectReference_DeepCopyInto, data_NamespacedObjectReference_shape),
      (data_NamespacedObjectReference_DeepCopy, Pointer data_NamespacedObjectReference_shape),
      (DatastoreBindingSpec_DeepCopyInto, DatastoreBindingSpec_shape),
      (DatastoreBindingSpec_DeepCopy, Pointer DatastoreBindingSpec_shape),
      (DatastoreBindingStatus_DeepCopyInto K, DatastoreBindingStatus_shape K),
      (DatastoreBindingStatus_DeepCopy K, Pointer (DatastoreBindingStatus_shape K)),
      (DatastoreBinding_DeepCopyInto K, DatastoreBinding_shape K),
      (DatastoreBinding_DeepCopy K, Pointer (DatastoreBinding_shape K)),
      (DatastoreBinding_DeepCopyObject K, Pointer (DatastoreBinding_shape K)),
      (DatastoreBindingList_DeepCopyInto K, DatastoreBindingList_shape K),
      (DatastoreBindingList_DeepCopy K, Pointer (DatastoreBindingList_shape K)),
      (DatastoreBindingList_DeepCopyObject K, Pointer (DatastoreBindingList_shape K))]"

lemmas deep_copy_defs =
  LocalObjectReference_shape_def LocalObjectReference_DeepCopyInto_def
  LocalObjectReference_DeepCopy_def runtime_NamespacedObjectReference_shape_def
  runtime_NamespacedObjectReference_DeepCopyInto_def
  runtime_NamespacedObjectReference_DeepCopy_def EnvVar_shape_def EnvVar_DeepCopyInto_def
  EnvVar_DeepCopy_def EnvFromSource_shape_def EnvFromSource_DeepCopyInto_def
  EnvFromSource_DeepCopy_def ContainerPort_shape_def ContainerPort_DeepCopyInto_def
  ContainerPort_DeepCopy_def WorkloadTargetPolicy_shape_def
  WorkloadTargetPolicy_DeepCopyInto_def WorkloadTargetPolicy_DeepCopy_def
  RolloutReference_shape_def RolloutReference_DeepCopyInto_def RolloutReference_DeepCopy_def
  WorkloadSpec_shape_def WorkloadSpec_DeepCopyInto_def WorkloadSpec_DeepCopy_def
  WorkloadTargetStatus_shape_def WorkloadTargetStatus_DeepCopyInto_def
  WorkloadTargetStatus_DeepCopy_def WorkloadStatus_shape_def WorkloadStatus_DeepCopyInto_def
  WorkloadStatus_DeepCopy_def Workload_shape_def Workload_DeepCopyInto_def Workload_DeepCopy_def
  Workload_DeepCopyObject_def WorkloadList_shape_def WorkloadList_DeepCopyInto_def
  WorkloadList_DeepCopy_def WorkloadList_DeepCopyObject_def ClusterMemberSpec_shape_def
  ClusterMemberSpec_DeepCopyInto_def ClusterMemberSpec_DeepCopy_def
  ClusterMemberStatus_shape_def ClusterMemberStatus_DeepCopyInto_def
  ClusterMemberStatus_DeepCopy_def ClusterMember_shape_def ClusterMember_DeepCopyInto_def
  ClusterMember_DeepCopy_def ClusterMember_DeepCopyObject_def ClusterMemberList_shape_def
  ClusterMemberList_DeepCopyInto_def ClusterMemberList_DeepCopy_def
  ClusterMemberList_DeepCopyObject_def FederationMemberReference_shape_def
  FederationMemberReference_DeepCopyInto_def FederationMemberReference_DeepCopy_def
  FederationTargetPolicy_shape_def FederationTargetPolicy_DeepCopyInto_def
  FederationTargetPolicy_DeepCopy_def FederationNetworkingSpec_shape_def
  FederationNetworkingSpec_DeepCopyInto_def FederationNetworkingSpec_DeepCopy_def
  FederationSpec_shape_def FederationSpec_DeepCopyInto_def FederationSpec_DeepCopy_def
  FederationMemberStatus_shape_def FederationMemberStatus_DeepCopyInto_def
  FederationMemberStatus_DeepCopy_def FederationStatus_shape_def
  FederationStatus_DeepCopyInto_def FederationStatus_DeepCopy_def Federation_shape_def
  Federation_DeepCopyInto_def Federation_DeepCopy_def Federation_DeepCopyObject_def
  FederationList_shape_def FederationList_DeepCopyInto_def FederationList_DeepCopy_def
  FederationList_DeepCopyObject_def routing_NamespacedObjectReference_shape_def
  routing_NamespacedObjectReference_DeepCopyInto_def
  routing_NamespacedObjectReference_DeepCopy_def GatewayReference_shape_def
  GatewayReference_DeepCopyInto_def GatewayReference_DeepCopy_def FailoverPolicy_shape_def
  FailoverPolicy_DeepCopyInto_def FailoverPolicy_DeepCopy_def ServiceEndpointSpec_shape_def
  ServiceEndpointSpec_DeepCopyInto_def ServiceEndpointSpec_DeepCopy_def
  ServiceEndpointStatus_shape_def ServiceEndpointStatus_DeepCopyInto_def
  ServiceEndpointStatus_DeepCopy_def ServiceEndpoint_shape_def ServiceEndpoint_DeepCopyInto_def
  ServiceEndpoint_DeepCopy_def ServiceEndpoint_DeepCopyObject_def ServiceEndpointList_shape_def
  ServiceEndpointList_DeepCopyInto_def ServiceEndpointList_DeepCopy_def
  ServiceEndpointList_DeepCopyObject_def data_NamespacedObjectReference_shape_def
  data_NamespacedObjectReference_DeepCopyInto_def data_NamespacedObjectReference_DeepCopy_def
  DatastoreBindingSpec_shape_def DatastoreBindingSpec_DeepCopyInto_def
  DatastoreBindingSpec_DeepCopy_def DatastoreBindingStatus_shape_def
  DatastoreBindingStatus_DeepCopyInto_def DatastoreBindingStatus_DeepCopy_def
  DatastoreBinding_shape_def DatastoreBinding_DeepCopyInto_def DatastoreBinding_DeepCopy_def
  DatastoreBinding_DeepCopyObject_def DatastoreBindingList_shape_def
  DatastoreBindingList_DeepCopyInto_def DatastoreBindingList_DeepCopy_def
  DatastoreBindingList_DeepCopyObject_def

lemma list_all2_step: "deep c t \<Longrightarrow> list_all2 deep cs ts \<Longrightarrow> list_all2 deep (c # cs) (t # ts)"
  by simp

lemma api_copies_deep:
  assumes "deep_lib_ok K"
  shows "\<forall>(c, t) \<in> set (api_copies K). deep c t"
proof -
  have lib: "deep (c_ObjectMeta K) (t_ObjectMeta K)" "deep (c_ListMeta K) (t_ListMeta K)"
    "deep (c_LabelSelector K) (t_LabelSelector K)" "deep (c_Condition K) (t_Condition K)"
    "deep (c_Time K) (t_Time K)"
    using assms by (simp_all add: deep_lib_ok_def)
  have "list_all (\<lambda>(c, t). deep c t) (api_copies K)"
    unfolding api_copies_def deep_copy_defs as_object_eq TypeMeta_shape_def list.pred_inject prod.case
    by (intro conjI TrueI lib deep_intros list_all2_step list.rel_intros(1)) simp_all
  then show ?thesis by (auto simp: list_all_iff)
qed

section \<open>The property\<close>

text \<open>C28: every deep copy is independent of its original. Whatever object, list, spec or status of the
  API is copied, nil or not: the copy stands for the same value and shares no cell with the
  original, so no later write to the original's cells changes the copy, and none to the copy's
  cells changes the original.\<close>

theorem deep_copies_independent:
  assumes "deep_lib_ok K" and "(c, t) \<in> set (api_copies K)"
    and "rep m t v tr A" and "A \<subseteq> {..<brk m}"
  shows "\<exists>v' m' A'. c v m = (v', m') \<and> rep m' t v' tr A' \<and> A \<inter> A' = {} \<and>
    (\<forall>later. (\<forall>a. a \<notin> A \<longrightarrow> cells later a = cells m' a) \<longrightarrow> rep later t v' tr A') \<and>
    (\<forall>later. (\<forall>a. a \<notin> A' \<longrightarrow> cells later a = cells m' a) \<longrightarrow> rep later t v tr A)"
proof -
  have "deep c t" using api_copies_deep [OF assms(1)] assms(2) by blast
  then obtain v' m' A' where copy: "c v m = (v', m')" and rep: "rep m' t v' tr A'"
    and new: "A' \<subseteq> {brk m..<brk m'}" and ext: "extends m m'"
    by (rule deepE [OF _ assms(3,4)])
  have disjoint: "A \<inter> A' = {}" using new assms(4) by fastforce
  have old: "rep m' t v tr A" by (rule rep_extends(1) [OF assms(3,4) ext])
  have "rep later t v' tr A'" if "\<forall>a. a \<notin> A \<longrightarrow> cells later a = cells m' a" for later
    by (rule rep_frame(1) [OF rep]) (use that disjoint in blast)
  moreover have "rep later t v tr A" if "\<forall>a. a \<notin> A' \<longrightarrow> cells later a = cells m' a" for later
    by (rule rep_frame(1) [OF old]) (use that disjoint in blast)
  ultimately show ?thesis using copy rep disjoint by blast
qed

text \<open>A library whose types are plain values, and a policy that names one cluster.\<close>

definition plain_lib :: deep_lib where
  "plain_lib =
     \<lparr>t_ObjectMeta = Plain, c_ObjectMeta = plain, t_ListMeta = Plain, c_ListMeta = plain,
      t_LabelSelector = Plain, c_LabelSelector = plain, t_Condition = Plain, c_Condition = plain,
      t_Time = Plain, c_Time = plain\<rparr>"

definition policy_memory :: memory where
  "policy_memory =
     \<lparr>cells = (\<lambda>a. if a = 0 then Object (Scalar ''tier=edge'') else Array [Scalar ''east'']), brk = 2\<rparr>"

lemma policy_rep:
  "rep policy_memory (FederationTargetPolicy_shape plain_lib) (Struct [Ref 0, Ref 1])
     (Members [Target (Leaf ''tier=edge''), Elements [Leaf ''east'']]) {0, 1}"
proof -
  have "rep policy_memory (Pointer Plain) (Ref 0) (Target (Leaf ''tier=edge'')) (insert 0 {})"
    by (rule rep_pointer [OF _ rep_plain]) (simp add: policy_memory_def)
  moreover have "reps policy_memory (replicate (length [Scalar ''east'']) Plain) [Scalar ''east''] [Leaf ''east''] ({} \<union> {})"
    by (simp only: list.size replicate.simps add_Suc_right) (simp, rule reps_Cons [OF rep_plain reps_Nil, simplified])
  then have "rep policy_memory (Slice Plain) (Ref 1) (Elements [Leaf ''east'']) (insert 1 ({} \<union> {}))"
    by (rule rep_slice [rotated]) (simp add: policy_memory_def)
  ultimately have "reps policy_memory [Pointer Plain, Slice Plain] [Ref 0, Ref 1]
      [Target (Leaf ''tier=edge''), Elements [Leaf ''east'']] (insert 0 {} \<union> (insert 1 ({} \<union> {}) \<union> {}))"
    by (intro reps_Cons reps_Nil)
  moreover have "insert 0 {} \<union> (insert 1 ({} \<union> {}) \<union> {}) = {0, 1 :: addr}" by auto
  ultimately have "rep policy_memory (Struct_of [Pointer Plain, Slice Plain]) (Struct [Ref 0, Ref 1])
      (Members [Target (Leaf ''tier=edge''), Elements [Leaf ''east'']]) {0, 1}"
    by (metis rep_struct)
  then show ?thesis by (simp add: FederationTargetPolicy_shape_def plain_lib_def)
qed

theorem deep_copies_independent_witness:
  "\<exists>v' m' A'. FederationTargetPolicy_DeepCopyInto plain_lib (Struct [Ref 0, Ref 1]) policy_memory = (v', m') \<and>
     rep m' (FederationTargetPolicy_shape plain_lib) v'
       (Members [Target (Leaf ''tier=edge''), Elements [Leaf ''east'']]) A' \<and> {0, 1} \<inter> A' = {}"
proof -
  have ok: "deep_lib_ok plain_lib"
    by (simp add: deep_lib_ok_def plain_lib_def deep_plain)
  have mem: "(FederationTargetPolicy_DeepCopyInto plain_lib, FederationTargetPolicy_shape plain_lib) \<in> set (api_copies plain_lib)"
    by (simp add: api_copies_def)
  have "{0, 1} \<subseteq> {..<brk policy_memory}" by (simp add: policy_memory_def)
  from deep_copies_independent [OF ok mem policy_rep this] show ?thesis by blast
qed

end
