(* ===== verification/Spec2Isabelle.thy ===== *)
theory Spec2Isabelle
  imports Env_Properties Member_Properties Workload_Properties ServiceEndpoint_Properties
    DatastoreBinding_Properties Error_Properties Shared_Properties Membership_Properties
    Status_Properties Operator_Command Deep_Copy
begin

text \<open>
  \<^bold>\<open>Polykube's operator.\<close> The operator (\<open>src/operator\<close>) runs in every cluster of a federation.
  Five controllers reconcile the resources of one API server each time something changes: a
  \<open>ClusterMember\<close> describes a cluster, a \<open>Federation\<close> collects members, a \<open>Workload\<close> becomes a
  Deployment and a Service on the clusters that its target policy chooses, a \<open>ServiceEndpoint\<close>
  writes routing annotations on that Service, and a \<open>DatastoreBinding\<close> injects variables into that
  Deployment. A second command, \<open>polykube-status\<close>, reads the Workloads of several clusters.

  \<^bold>\<open>How code is modelled.\<close> Go structs are records and string enumerations are strings, with the
  fields the code uses (theory \<open>Api_Types\<close> for \<open>api/*/v1alpha1/types.go\<close> and the Kubernetes
  objects); \<open>int32\<close> and \<open>int64\<close> are words. A function that returns an error returns
  \<open>error + 'a\<close>. Reconcilers run in the library's state monad over a session: a world of any type,
  and the trace of the calls made so far with their answers (theory \<open>External\<close>). Code outside the
  repository is a parameter: the record \<open>lib\<close> holds the pure functions of apimachinery and
  controller-runtime, the record \<open>kube\<close> the client and the clock. The world may answer every call
  in any way, so failures and other writers are covered at each call. Each hypothesis about \<open>lib\<close>
  (\<open>conditions_ok\<close>, \<open>equality_ok\<close>, \<open>owners_ok\<close>, \<open>finalizers_ok\<close>) states documented behaviour, and
  theory \<open>Reference\<close> has a library that satisfies all of them. Functions on conditions keep the
  array that a status and its copy share, as two values, because comparisons in the code depend
  on it (theory \<open>Conditions\<close>). The clock is read where a function starts, as many times as the
  function reads it; no result depends on the order. No model needs fuel: every loop of the code
  is over a finite list, and the recursion of the models is structural.

  \<^bold>\<open>Theories.\<close>
  \<^item> \<open>Prelude\<close>, \<open>Api_Types\<close>, \<open>External\<close>: Go's strings, the data, the client, and the logic \<open>wp\<close> of
    traces. \<open>Snapshot\<close> is the logic \<open>wpv\<close> for a server that answers from one state of the cluster,
    \<open>Read_Logic\<close> the rules for functions that only read, \<open>Error_Flow\<close> those for passing on errors.
  \<^item> \<open>Conditions\<close>: \<open>fields_not_enforced.go\<close> and the lists of conditions. \<open>Status_Contract\<close>: the
    locales \<open>status_writer\<close> and \<open>quiet_status_writer\<close>, the contract of every status function of
    the controllers; it is interpreted for the statuses of members, Federations, Workloads
    (degraded, pending, applied), endpoints (routed, unrouted) and bindings (bound, unbound).
  \<^item> \<open>Env_Vars\<close>, \<open>Managed_Env\<close>: the environment lists that two controllers share
    (\<open>mergeEnvVars\<close>, \<open>removeEnvVars\<close>, \<open>preserveDatastoreManagedEnvVars\<close>) and the annotation that
    records the managed names. Their contracts are the locales \<open>env_store\<close> and \<open>name_registry\<close>.
  \<^item> \<open>ClusterMember_Controller\<close>, \<open>Federation_Controller\<close>, \<open>Workload_Gate\<close> (members, target policy,
    dependencies, ownership), \<open>Workload_Render\<close>, \<open>Workload_Status\<close>, \<open>Workload_Controller\<close>,
    \<open>ServiceEndpoint_Controller\<close>, \<open>DatastoreBinding_Controller\<close>: one definition for each function of
    the file of that name under \<open>internal/controller\<close>, with the function's name; the name of the
    controller comes first where two files use one name. \<open>ServiceEndpoint_Facts\<close> and
    \<open>DatastoreBinding_Facts\<close> hold their specifications and lemmas.
  \<^item> \<open>Shared_Deployment\<close>, \<open>Shared_Settling\<close>: the Deployment under the writes of the Workload's and
    the bindings' controllers, as a step relation with its invariant and its measure.
  \<^item> \<open>Go_Flags\<close>, \<open>Status_Command\<close>, \<open>Status_Facts\<close>: \<open>cmd/polykube-status/main.go\<close>.
    \<open>Type_Registry\<close>: \<open>internal/scheme/scheme.go\<close> and the registration of the four API groups.
    \<open>Operator_Command\<close>: \<open>cmd/polykube-operator/main.go\<close> and \<open>SetupWithManager\<close> of each controller.
  \<^item> \<open>Memory\<close>, \<open>Deep_Copy\<close>: pointers, slices and maps in an explicit memory, and the generated
    \<open>DeepCopyInto\<close>, \<open>DeepCopy\<close> and \<open>DeepCopyObject\<close> of every API type.
  \<^item> \<open>*_Properties\<close>: the properties of each part, with witnesses on sample objects.

  \<^bold>\<open>What is shown.\<close>
  \<^item> Safety, on any server: what each controller writes, to which objects, and after which reads;
    when a finalizer may go (\<open>workload_writes_safe\<close>, \<open>endpoint_writes_safe\<close>,
    \<open>binding_writes_safe\<close>).
  \<^item> Refinement, on a server that answers from one state: each controller acts exactly when a
    declarative specification admits its object, and otherwise reports a reason that is true
    (\<open>workload_decision\<close>, \<open>endpoint_decision\<close>, \<open>binding_decision\<close>, \<open>federation_members_resolved\<close>);
    objects being deleted are released (\<open>endpoint_deletion\<close>, \<open>binding_deletion\<close>).
  \<^item> Statuses: every status written is coherent, and the controllers do not trigger themselves.
  \<^item> Errors: no error is swallowed and none is invented (\<open>workload_errors\<close>, \<open>controller_errors\<close>).
  \<^item> The shared Deployment: an invariant over every interleaving of the controllers, injection and
    removal as inverse operations up to the binding's names, convergence, and a bound on the number of writes
    (\<open>shared_invariant\<close>, \<open>controllers_converge\<close>, \<open>reconciliation_settles\<close>).
  \<^item> Where three controllers agree on what a member of a Federation is, and what each does where they
    do not: without a ClusterMember, with an invalid selector, without a Federation
    (\<open>membership_agreement\<close>).
  \<^item> Rendering and injection entry by entry, with a frame: what is not mentioned stays
    (\<open>workload_render\<close>, \<open>binding_injection\<close>, \<open>binding_removal\<close>).
  \<^item> The commands: options, all-or-nothing and sorted output, and the lines and cells that
    \<open>tabwriter\<close> makes of the table; the manager is started only as a whole.
  \<^item> Every generated deep copy is equal to its original and shares no memory with it
    (\<open>deep_copies_independent\<close>).

  \<^bold>\<open>What modelling showed.\<close> Status functions copy a status but not its array of conditions, so some
  updates are compared with themselves and never written (\<open>endpoint_message_kept\<close>,
  \<open>member_drift_kept\<close>). Bindings of one name in two namespaces manage the same variables of a
  Workload (\<open>binding_name_collision\<close>). The table of \<open>polykube-status\<close> replaces tabs and newlines but not
  the vertical tab and the form feed, which \<open>tabwriter\<close> interprets too (\<open>status_table_cells\<close> and
  \<open>form_feed_breaks_the_row\<close>).

  \<^bold>\<open>Not modelled.\<close> Memory in the controllers' models, but for the arrays of conditions: their
  values are immutable. \<open>controllerutil.CreateOrUpdate\<close> is one call: its own read, the comparison with
  what it read and the create or update are not apart, and the defaults that the API server
  fills in are not in the shared Deployment of \<open>Shared_Deployment\<close>, whose steps apply the mutate
  functions to what was stored last. Logging, the event queue, caches and leader election of
  controller-runtime. Bytes from 128 on in \<open>strings.ToUpper\<close>, \<open>strings.TrimSpace\<close> and \<open>%q\<close>. What the
  flag package prints on the standard error stream. Manifests, the chart and shell scripts.
\<close>

end
